(* ===== verification/Prelude.thy ===== *)
theory Prelude
  imports Main "HOL-Library.Sublist"
begin

text \<open>
  Shared vocabulary of the development: the faults a C or C++ run can end in, results that
  are either a fault or a value, outcomes that may also never return, C strings in fixed
  buffers, and the search and line-splitting functions of the C library that the client
  uses (\<^verbatim>\<open>strstr\<close>, \<^verbatim>\<open>strchr\<close>, \<^verbatim>\<open>strcpy\<close>, \<^verbatim>\<open>strcat\<close>, \<^verbatim>\<open>fgets\<close>, \<^verbatim>\<open>strtok\<close>), with the lemmas
  the components share.
\<close>

named_theorems res_simps \<open>computation rules for results and outcomes\<close>
named_theorems buf_simps \<open>when writes into fixed buffers succeed\<close>

section \<open>Faults, results and outcomes\<close>

text \<open>
  A run that leaves the defined behaviour of the language is a value here: reading outside
  an object, writing outside a buffer, touching freed storage, dereferencing a null pointer,
  an uncaught \<^verbatim>\<open>std::out_of_range\<close>, and \<^verbatim>\<open>exit\<close> with its status.
\<close>

datatype fault =
    OutOfBounds
  | BufferOverflow
  | UseAfterFree
  | NullDeref
  | OutOfRange
  | Unrepresentable
  | Exit int

type_synonym 'a res = "fault + 'a"

fun bind_res :: "'a res \<Rightarrow> ('a \<Rightarrow> 'b res) \<Rightarrow> 'b res" where
  "bind_res (Inl f) g = Inl f"
| "bind_res (Inr x) g = g x"

lemma bind_res_cong [fundef_cong]:
  "m = m' \<Longrightarrow> (\<And>x. m' = Inr x \<Longrightarrow> g x = g' x) \<Longrightarrow> bind_res m g = bind_res m' g'"
  by (cases m') auto

lemma bind_res_Inr_iff [res_simps]:
  "bind_res m g = Inr y \<longleftrightarrow> (\<exists>x. m = Inr x \<and> g x = Inr y)"
  by (cases m) auto

lemma bind_res_Inl_iff [res_simps]:
  "bind_res m g = Inl f \<longleftrightarrow> m = Inl f \<or> (\<exists>x. m = Inr x \<and> g x = Inl f)"
  by (cases m) auto

lemma bind_res_assoc:
  "bind_res (bind_res m g) h = bind_res m (\<lambda>x. bind_res (g x) h)"
  by (cases m) auto

text \<open>An outcome adds the run that never returns.\<close>

datatype 'a outcome = Returns 'a | Faults fault | Diverges

fun bind_out :: "'a outcome \<Rightarrow> ('a \<Rightarrow> 'b outcome) \<Rightarrow> 'b outcome" where
  "bind_out (Returns x) g = g x"
| "bind_out (Faults f) g = Faults f"
| "bind_out Diverges g = Diverges"

fun outcome_of :: "'a res \<Rightarrow> 'a outcome" where
  "outcome_of (Inl f) = Faults f"
| "outcome_of (Inr x) = Returns x"

lemma bind_out_cong [fundef_cong]:
  "m = m' \<Longrightarrow> (\<And>x. m' = Returns x \<Longrightarrow> g x = g' x) \<Longrightarrow> bind_out m g = bind_out m' g'"
  by (cases m') auto

lemma bind_out_Returns_iff [res_simps]:
  "bind_out m g = Returns y \<longleftrightarrow> (\<exists>x. m = Returns x \<and> g x = Returns y)"
  by (cases m) auto

lemma bind_out_Faults_iff [res_simps]:
  "bind_out m g = Faults f \<longleftrightarrow> m = Faults f \<or> (\<exists>x. m = Returns x \<and> g x = Faults f)"
  by (cases m) auto

lemma bind_out_Diverges_iff [res_simps]:
  "bind_out m g = Diverges \<longleftrightarrow> m = Diverges \<or> (\<exists>x. m = Returns x \<and> g x = Diverges)"
  by (cases m) auto

lemma outcome_of_iff [res_simps]:
  "outcome_of r = Returns x \<longleftrightarrow> r = Inr x"
  "outcome_of r = Faults f \<longleftrightarrow> r = Inl f"
  "outcome_of r \<noteq> Diverges"
  by (cases r; auto)+

text \<open>\<^verbatim>\<open>std::vector::operator[]\<close> and pointer indexing: outside the object there is no value.\<close>

definition nth_res :: "'a list \<Rightarrow> nat \<Rightarrow> 'a res" where
  "nth_res xs i = (if i < length xs then Inr (xs ! i) else Inl OutOfBounds)"

lemma nth_res_in [simp]: "i < length xs \<Longrightarrow> nth_res xs i = Inr (xs ! i)"
  by (simp add: nth_res_def)

lemma nth_res_out [simp]: "length xs \<le> i \<Longrightarrow> nth_res xs i = Inl OutOfBounds"
  by (simp add: nth_res_def)

lemma nth_res_Inr_iff [res_simps]: "nth_res xs i = Inr x \<longleftrightarrow> i < length xs \<and> x = xs ! i"
  by (auto simp: nth_res_def)

text \<open>A loop that builds a list and stops at the first fault.\<close>

fun map_res :: "('a \<Rightarrow> 'b res) \<Rightarrow> 'a list \<Rightarrow> 'b list res" where
  "map_res f [] = Inr []"
| "map_res f (x # xs) = bind_res (f x) (\<lambda>y. bind_res (map_res f xs) (\<lambda>ys. Inr (y # ys)))"

lemma map_res_Inr: "(\<And>x. x \<in> set xs \<Longrightarrow> f x = Inr (g x)) \<Longrightarrow> map_res f xs = Inr (map g xs)"
  by (induction xs) auto

lemma map_res_Inr_length: "map_res f xs = Inr ys \<Longrightarrow> length ys = length xs"
  by (induction xs arbitrary: ys) (auto simp: res_simps)

lemma map_res_Inr_nth:
  "map_res f xs = Inr ys \<Longrightarrow> i < length xs \<Longrightarrow> f (xs ! i) = Inr (ys ! i)"
proof (induction xs arbitrary: ys i)
  case (Cons x xs)
  then show ?case by (cases i) (auto simp: res_simps)
qed simp

lemma map_res_Inl:
  "map_res f xs = Inl e \<longleftrightarrow>
   (\<exists>i < length xs. f (xs ! i) = Inl e \<and> (\<forall>j < i. \<exists>y. f (xs ! j) = Inr y))"
proof (induction xs)
  case (Cons x xs)
  show ?case
  proof (cases "f x")
    case (Inl a)
    then have "(\<exists>i < length (x # xs). f ((x # xs) ! i) = Inl e \<and>
        (\<forall>j < i. \<exists>y. f ((x # xs) ! j) = Inr y)) \<longleftrightarrow> a = e"
      by (auto simp: gr0_conv_Suc elim!: allE [of _ 0] intro!: exI [of _ 0])
    with Inl show ?thesis by simp
  next
    case (Inr b)
    have "(\<exists>i < length (x # xs). f ((x # xs) ! i) = Inl e \<and>
        (\<forall>j < i. \<exists>y. f ((x # xs) ! j) = Inr y)) \<longleftrightarrow>
      (\<exists>i < length xs. f (xs ! i) = Inl e \<and> (\<forall>j < i. \<exists>y. f (xs ! j) = Inr y))"
      by (simp add: Ex_less_Suc2 All_less_Suc2 Inr)
    with Inr Cons.IH show ?thesis by (auto simp: res_simps)
  qed
qed simp

lemma map_res_ok_iff: "(\<exists>ys. map_res f xs = Inr ys) \<longleftrightarrow> (\<forall>x \<in> set xs. \<exists>y. f x = Inr y)"
  by (induction xs) (auto simp: res_simps)

lemma all_less_within [simp]: "(\<forall>i < n. i < (m :: nat)) \<longleftrightarrow> n \<le> m"
  by (meson less_le_trans not_le order_refl)

text \<open>A loop that updates a state and stops at the first fault.\<close>

fun fold_res :: "('a \<Rightarrow> 's \<Rightarrow> 's res) \<Rightarrow> 'a list \<Rightarrow> 's \<Rightarrow> 's res" where
  "fold_res f [] s = Inr s"
| "fold_res f (x # xs) s = bind_res (f x s) (fold_res f xs)"

lemma fold_res_Inr:
  "(\<And>x s. x \<in> set xs \<Longrightarrow> f x s = Inr (g x s)) \<Longrightarrow> fold_res f xs s = Inr (fold g xs s)"
  by (induction xs arbitrary: s) auto

lemma fold_res_append:
  "fold_res f (xs @ ys) s = bind_res (fold_res f xs s) (fold_res f ys)"
proof (induction xs arbitrary: s)
  case (Cons x xs)
  then show ?case by (cases "f x s") simp_all
qed simp

lemma fold_res_map:
  "fold_res (\<lambda>x s. bind_res (f x) (\<lambda>y. Inr (g y s))) xs s =
   bind_res (map_res f xs) (\<lambda>ys. Inr (fold g ys s))"
  by (induction xs arbitrary: s) (auto simp: bind_res_assoc)

lemma fold_res_invariant:
  assumes "fold_res f xs s = Inr t" and "P s"
    and "\<And>x s s'. x \<in> set xs \<Longrightarrow> P s \<Longrightarrow> f x s = Inr s' \<Longrightarrow> P s'"
  shows "P t"
  using assms by (induction xs arbitrary: s) (auto simp: res_simps)

section \<open>C strings in fixed buffers\<close>

abbreviation nul :: char where "nul \<equiv> CHR 0x00"
abbreviation newline :: char where "newline \<equiv> CHR 0x0A"
abbreviation crlf :: string where "crlf \<equiv> [CHR 0x0D, CHR 0x0A]"

text \<open>A C string is what precedes the first NUL.\<close>

definition cstr :: "string \<Rightarrow> string" where
  "cstr s = takeWhile (\<lambda>c. c \<noteq> nul) s"

lemma cstr_id [simp]: "nul \<notin> set s \<Longrightarrow> cstr s = s"
  by (auto simp: cstr_def takeWhile_eq_all_conv)

lemma nul_notin_cstr [simp]: "nul \<notin> set (cstr s)"
  by (auto simp: cstr_def dest: set_takeWhileD)

text \<open>
  \<^verbatim>\<open>strcpy\<close> and \<^verbatim>\<open>strcat\<close> write the terminating NUL too, so a buffer of \<open>n\<close> bytes holds at
  most \<open>n - 1\<close> characters.
\<close>

definition strcpy_buf :: "nat \<Rightarrow> string \<Rightarrow> string res" where
  "strcpy_buf n src = (if length src < n then Inr src else Inl BufferOverflow)"

definition strcat_buf :: "nat \<Rightarrow> string \<Rightarrow> string \<Rightarrow> string res" where
  "strcat_buf n dst src = strcpy_buf n (dst @ src)"

lemma strcpy_buf_simps [buf_simps]:
  "length s < n \<Longrightarrow> strcpy_buf n s = Inr s"
  "n \<le> length s \<Longrightarrow> strcpy_buf n s = Inl BufferOverflow"
  "strcpy_buf n s = Inr t \<longleftrightarrow> length s < n \<and> t = s"
  "strcpy_buf n s = Inl e \<longleftrightarrow> n \<le> length s \<and> e = BufferOverflow"
  by (auto simp: strcpy_buf_def)

text \<open>A sequence of \<^verbatim>\<open>strcat\<close> calls on one buffer.\<close>

fun strcats :: "nat \<Rightarrow> string \<Rightarrow> string list \<Rightarrow> string res" where
  "strcats n dst [] = Inr dst"
| "strcats n dst (s # ss) = bind_res (strcat_buf n dst s) (\<lambda>d. strcats n d ss)"

lemma strcats_ok [buf_simps]:
  "length (dst @ concat ss) < n \<Longrightarrow> strcats n dst ss = Inr (dst @ concat ss)"
  by (induction ss arbitrary: dst) (auto simp: strcat_buf_def buf_simps)

lemma strcats_overflow [buf_simps]:
  "length dst < n \<Longrightarrow> n \<le> length (dst @ concat ss) \<Longrightarrow> strcats n dst ss = Inl BufferOverflow"
proof (induction ss arbitrary: dst)
  case (Cons s ss)
  then show ?case
    by (cases "length (dst @ s) < n") (auto simp: strcat_buf_def buf_simps)
qed simp

lemma strcats_append:
  "strcats n dst (ss @ ts) = bind_res (strcats n dst ss) (\<lambda>d. strcats n d ts)"
  by (induction ss arbitrary: dst) (auto simp: bind_res_assoc)

section \<open>Searching\<close>

text \<open>\<^verbatim>\<open>strstr\<close> and \<^verbatim>\<open>std::string::find\<close>: the index of the first occurrence.\<close>

fun find_sub :: "string \<Rightarrow> string \<Rightarrow> nat option" where
  "find_sub pat [] = (if pat = [] then Some 0 else None)"
| "find_sub pat (c # s) = (if prefix pat (c # s) then Some 0 else map_option Suc (find_sub pat s))"

lemma find_sub_prefix [simp]: "prefix pat s \<Longrightarrow> find_sub pat s = Some 0"
  by (cases s) auto

lemma find_sub_SomeD:
  "find_sub pat s = Some i \<Longrightarrow>
   i \<le> length s \<and> prefix pat (drop i s) \<and> (\<forall>j < i. \<not> prefix pat (drop j s))"
proof (induction s arbitrary: i)
  case (Cons c s)
  then show ?case
    by (auto split: if_splits simp: less_Suc_eq_0_disj)
qed (auto split: if_splits)

lemma find_sub_None_iff: "find_sub pat s = None \<longleftrightarrow> \<not> sublist pat s"
  by (induction s) (auto simp: sublist_Cons_right)

lemma find_sub_split:
  assumes "find_sub pat s = Some i"
  shows "s = take i s @ pat @ drop (i + length pat) s"
proof -
  from find_sub_SomeD [OF assms] obtain t where "drop i s = pat @ t"
    by (auto elim: prefixE)
  then have "t = drop (i + length pat) s"
    by (metis add.commute append_eq_conv_conj drop_drop)
  with \<open>drop i s = pat @ t\<close> show ?thesis
    by (metis append_take_drop_id)
qed

text \<open>
  A pattern whose first character does not come back in it cannot overlap itself, so it is
  found exactly where it was put, if the text before it does not already contain it.
\<close>

lemma prefix_append_unbordered:
  assumes "p \<notin> set ps" and "\<not> prefix ps h"
  shows "\<not> prefix ps (h @ p # t)"
proof
  assume "prefix ps (h @ p # t)"
  with assms(2) obtain us where us: "ps = h @ us" "prefix us (p # t)" "us \<noteq> []"
    by (auto simp: prefix_append)
  then have "p \<in> set ps" by (cases us) auto
  with assms(1) show False ..
qed

lemma find_sub_unbordered:
  assumes "p \<notin> set ps" and "find_sub (p # ps) h = None"
  shows "find_sub (p # ps) (h @ (p # ps) @ t) = Some (length h)"
  using assms(2)
proof (induction h)
  case (Cons c h)
  then have no: "\<not> prefix (p # ps) (c # h)" and IH: "find_sub (p # ps) h = None"
    by (auto split: if_splits)
  have "\<not> prefix (p # ps) (c # h @ (p # ps) @ t)"
    using no prefix_append_unbordered [OF assms(1), of h "ps @ t"] by auto
  with Cons.IH [OF IH] show ?case by simp
qed simp

text \<open>\<^verbatim>\<open>strchr\<close>: the rest of the string from the first occurrence of a character.\<close>

definition strchr :: "string \<Rightarrow> char \<Rightarrow> string option" where
  "strchr s c = (case dropWhile (\<lambda>x. x \<noteq> c) s of [] \<Rightarrow> None | r \<Rightarrow> Some r)"

lemma strchr_None_iff: "strchr s c = None \<longleftrightarrow> c \<notin> set s"
  by (induction s) (auto simp: strchr_def)

lemma strchr_append [simp]: "c \<notin> set s \<Longrightarrow> strchr (s @ c # t) c = Some (c # t)"
  by (induction s) (auto simp: strchr_def)

section \<open>Reading lines\<close>

text \<open>
  One \<^verbatim>\<open>fgets(buf, k + 1, fp)\<close>: characters up to and including a newline, at most \<open>k\<close> of them,
  and what is left in the stream.
\<close>

fun fgets :: "nat \<Rightarrow> string \<Rightarrow> string \<times> string" where
  "fgets 0 s = ([], s)"
| "fgets (Suc k) [] = ([], [])"
| "fgets (Suc k) (c # s) =
     (if c = newline then ([c], s) else (let (l, r) = fgets k s in (c # l, r)))"

lemma fgets_append: "fgets k s = (l, r) \<Longrightarrow> l @ r = s"
  by (induction k s arbitrary: l r rule: fgets.induct) (auto split: if_splits prod.splits)

lemma fgets_length: "fgets k s = (l, r) \<Longrightarrow> length l \<le> k"
  by (induction k s arbitrary: l r rule: fgets.induct) (auto split: if_splits prod.splits)

lemma fgets_progress: "s \<noteq> [] \<Longrightarrow> length (snd (fgets (Suc k) s)) < length s"
proof (cases s)
  case (Cons c t)
  obtain l r where lr: "fgets k t = (l, r)" by fastforce
  then have "length r \<le> length t" using fgets_append [OF lr] by auto
  with Cons lr show ?thesis by simp
qed simp

lemma fgets_line [simp]:
  "newline \<notin> set w \<Longrightarrow> length w < k \<Longrightarrow> fgets k (w @ newline # t) = (w @ [newline], t)"
proof (induction w arbitrary: k)
  case Nil
  then show ?case by (cases k) auto
next
  case (Cons c w)
  then show ?case by (cases k) auto
qed

text \<open>The loop \<^verbatim>\<open>while (fgets(buf, k + 2, fp) != 0)\<close> over a whole stream.\<close>

function fgets_all :: "nat \<Rightarrow> string \<Rightarrow> string list" where
  "fgets_all k s =
     (if s = [] then [] else fst (fgets (Suc k) s) # fgets_all k (snd (fgets (Suc k) s)))"
  by pat_completeness auto
termination
  by (relation "measure (\<lambda>(k, s). length s)") (auto simp: fgets_progress simp del: fgets.simps)

declare fgets_all.simps [simp del]

lemma fgets_all_Nil [simp]: "fgets_all k [] = []"
  by (simp add: fgets_all.simps)

lemma fgets_all_concat: "concat (fgets_all k s) = s"
proof (induction k s rule: fgets_all.induct)
  case (1 k s)
  show ?case
  proof (cases "s = []")
    case False
    with "1.IH" have "concat (fgets_all k (snd (fgets (Suc k) s))) = snd (fgets (Suc k) s)" .
    with False show ?thesis
      using fgets_append [of "Suc k" s "fst (fgets (Suc k) s)" "snd (fgets (Suc k) s)"]
      by (subst fgets_all.simps) simp
  qed simp
qed

lemma fgets_all_length: "\<forall>l \<in> set (fgets_all k s). length l \<le> Suc k"
proof (induction k s rule: fgets_all.induct)
  case (1 k s)
  have "length (fst (fgets (Suc k) s)) \<le> Suc k"
    by (rule fgets_length [of _ s _ "snd (fgets (Suc k) s)"]) simp
  with 1 show ?case by (subst fgets_all.simps) auto
qed

lemma fgets_all_line:
  "newline \<notin> set w \<Longrightarrow> length w \<le> k \<Longrightarrow>
   fgets_all k (w @ newline # t) = (w @ [newline]) # fgets_all k t"
  by (subst fgets_all.simps) simp

text \<open>Short lines come back as they were written: one chunk per line.\<close>

lemma fgets_all_lines:
  "(\<forall>w \<in> set ws. newline \<notin> set w \<and> length w \<le> k) \<Longrightarrow>
   fgets_all k (concat (map (\<lambda>w. w @ [newline]) ws)) = map (\<lambda>w. w @ [newline]) ws"
  by (induction ws) (auto simp: fgets_all_line)

end
