(* ===== verification/Double.thy ===== *)
theory Double
  imports Prelude "HOL-Library.Log_Nat" Complex_Main
begin

text \<open>
  The C++ and Java type \<^verbatim>\<open>double\<close>: IEEE 754 binary64 with rounding to nearest, ties to even.
  A finite value is a sign, a 53-bit significand and an exponent; every operation computes the
  exact rational result and rounds it once. The lemmas give what the client and the server
  rely on: values that fit 53 bits are exact, scaling by a power of two is exact, and rounding
  keeps a value on its side of an integer.
\<close>

named_theorems dbl_simps \<open>values of floating-point operations\<close>

section \<open>Values\<close>

datatype double = NaN | Inf bool | NegZero | Fin int int

definition pow2 :: "int \<Rightarrow> rat" where
  "pow2 e = (if 0 \<le> e then of_int (2 ^ nat e) else 1 / of_int (2 ^ nat (- e)))"

lemma pow2_powi: "pow2 e = 2 powi e"
proof (cases "0 \<le> e")
  case False
  then show ?thesis by (simp add: pow2_def power_int_def inverse_eq_divide power_one_over)
qed (simp add: pow2_def power_int_def)

lemma pow2_pos [simp]: "0 < pow2 e"
  by (simp add: pow2_def)

lemma pow2_nonzero [simp]: "pow2 e \<noteq> 0"
  using pow2_pos [of e] by linarith

lemma pow2_nonneg [simp]: "0 \<le> pow2 e" "\<not> pow2 e < 0" "\<not> pow2 e \<le> 0"
  using pow2_pos [of e] by linarith+

lemma pow2_0 [simp]: "pow2 0 = 1"
  by (simp add: pow2_def)

lemma pow2_add: "pow2 (a + b) = pow2 a * pow2 b"
  by (simp add: pow2_powi power_int_add)

lemma pow2_diff: "pow2 (a - b) = pow2 a / pow2 b"
  by (simp add: pow2_powi power_int_diff)

lemma pow2_nat: "0 \<le> e \<Longrightarrow> pow2 e = of_int (2 ^ nat e)"
  by (simp add: pow2_def)

lemma pow2_of_nat: "pow2 (int n) = 2 ^ n"
  by (simp add: pow2_def)

lemma pow2_mono: "a \<le> b \<Longrightarrow> pow2 a \<le> pow2 b"
  by (simp add: pow2_powi power_int_increasing)

lemma pow2_strict_mono: "a < b \<Longrightarrow> pow2 a < pow2 b"
  by (simp add: pow2_powi power_int_strict_increasing)

lemma pow2_le_iff [simp]: "pow2 a \<le> pow2 b \<longleftrightarrow> a \<le> b"
  by (meson linorder_not_less pow2_mono pow2_strict_mono)

lemma pow2_less_iff [simp]: "pow2 a < pow2 b \<longleftrightarrow> a < b"
  by (meson linorder_not_less pow2_le_iff)

text \<open>
  \<open>Fin m e\<close> is \<open>m * 2 ^ e\<close>, with \<open>Fin 0 emin\<close> the positive zero; the sign of an infinity
  is True for the negative one.
\<close>

fun dval :: "double \<Rightarrow> rat" where
  "dval (Fin m e) = of_int m * pow2 e"
| "dval _ = 0"

fun finite_double :: "double \<Rightarrow> bool" where
  "finite_double (Fin m e) = True"
| "finite_double NegZero = True"
| "finite_double _ = False"

fun is_neg :: "double \<Rightarrow> bool" where
  "is_neg (Fin m e) = (m < 0)"
| "is_neg NegZero = True"
| "is_neg (Inf s) = s"
| "is_neg NaN = False"

definition dzero :: "bool \<Rightarrow> double" where
  "dzero s = (if s then NegZero else Fin 0 (- 1074))"

lemma dzero_simps [simp]: "finite_double (dzero s)" "dval (dzero s) = 0" "is_neg (dzero s) = s"
  by (simp_all add: dzero_def)

lemma is_neg_pos [simp]: "0 < dval a \<Longrightarrow> \<not> is_neg a"
  by (cases a) (auto simp: zero_less_mult_iff)

lemma is_neg_neg [simp]: "dval a < 0 \<Longrightarrow> is_neg a"
  by (cases a) (auto simp: mult_less_0_iff)

section \<open>Rounding\<close>

text \<open>The integer nearest to a rational, the even one of two equally near.\<close>

definition round_even :: "rat \<Rightarrow> int" where
  "round_even x =
     (let f = \<lfloor>x\<rfloor>; d = x - of_int f
      in if d < 1 / 2 \<or> (d = 1 / 2 \<and> even f) then f else f + 1)"

lemma round_even_of_int [simp]: "round_even (of_int n) = n"
  by (simp add: round_even_def)

lemma round_even_near: "\<bar>of_int (round_even x) - x\<bar> \<le> 1 / 2"
  unfolding round_even_def Let_def
  by (cases "x - of_int \<lfloor>x\<rfloor> < 1 / 2 \<or> (x - of_int \<lfloor>x\<rfloor> = 1 / 2 \<and> even \<lfloor>x\<rfloor>)")
    (use floor_correct [of x] in \<open>auto simp: abs_le_iff\<close>)

lemma round_even_le: "x \<le> of_int n \<Longrightarrow> round_even x \<le> n"
proof -
  assume le: "x \<le> of_int n"
  show ?thesis
  proof (cases "x = of_int n")
    case False
    with le have "\<lfloor>x\<rfloor> < n" by (simp add: floor_less_iff)
    then show ?thesis by (auto simp: round_even_def Let_def)
  qed simp
qed

lemma round_even_ge: "of_int n \<le> x \<Longrightarrow> n \<le> round_even x"
proof -
  assume "of_int n \<le> x"
  then have "n \<le> \<lfloor>x\<rfloor>" by (simp add: le_floor_iff)
  then show ?thesis by (auto simp: round_even_def Let_def)
qed

lemma round_even_mono: "x \<le> y \<Longrightarrow> round_even x \<le> round_even y"
proof -
  assume le: "x \<le> y"
  show ?thesis
  proof (cases "\<lfloor>x\<rfloor> = \<lfloor>y\<rfloor>")
    case True
    with le show ?thesis by (auto simp: round_even_def Let_def)
  next
    case False
    with floor_mono [OF le] have "\<lfloor>x\<rfloor> + 1 \<le> \<lfloor>y\<rfloor>" by simp
    moreover have "round_even x \<le> \<lfloor>x\<rfloor> + 1"
      by (rule round_even_le) (use floor_correct [of x] in simp)
    moreover have "\<lfloor>y\<rfloor> \<le> round_even y" by (rule round_even_ge) simp
    ultimately show ?thesis by linarith
  qed
qed

text \<open>The exponent of the binary digit a positive rational starts with.\<close>

definition ilog2 :: "rat \<Rightarrow> int" where
  "ilog2 x =
     (let (n, d) = quotient_of x; k = bitlen n - bitlen d
      in if pow2 k \<le> x then k else k - 1)"

lemma bitlen_pow2_bounds:
  "0 < n \<Longrightarrow> pow2 (bitlen n - 1) \<le> of_int n \<and> of_int n < pow2 (bitlen n)"
proof -
  assume pos: "0 < n"
  then have len: "1 \<le> bitlen n"
    using bitlen_nonneg [of n] bitlen_eq_zero_iff [of n] by linarith
  have "pow2 (bitlen n - 1) = of_int (2 ^ nat (bitlen n - 1))"
    and "pow2 (bitlen n) = of_int (2 ^ nat (bitlen n))"
    using len by (simp_all add: pow2_nat)
  with bitlen_bounds [OF pos] show ?thesis
    by (simp only: of_int_le_iff of_int_less_iff)
qed

lemma ilog2_bounds:
  assumes "0 < x"
  shows "pow2 (ilog2 x) \<le> x" and "x < pow2 (ilog2 x + 1)"
proof -
  obtain n d where nd: "quotient_of x = (n, d)" by fastforce
  then have d: "0 < d" and x: "x = of_int n / of_int d"
    by (auto intro: quotient_of_denom_pos quotient_of_div)
  with assms have n: "0 < n"
    by (simp add: zero_less_divide_iff)
  note bn = bitlen_pow2_bounds [OF n] and bd = bitlen_pow2_bounds [OF d]
  define k where "k = bitlen n - bitlen d"
  have "pow2 (bitlen n - 1) / pow2 (bitlen d) \<le> x"
    unfolding x by (rule frac_le) (use n d bn bd in auto)
  then have lo: "pow2 (k - 1) \<le> x"
    by (simp add: k_def flip: pow2_diff) (simp add: algebra_simps)
  have "x < pow2 (bitlen n) / pow2 (bitlen d - 1)"
    unfolding x by (rule frac_less) (use n d bn bd in auto)
  then have hi: "x < pow2 (k + 1)"
    by (simp add: k_def flip: pow2_diff) (simp add: algebra_simps)
  have "ilog2 x = (if pow2 k \<le> x then k else k - 1)"
    by (simp add: ilog2_def nd k_def Let_def)
  with lo hi show "pow2 (ilog2 x) \<le> x" and "x < pow2 (ilog2 x + 1)"
    by (auto split: if_splits)
qed

lemma ilog2_le:
  assumes "0 < x" "x < pow2 e"
  shows "ilog2 x < e"
proof -
  from ilog2_bounds(1) [OF assms(1)] assms(2) have "pow2 (ilog2 x) < pow2 e" by linarith
  then show ?thesis by simp
qed

text \<open>
  Rounding a non-negative rational: 53 significant bits, no exponent below the subnormal one,
  infinity beyond the largest finite value.
\<close>

abbreviation emin :: int where "emin \<equiv> - 1074"
abbreviation emax :: int where "emax \<equiv> 971"

definition quantum :: "rat \<Rightarrow> int" where
  "quantum x = max emin (ilog2 x - 52)"

definition mk_double :: "bool \<Rightarrow> int \<Rightarrow> int \<Rightarrow> double" where
  "mk_double s m e =
     (if e > emax then Inf s else if m = 0 then dzero s else Fin (if s then - m else m) e)"

lemma dval_mk_double [simp]:
  "e \<le> emax \<Longrightarrow> dval (mk_double s m e) = (if s then - 1 else 1) * (of_int m * pow2 e)"
  "e \<le> emax \<Longrightarrow> finite_double (mk_double s m e)"
  "finite_double (mk_double s m e) \<longleftrightarrow> e \<le> emax"
  by (auto simp: mk_double_def dzero_def)

definition round_mag :: "bool \<Rightarrow> rat \<Rightarrow> double" where
  "round_mag s x =
     (if x \<le> 0 then dzero s
      else let e = quantum x; m = round_even (x / pow2 e)
           in if m = 2 ^ 53 then mk_double s (2 ^ 52) (e + 1) else mk_double s m e)"

text \<open>A rational that 53 bits can hold is its own rounding.\<close>

definition representable :: "rat \<Rightarrow> bool" where
  "representable x \<longleftrightarrow>
     (\<exists>m e. \<bar>x\<bar> = of_int m * pow2 e \<and> m < 2 ^ 53 \<and> emin \<le> e \<and> e \<le> emax)"

lemma representableI:
  "\<bar>x\<bar> = of_int m * pow2 e \<Longrightarrow> m < 2 ^ 53 \<Longrightarrow> emin \<le> e \<Longrightarrow> e \<le> emax \<Longrightarrow> representable x"
  by (auto simp: representable_def)

lemma representable_0 [simp]: "representable 0"
  by (rule representableI [of _ 0 0]) auto

lemma round_mag_exact:
  assumes rep: "representable x" and pos: "0 \<le> x"
  shows "finite_double (round_mag s x)"
    and "dval (round_mag s x) = (if s then - x else x)"
proof -
  have "finite_double (round_mag s x) \<and> dval (round_mag s x) = (if s then - x else x)"
  proof (cases "x = 0")
    case False
    with pos have x: "0 < x" by simp
    from rep pos obtain m e where me: "x = of_int m * pow2 e" "m < 2 ^ 53" "emin \<le> e" "e \<le> emax"
      by (auto simp: representable_def)
    have "of_int m < (2 :: rat) ^ 53"
      using me(2) by (metis of_int_less_iff of_int_numeral of_int_power)
    then have "x < 2 ^ 53 * pow2 e" using me(1) by simp
    also have "(2 :: rat) ^ 53 * pow2 e = pow2 (e + 53)"
      by (simp add: pow2_add) (simp add: pow2_def)
    finally have "ilog2 x < e + 53" by (rule ilog2_le [OF x])
    define q where "q = quantum x"
    with me(3) \<open>ilog2 x < e + 53\<close> have q: "q \<le> e" by (simp add: quantum_def)
    have "x / pow2 q = of_int m * pow2 (e - q)"
      by (simp add: me(1) pow2_diff)
    also have "\<dots> = of_int (m * 2 ^ nat (e - q))"
      using q by (simp add: pow2_nat)
    finally obtain k where k: "x / pow2 q = of_int k" by blast
    then have xk: "x = of_int k * pow2 q"
      by (simp add: field_simps)
    then have kpos: "0 < k"
      using x by (simp add: zero_less_mult_iff)
    have "x < pow2 (ilog2 x + 1)" by (rule ilog2_bounds(2) [OF x])
    also have "\<dots> \<le> pow2 (q + 53)"
      by (rule pow2_mono) (simp add: q_def quantum_def)
    also have "\<dots> = 2 ^ 53 * pow2 q"
      by (simp add: pow2_add) (simp add: pow2_def)
    finally have "of_int k < (2 :: rat) ^ 53" using xk by simp
    then have "k < 2 ^ 53" by (metis of_int_less_iff of_int_numeral of_int_power)
    with k q me(4) x have "round_mag s x = mk_double s k q"
      by (simp add: round_mag_def Let_def flip: q_def)
    moreover have "q \<le> emax" using q me(4) by simp
    ultimately show ?thesis using xk by simp
  qed (simp add: round_mag_def)
  then show "finite_double (round_mag s x)"
    and "dval (round_mag s x) = (if s then - x else x)" by auto
qed

lemma round_mag_finite:
  assumes "x < pow2 1023"
  shows "finite_double (round_mag s x)"
proof (cases "0 < x")
  case True
  then have "ilog2 x < 1023" using assms by (rule ilog2_le)
  then have "quantum x + 1 \<le> emax" by (simp add: quantum_def)
  then show ?thesis by (simp add: round_mag_def Let_def)
qed (simp add: round_mag_def)

lemma round_mag_value:
  assumes "0 < x" and "finite_double (round_mag s x)"
  shows "dval (round_mag s x) =
    (if s then - 1 else 1) * (of_int (round_even (x / pow2 (quantum x))) * pow2 (quantum x))"
proof -
  define q where "q = quantum x"
  define m where "m = round_even (x / pow2 q)"
  have m: "0 \<le> m"
    unfolding m_def by (rule round_even_ge) (use assms(1) in simp)
  have "pow2 (q + 1) = 2 * pow2 q" by (simp add: pow2_add) (simp add: pow2_def)
  with assms m show ?thesis
    by (auto simp: round_mag_def Let_def m_def [symmetric] q_def [symmetric] split: if_splits)
qed

text \<open>The rounding error is at most half a unit in the last place.\<close>

lemma round_mag_error:
  assumes "0 < x" and "finite_double (round_mag False x)"
  shows "\<bar>dval (round_mag False x) - x\<bar> \<le> pow2 (quantum x) / 2"
proof -
  define p where "p = pow2 (quantum x)"
  have p: "0 < p" by (simp add: p_def)
  have "dval (round_mag False x) - x = (of_int (round_even (x / p)) - x / p) * p"
    using p by (simp add: round_mag_value [OF assms] p_def [symmetric] field_simps)
  then have "\<bar>dval (round_mag False x) - x\<bar> = \<bar>of_int (round_even (x / p)) - x / p\<bar> * p"
    using p by (simp add: abs_mult)
  also have "\<dots> \<le> 1 / 2 * p"
    by (rule mult_right_mono [OF round_even_near]) (use p in simp)
  finally show ?thesis by (simp add: p_def)
qed

lemma round_mag_unit:
  assumes "0 \<le> x" and "x \<le> 1"
  shows "finite_double (round_mag False x)"
    and "0 \<le> dval (round_mag False x)" and "dval (round_mag False x) \<le> 1"
proof -
  have big: "(1 :: rat) < pow2 1023" by (simp add: pow2_def)
  with assms(2) show fin: "finite_double (round_mag False x)"
    by (intro round_mag_finite) linarith
  have "0 \<le> dval (round_mag False x) \<and> dval (round_mag False x) \<le> 1"
  proof (cases "x = 0")
    case False
    with assms(1) have x: "0 < x" by simp
    define q where "q = quantum x"
    have "x < pow2 1" using assms(2) by (simp add: pow2_def)
    then have "ilog2 x < 1" by (rule ilog2_le [OF x])
    then have q: "q \<le> 0" by (simp add: q_def quantum_def)
    then have unit: "1 / pow2 q = of_int (2 ^ nat (- q))"
      by (simp add: pow2_def)
    have "x / pow2 q \<le> 1 / pow2 q"
      by (rule divide_right_mono [OF assms(2)]) simp
    then have "round_even (x / pow2 q) \<le> 2 ^ nat (- q)"
      unfolding unit by (rule round_even_le)
    then have "of_int (round_even (x / pow2 q)) \<le> 1 / pow2 q"
      unfolding unit by (simp only: of_int_le_iff)
    moreover have "0 \<le> round_even (x / pow2 q)"
      by (rule round_even_ge) (use x in simp)
    ultimately show ?thesis
      using round_mag_value [OF x fin] by (simp add: q_def field_simps)
  qed (simp add: round_mag_def)
  then show "0 \<le> dval (round_mag False x)" and "dval (round_mag False x) \<le> 1" by auto
qed

section \<open>Operations\<close>

definition dint :: "int \<Rightarrow> double" where
  "dint n = round_mag (n < 0) (of_int \<bar>n\<bar>)"

fun dneg :: "double \<Rightarrow> double" where
  "dneg NaN = NaN"
| "dneg (Inf s) = Inf (\<not> s)"
| "dneg NegZero = dzero False"
| "dneg (Fin m e) = (if m = 0 then NegZero else Fin (- m) e)"

text \<open>Operations with an infinite or NaN operand.\<close>

fun inf_add :: "double \<Rightarrow> double \<Rightarrow> double" where
  "inf_add (Inf s) (Inf t) = (if s = t then Inf s else NaN)"
| "inf_add (Inf s) b = (if b = NaN then NaN else Inf s)"
| "inf_add a (Inf t) = (if a = NaN then NaN else Inf t)"
| "inf_add _ _ = NaN"

definition dadd :: "double \<Rightarrow> double \<Rightarrow> double" where
  "dadd a b =
     (if finite_double a \<and> finite_double b
      then let r = dval a + dval b
           in if r = 0 then dzero (is_neg a \<and> is_neg b) else round_mag (r < 0) \<bar>r\<bar>
      else inf_add a b)"

definition dsub :: "double \<Rightarrow> double \<Rightarrow> double" where
  "dsub a b = dadd a (dneg b)"

definition dmul :: "double \<Rightarrow> double \<Rightarrow> double" where
  "dmul a b =
     (if finite_double a \<and> finite_double b
      then round_mag (is_neg a \<noteq> is_neg b) \<bar>dval a * dval b\<bar>
      else if a = NaN \<or> b = NaN \<or> (finite_double a \<and> dval a = 0) \<or> (finite_double b \<and> dval b = 0)
      then NaN
      else Inf (is_neg a \<noteq> is_neg b))"

definition ddiv :: "double \<Rightarrow> double \<Rightarrow> double" where
  "ddiv a b =
     (if a = NaN \<or> b = NaN then NaN
      else if finite_double a
      then (if \<not> finite_double b then dzero (is_neg a \<noteq> is_neg b)
            else if dval b = 0 then (if dval a = 0 then NaN else Inf (is_neg a \<noteq> is_neg b))
            else round_mag (is_neg a \<noteq> is_neg b) \<bar>dval a / dval b\<bar>)
      else (if finite_double b then Inf (is_neg a \<noteq> is_neg b) else NaN))"

text \<open>\<^verbatim>\<open>==\<close> on doubles: NaN differs from everything, the two zeros are equal.\<close>

definition deq :: "double \<Rightarrow> double \<Rightarrow> bool" where
  "deq a b =
     (if finite_double a \<and> finite_double b then dval a = dval b else a \<noteq> NaN \<and> a = b)"

lemma dneg_finite [simp]: "finite_double (dneg a) = finite_double a" "dval (dneg a) = - dval a"
  by (cases a; auto)+

lemma deq_refl: "deq a a \<longleftrightarrow> a \<noteq> NaN"
  by (cases a) (auto simp: deq_def)

text \<open>Where the exact result fits, the operation returns it.\<close>

lemma representable_abs: "representable x \<Longrightarrow> representable \<bar>x\<bar>"
  by (simp add: representable_def)

lemma representable_minus: "representable (- x) = representable x"
  by (simp add: representable_def)

lemma round_signed_exact:
  assumes "representable x"
  shows "finite_double (round_mag (x < 0) \<bar>x\<bar>)" and "dval (round_mag (x < 0) \<bar>x\<bar>) = x"
  using round_mag_exact [OF representable_abs [OF assms], of "x < 0"] by auto

lemma dadd_exact [dbl_simps]:
  assumes "finite_double a" "finite_double b" "representable (dval a + dval b)"
  shows "finite_double (dadd a b)" and "dval (dadd a b) = dval a + dval b"
  using assms round_signed_exact [OF assms(3)] by (auto simp: dadd_def Let_def)

lemma dsub_exact [dbl_simps]:
  assumes "finite_double a" "finite_double b" "representable (dval a - dval b)"
  shows "finite_double (dsub a b)" and "dval (dsub a b) = dval a - dval b"
  using assms dadd_exact [of a "dneg b"] by (simp_all add: dsub_def)

lemma dmul_exact [dbl_simps]:
  assumes "finite_double a" "finite_double b" "representable (dval a * dval b)"
  shows "finite_double (dmul a b)" and "dval (dmul a b) = dval a * dval b"
proof -
  note ex = round_mag_exact [OF representable_abs [OF assms(3)] abs_ge_zero,
      of "is_neg a \<noteq> is_neg b"]
  have mul: "dmul a b = round_mag (is_neg a \<noteq> is_neg b) \<bar>dval a * dval b\<bar>"
    using assms by (simp add: dmul_def)
  show "finite_double (dmul a b)" using ex(1) by (simp add: mul)
  show "dval (dmul a b) = dval a * dval b"
    using ex(2) is_neg_pos [of a] is_neg_pos [of b] is_neg_neg [of a] is_neg_neg [of b]
    by (cases "0 < dval a"; cases "dval a < 0"; cases "0 < dval b"; cases "dval b < 0")
      (auto simp: mul abs_mult)
qed

lemma ddiv_exact [dbl_simps]:
  assumes "finite_double a" "finite_double b" "dval b \<noteq> 0" "representable (dval a / dval b)"
  shows "finite_double (ddiv a b)" and "dval (ddiv a b) = dval a / dval b"
proof -
  note ex = round_mag_exact [OF representable_abs [OF assms(4)] abs_ge_zero,
      of "is_neg a \<noteq> is_neg b"]
  have "a \<noteq> NaN" "b \<noteq> NaN" using assms(1,2) by auto
  then have div: "ddiv a b = round_mag (is_neg a \<noteq> is_neg b) \<bar>dval a / dval b\<bar>"
    using assms by (simp add: ddiv_def)
  show "finite_double (ddiv a b)" using ex(1) by (simp add: div)
  show "dval (ddiv a b) = dval a / dval b"
    using ex(2) is_neg_pos [of a] is_neg_pos [of b] is_neg_neg [of a] is_neg_neg [of b] assms(3)
    by (cases "0 < dval a"; cases "dval a < 0"; cases "0 < dval b"; cases "dval b < 0")
      (auto simp: div)
qed

text \<open>A ratio of two values in order lies in the unit interval, and so does its complement.\<close>

lemma ddiv_unit:
  assumes "finite_double a" "finite_double b" "0 \<le> dval a" "dval a \<le> dval b" "0 < dval b"
  shows "finite_double (ddiv a b)" and "0 \<le> dval (ddiv a b)" and "dval (ddiv a b) \<le> 1"
proof -
  define x where "x = \<bar>dval a / dval b\<bar>"
  have x: "0 \<le> x" "x \<le> 1" using assms(3-5) by (auto simp: x_def)
  have "a \<noteq> NaN" "b \<noteq> NaN" using assms(1,2) by auto
  then have div: "ddiv a b = round_mag (is_neg a \<noteq> is_neg b) x"
    using assms by (simp add: ddiv_def x_def)
  have "finite_double (ddiv a b) \<and> 0 \<le> dval (ddiv a b) \<and> dval (ddiv a b) \<le> 1"
  proof (cases "x = 0")
    case True
    then show ?thesis by (simp add: div round_mag_def)
  next
    case False
    then have "dval a \<noteq> 0" by (auto simp: x_def)
    with assms(3) have "0 < dval a" by simp
    with assms(5) show ?thesis using round_mag_unit [OF x] by (simp add: div)
  qed
  then show "finite_double (ddiv a b)" and "0 \<le> dval (ddiv a b)" and "dval (ddiv a b) \<le> 1" by auto
qed

lemma representable_int: "\<bar>n\<bar> \<le> 2 ^ 53 \<Longrightarrow> representable (of_int n)"
proof (cases "\<bar>n\<bar> = 2 ^ 53")
  case True
  then have "\<bar>of_int n :: rat\<bar> = of_int 1 * pow2 53"
    by (simp flip: of_int_abs add: pow2_def)
  then show ?thesis by (rule representableI) auto
next
  case False
  moreover assume "\<bar>n\<bar> \<le> 2 ^ 53"
  ultimately have "\<bar>n\<bar> < 2 ^ 53" by simp
  moreover have "\<bar>of_int n :: rat\<bar> = of_int \<bar>n\<bar> * pow2 0" by simp
  ultimately show ?thesis by (intro representableI [of _ "\<bar>n\<bar>" 0]) auto
qed

lemma dint_exact [dbl_simps]:
  assumes "\<bar>n\<bar> \<le> 2 ^ 53"
  shows "finite_double (dint n)" and "dval (dint n) = of_int n"
proof -
  note ex = round_mag_exact [OF representable_int [of "\<bar>n\<bar>"], of "n < 0"]
  show "finite_double (dint n)" "dval (dint n) = of_int n"
    using ex assms by (auto simp: dint_def)
qed

lemma dsub_unit:
  assumes "finite_double a" "0 \<le> dval a" "dval a \<le> 1"
  shows "finite_double (dsub (dint 1) a)"
    and "0 \<le> dval (dsub (dint 1) a)" and "dval (dsub (dint 1) a) \<le> 1"
proof -
  have one: "finite_double (dint 1)" "dval (dint 1) = 1" by (simp_all add: dbl_simps)
  define r where "r = dval (dint 1) + dval (dneg a)"
  have r: "0 \<le> r" "r \<le> 1" using assms one by (auto simp: r_def)
  have "dsub (dint 1) a =
      (if r = 0 then dzero (is_neg (dint 1) \<and> is_neg (dneg a)) else round_mag (r < 0) \<bar>r\<bar>)"
    using one assms(1) by (simp add: dsub_def dadd_def r_def Let_def)
  then have *: "dsub (dint 1) a =
      (if r = 0 then dzero (is_neg (dint 1) \<and> is_neg (dneg a)) else round_mag False r)"
    using r by simp
  show "finite_double (dsub (dint 1) a)"
    "0 \<le> dval (dsub (dint 1) a)" "dval (dsub (dint 1) a) \<le> 1"
    using round_mag_unit [OF r] by (auto simp: *)
qed

text \<open>
  A sum depends on its operands only through their exact sum: two additions of equal exact
  non-zero sums give the same double.
\<close>

lemma dadd_cong_value:
  assumes "finite_double a" "finite_double b" "finite_double a'" "finite_double b'"
    and "dval a + dval b = dval a' + dval b'" and "dval a + dval b \<noteq> 0"
  shows "dadd a b = dadd a' b'"
  using assms by (simp add: dadd_def Let_def)

text \<open>
  \<^verbatim>\<open>(a + b)\<close> for values that are whole numbers: exact while the sum stays within \<open>2 ^ 53\<close>.
\<close>

definition is_int_double :: "double \<Rightarrow> int \<Rightarrow> bool" where
  "is_int_double d n \<longleftrightarrow> finite_double d \<and> dval d = of_int n"

lemma is_int_dint: "\<bar>n\<bar> \<le> 2 ^ 53 \<Longrightarrow> is_int_double (dint n) n"
  by (simp add: is_int_double_def dbl_simps)

lemma is_int_dadd:
  "is_int_double a m \<Longrightarrow> is_int_double b n \<Longrightarrow> \<bar>m + n\<bar> \<le> 2 ^ 53 \<Longrightarrow>
   is_int_double (dadd a b) (m + n)"
  using representable_int [of "m + n"] by (simp add: is_int_double_def dbl_simps)

lemma is_int_dmul:
  "is_int_double a m \<Longrightarrow> is_int_double b n \<Longrightarrow> \<bar>m * n\<bar> \<le> 2 ^ 53 \<Longrightarrow>
   is_int_double (dmul a b) (m * n)"
  using representable_int [of "m * n"] by (simp add: is_int_double_def dbl_simps)

lemma is_int_dsub:
  "is_int_double a m \<Longrightarrow> is_int_double b n \<Longrightarrow> \<bar>m - n\<bar> \<le> 2 ^ 53 \<Longrightarrow>
   is_int_double (dsub a b) (m - n)"
  using representable_int [of "m - n"] by (simp add: is_int_double_def dbl_simps)

text \<open>Scaling by a power of two keeps the significand.\<close>

lemma representable_scale:
  assumes "\<bar>x\<bar> = of_int m * pow2 e" "m < 2 ^ 53" "emin \<le> e + k" "e + k \<le> emax"
  shows "representable (x * pow2 k)"
  using assms by (intro representableI [of _ m "e + k"]) (auto simp: abs_mult pow2_add)

section \<open>The operators of the language\<close>

text \<open>
  With these instances an arithmetic expression of the model reads as the one of the source:
  \<open>+\<close>, \<open>-\<close>, \<open>*\<close> and \<open>/\<close> on \<^typ>\<open>double\<close> are the rounded operations.
\<close>

instantiation double :: "{zero, one, plus, minus, uminus, times, inverse}"
begin

definition zero_double :: double where "0 = dzero False"
definition one_double :: double where "1 = dint 1"
definition plus_double :: "double \<Rightarrow> double \<Rightarrow> double" where "a + b = dadd a b"
definition minus_double :: "double \<Rightarrow> double \<Rightarrow> double" where "a - b = dsub a b"
definition uminus_double :: "double \<Rightarrow> double" where "- a = dneg a"
definition times_double :: "double \<Rightarrow> double \<Rightarrow> double" where "a * b = dmul a b"
definition divide_double :: "double \<Rightarrow> double \<Rightarrow> double" where "a div b = ddiv a b"
definition inverse_double :: "double \<Rightarrow> double" where "inverse a = ddiv (dint 1) a"

instance ..

end

lemmas double_ops = zero_double_def one_double_def plus_double_def minus_double_def
  uminus_double_def times_double_def divide_double_def

lemma is_int_zero [simp]: "is_int_double 0 0"
  by (simp add: is_int_double_def zero_double_def)

lemma is_int_add:
  "is_int_double a m \<Longrightarrow> is_int_double b n \<Longrightarrow> \<bar>m + n\<bar> \<le> 2 ^ 53 \<Longrightarrow> is_int_double (a + b) (m + n)"
  by (simp add: plus_double_def is_int_dadd)

lemma is_int_mult:
  "is_int_double a m \<Longrightarrow> is_int_double b n \<Longrightarrow> \<bar>m * n\<bar> \<le> 2 ^ 53 \<Longrightarrow> is_int_double (a * b) (m * n)"
  by (simp add: times_double_def is_int_dmul)

lemma is_int_diff:
  "is_int_double a m \<Longrightarrow> is_int_double b n \<Longrightarrow> \<bar>m - n\<bar> \<le> 2 ^ 53 \<Longrightarrow> is_int_double (a - b) (m - n)"
  by (simp add: minus_double_def is_int_dsub)

text \<open>The share \<open>1 - a / b\<close> of two amounts in order lies between 0 and 1.\<close>

lemma share_unit:
  assumes "finite_double a" "finite_double b" "0 \<le> dval a" "dval a \<le> dval b" "0 < dval b"
  shows "finite_double (1 - a / b)" and "0 \<le> dval (1 - a / b)" and "dval (1 - a / b) \<le> 1"
  using dsub_unit [OF ddiv_unit [OF assms]] by (simp_all add: double_ops)

end
