(* ===== verification/CNumbers.thy ===== *)
theory CNumbers
  imports Double
begin

text \<open>
  Numbers in text, as the C library reads and writes them: \<^verbatim>\<open>atoi\<close>, \<^verbatim>\<open>atof\<close> (the grammar of
  \<^verbatim>\<open>strtod\<close>: decimal and hexadecimal significands, exponents, infinities and NaN) and the
  \<^verbatim>\<open>%d\<close> conversion. The lemmas are the round trips between the two directions.
\<close>

section \<open>Characters\<close>

definition code_of :: "char \<Rightarrow> int" where
  "code_of c = of_char c"

text \<open>\<^verbatim>\<open>char\<close> is signed: bytes from 128 on are negative.\<close>

definition schar :: "char \<Rightarrow> int" where
  "schar c = (if 128 \<le> code_of c then code_of c - 256 else code_of c)"

definition isspace :: "char \<Rightarrow> bool" where
  "isspace c \<longleftrightarrow> code_of c = 32 \<or> (9 \<le> code_of c \<and> code_of c \<le> 13)"

definition isdigit :: "char \<Rightarrow> bool" where
  "isdigit c \<longleftrightarrow> 48 \<le> code_of c \<and> code_of c \<le> 57"

definition digit_value :: "char \<Rightarrow> int" where
  "digit_value c =
     (if isdigit c then code_of c - 48
      else if 97 \<le> code_of c \<and> code_of c \<le> 102 then code_of c - 87
      else if 65 \<le> code_of c \<and> code_of c \<le> 70 then code_of c - 55
      else 99)"

definition digit_of :: "int \<Rightarrow> char" where
  "digit_of d = char_of (48 + d)"

definition tolower :: "char \<Rightarrow> char" where
  "tolower c = (if 65 \<le> code_of c \<and> code_of c \<le> 90 then char_of (code_of c + 32) else c)"

lemma code_of_nat: "code_of c = int (of_char c)"
  unfolding code_of_def by (rule of_nat_of_char [symmetric])

lemma code_of_bounds: "0 \<le> code_of c" "code_of c < 256"
  using nat_of_char_less_256 [of c] by (simp_all only: code_of_nat)

lemma code_of_inject [simp]: "code_of c = code_of d \<longleftrightarrow> c = d"
  by (simp add: code_of_def)

lemma code_of_digit_of [simp]: "0 \<le> d \<Longrightarrow> d < 10 \<Longrightarrow> code_of (digit_of d) = 48 + d"
  by (simp add: code_of_def digit_of_def take_bit_eq_mod)

lemma isdigit_digit_of [simp]: "0 \<le> d \<Longrightarrow> d < 10 \<Longrightarrow> isdigit (digit_of d)"
  by (simp add: isdigit_def)

lemma digit_value_digit_of [simp]: "0 \<le> d \<Longrightarrow> d < 10 \<Longrightarrow> digit_value (digit_of d) = d"
  by (simp add: digit_value_def)

lemma isdigit_not_isspace: "isdigit c \<Longrightarrow> \<not> isspace c"
  by (auto simp: isdigit_def isspace_def)

section \<open>Digit strings\<close>

definition digits_value :: "int \<Rightarrow> string \<Rightarrow> int" where
  "digits_value b s = foldl (\<lambda>n c. b * n + digit_value c) 0 s"

lemma digits_value_simps [simp]:
  "digits_value b [] = 0"
  "digits_value b (s @ [c]) = b * digits_value b s + digit_value c"
  by (simp_all add: digits_value_def)

text \<open>The decimal digits of a number that is not negative, as \<^verbatim>\<open>%d\<close> prints them.\<close>

function dec_digits :: "int \<Rightarrow> string" where
  "dec_digits n = (if n < 10 then [digit_of n] else dec_digits (n div 10) @ [digit_of (n mod 10)])"
  by pat_completeness auto
termination
  by (relation "measure nat") auto

declare dec_digits.simps [simp del]

lemma dec_digits_isdigit: "0 \<le> n \<Longrightarrow> c \<in> set (dec_digits n) \<Longrightarrow> isdigit c"
proof (induction n rule: dec_digits.induct)
  case (1 n)
  then show ?case
    by (cases "n < 10") (auto simp: dec_digits.simps [of n])
qed

lemma dec_digits_value: "0 \<le> n \<Longrightarrow> digits_value 10 (dec_digits n) = n"
proof (induction n rule: dec_digits.induct)
  case (1 n)
  then show ?case
    by (cases "n < 10")
      (auto simp: dec_digits.simps [of n] digits_value_def)
qed

lemma dec_digits_nonempty [simp]: "dec_digits n \<noteq> []"
  by (subst dec_digits.simps) simp

lemma dec_digits_length_bound: "0 \<le> n \<Longrightarrow> n < 10 ^ k \<Longrightarrow> 0 < k \<Longrightarrow> length (dec_digits n) \<le> k"
proof (induction n arbitrary: k rule: dec_digits.induct)
  case (1 n)
  show ?case
  proof (cases "n < 10")
    case False
    with "1.prems" obtain j where k: "k = Suc j" "0 < j"
      by (cases k; cases "k - 1") auto
    then have "n div 10 < 10 ^ j" using "1.prems" by simp
    then have "length (dec_digits (n div 10)) \<le> j"
      using 1 False k by simp
    with False k show ?thesis by (simp add: dec_digits.simps [of n])
  qed (use "1.prems" in \<open>simp add: dec_digits.simps [of n]\<close>)
qed

lemma dec_digits_length_lower: "10 ^ k \<le> n \<Longrightarrow> k < length (dec_digits n)"
proof (induction n arbitrary: k rule: dec_digits.induct)
  case (1 n)
  show ?case
  proof (cases k)
    case (Suc j)
    have "(10 :: int) ^ 1 \<le> 10 ^ k" by (rule power_increasing) (use Suc in auto)
    with "1.prems" have big: "\<not> n < 10" by simp
    have "10 ^ j \<le> n div 10" using "1.prems" Suc by simp
    with "1.IH" [OF big] have "j < length (dec_digits (n div 10))" .
    with big Suc show ?thesis by (simp add: dec_digits.simps [of n])
  qed simp
qed

section \<open>\<^verbatim>\<open>%d\<close> and \<^verbatim>\<open>atoi\<close>\<close>

definition sprintf_d :: "int \<Rightarrow> string" where
  "sprintf_d n = (if n < 0 then CHR ''-'' # dec_digits (- n) else dec_digits n)"

text \<open>An optional sign: whether it is a minus, and the rest.\<close>

fun opt_sign :: "string \<Rightarrow> bool \<times> string" where
  "opt_sign (c # s) =
     (if c = CHR ''-'' then (True, s) else if c = CHR ''+'' then (False, s) else (False, c # s))"
| "opt_sign [] = (False, [])"

text \<open>The C standard gives a number that does not fit an \<^verbatim>\<open>int\<close> no meaning.\<close>

definition atoi :: "string \<Rightarrow> int res" where
  "atoi s =
     (let (neg, r) = opt_sign (dropWhile isspace s);
          v = digits_value 10 (takeWhile isdigit r);
          n = (if neg then - v else v)
      in if - (2 ^ 31) \<le> n \<and> n < 2 ^ 31 then Inr n else Inl Unrepresentable)"

lemma dropWhile_isspace_digits [simp]:
  "s \<noteq> [] \<Longrightarrow> \<forall>c \<in> set s. isdigit c \<Longrightarrow> dropWhile isspace (s @ t) = s @ t"
  by (cases s) (auto simp: isdigit_not_isspace)

lemma opt_sign_digits [simp]:
  "s \<noteq> [] \<Longrightarrow> \<forall>c \<in> set s. isdigit c \<Longrightarrow> opt_sign (s @ t) = (False, s @ t)"
  by (cases s) (auto simp: isdigit_def code_of_def)

lemma takeWhile_stop [simp]: "t = [] \<or> \<not> P (hd t) \<Longrightarrow> takeWhile P t = []"
  by (cases t) auto

lemma atoi_dec_digits:
  assumes "0 \<le> n" "n < 2 ^ 31" "t = [] \<or> \<not> isdigit (hd t)"
  shows "atoi (dec_digits n @ t) = Inr n"
proof -
  have dig: "\<forall>c \<in> set (dec_digits n). isdigit c"
    using dec_digits_isdigit [OF assms(1)] by blast
  then show ?thesis
    using assms by (simp add: atoi_def dec_digits_value Let_def)
qed

section \<open>\<^verbatim>\<open>atof\<close>\<close>

text \<open>
  The significand in base \<open>b\<close>: its digits read as one number, how many of them stand after
  the point, and the rest of the text.
\<close>

definition is_base_digit :: "int \<Rightarrow> char \<Rightarrow> bool" where
  "is_base_digit b c \<longleftrightarrow> digit_value c < b"

definition significand :: "int \<Rightarrow> string \<Rightarrow> (int \<times> nat \<times> string) option" where
  "significand b s =
     (let ip = takeWhile (is_base_digit b) s;
          r = dropWhile (is_base_digit b) s;
          (fp, r') = (case r of
              [] \<Rightarrow> ([], r)
            | c # t \<Rightarrow> if c = CHR ''.''
                        then (takeWhile (is_base_digit b) t, dropWhile (is_base_digit b) t)
                        else ([], r))
      in if ip = [] \<and> fp = [] then None
         else Some (digits_value b (ip @ fp), length fp, r'))"

definition exponent_part :: "char \<Rightarrow> string \<Rightarrow> int" where
  "exponent_part e s =
     (case s of
        [] \<Rightarrow> 0
      | c # t \<Rightarrow>
          if tolower c = e
          then let (neg, r) = opt_sign t; v = digits_value 10 (takeWhile isdigit r)
               in if neg then - v else v
          else 0)"

definition scale :: "int \<Rightarrow> int \<Rightarrow> int \<Rightarrow> rat" where
  "scale v b k = (if 0 \<le> k then of_int (v * b ^ nat k) else of_int v / of_int (b ^ nat (- k)))"

definition atof :: "string \<Rightarrow> double" where
  "atof s =
     (let (neg, r) = opt_sign (dropWhile isspace s); l = map tolower (take 3 r)
      in if l = ''inf'' then Inf neg
         else if l = ''nan'' then NaN
         else case (if take 2 l = ''0x'' then significand 16 (drop 2 r) else None) of
           Some (v, k, t) \<Rightarrow>
             round_mag neg (scale v 2 (exponent_part (CHR ''p'') t - 4 * int k))
         | None \<Rightarrow>
             (case significand 10 r of
                None \<Rightarrow> dzero False
              | Some (v, k, t) \<Rightarrow>
                  round_mag neg (scale v 10 (exponent_part (CHR ''e'') t - int k))))"

text \<open>A decimal number without sign, with or without digits after a point.\<close>

definition digit_string :: "string \<Rightarrow> bool" where
  "digit_string s \<longleftrightarrow> (\<forall>c \<in> set s. isdigit c)"

lemma digit_string_dec_digits [simp]: "0 \<le> n \<Longrightarrow> digit_string (dec_digits n)"
  by (simp add: digit_string_def dec_digits_isdigit)

lemma is_base_digit_10 [simp]: "is_base_digit 10 = isdigit"
  by (rule ext) (auto simp: is_base_digit_def digit_value_def isdigit_def)

lemma takeWhile_digit_string:
  "digit_string s \<Longrightarrow> takeWhile isdigit (s @ t) = s @ takeWhile isdigit t"
  "digit_string s \<Longrightarrow> dropWhile isdigit (s @ t) = dropWhile isdigit t"
  by (auto simp: digit_string_def)

lemma dropWhile_stop: "t = [] \<or> \<not> P (hd t) \<Longrightarrow> dropWhile P t = t"
  by (cases t) auto

text \<open>What may follow a number without becoming part of it.\<close>

definition number_stop :: "string \<Rightarrow> bool" where
  "number_stop t \<longleftrightarrow>
     t = [] \<or> (\<not> isdigit (hd t) \<and> hd t \<noteq> CHR ''.'' \<and> tolower (hd t) \<notin> {CHR ''e'', CHR ''x''})"

lemma tolower_letters [simp]:
  "tolower (CHR ''M'') = CHR ''m''" "tolower (CHR ''G'') = CHR ''g''"
  "tolower (CHR ''K'') = CHR ''k''" "tolower (CHR ''B'') = CHR ''b''"
  "tolower newline = newline" "tolower (CHR ''%'') = CHR ''%''"
  by code_simp+

lemma number_stop_simps [simp]:
  "number_stop []"
  "number_stop (newline # t)" "number_stop (CHR ''M'' # t)" "number_stop (CHR ''G'' # t)"
  "number_stop (CHR ''K'' # t)" "number_stop (CHR ''B'' # t)" "number_stop (CHR ''%'' # t)"
  by (simp_all add: number_stop_def isdigit_def code_of_def)

lemma significand_whole:
  assumes "digit_string ip" "ip \<noteq> []" "number_stop t"
  shows "significand 10 (ip @ t) = Some (digits_value 10 ip, 0, t)"
proof -
  have "t = [] \<or> \<not> isdigit (hd t)" using assms(3) by (auto simp: number_stop_def)
  then have "takeWhile isdigit (ip @ t) = ip" "dropWhile isdigit (ip @ t) = t"
    using assms(1) by (simp_all add: takeWhile_digit_string dropWhile_stop)
  then show ?thesis
    using assms(2,3)
    by (cases t) (auto simp: significand_def number_stop_def Let_def
        takeWhile_eq_all_conv [THEN iffD2] dropWhile_eq_Nil_conv [THEN iffD2])
qed

lemma significand_point:
  assumes "digit_string ip" "ip \<noteq> []" "digit_string fp" "number_stop t"
  shows "significand 10 (ip @ CHR ''.'' # fp @ t) = Some (digits_value 10 (ip @ fp), length fp, t)"
proof -
  have "t = [] \<or> \<not> isdigit (hd t)" using assms(4) by (auto simp: number_stop_def)
  then have "takeWhile isdigit (fp @ t) = fp" "dropWhile isdigit (fp @ t) = t"
    using assms(3) by (simp_all add: takeWhile_digit_string dropWhile_stop)
  moreover have "\<not> isdigit (CHR ''.'')" by (simp add: isdigit_def code_of_def)
  ultimately show ?thesis
    using assms(1,2) by (simp add: significand_def takeWhile_digit_string)
qed

lemma exponent_stop: "number_stop t \<Longrightarrow> exponent_part (CHR ''e'') t = 0"
  by (cases t) (auto simp: exponent_part_def number_stop_def)

text \<open>The words that start with a letter, and hexadecimal numbers, are not decimal numbers.\<close>

lemma atof_head:
  assumes "isdigit c" "s = [] \<or> tolower (hd s) \<noteq> CHR ''x''"
  shows "atof (c # s) =
    (case significand 10 (c # s) of
       None \<Rightarrow> dzero False
     | Some (v, k, t) \<Rightarrow> round_mag False (scale v 10 (exponent_part (CHR ''e'') t - int k)))"
proof -
  have sp: "dropWhile isspace (c # s) = c # s"
    using assms(1) by (simp add: isdigit_not_isspace)
  have sg: "opt_sign (c # s) = (False, c # s)"
    using assms(1) by (auto simp: isdigit_def code_of_def)
  have low: "tolower c = c" using assms(1) by (simp add: tolower_def isdigit_def)
  have ne: "c \<noteq> CHR ''i''" "c \<noteq> CHR ''n''"
    using assms(1) by (auto simp: isdigit_def code_of_def)
  have l: "map tolower (take 3 (c # s)) = c # map tolower (take 2 s)"
    by (simp add: low)
  have hx: "take 2 (c # map tolower (take 2 s)) \<noteq> ''0x''"
    using assms(2) by (cases s) auto
  show ?thesis
    unfolding atof_def Let_def sp sg prod.case l using ne hx by auto
qed

lemma atof_whole:
  assumes "digit_string ip" "ip \<noteq> []" "number_stop t"
  shows "atof (ip @ t) = round_mag False (of_int (digits_value 10 ip))"
proof -
  obtain c s where ip: "ip = c # s" using assms(2) by (cases ip) auto
  have dig: "\<And>x. isdigit x \<Longrightarrow> tolower x \<noteq> CHR ''x''"
    by (auto simp: tolower_def isdigit_def code_of_def)
  have "s @ t = [] \<or> tolower (hd (s @ t)) \<noteq> CHR ''x''"
    using assms(1,3) dig by (cases s) (auto simp: ip digit_string_def number_stop_def)
  moreover have "isdigit c" using assms(1) by (simp add: ip digit_string_def)
  ultimately have "atof (ip @ t) =
    (case significand 10 (ip @ t) of
       None \<Rightarrow> dzero False
     | Some (v, k, t) \<Rightarrow> round_mag False (scale v 10 (exponent_part (CHR ''e'') t - int k)))"
    using atof_head [of c "s @ t"] by (simp add: ip)
  also have "\<dots> = round_mag False (of_int (digits_value 10 ip))"
    using assms by (simp add: significand_whole exponent_stop scale_def)
  finally show ?thesis .
qed

lemma atof_dec_digits:
  assumes "0 \<le> n" "number_stop t"
  shows "atof (dec_digits n @ t) = dint n"
  using assms by (simp add: atof_whole dec_digits_value dint_def)

lemma atof_point:
  assumes "digit_string ip" "ip \<noteq> []" "digit_string fp" "number_stop t"
  shows "atof (ip @ CHR ''.'' # fp @ t) =
    round_mag False (of_int (digits_value 10 (ip @ fp)) / of_int (10 ^ length fp))"
proof -
  obtain c s where ip: "ip = c # s" using assms(2) by (cases ip) auto
  have dig: "\<And>x. isdigit x \<Longrightarrow> tolower x \<noteq> CHR ''x''"
    by (auto simp: tolower_def isdigit_def code_of_def)
  have pt: "tolower (CHR ''.'') \<noteq> CHR ''x''" by code_simp
  have "tolower (hd (s @ CHR ''.'' # fp @ t)) \<noteq> CHR ''x''"
    using assms(1) dig pt by (cases s) (auto simp: ip digit_string_def)
  moreover have "isdigit c" using assms(1) by (simp add: ip digit_string_def)
  ultimately show ?thesis
    using atof_head [of c "s @ CHR ''.'' # fp @ t"] significand_point [OF assms]
      exponent_stop [OF assms(4)]
    by (simp add: ip scale_def)
qed

end
