(* ===== verification/JsonValue.thy ===== *)
theory JsonValue
  imports CNumbers "HOL-Library.List_Lexorder" "HOL-Library.Char_ord"
begin

text \<open>
  The JSON values of jsoncpp as \<^verbatim>\<open>client/json_include/value.h\<close> lays them out (a tagged union;
  an object is a map ordered by key) and the interface of class \<^verbatim>\<open>Json::Value\<close>. The bodies of the
  methods are in the binary \<^verbatim>\<open>libjsoncpp.a\<close>, so they are a parameter, the record \<open>json_api\<close>;
  the locale \<open>json_values\<close> states what the comments of \<^verbatim>\<open>value.h\<close> promise about them.
\<close>

section \<open>Values\<close>

text \<open>One constructor per \<^verbatim>\<open>ValueType\<close>, holding the member of \<^verbatim>\<open>ValueHolder\<close> for that type.\<close>

datatype json =
    JNull
  | JInt int
  | JUInt int
  | JReal double
  | JString string
  | JBool bool
  | JArray "json list"
  | JObject "(string \<times> json) list"

fun is_container :: "json \<Rightarrow> bool" where
  "is_container JNull = True"
| "is_container (JObject ms) = True"
| "is_container _ = False"

fun is_sequence :: "json \<Rightarrow> bool" where
  "is_sequence JNull = True"
| "is_sequence (JArray xs) = True"
| "is_sequence _ = False"

fun elements :: "json \<Rightarrow> json list" where
  "elements (JArray xs) = xs"
| "elements _ = []"

section \<open>The interface of Json::Value\<close>

text \<open>
  The methods the program calls. \<open>jget\<close> and \<open>jput\<close> are the two uses of the non-const
  \<^verbatim>\<open>operator[](key)\<close>: the value the reference shows, and the container after an assignment
  through it; \<open>jat\<close> is \<^verbatim>\<open>operator[](int)\<close>.
\<close>

record json_api =
  jget :: "json \<Rightarrow> string \<Rightarrow> json"
  jput :: "json \<Rightarrow> string \<Rightarrow> json \<Rightarrow> json"
  jappend :: "json \<Rightarrow> json \<Rightarrow> json"
  jis_member :: "json \<Rightarrow> string \<Rightarrow> bool"
  jequal :: "json \<Rightarrow> json \<Rightarrow> bool"
  jsize :: "json \<Rightarrow> nat"
  jat :: "json \<Rightarrow> nat \<Rightarrow> json"
  jas_double :: "json \<Rightarrow> double"
  jas_string :: "json \<Rightarrow> string"
  jto_styled :: "json \<Rightarrow> string"

text \<open>\<^verbatim>\<open>root[key].append(x)\<close>: the member is created as null when it does not exist.\<close>

definition jpush :: "json_api \<Rightarrow> string \<Rightarrow> json \<Rightarrow> json \<Rightarrow> json" where
  "jpush J k x r = jput J r k (jappend J (jget J r k) x)"

text \<open>An object built by assigning to its members one after the other.\<close>

definition jobject :: "json_api \<Rightarrow> (string \<times> json) list \<Rightarrow> json" where
  "jobject J ms = fold (\<lambda>(k, x) v. jput J v k x) ms JNull"

locale json_values =
  fixes J :: json_api
  assumes get_null: "jget J JNull k = JNull"
    and get_put: "is_container v \<Longrightarrow> jget J (jput J v k x) k' = (if k' = k then x else jget J v k')"
    and put_container: "is_container v \<Longrightarrow> is_container (jput J v k x)"
    and member_null: "\<not> jis_member J JNull k"
    and member_put: "is_container v \<Longrightarrow>
      jis_member J (jput J v k x) k' \<longleftrightarrow> k' = k \<or> jis_member J v k'"
    and append_sequence: "is_sequence v \<Longrightarrow> jappend J v x = JArray (elements v @ [x])"
    and size_sequence: "is_sequence v \<Longrightarrow> jsize J v = length (elements v)"
    and at_sequence: "is_sequence v \<Longrightarrow>
      jat J v i = (if i < length (elements v) then elements v ! i else JNull)"
    and equal_null: "jequal J JNull v \<longleftrightarrow> v = JNull"
    and as_double_real: "jas_double J (JReal d) = d"
    and as_string_string: "jas_string J (JString s) = s"
begin

lemmas laws = get_null get_put put_container member_null member_put append_sequence

lemma get_push:
  "is_container r \<Longrightarrow> jget J (jpush J k x r) k' =
     (if k' = k then jappend J (jget J r k) x else jget J r k')"
  by (simp add: jpush_def get_put)

lemma push_container: "is_container r \<Longrightarrow> is_container (jpush J k x r)"
  by (simp add: jpush_def put_container)

lemma member_push:
  "is_container r \<Longrightarrow> jis_member J (jpush J k x r) k' \<longleftrightarrow> k' = k \<or> jis_member J r k'"
  by (simp add: jpush_def member_put)

text \<open>A loop of \<^verbatim>\<open>root[key].append(x)\<close> leaves the elements at the end of the member.\<close>

lemma fold_push:
  assumes "is_container r"
  shows "is_container (fold (jpush J k) xs r)"
    and "is_sequence (jget J r k) \<Longrightarrow>
      jget J (fold (jpush J k) xs r) k' =
        (if k' = k \<and> xs \<noteq> [] then JArray (elements (jget J r k) @ xs) else jget J r k')"
    and "jis_member J (fold (jpush J k) xs r) k' \<longleftrightarrow> (k' = k \<and> xs \<noteq> []) \<or> jis_member J r k'"
  using assms
  by (induction xs arbitrary: r)
    (auto simp: push_container get_push member_push append_sequence)

lemma push_one:
  assumes "is_container r" and "jget J r k = JNull"
  shows "jget J (jpush J k x r) k' = (if k' = k then JArray [x] else jget J r k')"
  using assms by (simp add: get_push append_sequence)

text \<open>Assigning the members of an object in turn: the last assignment of a key counts.\<close>

lemma fold_put:
  "is_container v \<Longrightarrow> is_container (fold (\<lambda>(k, x) v. jput J v k x) ms v)"
  "is_container v \<Longrightarrow> jget J (fold (\<lambda>(k, x) v. jput J v k x) ms v) k =
     (case map_of (rev ms) k of None \<Rightarrow> jget J v k | Some x \<Rightarrow> x)"
  by (induction ms arbitrary: v)
    (auto simp: put_container get_put map_add_def split: option.splits)

lemma get_jobject:
  "jget J (jobject J ms) k = (case map_of (rev ms) k of None \<Rightarrow> JNull | Some x \<Rightarrow> x)"
  by (simp add: jobject_def fold_put get_null split: option.splits)

end

section \<open>A reference implementation of the contract\<close>

text \<open>
  Objects as lists sorted by key, as \<^verbatim>\<open>std::map\<close> keeps them. It shows that the contract can be
  met; the properties of the program are proved for every implementation of the contract.
\<close>

fun insert_member :: "string \<Rightarrow> json \<Rightarrow> (string \<times> json) list \<Rightarrow> (string \<times> json) list" where
  "insert_member k x [] = [(k, x)]"
| "insert_member k x ((k', y) # ms) =
     (if k = k' then (k, x) # ms
      else if k < k' then (k, x) # (k', y) # ms
      else (k', y) # insert_member k x ms)"

lemma map_of_insert_member: "map_of (insert_member k x ms) k' = (if k' = k then Some x else map_of ms k')"
  by (induction k x ms rule: insert_member.induct) auto

lemma keys_insert_member: "fst ` set (insert_member k x ms) = insert k (fst ` set ms)"
  by (induction k x ms rule: insert_member.induct) auto

lemma sorted_insert_member:
  "sorted (map fst ms) \<Longrightarrow> distinct (map fst ms) \<Longrightarrow>
   sorted (map fst (insert_member k x ms)) \<and> distinct (map fst (insert_member k x ms))"
  by (induction k x ms rule: insert_member.induct) (auto simp: keys_insert_member image_iff)

fun ref_get :: "json \<Rightarrow> string \<Rightarrow> json" where
  "ref_get (JObject ms) k = (case map_of ms k of None \<Rightarrow> JNull | Some v \<Rightarrow> v)"
| "ref_get _ k = JNull"

fun ref_put :: "json \<Rightarrow> string \<Rightarrow> json \<Rightarrow> json" where
  "ref_put (JObject ms) k x = JObject (insert_member k x ms)"
| "ref_put _ k x = JObject [(k, x)]"

fun ref_is_member :: "json \<Rightarrow> string \<Rightarrow> bool" where
  "ref_is_member (JObject ms) k = (map_of ms k \<noteq> None)"
| "ref_is_member _ k = False"

text \<open>Comparison of payloads: numbers as \<^verbatim>\<open>double\<close> compares them.\<close>

fun json_eq :: "json \<Rightarrow> json \<Rightarrow> bool" where
  "json_eq (JReal a) (JReal b) = deq a b"
| "json_eq (JArray xs) (JArray ys) = (length xs = length ys \<and> list_all2 json_eq xs ys)"
| "json_eq (JObject ms) (JObject ns) =
     (length ms = length ns \<and> list_all2 (\<lambda>m n. fst m = fst n \<and> json_eq (snd m) (snd n)) ms ns)"
| "json_eq a b = (a = b)"

fun ref_as_double :: "json \<Rightarrow> double" where
  "ref_as_double (JReal d) = d"
| "ref_as_double (JInt n) = dint n"
| "ref_as_double (JUInt n) = dint n"
| "ref_as_double _ = 0"

fun ref_as_string :: "json \<Rightarrow> string" where
  "ref_as_string (JString s) = s"
| "ref_as_string _ = []"

text \<open>
  The text of a value, on one line. A finite double is a dyadic fraction, so it has a finite decimal
  expansion, which is written in full; the other doubles have no text in JSON.
\<close>

definition int_text :: "int \<Rightarrow> string" where
  "int_text n = (if n < 0 then CHR ''-'' # dec_digits (- n) else dec_digits n)"

fun lowest_terms :: "int \<Rightarrow> nat \<Rightarrow> int \<times> nat" where
  "lowest_terms m 0 = (m, 0)"
| "lowest_terms m (Suc k) = (if even m then lowest_terms (m div 2) k else (m, Suc k))"

fun real_text :: "double \<Rightarrow> string" where
  "real_text (Fin m e) =
     (if 0 \<le> e then int_text (m * 2 ^ nat e) @ ''.0''
      else
        let (n, k) = lowest_terms \<bar>m\<bar> (nat (- e)); fraction = dec_digits (n * 5 ^ k mod 10 ^ k)
        in (if m < 0 then ''-'' else []) @ dec_digits (n * 5 ^ k div 10 ^ k) @ ''.'' @
           replicate (k - length fraction) (CHR ''0'') @ fraction)"
| "real_text NegZero = ''-0.0''"
| "real_text _ = ''null''"

definition quoted :: "string \<Rightarrow> string" where
  "quoted s =
     [CHR 0x22] @ concat (map (\<lambda>c. if c = CHR 0x22 \<or> c = CHR 0x5C then [CHR 0x5C, c] else [c]) s) @ [CHR 0x22]"

fun joined :: "string list \<Rightarrow> string" where
  "joined [] = []"
| "joined [x] = x"
| "joined (x # xs) = x @ '', '' @ joined xs"

fun json_text :: "json \<Rightarrow> string" where
  "json_text JNull = ''null''"
| "json_text (JInt n) = int_text n"
| "json_text (JUInt n) = int_text n"
| "json_text (JReal d) = real_text d"
| "json_text (JString s) = quoted s"
| "json_text (JBool b) = (if b then ''true'' else ''false'')"
| "json_text (JArray xs) = ''['' @ joined (map json_text xs) @ '']''"
| "json_text (JObject ms) = ''{'' @ joined (map (\<lambda>m. quoted (fst m) @ '': '' @ json_text (snd m)) ms) @ ''}''"

definition ref_json :: "json_api" where
  "ref_json =
     \<lparr>jget = ref_get,
      jput = ref_put,
      jappend = (\<lambda>v x. JArray (elements v @ [x])),
      jis_member = ref_is_member,
      jequal = json_eq,
      jsize = (\<lambda>v. length (elements v)),
      jat = (\<lambda>v i. if i < length (elements v) then elements v ! i else JNull),
      jas_double = ref_as_double,
      jas_string = ref_as_string,
      jto_styled = json_text\<rparr>"

interpretation ref: json_values ref_json
proof unfold_locales
  fix v k x k'
  show "is_container v \<Longrightarrow> jget ref_json (jput ref_json v k x) k' =
      (if k' = k then x else jget ref_json v k')"
    by (cases v) (auto simp: ref_json_def map_of_insert_member)
  show "is_container v \<Longrightarrow> jis_member ref_json (jput ref_json v k x) k' =
      (k' = k \<or> jis_member ref_json v k')"
    by (cases v) (auto simp: ref_json_def map_of_insert_member)
  show "is_container v \<Longrightarrow> is_container (jput ref_json v k x)"
    by (cases v) (auto simp: ref_json_def)
  show "jequal ref_json JNull v = (v = JNull)"
    by (cases v) (auto simp: ref_json_def)
qed (simp_all add: ref_json_def)

end
