(* ===== verification/LinuxCommand.thy ===== *)
theory LinuxCommand
  imports JsonValue
begin

text \<open>
  \<^verbatim>\<open>client/linuxCommand.h\<close>: reading the output of shell commands line by line, splitting a
  line of \<^verbatim>\<open>docker stats\<close>, hashing the MAC address, and assembling the report as a JSON
  document. The shell is a parameter: \<open>sh i cmd\<close> is what the \<open>i\<close>-th \<^verbatim>\<open>popen\<close> of a run makes the
  command print, None when \<^verbatim>\<open>popen\<close> fails. Progress output on \<^verbatim>\<open>cout\<close> is left out.
\<close>

section \<open>Running commands\<close>

type_synonym shell = "nat \<Rightarrow> string \<Rightarrow> string option"

text \<open>
  \<^verbatim>\<open>char buf[100]\<close> is read with \<^verbatim>\<open>fgets(buf, 99, fp)\<close>: at most 98 characters a time.
  \<^verbatim>\<open>popen\<close> failing is \<^verbatim>\<open>exit(EXIT_FAILURE)\<close>.
\<close>

definition store_result :: "string option \<Rightarrow> double list \<Rightarrow> double list res" where
  "store_result fp store =
     (case fp of
        None \<Rightarrow> Inl (Exit 1)
      | Some out \<Rightarrow> Inr (store @ map (\<lambda>buf. atof (cstr buf)) (fgets_all 97 out)))"

definition exec_command :: "shell \<Rightarrow> nat \<Rightarrow> string \<Rightarrow> double list \<Rightarrow> double list res" where
  "exec_command sh i command store = store_result (sh i command) store"

definition string_exec_command :: "shell \<Rightarrow> nat \<Rightarrow> string \<Rightarrow> string list \<Rightarrow> string list res" where
  "string_exec_command sh i command store =
     (case sh i command of
        None \<Rightarrow> Inl (Exit 1)
      | Some out \<Rightarrow> Inr (store @ map cstr (fgets_all 997 out)))"

section \<open>Splitting\<close>

lemma length_drop1_dropWhile: "t \<noteq> [] \<Longrightarrow> length (drop 1 (dropWhile P t)) < length t"
  using length_dropWhile_le [of P t] by (cases t) (auto simp: le_imp_less_Suc)

lemma strtok_decreases:
  "dropWhile P s \<noteq> [] \<Longrightarrow> length (drop (Suc 0) (dropWhile Q (dropWhile P s))) < length s"
  using length_drop1_dropWhile [of "dropWhile P s" Q] length_dropWhile_le [of P s] by simp

text \<open>The \<^verbatim>\<open>strtok\<close> loop: skip delimiters, take a token, go on after the delimiter that ends it.\<close>

function strtok_all :: "string \<Rightarrow> string \<Rightarrow> string list" where
  "strtok_all d s =
     (let t = dropWhile (\<lambda>c. c \<in> set d) s
      in if t = [] then []
         else takeWhile (\<lambda>c. c \<notin> set d) t # strtok_all d (drop 1 (dropWhile (\<lambda>c. c \<notin> set d) t)))"
  by pat_completeness auto
termination
  by (relation "measure (\<lambda>(d, s). length s)") (auto simp: strtok_decreases simp del: length_drop dropWhile_eq_Nil_conv)

declare strtok_all.simps [simp del]

definition split_str :: "string \<Rightarrow> string \<Rightarrow> string list" where
  "split_str str delim = (if str = [] then [] else strtok_all (cstr delim) (cstr str))"

section \<open>Hashing the MAC address\<close>

definition hash_step :: "double \<Rightarrow> double \<Rightarrow> char \<Rightarrow> double" where
  "hash_step seed h c = seed * h + dint (schar c)"

definition stringToHashCode :: "string \<Rightarrow> double" where
  "stringToHashCode s =
     (let seed = dint 7; h = 0
      in if deq h 0 \<and> 0 < length s then foldl (hash_step seed) h s else h)"

section \<open>The collected vectors and the report\<close>

record vectors =
  cpuSourceAvailable :: "double list"
  cpuMHz :: "double list"
  cpuCores :: "double list"
  memoryTotalInfo :: "double list"
  memoryAvailableInfo :: "double list"
  diskTotalInfo :: "double list"
  diskAvailableInfo :: "double list"
  ethFirstInfo :: "double list"
  ethSecondInfo :: "double list"
  dockerIDInfo :: "string list"
  dockerCpuInfo :: "double list"
  dockerMemoryUsageInfo :: "double list"
  dockerMemoryLimitInfo :: "double list"
  dockerMemoryInfo :: "double list"
  macAddressId :: "double list"
  locationInfo :: "string list"
  timestampInfo :: "string list"

definition cpu_entry :: "json_api \<Rightarrow> vectors \<Rightarrow> nat \<Rightarrow> json res" where
  "cpu_entry J v i =
     bind_res (nth_res (cpuSourceAvailable v) i) (\<lambda>source.
     bind_res (nth_res (cpuMHz v) i) (\<lambda>mhz.
     bind_res (nth_res (cpuCores v) i) (\<lambda>cores.
       Inr (jobject J
         [(''id'', JInt (int i)), (''cpu source'', JReal source),
          (''cpu Mhz'', JReal mhz), (''cpu Cores'', JReal cores)]))))"

definition docker_entry :: "json_api \<Rightarrow> vectors \<Rightarrow> nat \<Rightarrow> json res" where
  "docker_entry J v i =
     bind_res (nth_res (dockerIDInfo v) i) (\<lambda>did.
     bind_res (nth_res (dockerCpuInfo v) i) (\<lambda>cpu.
     bind_res (nth_res (dockerMemoryUsageInfo v) i) (\<lambda>usage.
     bind_res (nth_res (dockerMemoryLimitInfo v) i) (\<lambda>limit.
     bind_res (nth_res (dockerMemoryInfo v) i) (\<lambda>mem.
       Inr (jobject J
         [(''id'', JString did), (''cpu'', JReal cpu), (''memory usage'', JReal usage),
          (''memory limit'', JReal limit), (''memory'', JReal mem)]))))))"

definition memory_entry :: "json_api \<Rightarrow> vectors \<Rightarrow> json res" where
  "memory_entry J v =
     bind_res (nth_res (memoryTotalInfo v) 0) (\<lambda>total.
     bind_res (nth_res (memoryAvailableInfo v) 0) (\<lambda>available.
       Inr (jobject J
         [(''total'', JReal total), (''available'', JReal available),
          (''used'', JReal (1 - available / total))])))"

text \<open>The two running sums over the disks.\<close>

definition disk_sums :: "vectors \<Rightarrow> (double \<times> double) res" where
  "disk_sums v =
     fold_res (\<lambda>i (diskTotal, diskAvailable).
        bind_res (nth_res (diskTotalInfo v) i) (\<lambda>t.
        bind_res (nth_res (diskAvailableInfo v) i) (\<lambda>a.
          Inr (diskTotal + t, diskAvailable + a))))
       [0..<length (diskTotalInfo v)] (0, 0)"

definition disk_entry :: "json_api \<Rightarrow> double \<Rightarrow> double \<Rightarrow> json" where
  "disk_entry J diskTotal diskAvailable =
     jobject J
       [(''total'', JReal diskTotal), (''available'', JReal diskAvailable),
        (''used'', JReal (1 - diskAvailable / diskTotal))]"

definition network_entry :: "json_api \<Rightarrow> vectors \<Rightarrow> nat \<Rightarrow> json res" where
  "network_entry J v i =
     bind_res (nth_res (ethSecondInfo v) i) (\<lambda>s0.
     bind_res (nth_res (ethFirstInfo v) i) (\<lambda>f0.
     bind_res (nth_res (ethSecondInfo v) (i + 1)) (\<lambda>s1.
     bind_res (nth_res (ethFirstInfo v) (i + 1)) (\<lambda>f1.
       Inr (jobject J
         [(''id'', JInt ((int i + 1) div 2)),
          (''upload rate'', JReal ((s0 - f0) / dint 1024)),
          (''download rate'', JReal ((s1 - f1) / dint 1024))])))))"

text \<open>\<^verbatim>\<open>for(int i = 0; i < ethFirstInfo.size(); i += 2)\<close>\<close>

function network_loop :: "json_api \<Rightarrow> vectors \<Rightarrow> nat \<Rightarrow> json \<Rightarrow> json res" where
  "network_loop J v i doc =
     (if i < length (ethFirstInfo v)
      then bind_res (network_entry J v i) (\<lambda>n.
             network_loop J v (i + 2) (jpush J ''network info'' n doc))
      else Inr doc)"
  by pat_completeness auto
termination
  by (relation "measure (\<lambda>(J, v, i, doc). length (ethFirstInfo v) - i)") auto

declare network_loop.simps [simp del]

definition data_to_json :: "json_api \<Rightarrow> vectors \<Rightarrow> json res" where
  "data_to_json J v =
     bind_res (fold_res (\<lambda>i doc. bind_res (cpu_entry J v i) (\<lambda>cpu.
         Inr (jpush J ''cpu info'' cpu doc)))
       [0..<length (cpuMHz v)] JNull) (\<lambda>doc.
     bind_res (fold_res (\<lambda>i doc. bind_res (docker_entry J v i) (\<lambda>docker.
         Inr (jpush J ''docker info'' docker doc)))
       [0..<length (dockerIDInfo v)] doc) (\<lambda>doc.
     bind_res (memory_entry J v) (\<lambda>memory.
     let doc = jpush J ''memory info'' memory doc in
     bind_res (disk_sums v) (\<lambda>(diskTotal, diskAvailable).
     let doc = jpush J ''disk info'' (disk_entry J diskTotal diskAvailable) doc in
     bind_res (network_loop J v 0 doc) (\<lambda>doc.
     bind_res (nth_res (macAddressId v) 0) (\<lambda>mac.
     let doc = jpush J ''mac address info'' (jobject J [(''id'', JReal mac)]) doc in
     bind_res (nth_res (locationInfo v) 0) (\<lambda>loc.
     let doc = jpush J ''location info'' (jobject J [(''address'', JString loc)]) doc in
     bind_res (nth_res (timestampInfo v) 0) (\<lambda>time.
       Inr (jpush J ''timestamp info'' (jobject J [(''time'', JString time)]) doc)))))))))"

section \<open>Collecting\<close>

text \<open>
  One line of \<^verbatim>\<open>docker stats\<close>. The unit of an amount is its third character from the end:
  \<^verbatim>\<open>s.length() - 3\<close> is computed in \<^verbatim>\<open>size_t\<close>, so an amount of fewer than three characters is
  read outside the string.
\<close>

definition unit_char :: "string \<Rightarrow> char res" where
  "unit_char s = (if length s < 3 then Inl OutOfBounds else nth_res s (length s - 3))"

definition memory_amount :: "string \<Rightarrow> double res" where
  "memory_amount s =
     bind_res (unit_char s) (\<lambda>u.
       Inr (if u = CHR ''M'' then atof s * dint 1024
            else if u = CHR ''G'' then atof s * dint (1024 * 1024)
            else atof s))"

record docker_row =
  docker_id :: string
  docker_cpu :: double
  docker_usage :: double
  docker_limit :: double
  docker_mem :: double

definition docker_line :: "string \<Rightarrow> docker_row res" where
  "docker_line line =
     (let s = split_str line '' '' in
     bind_res (nth_res s 0) (\<lambda>s0.
     bind_res (nth_res s 2) (\<lambda>s2.
     bind_res (nth_res s 3) (\<lambda>s3.
     bind_res (memory_amount s3) (\<lambda>usage.
     bind_res (nth_res s 5) (\<lambda>s5.
     bind_res (memory_amount s5) (\<lambda>limit.
     bind_res (nth_res s 6) (\<lambda>s6.
       Inr \<lparr>docker_id = s0, docker_cpu = atof s2, docker_usage = usage,
            docker_limit = limit, docker_mem = atof s6\<rparr>))))))))"

text \<open>The commands, as the source spells them.\<close>

definition cmd_cpu_source :: string where
  "cmd_cpu_source =
     ''sar -P ALL 1 1 | grep Average | grep -v all | grep -v CPU |  awk '{print $8}'' @ [CHR 0x27]"

definition cmd_cpu_mhz :: string where
  "cmd_cpu_mhz = ''cat /proc/cpuinfo | grep \"cpu MHz\" | awk '{print $4}'' @ [CHR 0x27]"

definition cmd_cpu_cores :: string where
  "cmd_cpu_cores = ''cat /proc/cpuinfo | grep \"cpu cores\" | awk '{print $4}'' @ [CHR 0x27]"

definition cmd_memory_total :: string where
  "cmd_memory_total = ''free | grep Mem: | awk '{print $2}'' @ [CHR 0x27]"

definition cmd_memory_available :: string where
  "cmd_memory_available = ''free | grep Mem: | awk '{print $7}'' @ [CHR 0x27]"

definition cmd_disk_total :: string where
  "cmd_disk_total = ''df | grep -v Filesystem | awk '{print $2}'' @ [CHR 0x27]"

definition cmd_disk_available :: string where
  "cmd_disk_available = ''df | grep -v Filesystem | awk '{print $4}'' @ [CHR 0x27]"

definition cmd_network :: string where
  "cmd_network = ''ifconfig | grep \"X packets\" | awk '{print $5}'' @ [CHR 0x27]"

definition cmd_docker :: string where
  "cmd_docker = ''docker stats --no-stream | grep -v CPU''"

definition cmd_mac :: string where
  "cmd_mac = ''cat /sys/class/net/eth0/address''"

definition cmd_date :: string where
  "cmd_date = ''date \"+%Y-%m-%d %H:%M:%S\"''"

definition linux_command :: "json_api \<Rightarrow> shell \<Rightarrow> string \<Rightarrow> json res" where
  "linux_command J sh location =
     bind_res (exec_command sh 0 cmd_cpu_source []) (\<lambda>cpuSource.
     bind_res (exec_command sh 1 cmd_cpu_mhz []) (\<lambda>mhz.
     bind_res (exec_command sh 2 cmd_cpu_cores []) (\<lambda>cores.
     bind_res (exec_command sh 3 cmd_memory_total []) (\<lambda>memTotal.
     bind_res (exec_command sh 4 cmd_memory_available []) (\<lambda>memAvailable.
     bind_res (exec_command sh 5 cmd_disk_total []) (\<lambda>diskTotal.
     bind_res (exec_command sh 6 cmd_disk_available []) (\<lambda>diskAvailable.
     bind_res (exec_command sh 7 cmd_network []) (\<lambda>ethFirst.
     bind_res (exec_command sh 8 cmd_network []) (\<lambda>ethSecond.
     bind_res (string_exec_command sh 9 cmd_docker []) (\<lambda>dockerInfo.
     bind_res (map_res docker_line dockerInfo) (\<lambda>rows.
     bind_res (string_exec_command sh 10 cmd_mac []) (\<lambda>macAddress.
     bind_res (nth_res macAddress 0) (\<lambda>mac.
     bind_res (string_exec_command sh 11 cmd_date []) (\<lambda>timestamp.
     bind_res (nth_res timestamp 0) (\<lambda>_.
       data_to_json J
         \<lparr>cpuSourceAvailable = cpuSource, cpuMHz = mhz, cpuCores = cores,
          memoryTotalInfo = memTotal, memoryAvailableInfo = memAvailable,
          diskTotalInfo = diskTotal, diskAvailableInfo = diskAvailable,
          ethFirstInfo = ethFirst, ethSecondInfo = ethSecond,
          dockerIDInfo = map docker_id rows, dockerCpuInfo = map docker_cpu rows,
          dockerMemoryUsageInfo = map docker_usage rows,
          dockerMemoryLimitInfo = map docker_limit rows,
          dockerMemoryInfo = map docker_mem rows,
          macAddressId = [stringToHashCode mac],
          locationInfo = [location], timestampInfo = timestamp\<rparr>)))))))))))))))"

section \<open>Reading and splitting\<close>

text \<open>
  A shell command that prints whole numbers, one per line, yields exactly those numbers.
\<close>

definition number_lines :: "int list \<Rightarrow> string" where
  "number_lines ns = concat (map (\<lambda>n. dec_digits n @ [newline]) ns)"

lemma newline_not_digit: "\<not> isdigit newline" and nul_not_digit: "\<not> isdigit nul"
  by (simp_all add: isdigit_def code_of_def)

lemma store_result_number_lines:
  assumes "\<forall>n \<in> set ns. 0 \<le> n \<and> n < 10 ^ 97"
  shows "store_result (Some (number_lines ns)) store = Inr (store @ map dint ns)"
proof -
  have "0 < (97 :: nat)" by simp
  have ok: "newline \<notin> set (dec_digits n) \<and> length (dec_digits n) \<le> 97 \<and> nul \<notin> set (dec_digits n)"
    if "n \<in> set ns" for n
  proof -
    have "0 \<le> n" "n < 10 ^ 97" using assms that by auto
    then show ?thesis
      using dec_digits_isdigit [of n] dec_digits_length_bound [of n 97] newline_not_digit nul_not_digit
        \<open>0 < (97 :: nat)\<close>
      by blast
  qed
  have "fgets_all 97 (number_lines ns) = map (\<lambda>w. w @ [newline]) (map dec_digits ns)"
    using fgets_all_lines [of "map dec_digits ns" 97] ok
    by (simp add: number_lines_def comp_def)
  then show ?thesis
    using ok assms by (simp add: store_result_def atof_dec_digits)
qed

text \<open>Tokens: a word and the gap after it come off the front.\<close>

lemma strtok_skip: "c \<in> set d \<Longrightarrow> strtok_all d (c # s) = strtok_all d s"
  by (simp add: strtok_all.simps [of d "c # s"] strtok_all.simps [of d s])

lemma strtok_gap: "set g \<subseteq> set d \<Longrightarrow> strtok_all d (g @ s) = strtok_all d s"
  by (induction g) (auto simp: strtok_skip)

lemma strtok_Nil [simp]: "strtok_all d [] = []"
  by (simp add: strtok_all.simps)

lemma strtok_word:
  assumes "w \<noteq> []" "set w \<inter> set d = {}" "g \<noteq> []" "set g \<subseteq> set d"
  shows "strtok_all d (w @ g @ s) = w # strtok_all d s"
proof -
  obtain c h where g: "g = c # h" using assms(3) by (cases g) auto
  have skip: "dropWhile (\<lambda>c. c \<in> set d) (w @ g @ s) = w @ g @ s"
    using assms(1,2) by (cases w) auto
  have tok: "takeWhile (\<lambda>c. c \<notin> set d) (w @ g @ s) = w"
    "dropWhile (\<lambda>c. c \<notin> set d) (w @ g @ s) = g @ s"
    using assms(2,4) by (auto simp: g takeWhile_append dropWhile_append)
  have "strtok_all d (w @ g @ s) = w # strtok_all d (h @ s)"
    using skip tok assms(1) by (subst strtok_all.simps) (simp add: Let_def g)
  also have "strtok_all d (h @ s) = strtok_all d s"
    using assms(4) by (intro strtok_gap) (auto simp: g)
  finally show ?thesis .
qed

lemma strtok_words:
  assumes "\<forall>(w, g) \<in> set ps. w \<noteq> [] \<and> set w \<inter> set d = {} \<and> g \<noteq> [] \<and> set g \<subseteq> set d"
  shows "strtok_all d (concat (map (\<lambda>(w, g). w @ g) ps)) = map fst ps"
  using assms
proof (induction ps)
  case (Cons p ps)
  then show ?case by (cases p) (simp add: strtok_word)
qed simp

lemma strtok_tokens:
  "t \<in> set (strtok_all d s) \<Longrightarrow> t \<noteq> [] \<and> set t \<inter> set d = {}"
proof (induction d s rule: strtok_all.induct)
  case (1 d s)
  define u where "u = dropWhile (\<lambda>c. c \<in> set d) s"
  show ?case
  proof (cases "u = []")
    case True
    with "1.prems" show ?thesis by (simp add: strtok_all.simps [of d s] u_def [symmetric])
  next
    case False
    then have "hd u \<notin> set d" using hd_dropWhile [of "\<lambda>c. c \<in> set d" s] by (simp add: u_def)
    with False have first: "takeWhile (\<lambda>c. c \<notin> set d) u \<noteq> []" by (cases u) auto
    from "1.prems" False consider "t = takeWhile (\<lambda>c. c \<notin> set d) u"
      | "t \<in> set (strtok_all d (drop 1 (dropWhile (\<lambda>c. c \<notin> set d) u)))"
      by (auto simp: strtok_all.simps [of d s] u_def [symmetric] Let_def)
    then show ?thesis
    proof cases
      case 1
      with first show ?thesis by (auto dest: set_takeWhileD)
    next
      case 2
      with "1.IH" [OF u_def False] show ?thesis .
    qed
  qed
qed

lemma strtok_concat: "concat (strtok_all d s) = filter (\<lambda>c. c \<notin> set d) s"
proof (induction d s rule: strtok_all.induct)
  case (1 d s)
  define u where "u = dropWhile (\<lambda>c. c \<in> set d) s"
  define w where "w = takeWhile (\<lambda>c. c \<notin> set d) u"
  define r where "r = dropWhile (\<lambda>c. c \<notin> set d) u"
  have fs: "filter (\<lambda>c. c \<notin> set d) s = filter (\<lambda>c. c \<notin> set d) u"
    unfolding u_def by (induction s) auto
  have "u = w @ r" by (simp add: w_def r_def)
  moreover have "filter (\<lambda>c. c \<notin> set d) w = w"
    by (auto simp: w_def filter_id_conv dest: set_takeWhileD)
  moreover have "filter (\<lambda>c. c \<notin> set d) r = filter (\<lambda>c. c \<notin> set d) (drop 1 r)"
  proof (cases r)
    case (Cons a l)
    then have "a \<in> set d"
      using hd_dropWhile [of "\<lambda>c. c \<notin> set d" u] unfolding r_def [symmetric] by simp
    with Cons show ?thesis by simp
  qed simp
  ultimately have fu: "filter (\<lambda>c. c \<notin> set d) u = w @ filter (\<lambda>c. c \<notin> set d) (drop 1 r)" by simp
  show ?case
  proof (cases "u = []")
    case True
    then show ?thesis by (simp add: strtok_all.simps [of d s] u_def [symmetric] fs)
  next
    case False
    with 1 [OF u_def False] fu fs show ?thesis
      by (simp add: strtok_all.simps [of d s] u_def [symmetric] w_def [symmetric] r_def [symmetric] Let_def)
  qed
qed

section \<open>The hash\<close>

lemma stringToHashCode_foldl: "stringToHashCode s = foldl (hash_step (dint 7)) 0 s"
  by (cases s) (simp_all add: stringToHashCode_def deq_def zero_double_def Let_def)

text \<open>The same polynomial over the integers.\<close>

definition hash_int :: "string \<Rightarrow> int" where
  "hash_int s = foldl (\<lambda>h c. 7 * h + schar c) 0 s"

definition ascii :: "string \<Rightarrow> bool" where
  "ascii s \<longleftrightarrow> (\<forall>c \<in> set s. code_of c < 128)"

lemma schar_ascii: "code_of c < 128 \<Longrightarrow> schar c = code_of c"
  by (simp add: schar_def)

lemma hash_int_bounds: "ascii s \<Longrightarrow> 0 \<le> hash_int s \<and> 6 * hash_int s \<le> 127 * (7 ^ length s - 1)"
proof (induction s rule: rev_induct)
  case (snoc c s)
  then have IH: "0 \<le> hash_int s" "6 * hash_int s \<le> 127 * (7 ^ length s - 1)"
    and c: "code_of c < 128" by (auto simp: ascii_def)
  have "hash_int (s @ [c]) = 7 * hash_int s + code_of c"
    using c by (simp add: hash_int_def schar_ascii)
  with IH c code_of_bounds [of c] show ?case by (simp add: algebra_simps)
qed (simp add: hash_int_def)

lemma hash_int_limit:
  assumes "ascii s" "length s \<le> 17"
  shows "hash_int s \<le> 2 ^ 53"
proof -
  have "(7 :: int) ^ length s \<le> 7 ^ 17" by (rule power_increasing [OF assms(2)]) simp
  with hash_int_bounds [OF assms(1)] show ?thesis by simp
qed

lemma foldl_hash_exact:
  "ascii s \<Longrightarrow> length s \<le> 17 \<Longrightarrow> is_int_double (foldl (hash_step (dint 7)) 0 s) (hash_int s)"
proof (induction s rule: rev_induct)
  case Nil
  then show ?case by (simp add: hash_int_def)
next
  case (snoc c s)
  have a: "ascii s" "code_of c < 128" "length s \<le> 17"
    using snoc.prems by (auto simp: ascii_def)
  have h: "hash_int (s @ [c]) = 7 * hash_int s + schar c"
    by (simp add: hash_int_def)
  have pos: "0 \<le> hash_int s" "0 \<le> schar c"
    using hash_int_bounds [OF a(1)] a(2) code_of_bounds [of c] by (simp_all add: schar_ascii)
  moreover have lim: "7 * hash_int s + schar c \<le> 2 ^ 53"
    using hash_int_limit [OF snoc.prems] h by simp
  ultimately have m: "is_int_double (dint 7 * foldl (hash_step (dint 7)) 0 s) (7 * hash_int s)"
    by (intro is_int_mult is_int_dint snoc.IH a) auto
  have "is_int_double (dint (schar c)) (schar c)"
    using a(2) code_of_bounds [of c] by (intro is_int_dint) (simp add: schar_ascii)
  from is_int_add [OF m this] pos lim show ?case
    by (simp add: h hash_step_def [of _ _ c])
qed

text \<open>
  Base 7 is smaller than the spread of the characters: adding one to a character and taking
  seven from the next one leaves the hash unchanged, whatever follows.
\<close>

lemma hash_pair_collision:
  assumes p: "ascii p" "length p \<le> 15"
    and c: "code_of a < 128" "code_of b < 128" "code_of a' = code_of a + 1" "code_of b' = code_of b - 7"
      "code_of a' < 128"
  shows "foldl (hash_step (dint 7)) 0 (p @ [a, b]) = foldl (hash_step (dint 7)) 0 (p @ [a', b'])"
proof -
  let ?h = "foldl (hash_step (dint 7)) 0"
  have pos: "0 \<le> hash_int p" "0 \<le> code_of a" "0 \<le> code_of b'"
    using hash_int_bounds [OF p(1)] code_of_bounds by auto
  have asc: "ascii (p @ [a])" "ascii (p @ [a'])" "ascii (p @ [a, b])"
    using p c by (auto simp: ascii_def)
  have sch: "schar a = code_of a" "schar b = code_of b" "schar a' = code_of a'" "schar b' = code_of b'"
    using c by (simp_all add: schar_ascii)
  have hi: "hash_int (p @ [x]) = 7 * hash_int p + schar x" for x
    by (simp add: hash_int_def)
  have hh: "hash_int (p @ [a, b]) = 7 * (7 * hash_int p + schar a) + schar b"
    by (simp add: hash_int_def)
  have lim: "7 * (7 * hash_int p + schar a) + schar b \<le> 2 ^ 53"
    using hash_int_limit [OF asc(3)] p(2) by (simp add: hh)
  have "is_int_double (?h (p @ [a])) (7 * hash_int p + schar a)"
    and "is_int_double (?h (p @ [a'])) (7 * hash_int p + schar a')"
    using foldl_hash_exact [OF asc(1)] foldl_hash_exact [OF asc(2)] p(2) by (simp_all only: hi) simp_all
  note steps = this
  have seven: "is_int_double (dint 7) 7" by (rule is_int_dint) simp
  have m: "is_int_double (dint 7 * ?h (p @ [a])) (7 * (7 * hash_int p + schar a))"
    "is_int_double (dint 7 * ?h (p @ [a'])) (7 * (7 * hash_int p + schar a'))"
    by (rule is_int_mult [OF seven steps(1)] is_int_mult [OF seven steps(2)],
        use lim pos c sch in simp)+
  have d: "is_int_double (dint (schar b)) (schar b)" "is_int_double (dint (schar b')) (schar b')"
    using c sch pos by (auto intro!: is_int_dint)
  have "dadd (dint 7 * ?h (p @ [a])) (dint (schar b)) = dadd (dint 7 * ?h (p @ [a'])) (dint (schar b'))"
  proof (rule dadd_cong_value)
    have "7 * (7 * hash_int p + schar a) + schar b = 7 * (7 * hash_int p + schar a') + schar b'"
      using c sch by simp
    then have "of_int (7 * (7 * hash_int p + schar a)) + of_int (schar b) =
      (of_int (7 * (7 * hash_int p + schar a')) + of_int (schar b') :: rat)"
      by (simp flip: of_int_add)
    then show "dval (dint 7 * ?h (p @ [a])) + dval (dint (schar b)) =
      dval (dint 7 * ?h (p @ [a'])) + dval (dint (schar b'))"
      using m d by (simp add: is_int_double_def)
    have "7 \<le> code_of b" using pos(3) c(4) by simp
    then have "0 < 7 * (7 * hash_int p + code_of a) + code_of b" using pos(1,2) by arith
    then have "0 < 7 * (7 * hash_int p + schar a) + schar b" by (simp only: sch)
    then have "(0 :: rat) < of_int (7 * (7 * hash_int p + schar a)) + of_int (schar b)"
      by (simp flip: of_int_add)
    then show "dval (dint 7 * ?h (p @ [a])) + dval (dint (schar b)) \<noteq> 0"
      using m d by (simp add: is_int_double_def)
  qed (use m d in \<open>auto simp: is_int_double_def\<close>)
  then show ?thesis by (simp add: hash_step_def [of _ _ b] hash_step_def [of _ _ b'] plus_double_def)
qed

section \<open>Amounts of memory\<close>

lemma unit_char_suffix [simp]: "unit_char (s @ [a, b, c]) = Inr a"
  by (simp add: unit_char_def nth_append)

text \<open>The units \<^verbatim>\<open>docker stats\<close> prints, and how many KiB each stands for.\<close>

datatype mem_unit = KiB | MiB | GiB

fun unit_text :: "mem_unit \<Rightarrow> string" where
  "unit_text KiB = ''KiB''"
| "unit_text MiB = ''MiB''"
| "unit_text GiB = ''GiB''"

fun unit_factor :: "mem_unit \<Rightarrow> int" where
  "unit_factor KiB = 1"
| "unit_factor MiB = 1024"
| "unit_factor GiB = 1024 * 1024"

lemma number_stop_unit [simp]: "number_stop (unit_text u)"
  by (cases u) simp_all

lemma memory_amount_unit:
  "memory_amount (s @ unit_text u) =
   Inr (if u = KiB then atof (s @ unit_text u) else atof (s @ unit_text u) * dint (unit_factor u))"
  by (cases u) (simp_all add: memory_amount_def)

lemma memory_amount_short: "length s < 3 \<Longrightarrow> memory_amount s = Inl OutOfBounds"
  by (simp add: memory_amount_def unit_char_def)

lemma memory_amount_cases:
  "memory_amount s = Inl f \<longleftrightarrow> length s < 3 \<and> f = OutOfBounds"
  by (auto simp: memory_amount_def unit_char_def nth_res_def)

section \<open>The report\<close>

lemma bind_nth_Inl [res_simps]: "nth_res xs i = Inl f \<longleftrightarrow> length xs \<le> i \<and> f = OutOfBounds"
  by (auto simp: nth_res_def)

text \<open>The sizes that keep every subscript of \<^verbatim>\<open>data_to_json\<close> inside its vector.\<close>

definition vectors_ok :: "vectors \<Rightarrow> bool" where
  "vectors_ok v \<longleftrightarrow>
     length (cpuMHz v) \<le> length (cpuSourceAvailable v) \<and> length (cpuMHz v) \<le> length (cpuCores v) \<and>
     length (dockerIDInfo v) \<le> length (dockerCpuInfo v) \<and>
     length (dockerIDInfo v) \<le> length (dockerMemoryUsageInfo v) \<and>
     length (dockerIDInfo v) \<le> length (dockerMemoryLimitInfo v) \<and>
     length (dockerIDInfo v) \<le> length (dockerMemoryInfo v) \<and>
     memoryTotalInfo v \<noteq> [] \<and> memoryAvailableInfo v \<noteq> [] \<and>
     length (diskTotalInfo v) \<le> length (diskAvailableInfo v) \<and>
     even (length (ethFirstInfo v)) \<and> length (ethFirstInfo v) \<le> length (ethSecondInfo v) \<and>
     macAddressId v \<noteq> [] \<and> locationInfo v \<noteq> [] \<and> timestampInfo v \<noteq> []"

definition network_indices :: "vectors \<Rightarrow> nat \<Rightarrow> nat list" where
  "network_indices v i = filter (\<lambda>k. even (k - i)) [i..<length (ethFirstInfo v)]"

lemma network_indices_step:
  "network_indices v i =
     (if i < length (ethFirstInfo v) then i # network_indices v (i + 2) else [])"
proof (cases "i < length (ethFirstInfo v)")
  case True
  have "filter (\<lambda>k. even (k - i)) [Suc (Suc i)..<length (ethFirstInfo v)] =
      filter (\<lambda>k. even (k - (i + 2))) [i + 2..<length (ethFirstInfo v)]"
    by (rule filter_cong) (auto simp: Suc_diff_le)
  with True show ?thesis
    by (cases "Suc i < length (ethFirstInfo v)")
      (auto simp: network_indices_def upt_conv_Cons)
qed (simp add: network_indices_def)

lemma network_loop_map:
  "network_loop J v i doc =
   bind_res (map_res (network_entry J v) (network_indices v i)) (\<lambda>ns.
     Inr (fold (jpush J ''network info'') ns doc))"
proof (induction J v i doc rule: network_loop.induct)
  case (1 J v i doc)
  show ?case
  proof (cases "i < length (ethFirstInfo v)")
    case True
    then have "network_loop J v i doc =
        bind_res (network_entry J v i) (\<lambda>n. network_loop J v (i + 2) (jpush J ''network info'' n doc))"
      by (simp add: network_loop.simps [of J v i doc])
    with True 1 show ?thesis
      by (cases "network_entry J v i") (simp_all add: network_indices_step [of v i] bind_res_assoc)
  next
    case False
    then show ?thesis
      by (simp add: network_loop.simps [of J v i doc] network_indices_step [of v i])
  qed
qed

text \<open>The document as a sequence of appends to its members.\<close>

lemma data_to_json_pushes:
  "data_to_json J v =
     bind_res (map_res (cpu_entry J v) [0..<length (cpuMHz v)]) (\<lambda>cs.
     bind_res (map_res (docker_entry J v) [0..<length (dockerIDInfo v)]) (\<lambda>ds.
     bind_res (memory_entry J v) (\<lambda>memory.
     bind_res (disk_sums v) (\<lambda>(total, available).
     bind_res (map_res (network_entry J v) (network_indices v 0)) (\<lambda>ns.
     bind_res (nth_res (macAddressId v) 0) (\<lambda>mac.
     bind_res (nth_res (locationInfo v) 0) (\<lambda>loc.
     bind_res (nth_res (timestampInfo v) 0) (\<lambda>time.
       Inr (jpush J ''timestamp info'' (jobject J [(''time'', JString time)])
           (jpush J ''location info'' (jobject J [(''address'', JString loc)])
           (jpush J ''mac address info'' (jobject J [(''id'', JReal mac)])
           (fold (jpush J ''network info'') ns
           (jpush J ''disk info'' (disk_entry J total available)
           (jpush J ''memory info'' memory
           (fold (jpush J ''docker info'') ds
           (fold (jpush J ''cpu info'') cs JNull))))))))))))))))"
  by (simp add: data_to_json_def fold_res_map network_loop_map bind_res_assoc Let_def
      case_prod_beta' cong: bind_res_cong)

lemma cpu_entry_fault:
  "cpu_entry J v i = Inl f \<longleftrightarrow>
   f = OutOfBounds \<and> (length (cpuSourceAvailable v) \<le> i \<or> length (cpuMHz v) \<le> i \<or> length (cpuCores v) \<le> i)"
  by (auto simp: cpu_entry_def res_simps)

lemma docker_entry_fault:
  "docker_entry J v i = Inl f \<longleftrightarrow>
   f = OutOfBounds \<and> (length (dockerIDInfo v) \<le> i \<or> length (dockerCpuInfo v) \<le> i \<or>
     length (dockerMemoryUsageInfo v) \<le> i \<or> length (dockerMemoryLimitInfo v) \<le> i \<or>
     length (dockerMemoryInfo v) \<le> i)"
  by (auto simp: docker_entry_def res_simps)

lemma memory_entry_fault:
  "memory_entry J v = Inl f \<longleftrightarrow> f = OutOfBounds \<and> (memoryTotalInfo v = [] \<or> memoryAvailableInfo v = [])"
  by (auto simp: memory_entry_def res_simps)

lemma network_entry_fault:
  "network_entry J v i = Inl f \<longleftrightarrow>
   f = OutOfBounds \<and> (length (ethFirstInfo v) \<le> i + 1 \<or> length (ethSecondInfo v) \<le> i + 1)"
  by (auto simp: network_entry_def res_simps)

text \<open>The running sums of the disks are the sums of the first and of the second vector.\<close>

lemma disk_sums_eq:
  assumes "length (diskTotalInfo v) \<le> length (diskAvailableInfo v)"
  shows "disk_sums v =
    Inr (foldl (+) 0 (diskTotalInfo v),
         foldl (+) 0 (take (length (diskTotalInfo v)) (diskAvailableInfo v)))"
proof -
  let ?t = "diskTotalInfo v" and ?a = "diskAvailableInfo v"
  have "fold_res (\<lambda>i (diskTotal, diskAvailable).
      bind_res (nth_res ?t i) (\<lambda>t. bind_res (nth_res ?a i) (\<lambda>a.
        Inr (diskTotal + t, diskAvailable + a)))) [0..<n] (0, 0) =
      Inr (foldl (+) 0 (take n ?t), foldl (+) 0 (take n ?a))" if "n \<le> length ?t" for n
    using that
  proof (induction n)
    case (Suc n)
    with assms show ?case
      by (simp add: fold_res_append take_Suc_conv_app_nth)
  qed simp
  from this [of "length ?t"] show ?thesis by (simp add: disk_sums_def)
qed

lemma fold_res_fault_kind:
  assumes "fold_res f xs s = Inl e" and "\<And>x s e. f x s = Inl e \<Longrightarrow> e = k"
  shows "e = k"
  using assms by (induction xs arbitrary: s) (auto simp: res_simps)

lemma disk_sums_fault:
  "disk_sums v = Inl f \<longleftrightarrow> f = OutOfBounds \<and> length (diskAvailableInfo v) < length (diskTotalInfo v)"
proof
  assume fault: "disk_sums v = Inl f"
  then have "\<not> length (diskTotalInfo v) \<le> length (diskAvailableInfo v)"
    using disk_sums_eq [of v] by auto
  moreover have "f = OutOfBounds"
    using fault unfolding disk_sums_def
    by (rule fold_res_fault_kind) (auto simp: res_simps split: prod.splits)
  ultimately show "f = OutOfBounds \<and> length (diskAvailableInfo v) < length (diskTotalInfo v)" by simp
next
  assume f: "f = OutOfBounds \<and> length (diskAvailableInfo v) < length (diskTotalInfo v)"
  let ?step = "\<lambda>i (diskTotal, diskAvailable).
      bind_res (nth_res (diskTotalInfo v) i) (\<lambda>t. bind_res (nth_res (diskAvailableInfo v) i) (\<lambda>a.
        Inr (diskTotal + t, diskAvailable + a)))"
  have "\<exists>e. fold_res ?step xs s = Inl e"
    if "x \<in> set xs" "length (diskAvailableInfo v) \<le> x" for xs s x
    using that
  proof (induction xs arbitrary: s)
    case (Cons y ys)
    then show ?case
      by (cases "?step y s") (auto simp: res_simps split: prod.splits)
  qed simp
  from this [of "length (diskAvailableInfo v)" "[0..<length (diskTotalInfo v)]" "(0, 0)"] f
  obtain e where e: "disk_sums v = Inl e" by (auto simp: disk_sums_def)
  then have "e = OutOfBounds"
    unfolding disk_sums_def
    by (rule fold_res_fault_kind) (auto simp: res_simps split: prod.splits)
  with e f show "disk_sums v = Inl f" by simp
qed

lemma set_network_indices: "set (network_indices v 0) = {i. even i \<and> i < length (ethFirstInfo v)}"
  by (auto simp: network_indices_def)

lemma ok_upto_iff:
  "(\<forall>x \<in> set [0..<n]. \<exists>y. f x = Inr y) \<longleftrightarrow> (\<forall>i < n. \<exists>y. f i = Inr y)"
  by auto

lemma cpu_ok_iff:
  "(\<exists>cs. map_res (cpu_entry J v) [0..<length (cpuMHz v)] = Inr cs) \<longleftrightarrow>
   length (cpuMHz v) \<le> length (cpuSourceAvailable v) \<and> length (cpuMHz v) \<le> length (cpuCores v)"
proof -
  have "(\<exists>y. cpu_entry J v i = Inr y) \<longleftrightarrow>
      i < length (cpuSourceAvailable v) \<and> i < length (cpuMHz v) \<and> i < length (cpuCores v)" for i
    by (auto simp: cpu_entry_def res_simps)
  then show ?thesis
    unfolding map_res_ok_iff ok_upto_iff by (simp flip: all_less_within) blast
qed

lemma docker_ok_iff:
  "(\<exists>ds. map_res (docker_entry J v) [0..<length (dockerIDInfo v)] = Inr ds) \<longleftrightarrow>
   length (dockerIDInfo v) \<le> length (dockerCpuInfo v) \<and>
   length (dockerIDInfo v) \<le> length (dockerMemoryUsageInfo v) \<and>
   length (dockerIDInfo v) \<le> length (dockerMemoryLimitInfo v) \<and>
   length (dockerIDInfo v) \<le> length (dockerMemoryInfo v)"
proof -
  have "(\<exists>y. docker_entry J v i = Inr y) \<longleftrightarrow>
      i < length (dockerIDInfo v) \<and> i < length (dockerCpuInfo v) \<and>
      i < length (dockerMemoryUsageInfo v) \<and> i < length (dockerMemoryLimitInfo v) \<and>
      i < length (dockerMemoryInfo v)" for i
    by (auto simp: docker_entry_def res_simps)
  then show ?thesis
    unfolding map_res_ok_iff ok_upto_iff by (simp flip: all_less_within) blast
qed

lemma pairs_within:
  "(\<forall>i. even i \<longrightarrow> i < n \<longrightarrow> i + 1 < n \<and> i + 1 < m) \<longleftrightarrow> even n \<and> n \<le> (m :: nat)"
proof
  assume *: "\<forall>i. even i \<longrightarrow> i < n \<longrightarrow> i + 1 < n \<and> i + 1 < m"
  show "even n \<and> n \<le> m"
  proof (cases "even n")
    case True
    show ?thesis
    proof (cases "n = 0")
      case False
      with True obtain k where "n = 2 * k" "0 < k" by auto
      with * [rule_format, of "2 * (k - 1)"] show ?thesis by auto
    qed simp
  next
    case False
    then obtain k where "n = 2 * k + 1" by (auto elim: oddE)
    with * [rule_format, of "2 * k"] show ?thesis by simp
  qed
next
  assume n: "even n \<and> n \<le> m"
  show "\<forall>i. even i \<longrightarrow> i < n \<longrightarrow> i + 1 < n \<and> i + 1 < m"
  proof (intro allI impI)
    fix i assume i: "even i" "i < n"
    then have "i + 1 \<noteq> n" using n by auto
    with i n show "i + 1 < n \<and> i + 1 < m" by simp
  qed
qed

lemma network_ok_iff:
  "(\<exists>ns. map_res (network_entry J v) (network_indices v 0) = Inr ns) \<longleftrightarrow>
   even (length (ethFirstInfo v)) \<and> length (ethFirstInfo v) \<le> length (ethSecondInfo v)"
proof -
  have "(\<exists>y. network_entry J v i = Inr y) \<longleftrightarrow>
      i + 1 < length (ethFirstInfo v) \<and> i + 1 < length (ethSecondInfo v)" for i
    by (auto simp: network_entry_def res_simps)
  then show ?thesis
    by (simp add: map_res_ok_iff set_network_indices imp_conjL flip: pairs_within)
qed

lemma disk_ok_iff:
  "(\<exists>t. disk_sums v = Inr t) \<longleftrightarrow> length (diskTotalInfo v) \<le> length (diskAvailableInfo v)"
  using disk_sums_eq [of v] disk_sums_fault [of v OutOfBounds] by (cases "disk_sums v") auto

lemma memory_ok_iff:
  "(\<exists>m. memory_entry J v = Inr m) \<longleftrightarrow> memoryTotalInfo v \<noteq> [] \<and> memoryAvailableInfo v \<noteq> []"
  by (auto simp: memory_entry_def res_simps)

lemma map_res_fault_kind:
  "map_res g xs = Inl f \<Longrightarrow> (\<And>x e. g x = Inl e \<Longrightarrow> e = k) \<Longrightarrow> f = k"
  by (auto simp: map_res_Inl)

lemma data_to_json_fault_kind: "data_to_json J v = Inl f \<Longrightarrow> f = OutOfBounds"
proof -
  have cpu: "map_res (cpu_entry J v) xs = Inl e \<Longrightarrow> e = OutOfBounds" for xs e
    by (erule map_res_fault_kind) (simp add: cpu_entry_fault)
  have docker: "map_res (docker_entry J v) xs = Inl e \<Longrightarrow> e = OutOfBounds" for xs e
    by (erule map_res_fault_kind) (simp add: docker_entry_fault)
  have network: "map_res (network_entry J v) xs = Inl e \<Longrightarrow> e = OutOfBounds" for xs e
    by (erule map_res_fault_kind) (simp add: network_entry_fault)
  assume "data_to_json J v = Inl f"
  then show ?thesis
    by (auto simp: data_to_json_pushes res_simps memory_entry_fault disk_sums_fault
        dest!: cpu docker network split: prod.splits)
qed

lemma data_to_json_ok_iff: "(\<exists>doc. data_to_json J v = Inr doc) \<longleftrightarrow> vectors_ok v"
proof -
  have "(\<exists>doc. data_to_json J v = Inr doc) \<longleftrightarrow>
      (\<exists>cs. map_res (cpu_entry J v) [0..<length (cpuMHz v)] = Inr cs) \<and>
      (\<exists>ds. map_res (docker_entry J v) [0..<length (dockerIDInfo v)] = Inr ds) \<and>
      (\<exists>m. memory_entry J v = Inr m) \<and> (\<exists>t. disk_sums v = Inr t) \<and>
      (\<exists>ns. map_res (network_entry J v) (network_indices v 0) = Inr ns) \<and>
      macAddressId v \<noteq> [] \<and> locationInfo v \<noteq> [] \<and> timestampInfo v \<noteq> []"
    by (auto simp: data_to_json_pushes res_simps split: prod.splits)
  then show ?thesis
    unfolding cpu_ok_iff docker_ok_iff memory_ok_iff disk_ok_iff network_ok_iff vectors_ok_def
    by blast
qed

end
