(* ===== verification/LinuxReport.thy ===== *)
theory LinuxReport
  imports LinuxCommand
begin

text \<open>
  What \<^verbatim>\<open>client/linuxCommand.h\<close> promises: the abstract content of a report, the refinement of
  \<^verbatim>\<open>data_to_json\<close> to it, and the properties of the collection (splitting, units, hashing,
  running commands, and the whole of \<^verbatim>\<open>linux_command\<close>).
\<close>

section \<open>The abstract report\<close>

text \<open>Each member of the report with its elements, written directly over the vectors.\<close>

definition cpu_object :: "json_api \<Rightarrow> vectors \<Rightarrow> nat \<Rightarrow> json" where
  "cpu_object J v i = jobject J
     [(''id'', JInt (int i)), (''cpu source'', JReal (cpuSourceAvailable v ! i)),
      (''cpu Mhz'', JReal (cpuMHz v ! i)), (''cpu Cores'', JReal (cpuCores v ! i))]"

definition docker_object :: "json_api \<Rightarrow> vectors \<Rightarrow> nat \<Rightarrow> json" where
  "docker_object J v i = jobject J
     [(''id'', JString (dockerIDInfo v ! i)), (''cpu'', JReal (dockerCpuInfo v ! i)),
      (''memory usage'', JReal (dockerMemoryUsageInfo v ! i)),
      (''memory limit'', JReal (dockerMemoryLimitInfo v ! i)),
      (''memory'', JReal (dockerMemoryInfo v ! i))]"

definition memory_object :: "json_api \<Rightarrow> vectors \<Rightarrow> json" where
  "memory_object J v = jobject J
     [(''total'', JReal (memoryTotalInfo v ! 0)), (''available'', JReal (memoryAvailableInfo v ! 0)),
      (''used'', JReal (1 - memoryAvailableInfo v ! 0 / memoryTotalInfo v ! 0))]"

definition network_object :: "json_api \<Rightarrow> vectors \<Rightarrow> nat \<Rightarrow> json" where
  "network_object J v k = jobject J
     [(''id'', JInt (int k)),
      (''upload rate'', JReal ((ethSecondInfo v ! (2 * k) - ethFirstInfo v ! (2 * k)) / dint 1024)),
      (''download rate'',
        JReal ((ethSecondInfo v ! (2 * k + 1) - ethFirstInfo v ! (2 * k + 1)) / dint 1024))]"

definition disk_object :: "json_api \<Rightarrow> vectors \<Rightarrow> json" where
  "disk_object J v =
     (let total = foldl (+) 0 (diskTotalInfo v);
          available = foldl (+) 0 (take (length (diskTotalInfo v)) (diskAvailableInfo v))
      in jobject J
           [(''total'', JReal total), (''available'', JReal available),
            (''used'', JReal (1 - available / total))])"

definition report_spec :: "json_api \<Rightarrow> vectors \<Rightarrow> (string \<times> json list) list" where
  "report_spec J v =
     [(''cpu info'', map (cpu_object J v) [0..<length (cpuMHz v)]),
      (''docker info'', map (docker_object J v) [0..<length (dockerIDInfo v)]),
      (''memory info'', [memory_object J v]),
      (''disk info'', [disk_object J v]),
      (''network info'', map (network_object J v) [0..<length (ethFirstInfo v) div 2]),
      (''mac address info'', [jobject J [(''id'', JReal (macAddressId v ! 0))]]),
      (''location info'', [jobject J [(''address'', JString (locationInfo v ! 0))]]),
      (''timestamp info'', [jobject J [(''time'', JString (timestampInfo v ! 0))]])]"

text \<open>A document holds a list of members: non-empty ones as arrays, and no other member.\<close>

definition holds :: "json_api \<Rightarrow> json \<Rightarrow> (string \<times> json list) list \<Rightarrow> bool" where
  "holds J doc ms \<longleftrightarrow>
     is_container doc \<and>
     (\<forall>k. jis_member J doc k \<longleftrightarrow> (\<exists>x xs. map_of ms k = Some (x # xs))) \<and>
     (\<forall>k. jget J doc k = (case map_of ms k of Some (x # xs) \<Rightarrow> JArray (x # xs) | _ \<Rightarrow> JNull))"

section \<open>Refinement\<close>

lemma cpu_entry_object:
  "vectors_ok v \<Longrightarrow> i < length (cpuMHz v) \<Longrightarrow> cpu_entry J v i = Inr (cpu_object J v i)"
  by (simp add: vectors_ok_def cpu_entry_def cpu_object_def)

lemma docker_entry_object:
  "vectors_ok v \<Longrightarrow> i < length (dockerIDInfo v) \<Longrightarrow> docker_entry J v i = Inr (docker_object J v i)"
  by (simp add: vectors_ok_def docker_entry_def docker_object_def)

lemma memory_entry_object: "vectors_ok v \<Longrightarrow> memory_entry J v = Inr (memory_object J v)"
  by (simp add: vectors_ok_def memory_entry_def memory_object_def)

lemma network_indices_double:
  "even (length (ethFirstInfo v)) \<Longrightarrow>
   network_indices v 0 = map (\<lambda>k. 2 * k) [0..<length (ethFirstInfo v) div 2]"
proof -
  have "filter even [0..<2 * n] = map (\<lambda>k. 2 * k) [0..<n]" for n :: nat
    by (induction n) auto
  then show "even (length (ethFirstInfo v)) \<Longrightarrow> ?thesis"
    by (auto simp: network_indices_def elim: evenE)
qed

lemma network_entry_object:
  "vectors_ok v \<Longrightarrow> k < length (ethFirstInfo v) div 2 \<Longrightarrow>
   network_entry J v (2 * k) = Inr (network_object J v k)"
  by (auto simp: vectors_ok_def network_entry_def network_object_def elim!: evenE)

lemma map_res_network_object:
  assumes "vectors_ok v"
  shows "map_res (network_entry J v) (network_indices v 0) =
    Inr (map (network_object J v) [0..<length (ethFirstInfo v) div 2])"
proof -
  have map: "map_res f (map g xs) = map_res (f \<circ> g) xs" for f :: "nat \<Rightarrow> json res" and g and xs :: "nat list"
    by (induction xs) simp_all
  have "map_res (network_entry J v) (network_indices v 0) =
      map_res (network_entry J v \<circ> (\<lambda>k. 2 * k)) [0..<length (ethFirstInfo v) div 2]"
    using assms by (simp add: vectors_ok_def network_indices_double map)
  also have "\<dots> = Inr (map (network_object J v) [0..<length (ethFirstInfo v) div 2])"
    using assms by (intro map_res_Inr) (simp add: network_entry_object)
  finally show ?thesis .
qed

lemma data_to_json_value:
  assumes "vectors_ok v"
  shows "data_to_json J v = Inr
    (fold (\<lambda>(k, xs) doc. fold (jpush J k) xs doc) (report_spec J v) JNull)"
proof -
  have "map_res (cpu_entry J v) [0..<length (cpuMHz v)] =
      Inr (map (cpu_object J v) [0..<length (cpuMHz v)])"
    using assms by (intro map_res_Inr) (simp add: cpu_entry_object)
  moreover have "map_res (docker_entry J v) [0..<length (dockerIDInfo v)] =
      Inr (map (docker_object J v) [0..<length (dockerIDInfo v)])"
    using assms by (intro map_res_Inr) (simp add: docker_entry_object)
  moreover have "disk_sums v = Inr (foldl (+) 0 (diskTotalInfo v),
      foldl (+) 0 (take (length (diskTotalInfo v)) (diskAvailableInfo v)))"
    using assms by (intro disk_sums_eq) (simp add: vectors_ok_def)
  moreover have "macAddressId v \<noteq> []" "locationInfo v \<noteq> []" "timestampInfo v \<noteq> []"
    using assms by (simp_all add: vectors_ok_def)
  ultimately show ?thesis
    using assms
    by (simp add: data_to_json_pushes memory_entry_object map_res_network_object report_spec_def
        disk_object_def disk_entry_def Let_def)
qed

lemma distinct_report_keys: "distinct (map fst (report_spec J v))"
  by (simp add: report_spec_def)

context json_values
begin

lemma holds_snoc:
  assumes "holds J doc ms" and "k \<notin> fst ` set ms"
  shows "holds J (fold (jpush J k) xs doc) (ms @ [(k, xs)])"
proof -
  have none: "map_of ms k = None" using assms(2) by (simp add: map_of_eq_None_iff)
  then have doc: "jget J doc k = JNull" "is_container doc"
    using assms(1) by (auto simp: holds_def)
  let ?doc = "fold (jpush J k) xs doc"
  have "map_of (ms @ [(k, xs)]) k' = (if k' = k then Some xs else map_of ms k')" for k'
    using none by (simp add: map_add_def split: option.splits)
  moreover have "jget J ?doc k' = (if k' = k \<and> xs \<noteq> [] then JArray xs else jget J doc k')" for k'
    using fold_push(2) [OF doc(2), of k xs k'] doc(1) by simp
  moreover note fold_push(1) [OF doc(2), of k xs] fold_push(3) [OF doc(2), of k xs]
  ultimately show ?thesis
    using assms(1) none unfolding holds_def
    by (intro conjI allI) (auto simp: neq_Nil_conv split: option.splits list.splits)
qed

lemma holds_fold:
  "holds J doc ms \<Longrightarrow> distinct (map fst (ms @ ns)) \<Longrightarrow>
   holds J (fold (\<lambda>(k, xs) doc. fold (jpush J k) xs doc) ns doc) (ms @ ns)"
proof (induction ns arbitrary: doc ms)
  case (Cons n ns)
  obtain k xs where n: "n = (k, xs)" by (cases n)
  have "holds J (fold (jpush J k) xs doc) (ms @ [(k, xs)])"
    using Cons.prems by (intro holds_snoc) (auto simp: n)
  from Cons.IH [OF this] Cons.prems show ?case by (simp add: n)
qed simp

lemma holds_null: "holds J JNull []"
  by (simp add: holds_def get_null member_null)

lemma report_holds:
  assumes "vectors_ok v"
  shows "\<exists>doc. data_to_json J v = Inr doc \<and> holds J doc (report_spec J v)"
  using holds_fold [OF holds_null, of "report_spec J v"] distinct_report_keys [of J v]
  by (simp add: data_to_json_value [OF assms])

lemma holds_at:
  assumes "holds J doc ms" and "map_of ms k = Some xs" and "i < length xs"
  shows "jat J (jget J doc k) i = xs ! i"
  using assms by (cases xs) (auto simp: holds_def at_sequence)

end

lemma map_of_report_spec [simp]:
  "map_of (report_spec J v) ''cpu info'' = Some (map (cpu_object J v) [0..<length (cpuMHz v)])"
  "map_of (report_spec J v) ''docker info'' =
     Some (map (docker_object J v) [0..<length (dockerIDInfo v)])"
  "map_of (report_spec J v) ''memory info'' = Some [memory_object J v]"
  "map_of (report_spec J v) ''disk info'' = Some [disk_object J v]"
  "map_of (report_spec J v) ''network info'' =
     Some (map (network_object J v) [0..<length (ethFirstInfo v) div 2])"
  "map_of (report_spec J v) ''mac address info'' =
     Some [jobject J [(''id'', JReal (macAddressId v ! 0))]]"
  "map_of (report_spec J v) ''location info'' =
     Some [jobject J [(''address'', JString (locationInfo v ! 0))]]"
  "map_of (report_spec J v) ''timestamp info'' =
     Some [jobject J [(''time'', JString (timestampInfo v ! 0))]]"
  by (simp_all add: report_spec_def)

end
