(* ===== verification/HostReport.thy ===== *)
theory HostReport
  imports LinuxReport
begin

text \<open>
  The abstract state of a machine, as the commands of \<^verbatim>\<open>client/linuxCommand.h\<close> print it, and
  the report that \<^verbatim>\<open>linux_command\<close> must make of it. The refinement lemma goes through the
  text: what the commands print, the reading of the lines, the splitting of the columns of
  \<^verbatim>\<open>docker stats\<close>, and the rounding of the arithmetic.
\<close>

section \<open>Arithmetic on whole numbers\<close>

lemma is_neg_dint: "\<bar>n\<bar> \<le> 2 ^ 53 \<Longrightarrow> is_neg (dint n) \<longleftrightarrow> n < 0"
proof -
  assume n: "\<bar>n\<bar> \<le> 2 ^ 53"
  consider "0 < n" | "n = 0" | "n < 0" by linarith
  then show ?thesis
  proof cases
    case 2
    then show ?thesis by (simp add: dint_def round_mag_def)
  qed (use n dint_exact [OF n] is_neg_pos [of "dint n"] is_neg_neg [of "dint n"] in auto)
qed

lemma dint_0: "dint 0 = 0"
  by (simp add: dint_def round_mag_def zero_double_def)

lemma dint_plus:
  assumes "\<bar>m\<bar> \<le> 2 ^ 53" "\<bar>n\<bar> \<le> 2 ^ 53"
  shows "dint m + dint n = dint (m + n)"
proof -
  note m = dint_exact [OF assms(1)] and n = dint_exact [OF assms(2)]
  have s: "dval (dint m) + dval (dint n) = (of_int (m + n) :: rat)" by (simp add: m n)
  show ?thesis
  proof (cases "m + n = 0")
    case True
    then have "dadd (dint m) (dint n) = dzero (is_neg (dint m) \<and> is_neg (dint n))"
      using m n s by (simp add: dadd_def Let_def)
    moreover have "\<not> (is_neg (dint m) \<and> is_neg (dint n))"
      using True assms by (simp add: is_neg_dint)
    ultimately show ?thesis using True dint_0 by (simp add: plus_double_def zero_double_def)
  next
    case False
    have sgn: "(rat_of_int m + rat_of_int n < 0) = (m + n < 0)"
      by (metis of_int_add of_int_less_0_iff)
    have mag: "\<bar>rat_of_int m + rat_of_int n\<bar> = of_int \<bar>m + n\<bar>"
      by (simp only: of_int_add of_int_abs)
    have nz: "rat_of_int m + rat_of_int n \<noteq> 0"
      using False by (metis of_int_add of_int_eq_0_iff)
    have "dadd (dint m) (dint n) = round_mag (m + n < 0) (of_int \<bar>m + n\<bar>)"
      using m n nz unfolding sgn [symmetric] mag [symmetric] by (simp add: dadd_def Let_def)
    then show ?thesis by (simp only: plus_double_def dint_def)
  qed
qed

lemma foldl_dint:
  assumes "\<forall>n \<in> set ns. 0 \<le> n" "0 \<le> a" "a + sum_list ns \<le> 2 ^ 53"
  shows "foldl (+) (dint a) (map dint ns) = dint (a + sum_list ns)"
  using assms
proof (induction ns arbitrary: a)
  case (Cons n ns)
  have "0 \<le> sum_list ns" using Cons.prems(1) by (intro sum_list_nonneg) auto
  with Cons.prems have "dint a + dint n = dint (a + n)" by (intro dint_plus) auto
  with Cons.IH [of "a + n"] Cons.prems show ?case by (simp add: add.assoc)
qed simp

section \<open>Decimal numbers in text\<close>

text \<open>A number as a command prints it: digits, and a fraction unless it is empty.\<close>

datatype decimal = Decimal string string

fun decimal_text :: "decimal \<Rightarrow> string" where
  "decimal_text (Decimal ip fp) = ip @ (if fp = [] then [] else CHR ''.'' # fp)"

fun decimal_ok :: "decimal \<Rightarrow> bool" where
  "decimal_ok (Decimal ip fp) \<longleftrightarrow> digit_string ip \<and> ip \<noteq> [] \<and> digit_string fp"

text \<open>The double nearest to the number.\<close>

fun nearest :: "decimal \<Rightarrow> double" where
  "nearest (Decimal ip fp) =
     round_mag False (of_int (digits_value 10 (ip @ fp)) / of_int (10 ^ length fp))"

lemma atof_decimal:
  "decimal_ok d \<Longrightarrow> number_stop t \<Longrightarrow> atof (decimal_text d @ t) = nearest d"
  by (cases d) (auto simp: atof_point atof_whole)

lemma number_stop_newline [simp]: "number_stop (newline # t)"
  and number_stop_percent [simp]: "number_stop (CHR ''%'' # t)"
  by (simp_all add: number_stop_def isdigit_def code_of_def tolower_def)

lemma decimal_text_chars:
  "decimal_ok d \<Longrightarrow> c \<in> set (decimal_text d) \<Longrightarrow> isdigit c \<or> c = CHR ''.''"
  by (cases d) (auto simp: digit_string_def split: if_splits)

lemma decimal_text_nonempty [simp]: "decimal_ok d \<Longrightarrow> decimal_text d \<noteq> []"
  by (cases d) auto

lemma decimal_text_clean [simp]:
  "decimal_ok d \<Longrightarrow> newline \<notin> set (decimal_text d)"
  "decimal_ok d \<Longrightarrow> nul \<notin> set (decimal_text d)"
  "decimal_ok d \<Longrightarrow> CHR '' '' \<notin> set (decimal_text d)"
  by (auto dest: decimal_text_chars simp: isdigit_def code_of_def)

section \<open>Lines\<close>

definition text_lines :: "string list \<Rightarrow> string" where
  "text_lines ws = concat (map (\<lambda>w. w @ [newline]) ws)"

lemma store_result_lines:
  assumes "\<forall>w \<in> set ws. newline \<notin> set w \<and> nul \<notin> set w \<and> length w \<le> 97"
  shows "store_result (Some (text_lines ws)) store = Inr (store @ map (\<lambda>w. atof (w @ [newline])) ws)"
  using assms fgets_all_lines [of ws 97] by (simp add: store_result_def text_lines_def)

lemma store_result_decimals:
  assumes "\<forall>d \<in> set ds. decimal_ok d \<and> length (decimal_text d) \<le> 97"
  shows "store_result (Some (text_lines (map decimal_text ds))) [] = Inr (map nearest ds)"
proof -
  have "map (\<lambda>w. atof (w @ [newline])) (map decimal_text ds) = map nearest ds"
    using assms by (auto simp: atof_decimal)
  then show ?thesis
    using store_result_lines [of "map decimal_text ds" "[]"] assms by simp
qed

lemma store_result_numbers:
  assumes "\<forall>n \<in> set ns. 0 \<le> n \<and> n \<le> 2 ^ 53"
  shows "store_result (Some (number_lines ns)) [] = Inr (map dint ns)"
proof -
  have "(2 :: int) ^ 53 < 10 ^ 97" by simp
  with assms have "\<forall>n \<in> set ns. 0 \<le> n \<and> n < 10 ^ 97" by auto
  from store_result_number_lines [OF this] show ?thesis by simp
qed

lemma string_exec_lines:
  assumes "sh i c = Some (text_lines ws)"
    and "\<forall>w \<in> set ws. newline \<notin> set w \<and> nul \<notin> set w \<and> length w \<le> 997"
  shows "string_exec_command sh i c store = Inr (store @ map (\<lambda>w. w @ [newline]) ws)"
  using assms fgets_all_lines [of ws 997] by (simp add: string_exec_command_def text_lines_def)

section \<open>A line of docker stats\<close>

text \<open>
  The columns that the client reads: id, name, processor share, \<^verbatim>\<open>usage / limit\<close>, memory share;
  then whatever columns follow. Columns are separated by one or more blanks.
\<close>

record docker_stat =
  ds_id :: string
  ds_name :: string
  ds_cpu :: decimal
  ds_usage :: decimal
  ds_usage_unit :: mem_unit
  ds_limit :: decimal
  ds_limit_unit :: mem_unit
  ds_mem :: decimal
  ds_pads :: "nat list"
  ds_rest :: string

definition docker_columns :: "docker_stat \<Rightarrow> string list" where
  "docker_columns d =
     [ds_id d, ds_name d, decimal_text (ds_cpu d) @ ''%'',
      decimal_text (ds_usage d) @ unit_text (ds_usage_unit d), ''/'',
      decimal_text (ds_limit d) @ unit_text (ds_limit_unit d), decimal_text (ds_mem d) @ ''%'']"

definition docker_text :: "docker_stat \<Rightarrow> string" where
  "docker_text d =
     concat (map (\<lambda>(w, n). w @ replicate (Suc n) (CHR '' '')) (zip (docker_columns d) (ds_pads d))) @
     ds_rest d"

definition word_ok :: "string \<Rightarrow> bool" where
  "word_ok w \<longleftrightarrow> w \<noteq> [] \<and> set w \<inter> {CHR '' '', newline, nul} = {}"

definition docker_stat_ok :: "docker_stat \<Rightarrow> bool" where
  "docker_stat_ok d \<longleftrightarrow>
     word_ok (ds_id d) \<and> word_ok (ds_name d) \<and>
     decimal_ok (ds_cpu d) \<and> decimal_ok (ds_usage d) \<and> decimal_ok (ds_limit d) \<and> decimal_ok (ds_mem d) \<and>
     length (ds_pads d) = 7 \<and> newline \<notin> set (ds_rest d) \<and> nul \<notin> set (ds_rest d) \<and>
     length (docker_text d) \<le> 997"

definition amount :: "decimal \<Rightarrow> mem_unit \<Rightarrow> double" where
  "amount d u = (if u = KiB then nearest d else nearest d * dint (unit_factor u))"

definition docker_stat_row :: "docker_stat \<Rightarrow> docker_row" where
  "docker_stat_row d =
     \<lparr>docker_id = ds_id d, docker_cpu = nearest (ds_cpu d),
      docker_usage = amount (ds_usage d) (ds_usage_unit d),
      docker_limit = amount (ds_limit d) (ds_limit_unit d),
      docker_mem = nearest (ds_mem d)\<rparr>"

lemma unit_text_clean [simp]:
  "unit_text u \<noteq> []" "newline \<notin> set (unit_text u)" "nul \<notin> set (unit_text u)"
  "CHR '' '' \<notin> set (unit_text u)"
  by (cases u; simp)+

lemma docker_columns_ok: "docker_stat_ok d \<Longrightarrow> w \<in> set (docker_columns d) \<Longrightarrow> word_ok w"
  by (auto simp: docker_stat_ok_def docker_columns_def word_ok_def)

lemma docker_text_clean:
  assumes "docker_stat_ok d"
  shows "newline \<notin> set (docker_text d)" and "nul \<notin> set (docker_text d)"
  using assms docker_columns_ok [OF assms]
  by (auto simp: docker_text_def docker_stat_ok_def word_ok_def dest!: set_zip_leftD)

lemma strtok_words_append:
  assumes "\<forall>(w, g) \<in> set ps. w \<noteq> [] \<and> set w \<inter> set d = {} \<and> g \<noteq> [] \<and> set g \<subseteq> set d"
  shows "strtok_all d (concat (map (\<lambda>(w, g). w @ g) ps) @ s) = map fst ps @ strtok_all d s"
  using assms
proof (induction ps)
  case (Cons p ps)
  then show ?case by (cases p) (simp add: strtok_word)
qed simp

lemma split_docker_text:
  assumes "docker_stat_ok d"
  shows "\<exists>more. split_str (docker_text d @ [newline]) '' '' = docker_columns d @ more"
proof -
  let ?ps = "map (\<lambda>(w, n). (w, replicate (Suc n) (CHR '' ''))) (zip (docker_columns d) (ds_pads d))"
  have len: "length (docker_columns d) = length (ds_pads d)"
    using assms by (simp add: docker_columns_def docker_stat_ok_def)
  have "strtok_all '' '' (concat (map (\<lambda>(w, g). w @ g) ?ps) @ ds_rest d @ [newline]) =
      map fst ?ps @ strtok_all '' '' (ds_rest d @ [newline])"
    using docker_columns_ok [OF assms]
    by (intro strtok_words_append) (auto simp: word_ok_def dest!: set_zip_leftD)
  moreover have "map fst ?ps = docker_columns d"
    using map_fst_zip [OF len] by (simp only: map_map comp_def case_prod_unfold fst_conv)
  moreover have "docker_text d @ [newline] =
      concat (map (\<lambda>(w, g). w @ g) ?ps) @ ds_rest d @ [newline]"
    by (simp add: docker_text_def comp_def case_prod_unfold)
  moreover have "cstr (docker_text d @ [newline]) = docker_text d @ [newline]"
    using docker_text_clean(2) [OF assms] by (intro cstr_id) simp
  ultimately show ?thesis by (auto simp: split_str_def)
qed

lemma docker_line_text:
  assumes "docker_stat_ok d"
  shows "docker_line (docker_text d @ [newline]) = Inr (docker_stat_row d)"
proof -
  obtain more where "split_str (docker_text d @ [newline]) '' '' = docker_columns d @ more"
    using split_docker_text [OF assms] by auto
  with assms show ?thesis
    by (simp add: docker_line_def docker_columns_def docker_stat_row_def docker_stat_ok_def
        memory_amount_unit atof_decimal amount_def)
qed

section \<open>A machine and its report\<close>

record cpu_stat =
  cs_idle :: decimal
  cs_mhz :: decimal
  cs_cores :: int

record disk_stat =
  dk_total :: int
  dk_available :: int

text \<open>An interface with its byte counters, one second apart.\<close>

record net_stat =
  nt_rx :: int
  nt_tx :: int
  nt_rx' :: int
  nt_tx' :: int

record host =
  h_cpus :: "cpu_stat list"
  h_mem_total :: int
  h_mem_available :: int
  h_disks :: "disk_stat list"
  h_nets :: "net_stat list"
  h_docker :: "docker_stat list"
  h_mac :: string
  h_date :: string

abbreviation count_ok :: "int \<Rightarrow> bool" where
  "count_ok n \<equiv> 0 \<le> n \<and> n \<le> 2 ^ 53"

definition line_ok :: "nat \<Rightarrow> string \<Rightarrow> bool" where
  "line_ok k w \<longleftrightarrow> newline \<notin> set w \<and> nul \<notin> set w \<and> length w \<le> k"

definition host_ok :: "host \<Rightarrow> bool" where
  "host_ok h \<longleftrightarrow>
     (\<forall>c \<in> set (h_cpus h).
        decimal_ok (cs_idle c) \<and> length (decimal_text (cs_idle c)) \<le> 97 \<and>
        decimal_ok (cs_mhz c) \<and> length (decimal_text (cs_mhz c)) \<le> 97 \<and> count_ok (cs_cores c)) \<and>
     count_ok (h_mem_total h) \<and> count_ok (h_mem_available h) \<and>
     (\<forall>d \<in> set (h_disks h). count_ok (dk_total d) \<and> count_ok (dk_available d)) \<and>
     sum_list (map dk_total (h_disks h)) \<le> 2 ^ 53 \<and> sum_list (map dk_available (h_disks h)) \<le> 2 ^ 53 \<and>
     (\<forall>n \<in> set (h_nets h). count_ok (nt_rx n) \<and> count_ok (nt_tx n) \<and>
        count_ok (nt_rx' n) \<and> count_ok (nt_tx' n)) \<and>
     (\<forall>d \<in> set (h_docker h). docker_stat_ok d) \<and> line_ok 997 (h_mac h) \<and> line_ok 997 (h_date h)"

definition pair_list :: "('a \<Rightarrow> 'b) \<Rightarrow> ('a \<Rightarrow> 'b) \<Rightarrow> 'a list \<Rightarrow> 'b list" where
  "pair_list f g xs = concat (map (\<lambda>x. [f x, g x]) xs)"

text \<open>What the commands print on the machine.\<close>

definition shell_shows :: "shell \<Rightarrow> host \<Rightarrow> bool" where
  "shell_shows sh h \<longleftrightarrow>
     sh 0 cmd_cpu_source = Some (text_lines (map (decimal_text \<circ> cs_idle) (h_cpus h))) \<and>
     sh 1 cmd_cpu_mhz = Some (text_lines (map (decimal_text \<circ> cs_mhz) (h_cpus h))) \<and>
     sh 2 cmd_cpu_cores = Some (number_lines (map cs_cores (h_cpus h))) \<and>
     sh 3 cmd_memory_total = Some (number_lines [h_mem_total h]) \<and>
     sh 4 cmd_memory_available = Some (number_lines [h_mem_available h]) \<and>
     sh 5 cmd_disk_total = Some (number_lines (map dk_total (h_disks h))) \<and>
     sh 6 cmd_disk_available = Some (number_lines (map dk_available (h_disks h))) \<and>
     sh 7 cmd_network = Some (number_lines (pair_list nt_rx nt_tx (h_nets h))) \<and>
     sh 8 cmd_network = Some (number_lines (pair_list nt_rx' nt_tx' (h_nets h))) \<and>
     sh 9 cmd_docker = Some (text_lines (map docker_text (h_docker h))) \<and>
     sh 10 cmd_mac = Some (text_lines [h_mac h]) \<and>
     sh 11 cmd_date = Some (text_lines [h_date h])"

text \<open>The report on the machine, over its exact numbers.\<close>

definition host_report :: "json_api \<Rightarrow> host \<Rightarrow> string \<Rightarrow> (string \<times> json list) list" where
  "host_report J h location =
     [(''cpu info'', map (\<lambda>i. let c = h_cpus h ! i in jobject J
         [(''id'', JInt (int i)), (''cpu source'', JReal (nearest (cs_idle c))),
          (''cpu Mhz'', JReal (nearest (cs_mhz c))), (''cpu Cores'', JReal (dint (cs_cores c)))])
         [0..<length (h_cpus h)]),
      (''docker info'', map (\<lambda>d. jobject J
         [(''id'', JString (ds_id d)), (''cpu'', JReal (nearest (ds_cpu d))),
          (''memory usage'', JReal (amount (ds_usage d) (ds_usage_unit d))),
          (''memory limit'', JReal (amount (ds_limit d) (ds_limit_unit d))),
          (''memory'', JReal (nearest (ds_mem d)))]) (h_docker h)),
      (''memory info'', [jobject J
         [(''total'', JReal (dint (h_mem_total h))), (''available'', JReal (dint (h_mem_available h))),
          (''used'', JReal (1 - dint (h_mem_available h) / dint (h_mem_total h)))]]),
      (''disk info'', [let t = dint (sum_list (map dk_total (h_disks h)));
                           a = dint (sum_list (map dk_available (h_disks h)))
                       in jobject J
         [(''total'', JReal t), (''available'', JReal a), (''used'', JReal (1 - a / t))]]),
      (''network info'', map (\<lambda>k. let n = h_nets h ! k in jobject J
         [(''id'', JInt (int k)),
          (''upload rate'', JReal ((dint (nt_rx' n) - dint (nt_rx n)) / dint 1024)),
          (''download rate'', JReal ((dint (nt_tx' n) - dint (nt_tx n)) / dint 1024))])
         [0..<length (h_nets h)]),
      (''mac address info'', [jobject J [(''id'', JReal (stringToHashCode (h_mac h @ [newline])))]]),
      (''location info'', [jobject J [(''address'', JString location)]]),
      (''timestamp info'', [jobject J [(''time'', JString (h_date h @ [newline]))]])]"

text \<open>The vectors that the collection fills.\<close>

definition host_vectors :: "host \<Rightarrow> string \<Rightarrow> vectors" where
  "host_vectors h location =
     \<lparr>cpuSourceAvailable = map (nearest \<circ> cs_idle) (h_cpus h), cpuMHz = map (nearest \<circ> cs_mhz) (h_cpus h),
      cpuCores = map dint (map cs_cores (h_cpus h)),
      memoryTotalInfo = [dint (h_mem_total h)], memoryAvailableInfo = [dint (h_mem_available h)],
      diskTotalInfo = map dint (map dk_total (h_disks h)),
      diskAvailableInfo = map dint (map dk_available (h_disks h)),
      ethFirstInfo = map dint (pair_list nt_rx nt_tx (h_nets h)),
      ethSecondInfo = map dint (pair_list nt_rx' nt_tx' (h_nets h)),
      dockerIDInfo = map docker_id (map docker_stat_row (h_docker h)),
      dockerCpuInfo = map docker_cpu (map docker_stat_row (h_docker h)),
      dockerMemoryUsageInfo = map docker_usage (map docker_stat_row (h_docker h)),
      dockerMemoryLimitInfo = map docker_limit (map docker_stat_row (h_docker h)),
      dockerMemoryInfo = map docker_mem (map docker_stat_row (h_docker h)),
      macAddressId = [stringToHashCode (h_mac h @ [newline])],
      locationInfo = [location], timestampInfo = [h_date h @ [newline]]\<rparr>"

lemma length_pair_list [simp]: "length (pair_list f g xs) = 2 * length xs"
  by (induction xs) (simp_all add: pair_list_def)

lemma nth_pair_list [simp]:
  "k < length xs \<Longrightarrow> pair_list f g xs ! (2 * k) = f (xs ! k)"
  "k < length xs \<Longrightarrow> pair_list f g xs ! Suc (2 * k) = g (xs ! k)"
proof (induction xs arbitrary: k)
  case (Cons x xs)
  case 1 with Cons show ?case by (cases k) (simp_all add: pair_list_def)
  case 2 with Cons show ?case by (cases k) (simp_all add: pair_list_def)
qed simp_all

lemma set_pair_list: "n \<in> set (pair_list f g xs) \<longleftrightarrow> (\<exists>x \<in> set xs. n = f x \<or> n = g x)"
  by (auto simp: pair_list_def)

lemma host_vectors_ok: "vectors_ok (host_vectors h location)"
  by (simp add: vectors_ok_def host_vectors_def)

lemma foldl_dint_0:
  "\<forall>n \<in> set ns. 0 \<le> n \<Longrightarrow> sum_list ns \<le> 2 ^ 53 \<Longrightarrow> foldl (+) 0 (map dint ns) = dint (sum_list ns)"
  using foldl_dint [of ns 0] by (simp add: dint_0)

lemma host_report_vectors:
  assumes "host_ok h"
  shows "report_spec J (host_vectors h location) = host_report J h location"
proof -
  have "foldl (+) 0 (map dint (map dk_total (h_disks h))) = dint (sum_list (map dk_total (h_disks h)))"
    "foldl (+) 0 (map dint (map dk_available (h_disks h))) =
       dint (sum_list (map dk_available (h_disks h)))"
    using assms unfolding host_ok_def by (intro foldl_dint_0; force)+
  then have disk: "disk_object J (host_vectors h location) =
      (let t = dint (sum_list (map dk_total (h_disks h)));
           a = dint (sum_list (map dk_available (h_disks h)))
       in jobject J [(''total'', JReal t), (''available'', JReal a), (''used'', JReal (1 - a / t))])"
    by (simp add: disk_object_def disk_entry_def host_vectors_def Let_def del: map_map)
  have docker: "map (docker_object J (host_vectors h location)) [0..<length (h_docker h)] =
      map (\<lambda>d. jobject J
         [(''id'', JString (ds_id d)), (''cpu'', JReal (nearest (ds_cpu d))),
          (''memory usage'', JReal (amount (ds_usage d) (ds_usage_unit d))),
          (''memory limit'', JReal (amount (ds_limit d) (ds_limit_unit d))),
          (''memory'', JReal (nearest (ds_mem d)))]) (h_docker h)"
    by (rule nth_equalityI) (simp_all add: docker_object_def host_vectors_def docker_stat_row_def)
  have cpu: "map (cpu_object J (host_vectors h location)) [0..<length (h_cpus h)] =
      map (\<lambda>i. let c = h_cpus h ! i in jobject J
         [(''id'', JInt (int i)), (''cpu source'', JReal (nearest (cs_idle c))),
          (''cpu Mhz'', JReal (nearest (cs_mhz c))), (''cpu Cores'', JReal (dint (cs_cores c)))])
         [0..<length (h_cpus h)]"
    by (simp add: cpu_object_def host_vectors_def Let_def)
  have net: "map (network_object J (host_vectors h location)) [0..<length (h_nets h)] =
      map (\<lambda>k. let n = h_nets h ! k in jobject J
         [(''id'', JInt (int k)),
          (''upload rate'', JReal ((dint (nt_rx' n) - dint (nt_rx n)) / dint 1024)),
          (''download rate'', JReal ((dint (nt_tx' n) - dint (nt_tx n)) / dint 1024))])
         [0..<length (h_nets h)]"
    by (simp add: network_object_def host_vectors_def Let_def)
  have sizes: "length (cpuMHz (host_vectors h location)) = length (h_cpus h)"
    "length (dockerIDInfo (host_vectors h location)) = length (h_docker h)"
    "length (ethFirstInfo (host_vectors h location)) div 2 = length (h_nets h)"
    by (simp_all add: host_vectors_def)
  show ?thesis
    unfolding report_spec_def host_report_def sizes disk docker cpu net
    by (simp add: memory_object_def host_vectors_def)
qed

lemma linux_command_vectors:
  assumes "shell_shows sh h" "host_ok h"
  shows "linux_command J sh location = data_to_json J (host_vectors h location)"
proof -
  have dec: "store_result (Some (text_lines (map (decimal_text \<circ> f) xs))) [] = Inr (map (nearest \<circ> f) xs)"
    if "\<forall>x \<in> set xs. decimal_ok (f x) \<and> length (decimal_text (f x)) \<le> 97" for f and xs :: "cpu_stat list"
    using store_result_decimals [of "map f xs"] that by simp
  have docker: "string_exec_command sh 9 cmd_docker [] =
      Inr (map (\<lambda>w. w @ [newline]) (map docker_text (h_docker h)))"
    using assms string_exec_lines [of sh 9 cmd_docker "map docker_text (h_docker h)" "[]"]
      docker_text_clean
    by (simp add: shell_shows_def host_ok_def docker_stat_ok_def)
  have rows: "map_res docker_line (map (\<lambda>w. w @ [newline]) (map docker_text ds)) =
      Inr (map docker_stat_row ds)" if "\<forall>d \<in> set ds. docker_stat_ok d" for ds
    using that by (induction ds) (simp_all add: docker_line_text)
  have mac: "string_exec_command sh 10 cmd_mac [] = Inr [h_mac h @ [newline]]"
    "string_exec_command sh 11 cmd_date [] = Inr [h_date h @ [newline]]"
    using assms string_exec_lines [of sh 10 cmd_mac "[h_mac h]" "[]"]
      string_exec_lines [of sh 11 cmd_date "[h_date h]" "[]"]
    by (simp_all add: shell_shows_def host_ok_def line_ok_def)
  have num: "exec_command sh i c [] = Inr (map dint ns)"
    if "sh i c = Some (number_lines ns)" "\<forall>n \<in> set ns. count_ok n" for i c ns
    using store_result_numbers [of ns] that by (simp add: exec_command_def)
  have net: "\<forall>n \<in> set (pair_list nt_rx nt_tx (h_nets h)). count_ok n"
    "\<forall>n \<in> set (pair_list nt_rx' nt_tx' (h_nets h)). count_ok n"
    using assms(2) by (auto simp: host_ok_def set_pair_list)
  have e: "exec_command sh 0 cmd_cpu_source [] = Inr (map (nearest \<circ> cs_idle) (h_cpus h))"
    "exec_command sh 1 cmd_cpu_mhz [] = Inr (map (nearest \<circ> cs_mhz) (h_cpus h))"
    using assms dec by (simp_all add: shell_shows_def host_ok_def exec_command_def)
  have n: "exec_command sh 2 cmd_cpu_cores [] = Inr (map dint (map cs_cores (h_cpus h)))"
    "exec_command sh 3 cmd_memory_total [] = Inr (map dint [h_mem_total h])"
    "exec_command sh 4 cmd_memory_available [] = Inr (map dint [h_mem_available h])"
    "exec_command sh 5 cmd_disk_total [] = Inr (map dint (map dk_total (h_disks h)))"
    "exec_command sh 6 cmd_disk_available [] = Inr (map dint (map dk_available (h_disks h)))"
    "exec_command sh 7 cmd_network [] = Inr (map dint (pair_list nt_rx nt_tx (h_nets h)))"
    "exec_command sh 8 cmd_network [] = Inr (map dint (pair_list nt_rx' nt_tx' (h_nets h)))"
    using assms net by (intro num; simp add: shell_shows_def host_ok_def)+
  have "\<forall>d \<in> set (h_docker h). docker_stat_ok d" using assms(2) by (simp add: host_ok_def)
  from rows [OF this] show ?thesis
    by (simp only: linux_command_def e n docker mac bind_res.simps host_vectors_def) simp
qed

end
