(* ===== verification/LinuxProperties.thy ===== *)
theory LinuxProperties
  imports HostReport
begin

text \<open>
  The properties of \<^verbatim>\<open>client/linuxCommand.h\<close>, each with a witness on a concrete machine or
  string where it has hypotheses.
\<close>

section \<open>Inputs for the witnesses\<close>

definition sample_docker :: docker_stat where
  "sample_docker =
     \<lparr>ds_id = ''3f4e'', ds_name = ''web'', ds_cpu = Decimal ''0'' ''50'',
      ds_usage = Decimal ''12'' ''5'', ds_usage_unit = MiB, ds_limit = Decimal ''2'' '''', ds_limit_unit = GiB,
      ds_mem = Decimal ''0'' ''61'', ds_pads = [2, 3, 2, 0, 0, 2, 2], ds_rest = ''1.2kB / 0B''\<rparr>"

definition sample_host :: host where
  "sample_host =
     \<lparr>h_cpus = [\<lparr>cs_idle = Decimal ''98'' ''50'', cs_mhz = Decimal ''2399'' ''5'', cs_cores = 2\<rparr>,
               \<lparr>cs_idle = Decimal ''97'' ''00'', cs_mhz = Decimal ''2399'' ''5'', cs_cores = 2\<rparr>],
      h_mem_total = 2048, h_mem_available = 512,
      h_disks = [\<lparr>dk_total = 1000, dk_available = 400\<rparr>, \<lparr>dk_total = 24, dk_available = 24\<rparr>],
      h_nets = [\<lparr>nt_rx = 1024, nt_tx = 0, nt_rx' = 3072, nt_tx' = 512\<rparr>],
      h_docker = [sample_docker], h_mac = ''00:16:3e:00:00:07'', h_date = ''2018-05-01 12:00:00''\<rparr>"

definition sample_shell :: shell where
  "sample_shell i c =
     (let h = sample_host
      in if i = 0 then Some (text_lines (map (decimal_text \<circ> cs_idle) (h_cpus h)))
         else if i = 1 then Some (text_lines (map (decimal_text \<circ> cs_mhz) (h_cpus h)))
         else if i = 2 then Some (number_lines (map cs_cores (h_cpus h)))
         else if i = 3 then Some (number_lines [h_mem_total h])
         else if i = 4 then Some (number_lines [h_mem_available h])
         else if i = 5 then Some (number_lines (map dk_total (h_disks h)))
         else if i = 6 then Some (number_lines (map dk_available (h_disks h)))
         else if i = 7 then Some (number_lines (pair_list nt_rx nt_tx (h_nets h)))
         else if i = 8 then Some (number_lines (pair_list nt_rx' nt_tx' (h_nets h)))
         else if i = 9 then Some (text_lines (map docker_text (h_docker h)))
         else if i = 10 then Some (text_lines [h_mac h])
         else Some (text_lines [h_date h]))"

lemma sample_host_ok: "host_ok sample_host"
  by code_simp

lemma sample_shell_shows: "shell_shows sample_shell sample_host"
  by (simp add: shell_shows_def sample_shell_def Let_def)

lemma ref_values: "json_values ref_json"
  by (rule ref.json_values_axioms)

text \<open>The report of the machine as the reference implementation builds it.\<close>

definition sample_doc :: json where
  "sample_doc =
     fold (\<lambda>(k, xs) doc. fold (jpush ref_json k) xs doc) (host_report ref_json sample_host ''lab'') JNull"

lemma sample_command: "linux_command ref_json sample_shell ''lab'' = Inr sample_doc"
  by (simp add: linux_command_vectors [OF sample_shell_shows sample_host_ok] data_to_json_value [OF host_vectors_ok]
      host_report_vectors [OF sample_host_ok] sample_doc_def)

lemma sample_doc_holds: "holds ref_json sample_doc (host_report ref_json sample_host ''lab'')"
  using ref.report_holds [OF host_vectors_ok, of sample_host "''lab''"] sample_command
  by (simp add: linux_command_vectors [OF sample_shell_shows sample_host_ok] host_report_vectors [OF sample_host_ok])

text \<open>The hash of the address, a few characters at a time.\<close>

lemma mac_prefix: "foldl (hash_step (dint 7)) 0 ''00:16:3e:00:00:0'' = Fin 8539561584505696 (- 5)"
proof -
  have "foldl (hash_step (dint 7)) 0 ''00:1'' = Fin 5297172144717824 (- 38)" by code_simp
  moreover have "foldl (hash_step (dint 7)) (Fin 5297172144717824 (- 38)) ''6:3e'' = Fin 6213139016187904 (- 27)"
    by code_simp
  moreover have "foldl (hash_step (dint 7)) (Fin 6213139016187904 (- 27)) '':00:'' = Fin 7284057527615488 (- 16)"
    by code_simp
  moreover have "foldl (hash_step (dint 7)) (Fin 7284057527615488 (- 16)) ''00:0'' = Fin 8539561584505696 (- 5)"
    by code_simp
  ultimately have
    "foldl (hash_step (dint 7)) 0 (((''00:1'' @ ''6:3e'') @ '':00:'') @ ''00:0'') = Fin 8539561584505696 (- 5)"
    by (simp only: foldl_append)
  then show ?thesis by simp
qed

lemma mac_hash:
  "stringToHashCode (''00:16:3e:00:00:0'' @ s) = foldl (hash_step (dint 7)) (Fin 8539561584505696 (- 5)) s"
  by (simp only: stringToHashCode_foldl foldl_append mac_prefix)

lemma sample_hash: "stringToHashCode (h_mac sample_host @ [newline]) = Fin 6538101838137371 1"
proof -
  have "foldl (hash_step (dint 7)) (Fin 8539561584505696 (- 5)) (''7'' @ [newline]) = Fin 6538101838137371 1"
    by code_simp
  with mac_hash [of "''7'' @ [newline]"] show ?thesis by (simp add: sample_host_def)
qed

lemma sample_doc_text: "length (json_text sample_doc) < 1000"
proof -
  have "int (length (json_text sample_doc)) < 1000"
    unfolding sample_doc_def host_report_def sample_hash by code_simp
  then show ?thesis by simp
qed

section \<open>The report of a machine\<close>

lemma report_of_machine:
  assumes "json_values J" and "shell_shows sh h" and "host_ok h"
  shows "\<exists>doc. linux_command J sh location = Inr doc \<and> holds J doc (host_report J h location)"
  using json_values.report_holds [OF assms(1) host_vectors_ok, of h location]
  by (simp add: linux_command_vectors [OF assms(2,3)] host_report_vectors [OF assms(3)])

text \<open>A difference of two counters divided by a power of two is not rounded.\<close>

lemma rate_exact:
  assumes "count_ok m" "count_ok n"
  shows "dval ((dint m - dint n) / dint 1024) = of_int (m - n) / 1024"
proof -
  have d: "is_int_double (dint m - dint n) (m - n)"
    using assms by (intro is_int_diff is_int_dint) auto
  have c: "finite_double (dint 1024)" "dval (dint 1024) = 1024" by (simp_all add: dbl_simps)
  have "representable (of_int (m - n) * pow2 (- 10))"
  proof (cases "\<bar>m - n\<bar> = 2 ^ 53")
    case True
    then have "\<bar>rat_of_int (m - n)\<bar> = of_int 1 * pow2 53"
      by (simp only: flip: of_int_abs) (simp add: pow2_def)
    then show ?thesis by (rule representable_scale) simp_all
  next
    case False
    then have "\<bar>m - n\<bar> < 2 ^ 53" using assms by auto
    moreover have "\<bar>rat_of_int (m - n)\<bar> = of_int \<bar>m - n\<bar> * pow2 0" by simp
    ultimately show ?thesis by (intro representable_scale [of _ "\<bar>m - n\<bar>" 0]) simp_all
  qed
  then have "representable (dval (dint m - dint n) / dval (dint 1024))"
    using d c by (simp add: is_int_double_def pow2_def)
  with d c show ?thesis
    by (simp add: is_int_double_def divide_double_def ddiv_exact)
qed

text \<open>
  C1: \<^verbatim>\<open>linux_command\<close> on a machine whose commands print well-formed lines returns a report that
  holds, member by member, the exact numbers of the machine: processors, containers with their
  amounts scaled to KiB, memory, the sums over the disks, the rates per interface, the hashed
  MAC address, the location and the time; and no other member.
\<close>

theorem linux_command_report:
  assumes "json_values J" and "shell_shows sh h" and "host_ok h"
  shows "\<exists>doc. linux_command J sh location = Inr doc \<and> holds J doc (host_report J h location)"
  by (rule report_of_machine [OF assms])

theorem linux_command_report_witness:
  "\<exists>doc. linux_command ref_json sample_shell ''lab'' = Inr doc \<and>
     holds ref_json doc (host_report ref_json sample_host ''lab'')"
  by (rule linux_command_report [OF ref_values sample_shell_shows sample_host_ok])

text \<open>
  C2: \<^verbatim>\<open>data_to_json\<close> implements the abstract report: when the vectors have matching sizes it
  returns a document whose members are exactly those of \<open>report_spec\<close>, an empty list being an
  absent member.
\<close>

theorem data_to_json_refines:
  assumes "json_values J" and "vectors_ok v"
  shows "\<exists>doc. data_to_json J v = Inr doc \<and> holds J doc (report_spec J v)"
  by (rule json_values.report_holds [OF assms])

theorem data_to_json_refines_witness:
  "\<exists>doc. data_to_json ref_json (host_vectors sample_host ''lab'') = Inr doc \<and>
     holds ref_json doc (report_spec ref_json (host_vectors sample_host ''lab''))"
  by (rule data_to_json_refines [OF ref_values host_vectors_ok])

text \<open>
  C37: \<^verbatim>\<open>data_to_json\<close> leaves its vectors exactly when their sizes do not match (a processor
  without \<^verbatim>\<open>sar\<close> line, no memory line, fewer free than total figures of disks, an interface
  that is gone in the second sample, an odd number of counters, no MAC, location or time), and
  the fault is always an access outside a vector.
\<close>

theorem data_to_json_fault_iff:
  "data_to_json J v = Inl f \<longleftrightarrow> f = OutOfBounds \<and> \<not> vectors_ok v"
  using data_to_json_ok_iff [of J v] data_to_json_fault_kind [of J v]
  by (cases "data_to_json J v") auto

lemma ordered_shares:
  assumes "count_ok t" "count_ok a" "a \<le> t" "0 < t"
  shows "finite_double (1 - dint a / dint t)" "0 \<le> dval (1 - dint a / dint t)"
    "dval (1 - dint a / dint t) \<le> 1"
  using assms share_unit [of "dint a" "dint t"] by (simp_all add: dbl_simps)

lemma sum_list_mono_zero:
  fixes f g :: "disk_stat \<Rightarrow> int"
  shows "(\<forall>x \<in> set xs. 0 \<le> g x \<and> g x \<le> f x) \<Longrightarrow>
    0 \<le> sum_list (map g xs) \<and> sum_list (map g xs) \<le> sum_list (map f xs)"
  by (induction xs) auto

lemma map_of_host_report [simp]:
  "map_of (host_report J h l) ''memory info'' = Some [jobject J
     [(''total'', JReal (dint (h_mem_total h))), (''available'', JReal (dint (h_mem_available h))),
      (''used'', JReal (1 - dint (h_mem_available h) / dint (h_mem_total h)))]]"
  "map_of (host_report J h l) ''disk info'' = Some [jobject J
     [(''total'', JReal (dint (sum_list (map dk_total (h_disks h))))),
      (''available'', JReal (dint (sum_list (map dk_available (h_disks h))))),
      (''used'', JReal (1 - dint (sum_list (map dk_available (h_disks h))) /
         dint (sum_list (map dk_total (h_disks h)))))]]"
  "map_of (host_report J h l) ''network info'' = Some (map (\<lambda>k. let n = h_nets h ! k in jobject J
     [(''id'', JInt (int k)),
      (''upload rate'', JReal ((dint (nt_rx' n) - dint (nt_rx n)) / dint 1024)),
      (''download rate'', JReal ((dint (nt_tx' n) - dint (nt_tx n)) / dint 1024))])
     [0..<length (h_nets h)])"
  by (simp_all add: host_report_def Let_def)

text \<open>
  The shares of used memory and used disk space in a report are finite and lie between 0
  and 1, in spite of the rounding, whenever the machine has memory and disks and no figure of
  free space exceeds its total.
\<close>

lemma used_shares_in_unit:
  assumes "json_values J" and "shell_shows sh h" and "host_ok h"
    and "linux_command J sh location = Inr doc"
    and "0 < h_mem_total h" and "h_mem_available h \<le> h_mem_total h"
    and "0 < sum_list (map dk_total (h_disks h))"
    and "\<forall>d \<in> set (h_disks h). dk_available d \<le> dk_total d"
    and "key = ''memory info'' \<or> key = ''disk info''"
  shows "\<exists>u. jget J (jat J (jget J doc key) 0) ''used'' = JReal u \<and> finite_double u \<and>
           0 \<le> dval u \<and> dval u \<le> 1"
proof -
  obtain doc' where "linux_command J sh location = Inr doc'" "holds J doc' (host_report J h location)"
    using report_of_machine [OF assms(1-3)] by blast
  with assms(4) have doc: "holds J doc (host_report J h location)" by simp
  note get = json_values.get_jobject [OF assms(1)] json_values.holds_at [OF assms(1) doc]
  have "jget J (jat J (jget J doc ''memory info'') 0) ''used'' =
      JReal (1 - dint (h_mem_available h) / dint (h_mem_total h))"
    by (simp add: get)
  moreover have "jget J (jat J (jget J doc ''disk info'') 0) ''used'' =
      JReal (1 - dint (sum_list (map dk_available (h_disks h))) / dint (sum_list (map dk_total (h_disks h))))"
    by (simp add: get)
  moreover have "0 \<le> sum_list (map dk_available (h_disks h))"
    "sum_list (map dk_available (h_disks h)) \<le> sum_list (map dk_total (h_disks h))"
    using sum_list_mono_zero [of "h_disks h" dk_available dk_total] assms(3,8) by (auto simp: host_ok_def)
  ultimately show ?thesis
    using assms(3,5-7,9) ordered_shares by (auto simp: host_ok_def)
qed

lemma used_shares_in_unit_witness:
  "\<exists>doc u. linux_command ref_json sample_shell ''lab'' = Inr doc \<and>
     jget ref_json (jat ref_json (jget ref_json doc ''disk info'') 0) ''used'' = JReal u \<and>
     finite_double u \<and> 0 \<le> dval u \<and> dval u \<le> 1"
proof -
  obtain doc where doc: "linux_command ref_json sample_shell ''lab'' = Inr doc"
    using report_of_machine [OF ref_values sample_shell_shows sample_host_ok] by blast
  from used_shares_in_unit [OF ref_values sample_shell_shows sample_host_ok doc, of "''disk info''"] doc
  show ?thesis by (simp add: sample_host_def)
qed

text \<open>
  The rates of a report are exact: the figure of interface \<open>k\<close> is the difference of its
  two counters divided by 1024, with no rounding error.
\<close>

lemma network_rate_exact:
  assumes "json_values J" and "shell_shows sh h" and "host_ok h"
    and "linux_command J sh location = Inr doc" and "k < length (h_nets h)"
  shows "\<exists>up down. jget J (jat J (jget J doc ''network info'') k) ''upload rate'' = JReal up \<and>
           jget J (jat J (jget J doc ''network info'') k) ''download rate'' = JReal down \<and>
           dval up = of_int (nt_rx' (h_nets h ! k) - nt_rx (h_nets h ! k)) / 1024 \<and>
           dval down = of_int (nt_tx' (h_nets h ! k) - nt_tx (h_nets h ! k)) / 1024"
proof -
  obtain doc' where "linux_command J sh location = Inr doc'" "holds J doc' (host_report J h location)"
    using report_of_machine [OF assms(1-3)] by blast
  with assms(4) have doc: "holds J doc (host_report J h location)" by simp
  have n: "h_nets h ! k \<in> set (h_nets h)" using assms(5) by simp
  note get = json_values.get_jobject [OF assms(1)] json_values.holds_at [OF assms(1) doc]
  show ?thesis
    using assms(3,5) n by (simp add: get Let_def rate_exact host_ok_def)
qed

lemma network_rate_exact_witness:
  "\<exists>doc up. linux_command ref_json sample_shell ''lab'' = Inr doc \<and>
     jget ref_json (jat ref_json (jget ref_json doc ''network info'') 0) ''upload rate'' = JReal up \<and>
     dval up = 2"
proof -
  obtain doc where doc: "linux_command ref_json sample_shell ''lab'' = Inr doc"
    using report_of_machine [OF ref_values sample_shell_shows sample_host_ok] by blast
  from network_rate_exact [OF ref_values sample_shell_shows sample_host_ok doc, of 0] doc
  show ?thesis by (auto simp: sample_host_def)
qed

section \<open>Hashing, splitting, reading\<close>

text \<open>
  On at most 17 ASCII characters (a MAC address) \<^verbatim>\<open>stringToHashCode\<close> computes in doubles
  exactly the integer polynomial in base 7 of the characters, below \<open>2 ^ 53\<close>.
\<close>

lemma hash_exact:
  assumes "ascii s" and "length s \<le> 17"
  shows "is_int_double (stringToHashCode s) (hash_int s) \<and> 0 \<le> hash_int s \<and>
    6 * hash_int s \<le> 127 * (7 ^ length s - 1)"
  using foldl_hash_exact [OF assms] hash_int_bounds [OF assms(1)] by (simp add: stringToHashCode_foldl)

text \<open>
  \<^verbatim>\<open>stringToHashCode\<close> does not separate hosts: raising a character by one and lowering the
  next by seven gives the same id, whatever follows (the addresses ending in \<^verbatim>\<open>07\<close> and in
  \<^verbatim>\<open>10\<close> share theirs).
\<close>

lemma hash_collision:
  assumes "ascii p" and "length p \<le> 15"
    and "code_of a' = code_of a + 1" and "code_of b' = code_of b - 7"
    and "code_of a' < 128" and "code_of b < 128"
  shows "stringToHashCode (p @ [a, b] @ r) = stringToHashCode (p @ [a', b'] @ r)"
proof -
  have "foldl (hash_step (dint 7)) 0 (p @ [a, b]) = foldl (hash_step (dint 7)) 0 (p @ [a', b'])"
    using assms by (intro hash_pair_collision) auto
  then have "foldl (hash_step (dint 7)) 0 ((p @ [a, b]) @ r) = foldl (hash_step (dint 7)) 0 ((p @ [a', b']) @ r)"
    by (simp only: foldl_append)
  then show ?thesis by (simp only: stringToHashCode_foldl append_assoc)
qed

lemma hash_collision_witness:
  "stringToHashCode (''00:16:3e:00:00:07'' @ [newline]) = stringToHashCode (''00:16:3e:00:00:10'' @ [newline])"
proof -
  have "ascii ''00:16:3e:00:00:''" "code_of (CHR ''1'') = code_of (CHR ''0'') + 1"
    "code_of (CHR ''0'') = code_of (CHR ''7'') - 7" "code_of (CHR ''1'') < 128" "code_of (CHR ''7'') < 128"
    by code_simp+
  from hash_collision [OF this(1) _ this(2-), of "[newline]"] show ?thesis by simp
qed

text \<open>
  \<^verbatim>\<open>split\<close> keeps every character that is not a delimiter, in order, and its tokens are
  non-empty and free of delimiters; and it returns exactly the words of a string that separates
  them by non-empty gaps of delimiters.
\<close>

lemma split_str_words:
  assumes "\<forall>(w, g) \<in> set ps. w \<noteq> [] \<and> g \<noteq> [] \<and> nul \<notin> set w \<and> set w \<inter> set d = {} \<and> set g \<subseteq> set d"
    and "nul \<notin> set d"
  shows "split_str (concat (map (\<lambda>(w, g). w @ g) ps)) d = map fst ps \<and>
    concat (split_str s d) = filter (\<lambda>c. c \<notin> set d) (cstr s) \<and>
    (\<forall>t \<in> set (split_str s d). t \<noteq> [] \<and> set t \<inter> set d = {})"
proof -
  let ?s = "concat (map (\<lambda>(w, g). w @ g) ps)"
  have "nul \<notin> set ?s" using assms by auto
  moreover have "strtok_all d ?s = map fst ps"
    using assms(1) by (intro strtok_words) auto
  moreover have "?s = [] \<Longrightarrow> ps = []" using assms(1) by (cases ps) auto
  ultimately have "split_str ?s d = map fst ps"
    using assms(2) by (auto simp: split_str_def)
  moreover have "concat (split_str s d) = filter (\<lambda>c. c \<notin> set d) (cstr s)"
    using assms(2) by (cases "s = []") (simp_all add: split_str_def strtok_concat)
  ultimately show ?thesis using assms(2) strtok_tokens by (auto simp: split_str_def)
qed

text \<open>
  \<^verbatim>\<open>exec_command\<close> on a command that prints whole numbers below \<open>10 ^ 97\<close>, one per line,
  appends exactly their doubles to the vector; when \<^verbatim>\<open>popen\<close> fails it ends the process.
\<close>

lemma exec_command_numbers:
  assumes "sh i command = Some (number_lines ns)" and "\<forall>n \<in> set ns. 0 \<le> n \<and> n < 10 ^ 97"
    and "sh j other = None"
  shows "exec_command sh i command store = Inr (store @ map dint ns) \<and>
    exec_command sh j other store = Inl (Exit 1)"
  using store_result_number_lines [OF assms(2), of store] assms(1,3)
  by (simp add: exec_command_def store_result_def)

section \<open>Containers\<close>

text \<open>
  An amount that \<^verbatim>\<open>docker stats\<close> prints in KiB, MiB or GiB becomes the exact number of KiB
  while that number fits in 53 bits.
\<close>

lemma memory_amount_exact:
  assumes "0 \<le> n" and "n * unit_factor u \<le> 2 ^ 53"
  shows "\<exists>x. memory_amount (dec_digits n @ unit_text u) = Inr x \<and> is_int_double x (n * unit_factor u)"
proof -
  have "n \<le> n * unit_factor u" using assms(1) by (cases u) auto
  then have n: "is_int_double (dint n) n" using assms by (intro is_int_dint) auto
  have f: "is_int_double (dint (unit_factor u)) (unit_factor u)"
    by (cases u) (auto intro!: is_int_dint)
  have pos: "0 \<le> n * unit_factor u" using assms(1) by (cases u) auto
  have "is_int_double (dint n * dint (unit_factor u)) (n * unit_factor u)"
    using assms pos by (intro is_int_mult n f) auto
  moreover have "memory_amount (dec_digits n @ unit_text u) =
      Inr (if u = KiB then dint n else dint n * dint (unit_factor u))"
    using assms(1) by (simp add: memory_amount_unit atof_dec_digits)
  ultimately show ?thesis using n by (cases "u = KiB") auto
qed

lemma length_dec_digit: "0 \<le> n \<Longrightarrow> n < 10 \<Longrightarrow> length (dec_digits n) = 1"
  using dec_digits_length_bound [of n 1] dec_digits_nonempty [of n]
  by (cases "dec_digits n") auto

text \<open>
  An amount in bytes (\<^verbatim>\<open>docker stats\<close> prints \<^verbatim>\<open>0B\<close> for an idle container) is not
  understood: one digit makes the client read before the string, and more digits are reported
  as that many KiB.
\<close>

lemma memory_amount_bytes:
  assumes "0 \<le> n"
  shows "memory_amount (dec_digits n @ ''B'') = (if n < 10 then Inl OutOfBounds else Inr (dint n))"
proof (cases "n < 10")
  case True
  with assms show ?thesis by (simp add: memory_amount_short length_dec_digit)
next
  case False
  then have "1 < length (dec_digits n)" using dec_digits_length_lower [of 1 n] by simp
  then obtain us b where us: "dec_digits n = us @ [b]" "us \<noteq> []"
    by (cases "dec_digits n" rule: rev_cases) auto
  then obtain ds a where "us = ds @ [a]" by (cases us rule: rev_cases) auto
  with us have ds: "dec_digits n = ds @ [a, b]" by simp
  then have a: "isdigit a" using dec_digits_isdigit [OF assms, of a] by simp
  have "unit_char ((ds @ [a, b]) @ ''B'') = Inr a"
    using unit_char_suffix [of ds a b "CHR ''B''"] by simp
  moreover have "a \<noteq> CHR ''M''" "a \<noteq> CHR ''G''" using a by (auto simp: isdigit_def code_of_def)
  ultimately have "memory_amount (dec_digits n @ ''B'') = Inr (atof (dec_digits n @ ''B''))"
    by (simp add: memory_amount_def ds)
  with False assms show ?thesis by (simp add: atof_dec_digits)
qed

lemma memory_amount_bytes_witness: "memory_amount ''0B'' = Inl OutOfBounds"
proof -
  have "dec_digits 0 = ''0''" by code_simp
  then show ?thesis using memory_amount_bytes [of 0] by simp
qed

lemma memory_amount_ok_iff: "(\<exists>x. memory_amount s = Inr x) \<longleftrightarrow> 3 \<le> length s"
  by (auto simp: memory_amount_def unit_char_def)

text \<open>
  A line of \<^verbatim>\<open>docker stats\<close> is refused, by an access outside an object, exactly when it
  has fewer than seven columns or its usage or limit column has fewer than three characters.
\<close>

lemma docker_line_fault_iff:
  "docker_line line = Inl f \<longleftrightarrow>
     f = OutOfBounds \<and>
     (let s = split_str line '' ''
      in length s < 7 \<or> length (s ! 3) < 3 \<or> length (s ! 5) < 3)"
proof -
  let ?s = "split_str line '' ''"
  have ok: "(\<exists>r. docker_line line = Inr r) \<longleftrightarrow>
      7 \<le> length ?s \<and> 3 \<le> length (?s ! 3) \<and> 3 \<le> length (?s ! 5)"
    by (auto simp: docker_line_def Let_def res_simps simp flip: memory_amount_ok_iff)
  moreover have "docker_line line = Inl e \<Longrightarrow> e = OutOfBounds" for e
    by (auto simp: docker_line_def Let_def res_simps memory_amount_cases)
  ultimately show ?thesis
    by (cases "docker_line line") (auto simp: Let_def not_le)
qed

section \<open>The whole collection\<close>

definition commands :: "(nat \<times> string) list" where
  "commands =
     [(0, cmd_cpu_source), (1, cmd_cpu_mhz), (2, cmd_cpu_cores), (3, cmd_memory_total),
      (4, cmd_memory_available), (5, cmd_disk_total), (6, cmd_disk_available), (7, cmd_network),
      (8, cmd_network), (9, cmd_docker), (10, cmd_mac), (11, cmd_date)]"

lemma exec_command_fault: "exec_command sh i c store = Inl f \<longleftrightarrow> sh i c = None \<and> f = Exit 1"
  by (auto simp: exec_command_def store_result_def split: option.splits)

lemma string_exec_command_fault:
  "string_exec_command sh i c store = Inl f \<longleftrightarrow> sh i c = None \<and> f = Exit 1"
  by (auto simp: string_exec_command_def split: option.splits)

lemma docker_rows_fault: "map_res docker_line xs = Inl f \<Longrightarrow> f = OutOfBounds"
  by (rule map_res_fault_kind) (auto simp: docker_line_def Let_def res_simps memory_amount_cases)

lemmas command_faults = exec_command_fault string_exec_command_fault

lemma linux_command_fault:
  assumes "linux_command J sh location = Inl f"
  shows "f = OutOfBounds \<or> f = Exit 1 \<and> (\<exists>i c. (i, c) \<in> set commands \<and> sh i c = None)"
  using assms unfolding linux_command_def commands_def
  by (elim bind_res_Inl_iff [THEN iffD1, elim_format] disjE exE conjE)
    (auto simp: command_faults res_simps dest: docker_rows_fault data_to_json_fault_kind)

lemma linux_command_run:
  assumes "linux_command J sh location = Inr doc"
  shows "\<forall>(i, c) \<in> set commands. sh i c \<noteq> None"
    and "\<exists>rows v. map_res docker_line (map cstr (fgets_all 997 (the (sh 9 cmd_docker)))) = Inr rows \<and>
      dockerIDInfo v = map docker_id rows \<and> data_to_json J v = Inr doc"
proof -
  have some: "exec_command sh i c store = Inr xs \<Longrightarrow> sh i c \<noteq> None"
    "string_exec_command sh i c store' = Inr ys \<Longrightarrow> sh i c \<noteq> None" for i c store store' xs ys
    using exec_command_fault [of sh i c store] string_exec_command_fault [of sh i c store'] by auto
  show "\<forall>(i, c) \<in> set commands. sh i c \<noteq> None"
    using assms some unfolding linux_command_def commands_def by (simp add: res_simps) blast
  have out: "string_exec_command sh 9 cmd_docker [] = Inr ys \<Longrightarrow>
      ys = map cstr (fgets_all 997 (the (sh 9 cmd_docker)))" for ys
    by (auto simp: string_exec_command_def split: option.splits)
  show "\<exists>rows v. map_res docker_line (map cstr (fgets_all 997 (the (sh 9 cmd_docker)))) = Inr rows \<and>
      dockerIDInfo v = map docker_id rows \<and> data_to_json J v = Inr doc"
    using assms unfolding linux_command_def bind_res_Inr_iff
    by (elim exE conjE) (drule out, hypsubst, intro exI conjI, assumption, rule vectors.select_convs, assumption)
qed

text \<open>
  A collection that does not return a report ends in one of two ways: \<^verbatim>\<open>exit(1)\<close>, and then
  \<^verbatim>\<open>popen\<close> failed for one of the twelve commands, or an access outside a vector or string; and
  one that returns a report has run all twelve commands.
\<close>

lemma linux_command_outcomes:
  "case linux_command J sh location of
     Inl f \<Rightarrow> f = OutOfBounds \<or> f = Exit 1 \<and> (\<exists>i c. (i, c) \<in> set commands \<and> sh i c = None)
   | Inr doc \<Rightarrow> (\<forall>(i, c) \<in> set commands. sh i c \<noteq> None)"
  using linux_command_fault [of J sh location] linux_command_run(1) [of J sh location]
  by (cases "linux_command J sh location") auto

lemma linux_command_outcomes_witness:
  "linux_command ref_json (\<lambda>i c. if i = 10 then Some [] else sample_shell i c) ''lab'' = Inl OutOfBounds"
proof -
  let ?sh = "\<lambda>i c. if i = 10 then Some [] else sample_shell i c"
  have all: "?sh i c \<noteq> None" for i c by (simp add: sample_shell_def Let_def)
  have "linux_command ref_json ?sh ''lab'' \<noteq> Inr doc" for doc
  proof -
    have "string_exec_command ?sh 10 cmd_mac [] = Inr []" by (simp add: string_exec_command_def)
    then show ?thesis by (auto simp: linux_command_def res_simps)
  qed
  with linux_command_outcomes [where J = ref_json and sh = ?sh and location = "''lab''"] all show ?thesis
    by (cases "linux_command ref_json ?sh ''lab''") auto
qed

lemma holds_member_iff:
  "holds J doc ms \<Longrightarrow> map_of ms k = Some xs \<Longrightarrow> jis_member J doc k \<longleftrightarrow> xs \<noteq> []"
  by (cases xs) (auto simp: holds_def)

lemma fgets_all_Nil_iff: "fgets_all k s = [] \<longleftrightarrow> s = []"
  by (subst fgets_all.simps) simp

lemma docker_member:
  assumes "json_values J" and "linux_command J sh location = Inr doc"
  shows "jis_member J doc ''docker info'' \<longleftrightarrow> sh 9 cmd_docker \<noteq> Some []"
proof -
  obtain out where out: "sh 9 cmd_docker = Some out"
    using linux_command_run(1) [OF assms(2)] by (auto simp: commands_def)
  obtain rows v where rows: "map_res docker_line (map cstr (fgets_all 997 out)) = Inr rows"
    and v: "dockerIDInfo v = map docker_id rows" "data_to_json J v = Inr doc"
    using linux_command_run(2) [OF assms(2)] out by auto
  have "vectors_ok v" using v(2) data_to_json_ok_iff [of J v] by auto
  then obtain doc' where "data_to_json J v = Inr doc'" "holds J doc' (report_spec J v)"
    using json_values.report_holds [OF assms(1)] by blast
  with v(2) have "jis_member J doc ''docker info'' \<longleftrightarrow> dockerIDInfo v \<noteq> []"
    using holds_member_iff [of J doc' "report_spec J v" "''docker info''"] by simp
  also have "\<dots> \<longleftrightarrow> rows \<noteq> []" by (simp add: v)
  also have "\<dots> \<longleftrightarrow> out \<noteq> []"
    using map_res_Inr_length [OF rows] fgets_all_Nil_iff [of 997 out] by auto
  finally show ?thesis by (simp add: out)
qed

end
