(* ===== verification/HttpUrl.thy ===== *)
theory HttpUrl
  imports CNumbers
begin

text \<open>
  The URL functions of \<^verbatim>\<open>client/HttpRequest.h\<close>: the host and the parameters of a request, its
  port and its IP address. A URL is a C string. \<^verbatim>\<open>gethostbyname\<close> is a parameter: \<open>dns name\<close> is the
  first address of the answer as \<^verbatim>\<open>inet_ntoa\<close> prints it, None when there is none.
\<close>

section \<open>The functions\<close>

definition URLSIZE :: nat where
  "URLSIZE = 1024"

text \<open>Both parsers start the same way: a copy of the URL, then what follows the scheme.\<close>

definition after_scheme :: "string \<Rightarrow> string" where
  "after_scheme url =
     (case find_sub ''http://'' url of
        Some i \<Rightarrow> drop (i + 7) url
      | None \<Rightarrow>
          (case find_sub ''https://'' url of
             Some i \<Rightarrow> drop (i + 8) url
           | None \<Rightarrow> url))"

definition GetHostAddrFromUrl :: "string \<Rightarrow> string res" where
  "GetHostAddrFromUrl strUrl =
     bind_res (strcpy_buf URLSIZE strUrl) (\<lambda>url.
       Inr (takeWhile (\<lambda>c. c \<noteq> CHR ''/'') (after_scheme url)))"

definition GetParamFromUrl :: "string \<Rightarrow> string res" where
  "GetParamFromUrl strUrl =
     bind_res (strcpy_buf URLSIZE strUrl) (\<lambda>url.
       Inr (case strchr (after_scheme url) (CHR ''/'') of
              None \<Rightarrow> ''''
            | Some r \<Rightarrow> drop 1 r))"

definition GetPortFromUrl :: "string \<Rightarrow> int res" where
  "GetPortFromUrl strUrl =
     bind_res (GetHostAddrFromUrl strUrl) (\<lambda>strHostAddr.
     bind_res (strcpy_buf URLSIZE strHostAddr) (\<lambda>strAddr.
       case strchr strAddr (CHR '':'') of
         None \<Rightarrow> Inr 80
       | Some strPort \<Rightarrow> atoi (drop 1 strPort)))"

text \<open>
  The loop over the characters of the host and its NUL. The digit test is written with
  \<^verbatim>\<open>||\<close>.
\<close>

fun ip_loop :: "string \<Rightarrow> string \<Rightarrow> nat \<Rightarrow> nat \<Rightarrow> string \<times> nat \<times> nat" where
  "ip_loop [] strAddr iCount iFlag = (strAddr, iCount, iFlag)"
| "ip_loop (c # cs) strAddr iCount iFlag =
     (if c = CHR '':'' then (strAddr, iCount, iFlag)
      else if c = CHR ''.'' then ip_loop cs (strAddr @ [c]) (iCount + 1) iFlag
      else if iFlag = 1 then ip_loop cs (strAddr @ [c]) iCount iFlag
      else ip_loop cs (strAddr @ [c]) iCount
             (if schar c \<ge> schar (CHR ''0'') \<or> schar c \<le> schar (CHR ''9'') then 0 else 1))"

definition GetIPFromUrl :: "(string \<Rightarrow> string option) \<Rightarrow> string \<Rightarrow> string option res" where
  "GetIPFromUrl dns strUrl =
     bind_res (GetHostAddrFromUrl strUrl) (\<lambda>strHostAddr.
       let (addr, iCount, iFlag) = ip_loop (strHostAddr @ [nul]) '''' 0 0;
           strAddr = cstr addr
       in Inr (if length strAddr \<le> 1 then None
               else if iCount = 3 \<and> iFlag = 0 then Some strAddr
               else dns strAddr))"

section \<open>Scheme, host, port and path\<close>

text \<open>A URL put together from its parts, the inverse of the functions above.\<close>

datatype scheme = Http | Https | NoScheme

fun scheme_text :: "scheme \<Rightarrow> string" where
  "scheme_text Http = ''http://''"
| "scheme_text Https = ''https://''"
| "scheme_text NoScheme = ''''"

definition authority :: "string \<Rightarrow> int option \<Rightarrow> string" where
  "authority host port =
     host @ (case port of None \<Rightarrow> '''' | Some p \<Rightarrow> CHR '':'' # dec_digits p)"

definition make_url :: "scheme \<Rightarrow> string \<Rightarrow> int option \<Rightarrow> string option \<Rightarrow> string" where
  "make_url s host port path =
     scheme_text s @ authority host port @ (case path of None \<Rightarrow> '''' | Some q \<Rightarrow> CHR ''/'' # q)"

text \<open>
  \<^verbatim>\<open>strstr\<close> looks for a scheme anywhere in the URL, so a URL of another scheme, or of none, must
  not mention one further on.
\<close>

fun scheme_clear :: "scheme \<Rightarrow> string \<Rightarrow> bool" where
  "scheme_clear Http rest = True"
| "scheme_clear Https rest \<longleftrightarrow> find_sub ''http://'' rest = None"
| "scheme_clear NoScheme rest \<longleftrightarrow> find_sub ''http://'' rest = None \<and> find_sub ''https://'' rest = None"

definition url_parts_ok :: "scheme \<Rightarrow> string \<Rightarrow> int option \<Rightarrow> string option \<Rightarrow> bool" where
  "url_parts_ok s host port path \<longleftrightarrow>
     length (make_url s host port path) < URLSIZE \<and>
     CHR ''/'' \<notin> set host \<and> CHR '':'' \<notin> set host \<and> nul \<notin> set host \<and>
     (case port of None \<Rightarrow> True | Some p \<Rightarrow> 0 \<le> p \<and> p < 65536) \<and>
     scheme_clear s (make_url NoScheme host port path)"

lemma find_https:
  "find_sub ''http://'' r = None \<Longrightarrow> find_sub ''http://'' (''https://'' @ r) = None"
  by simp

lemma after_scheme_text:
  "scheme_clear s rest \<Longrightarrow> after_scheme (scheme_text s @ rest) = rest"
proof (cases s)
  case Https
  moreover assume "scheme_clear s rest"
  ultimately have "find_sub ''http://'' (''https://'' @ rest) = None"
    by (intro find_https) simp
  moreover have "find_sub ''https://'' (''https://'' @ rest) = Some 0"
    by (rule find_sub_prefix) simp
  ultimately show ?thesis by (simp add: after_scheme_def Https)
qed (simp_all add: after_scheme_def)

lemma authority_chars:
  "CHR ''/'' \<notin> set host \<Longrightarrow> (case port of None \<Rightarrow> True | Some p \<Rightarrow> 0 \<le> p) \<Longrightarrow>
   CHR ''/'' \<notin> set (authority host port)"
  by (cases port) (auto simp: authority_def isdigit_def code_of_def dest: dec_digits_isdigit)

lemma takeWhile_append_stop:
  "c \<notin> set xs \<Longrightarrow> takeWhile (\<lambda>x. x \<noteq> c) (xs @ c # ys) = xs"
  by (induction xs) auto

lemma url_host_param:
  assumes "url_parts_ok s host port path"
  shows "GetHostAddrFromUrl (make_url s host port path) = Inr (authority host port)"
    and "GetParamFromUrl (make_url s host port path) =
           Inr (case path of None \<Rightarrow> '''' | Some q \<Rightarrow> q)"
proof -
  have rest: "after_scheme (make_url s host port path) = make_url NoScheme host port path"
    using assms after_scheme_text [of s "make_url NoScheme host port path"]
    by (simp add: url_parts_ok_def make_url_def)
  have sep: "CHR ''/'' \<notin> set (authority host port)"
    using assms by (intro authority_chars) (auto simp: url_parts_ok_def split: option.splits)
  then have "takeWhile (\<lambda>c. c \<noteq> CHR ''/'') (make_url NoScheme host port path) = authority host port"
    using takeWhile_append_stop [OF sep]
    by (cases path) (auto simp: make_url_def takeWhile_eq_all_conv)
  moreover have "strchr (authority host port) (CHR ''/'') = None"
    using sep by (simp add: strchr_None_iff)
  ultimately show "GetHostAddrFromUrl (make_url s host port path) = Inr (authority host port)"
    and "GetParamFromUrl (make_url s host port path) = Inr (case path of None \<Rightarrow> '''' | Some q \<Rightarrow> q)"
    using assms sep unfolding GetHostAddrFromUrl_def GetParamFromUrl_def
    by (auto simp: buf_simps url_parts_ok_def rest make_url_def [of NoScheme] split: option.splits)
qed

lemma url_port:
  assumes "url_parts_ok s host port path"
  shows "GetPortFromUrl (make_url s host port path) = Inr (case port of None \<Rightarrow> 80 | Some p \<Rightarrow> p)"
proof -
  have "length (authority host port) < URLSIZE"
    using assms by (auto simp: url_parts_ok_def make_url_def split: option.splits)
  moreover have "CHR '':'' \<notin> set host" using assms by (simp add: url_parts_ok_def)
  moreover have "strchr host (CHR '':'') = None"
    using assms by (simp add: strchr_None_iff url_parts_ok_def)
  moreover have "atoi (dec_digits p) = Inr p" if "port = Some p" for p
    using assms that atoi_dec_digits [of p "[]"] by (simp add: url_parts_ok_def)
  ultimately show ?thesis
    by (auto simp: GetPortFromUrl_def url_host_param [OF assms] buf_simps authority_def split: option.splits)
qed

section \<open>Addresses\<close>

text \<open>The digit test never fails, so the flag stays 0 and the loop only counts the dots.\<close>

lemma digit_test_vacuous: "schar c \<ge> schar (CHR ''0'') \<or> schar c \<le> schar (CHR ''9'')"
  by (simp add: schar_def code_of_def) linarith

lemma ip_loop_value:
  "ip_loop cs addr n 0 =
     (let t = takeWhile (\<lambda>c. c \<noteq> CHR '':'') cs
      in (addr @ t, n + length (filter (\<lambda>c. c = CHR ''.'') t), 0))"
  using digit_test_vacuous by (induction cs arbitrary: addr n) (auto simp: Let_def)

lemma GetIPFromUrl_value:
  assumes "GetHostAddrFromUrl url = Inr h" "nul \<notin> set h"
  shows "GetIPFromUrl dns url =
    (let a = takeWhile (\<lambda>c. c \<noteq> CHR '':'') h
     in Inr (if length a \<le> 1 then None
             else if length (filter (\<lambda>c. c = CHR ''.'') a) = 3 then Some a
             else dns a))"
proof -
  let ?a = "takeWhile (\<lambda>c. c \<noteq> CHR '':'') h"
  have nonul: "nul \<notin> set ?a" using assms(2) by (auto dest: set_takeWhileD)
  have "takeWhile (\<lambda>c. c \<noteq> CHR '':'') (h @ [nul]) = ?a @ (if CHR '':'' \<in> set h then [] else [nul])"
    by (induction h) auto
  moreover have "cstr (?a @ [nul]) = ?a"
    using nonul by (simp add: cstr_def takeWhile_append_stop)
  ultimately show ?thesis
    using nonul by (simp add: GetIPFromUrl_def assms(1) ip_loop_value Let_def)
qed

end
