(* ===== verification/HttpHead.thy ===== *)
theory HttpHead
  imports HttpUrl
begin

text \<open>
  \<^verbatim>\<open>HttpHeadCreate\<close> of \<^verbatim>\<open>client/HttpRequest.h\<close>: the request is put together by \<^verbatim>\<open>strcat\<close> in a
  buffer of \<^verbatim>\<open>BUFSIZE\<close> bytes. The second half is the receiving side, a reader of requests, against
  which the text is checked. That \<^verbatim>\<open>malloc\<close> may fail is not modelled.
\<close>

section \<open>The function\<close>

definition BUFSIZE :: nat where
  "BUFSIZE = 41000"

text \<open>\<^verbatim>\<open>unsigned uLen = strlen(strData); sprintf(len, "%d", uLen)\<close>: reduced to 32 bits and printed signed.\<close>

definition length_arg :: "nat \<Rightarrow> int" where
  "length_arg n = (let u = int n mod 2 ^ 32 in if u < 2 ^ 31 then u else u - 2 ^ 32)"

definition HttpHeadCreate :: "string \<Rightarrow> string \<Rightarrow> string option \<Rightarrow> string res" where
  "HttpHeadCreate strMethod strUrl strData =
     bind_res (GetHostAddrFromUrl strUrl) (\<lambda>strHost.
     bind_res (GetParamFromUrl strUrl) (\<lambda>strParam.
     bind_res (strcats BUFSIZE ''''
       [strMethod, '' /'', strParam,
        '' HTTP/1.1'' @ crlf,
        ''Accept: */*'' @ crlf,
        ''Accept-Language: en-us,en;q=0.5'' @ crlf,
        ''User-Agent: Mozilla/4.0'' @ crlf,
        ''Host: '', strHost, crlf,
        ''Cache-Control: no-cache'' @ crlf,
        ''Connection: Keep-Alive'' @ crlf]) (\<lambda>strHttpHead.
     bind_res
       (if strMethod = ''POST''
        then (case strData of
                None \<Rightarrow> Inl NullDeref
              | Some data \<Rightarrow>
                  bind_res (strcpy_buf 8 (sprintf_d (length_arg (length data)))) (\<lambda>len.
                    strcats BUFSIZE strHttpHead
                      [''Content-Type: text/html'' @ crlf, ''Content-Length: '', len,
                       crlf @ crlf, data]))
        else Inr strHttpHead) (\<lambda>strHttpHead.
     strcat_buf BUFSIZE strHttpHead (crlf @ crlf)))))"

section \<open>The text of a request\<close>

definition head_lines :: "string \<Rightarrow> string \<Rightarrow> string \<Rightarrow> string list" where
  "head_lines method host param =
     [method @ '' /'' @ param @ '' HTTP/1.1'', ''Accept: */*'', ''Accept-Language: en-us,en;q=0.5'',
      ''User-Agent: Mozilla/4.0'', ''Host: '' @ host, ''Cache-Control: no-cache'',
      ''Connection: Keep-Alive'']"

definition lines_text :: "string list \<Rightarrow> string" where
  "lines_text ls = concat (map (\<lambda>l. l @ crlf) ls)"

definition post_lines :: "string \<Rightarrow> string list" where
  "post_lines data = [''Content-Type: text/html'', ''Content-Length: '' @ dec_digits (int (length data))]"

definition get_text :: "string \<Rightarrow> string \<Rightarrow> string" where
  "get_text host param = lines_text (head_lines ''GET'' host param) @ crlf @ crlf"

definition post_text :: "string \<Rightarrow> string \<Rightarrow> string \<Rightarrow> string" where
  "post_text host param data =
     lines_text (head_lines ''POST'' host param @ post_lines data) @ crlf @ data @ crlf @ crlf"

lemma strcats_cases:
  "length dst < n \<Longrightarrow> strcats n dst ss =
     (if length (dst @ concat ss) < n then Inr (dst @ concat ss) else Inl BufferOverflow)"
  using strcats_ok [of dst ss n] strcats_overflow [of dst n ss] by (simp add: not_less)

lemma parser_bounds:
  assumes "GetHostAddrFromUrl url = Inr h" "GetParamFromUrl url = Inr p"
  shows "length h < URLSIZE" "length p < URLSIZE"
proof -
  have url: "length url < URLSIZE" "h = takeWhile (\<lambda>c. c \<noteq> CHR ''/'') (after_scheme url)"
    using assms(1) by (auto simp: GetHostAddrFromUrl_def buf_simps res_simps)
  have a: "length (after_scheme url) \<le> length url"
    by (auto simp: after_scheme_def split: option.splits)
  have "length (drop 1 r) \<le> length s" if "strchr s c = Some r" for s r c
  proof -
    have "r = dropWhile (\<lambda>x. x \<noteq> c) s" using that by (auto simp: strchr_def split: list.splits)
    then show ?thesis using length_dropWhile_le [of "\<lambda>x. x \<noteq> c" s] by simp
  qed
  then have "length p \<le> length (after_scheme url)"
    using assms(2) by (auto simp: GetParamFromUrl_def res_simps buf_simps split: option.splits)
  with a url(1) show "length p < URLSIZE" by simp
  have "length h \<le> length (after_scheme url)" unfolding url(2) by (rule length_takeWhile_le)
  with a url(1) show "length h < URLSIZE" by simp
qed

lemma head_create_get:
  assumes "GetHostAddrFromUrl url = Inr h" "GetParamFromUrl url = Inr p"
  shows "HttpHeadCreate ''GET'' url data = Inr (get_text h p)"
  using parser_bounds [OF assms]
  by (simp add: HttpHeadCreate_def assms strcats_cases strcat_buf_def buf_simps BUFSIZE_def URLSIZE_def
      get_text_def lines_text_def head_lines_def del: strcats.simps)

lemma sprintf_length_arg:
  "n < 10000000 \<Longrightarrow> sprintf_d (length_arg n) = dec_digits (int n)"
  by (simp add: length_arg_def sprintf_d_def Let_def)

lemma dec_digits_len8: "n < 41000 \<Longrightarrow> length (dec_digits (int n)) < 8"
  using dec_digits_length_bound [of "int n" 7] by simp

lemma head_create_post:
  assumes "GetHostAddrFromUrl url = Inr h" "GetParamFromUrl url = Inr p"
  shows "HttpHeadCreate ''POST'' url (Some data) =
    (if length (post_text h p data) < BUFSIZE then Inr (post_text h p data) else Inl BufferOverflow)"
proof -
  let ?head = "lines_text (head_lines ''POST'' h p)"
  have head: "strcats BUFSIZE ''''
       [''POST'', '' /'', p, '' HTTP/1.1'' @ crlf, ''Accept: */*'' @ crlf,
        ''Accept-Language: en-us,en;q=0.5'' @ crlf, ''User-Agent: Mozilla/4.0'' @ crlf,
        ''Host: '', h, crlf, ''Cache-Control: no-cache'' @ crlf, ''Connection: Keep-Alive'' @ crlf] =
      Inr ?head" "length ?head < BUFSIZE"
    using parser_bounds [OF assms]
    by (simp_all add: strcats_cases BUFSIZE_def URLSIZE_def lines_text_def head_lines_def del: strcats.simps)
  show ?thesis
  proof (cases "length data < 41000")
    case True
    note len = sprintf_length_arg [of "length data"] dec_digits_len8 [OF True]
    let ?body = "concat [''Content-Type: text/html'' @ crlf, ''Content-Length: '',
      dec_digits (int (length data)), crlf @ crlf, data]"
    have whole: "post_text h p data = (?head @ ?body) @ crlf @ crlf"
      by (simp add: post_text_def post_lines_def lines_text_def)
    have "HttpHeadCreate ''POST'' url (Some data) =
        bind_res (strcats BUFSIZE ?head [''Content-Type: text/html'' @ crlf, ''Content-Length: '',
          dec_digits (int (length data)), crlf @ crlf, data])
          (\<lambda>s. strcat_buf BUFSIZE s (crlf @ crlf))"
      using len True by (simp only: HttpHeadCreate_def assms bind_res.simps head) (simp add: buf_simps)
    then show ?thesis
      unfolding whole strcats_cases [OF head(2)] by (auto simp: strcat_buf_def strcpy_buf_def)
  next
    case False
    then have long: "\<not> length (post_text h p data) < BUFSIZE"
      by (simp add: post_text_def BUFSIZE_def)
    have "HttpHeadCreate ''POST'' url (Some data) = Inl BufferOverflow"
    proof (cases "strcpy_buf 8 (sprintf_d (length_arg (length data)))")
      case (Inl e)
      then show ?thesis
        by (simp only: HttpHeadCreate_def assms bind_res.simps head) (simp add: buf_simps)
    next
      case (Inr l)
      have "BUFSIZE \<le> length (?head @ concat [''Content-Type: text/html'' @ crlf, ''Content-Length: '',
          l, crlf @ crlf, data])"
        using False by (simp add: BUFSIZE_def)
      from strcats_overflow [OF head(2) this] Inr show ?thesis
        by (simp only: HttpHeadCreate_def assms bind_res.simps head) simp
    qed
    with long show ?thesis by simp
  qed
qed

section \<open>The receiving side\<close>

text \<open>A reader of requests: lines up to the empty one, then as many bytes as the head announces.\<close>

abbreviation cr :: char where "cr \<equiv> CHR 0x0D"

lemma read_head_decreases:
  "takeWhile P s \<noteq> [] \<Longrightarrow> length (dropWhile P s) - 2 < length s"
  using length_dropWhile_le [of P s] by (cases s) auto

function read_head :: "string \<Rightarrow> string list \<times> string" where
  "read_head s =
     (let l = takeWhile (\<lambda>c. c \<noteq> cr) s; r = drop 2 (dropWhile (\<lambda>c. c \<noteq> cr) s)
      in if l = [] then ([], r) else (l # fst (read_head r), snd (read_head r)))"
  by pat_completeness auto
termination
  by (relation "measure length") (auto simp: read_head_decreases)

declare read_head.simps [simp del]

lemma read_head_line:
  assumes "l \<noteq> []" "cr \<notin> set l"
  shows "read_head (l @ crlf @ s) = (l # fst (read_head s), snd (read_head s))"
proof -
  have "takeWhile (\<lambda>c. c \<noteq> cr) (l @ crlf @ s) = l" "dropWhile (\<lambda>c. c \<noteq> cr) (l @ crlf @ s) = crlf @ s"
    using assms(2) by (induction l) auto
  then show ?thesis using assms(1) by (subst read_head.simps) (simp add: Let_def)
qed

lemma read_head_end: "read_head (crlf @ s) = ([], s)"
  by (simp add: read_head.simps)

lemma read_head_lines:
  "\<forall>l \<in> set ls. l \<noteq> [] \<and> cr \<notin> set l \<Longrightarrow> read_head (lines_text ls @ crlf @ s) = (ls, s)"
proof (induction ls)
  case Nil
  then show ?case using read_head_end [of s] by (simp add: lines_text_def)
next
  case (Cons l ls)
  then have "read_head (l @ crlf @ lines_text ls @ crlf @ s) = (l # ls, s)"
    by (subst read_head_line) auto
  then show ?case by (simp add: lines_text_def)
qed

fun header_value :: "string \<Rightarrow> string list \<Rightarrow> string option" where
  "header_value name [] = None"
| "header_value name (l # ls) =
     (if prefix name l then Some (drop (length name) l) else header_value name ls)"

definition read_request :: "string \<Rightarrow> (string list \<times> string \<times> string) option" where
  "read_request s =
     (let (ls, r) = read_head s
      in case header_value ''Content-Length: '' ls of
           None \<Rightarrow> Some (ls, '''', r)
         | Some v \<Rightarrow>
             (case atoi v of
                Inl _ \<Rightarrow> None
              | Inr n \<Rightarrow> Some (ls, take (nat n) r, drop (nat n) r)))"

lemma read_post_text:
  assumes "cr \<notin> set h" "cr \<notin> set p" "length d < 2 ^ 31"
  shows "read_request (post_text h p d @ more) =
    Some (head_lines ''POST'' h p @ post_lines d, d, crlf @ crlf @ more)"
proof -
  let ?ls = "head_lines ''POST'' h p @ post_lines d"
  have "cr \<notin> set (dec_digits (int (length d)))"
    by (auto simp: isdigit_def code_of_def dest: dec_digits_isdigit [rotated])
  then have "\<forall>l \<in> set ?ls. l \<noteq> [] \<and> cr \<notin> set l"
    using assms(1,2) by (simp add: head_lines_def post_lines_def)
  from read_head_lines [OF this]
  have "read_head (post_text h p d @ more) = (?ls, d @ crlf @ crlf @ more)"
    by (simp add: post_text_def)
  moreover have "header_value ''Content-Length: '' ?ls = Some (dec_digits (int (length d)))"
    by (simp add: head_lines_def post_lines_def)
  moreover have "atoi (dec_digits (int (length d))) = Inr (int (length d))"
    using assms(3) atoi_dec_digits [of "int (length d)" "[]"] by simp
  ultimately show ?thesis by (simp add: read_request_def)
qed

end
