(* ===== verification/HttpSocket.thy ===== *)
theory HttpSocket
  imports HttpHead
begin

text \<open>
  The exchange of \<^verbatim>\<open>client/HttpRequest.h\<close>: checking a descriptor, sending a request and reading
  its answer, and \<^verbatim>\<open>HttpRequestExec\<close>, which keeps one connection in a static member. The network
  and the kernel are a parameter, the record \<open>os\<close>: the answer of a system call may depend on
  the number of calls made before it. Descriptors are handed out as POSIX says, the lowest free
  one, and \<^verbatim>\<open>close\<close> releases them, so leaks are visible in the state. Printing is left out.
\<close>

section \<open>The environment and the state\<close>

datatype recv_answer = Data string | Again | Failed

datatype connect_answer = Connected | InProgress | Refused

record os =
  o_send :: "nat \<Rightarrow> int \<Rightarrow> string \<Rightarrow> int"
  o_recv :: "nat \<Rightarrow> int \<Rightarrow> recv_answer"
  o_select :: "nat \<Rightarrow> int \<Rightarrow> int \<times> bool \<times> bool"
  o_so_error :: "nat \<Rightarrow> int \<Rightarrow> nat option"
  o_socket :: "nat \<Rightarrow> bool"
  o_set_nonblocking :: "nat \<Rightarrow> int \<Rightarrow> bool"
  o_connect :: "nat \<Rightarrow> int \<Rightarrow> string \<Rightarrow> int \<Rightarrow> connect_answer"
  o_gethostbyname :: "string \<Rightarrow> string option"
  o_inet_pton :: "string \<Rightarrow> bool"

text \<open>
  \<open>m_iSocketFd\<close> is the static member; the rest is what the kernel keeps for the process: its
  open descriptors, the bytes it sent on each, and the closes of descriptors not open.
\<close>

record sock =
  m_iSocketFd :: int
  open_fds :: "int list"
  sent :: "(int \<times> string) list"
  bad_closes :: nat
  clock :: nat

definition INVALID_SOCKET :: int where
  "INVALID_SOCKET = - 1"

text \<open>Descriptors that \<^verbatim>\<open>fd_set\<close> has a bit for.\<close>

definition FD_SETSIZE :: int where
  "FD_SETSIZE = 1024"

definition tick :: "sock \<Rightarrow> sock" where
  "tick st = st\<lparr>clock := Suc (clock st)\<rparr>"

definition lowest_free :: "int list \<Rightarrow> int" where
  "lowest_free fds = hd (filter (\<lambda>n. n \<notin> set fds) (map int [0..<Suc (length fds)]))"

definition close_fd :: "int \<Rightarrow> sock \<Rightarrow> sock" where
  "close_fd fd st =
     (if fd \<in> set (open_fds st) then st\<lparr>open_fds := remove1 fd (open_fds st)\<rparr>
      else st\<lparr>bad_closes := Suc (bad_closes st)\<rparr>)"

section \<open>Checking a descriptor\<close>

text \<open>
  \<^verbatim>\<open>SO_ERROR\<close> fills the four bytes of \<^verbatim>\<open>error\<close>; \<^verbatim>\<open>strcmp(error, "")\<close> looks at the first, the low
  byte of the code. \<open>o_so_error\<close> is None when \<^verbatim>\<open>getsockopt\<close> fails.
\<close>

definition SocketFdCheck :: "os \<Rightarrow> int \<Rightarrow> sock \<Rightarrow> (sock \<times> int) res" where
  "SocketFdCheck os iSockFd st =
     (if \<not> (0 \<le> iSockFd \<and> iSockFd < FD_SETSIZE) then Inl BufferOverflow
      else
        let (iRet, iW, iR) = o_select os (clock st) iSockFd;
            st = tick st
        in if iRet > 0 then
             (if iW \<and> \<not> iR then
                (let ret = o_so_error os (clock st) iSockFd;
                     st = tick st
                 in case ret of
                      Some code \<Rightarrow> if code mod 256 = 0 then Inr (st, iRet) else Inr (st, - 2)
                    | None \<Rightarrow> Inr (st, - 2))
              else Inr (st, - 2))
           else if iRet = 0 then Inr (st, 0)
           else Inr (st, - 1))"

section \<open>One exchange\<close>

text \<open>
  The receive loop comes back to \<^verbatim>\<open>recv\<close> as long as the answer is \<^verbatim>\<open>EINTR\<close>, \<^verbatim>\<open>EWOULDBLOCK\<close> or
  \<^verbatim>\<open>EAGAIN\<close>; None is the loop that never ends.
\<close>

partial_function (option) recv_loop :: "os \<Rightarrow> int \<Rightarrow> nat \<Rightarrow> (recv_answer \<times> nat) option" where
  "recv_loop os fd t =
     (case o_recv os t fd of
        Again \<Rightarrow> recv_loop os fd (Suc t)
      | a \<Rightarrow> Some (a, Suc t))"

text \<open>
  \<^verbatim>\<open>send\<close> answers with the number of bytes the kernel took, which may be fewer than it was given, or
  with -1. A socket whose peer is gone is taken to answer -1, not to raise \<^verbatim>\<open>SIGPIPE\<close>.
\<close>

definition took :: "int \<Rightarrow> int \<Rightarrow> string \<Rightarrow> sock \<Rightarrow> sock" where
  "took fd n bytes st = st\<lparr>sent := sent st @ [(fd, take (nat n) bytes)]\<rparr>"

lemma took_simps [simp]:
  "m_iSocketFd (took fd n bytes st) = m_iSocketFd st" "open_fds (took fd n bytes st) = open_fds st"
  "bad_closes (took fd n bytes st) = bad_closes st" "clock (took fd n bytes st) = clock st"
  "sent (took fd n bytes st) = sent st @ [(fd, take (nat n) bytes)]"
  by (simp_all add: took_def)

text \<open>
  The head of a request in the heap; \<^verbatim>\<open>HttpDataTransmit\<close> frees it. The number of bytes taken is
  compared with 0 only: the rest of a request that was taken in part is never sent.
\<close>

datatype heap_string = Live string | Freed

definition HttpDataTransmit :: "os \<Rightarrow> heap_string \<Rightarrow> int \<Rightarrow> sock \<Rightarrow> (sock \<times> string option) outcome" where
  "HttpDataTransmit os strHttpHead iSockFd st =
     (case strHttpHead of
        Freed \<Rightarrow> Faults UseAfterFree
      | Live text \<Rightarrow>
          let ret = o_send os (clock st) iSockFd (text @ [nul]);
              st = tick st
          in if ret < 0 then Returns (close_fd iSockFd st, None)
             else
               let st = took iSockFd ret (text @ [nul]) st
               in (case recv_loop os iSockFd (clock st) of
                  None \<Rightarrow> Diverges
                | Some (a, t) \<Rightarrow>
                    let st = st\<lparr>clock := t\<rparr>
                    in (case a of
                          Data b \<Rightarrow>
                            if b = [] then Returns (close_fd iSockFd st, None)
                            else Returns (st, Some (take BUFSIZE b))
                        | _ \<Rightarrow> Returns (close_fd iSockFd st, None))))"

text \<open>
  \<^verbatim>\<open>strcpy(strResponse, strResult)\<close>: the buffer was zeroed, so only an answer that fills it
  without a NUL has no end; the destination has room for \<open>n\<close> bytes.
\<close>

definition copy_response :: "nat \<Rightarrow> string \<Rightarrow> string res" where
  "copy_response n strResult =
     (if length strResult < BUFSIZE \<or> nul \<in> set strResult then strcpy_buf n (cstr strResult)
      else Inl OutOfBounds)"

section \<open>A request\<close>

text \<open>
  What follows the reuse of the connection: a new socket, its connection, the exchange. The
  result is the returned number and what was written to \<^verbatim>\<open>strResponse\<close>.
\<close>

type_synonym reply = "sock \<times> int \<times> string option"

definition drop_connection :: "sock \<Rightarrow> sock" where
  "drop_connection st = (close_fd (m_iSocketFd st) st)\<lparr>m_iSocketFd := INVALID_SOCKET\<rparr>"

definition exchange :: "os \<Rightarrow> nat \<Rightarrow> heap_string \<Rightarrow> sock \<Rightarrow> reply outcome" where
  "exchange os n strHttpHead st =
     bind_out (HttpDataTransmit os strHttpHead (m_iSocketFd st) st) (\<lambda>(st, strResult).
       case strResult of
         None \<Rightarrow> Returns (drop_connection st, 0, None)
       | Some r \<Rightarrow> bind_out (outcome_of (copy_response n r)) (\<lambda>s. Returns (st, 1, Some s)))"

text \<open>The part after \<^verbatim>\<open>connect\<close>, and the part from \<^verbatim>\<open>inet_pton\<close> on.\<close>

definition after_connect :: "os \<Rightarrow> nat \<Rightarrow> heap_string \<Rightarrow> connect_answer \<Rightarrow> sock \<Rightarrow> reply outcome" where
  "after_connect os n strHttpHead answer st =
     (case answer of
        Connected \<Rightarrow> exchange os n strHttpHead st
      | Refused \<Rightarrow> Returns (st, 0, None)
      | InProgress \<Rightarrow>
          bind_out (outcome_of (SocketFdCheck os (m_iSocketFd st) st)) (\<lambda>(st, iRet).
            if iRet > 0 then exchange os n strHttpHead st
            else Returns (drop_connection st, 0, None)))"

definition connect_to :: "os \<Rightarrow> nat \<Rightarrow> heap_string \<Rightarrow> string \<Rightarrow> int \<Rightarrow> sock \<Rightarrow> reply outcome" where
  "connect_to os n strHttpHead strIP iPort st =
     (if \<not> o_inet_pton os strIP then Returns (drop_connection st, 0, None)
      else if \<not> o_set_nonblocking os (clock st) (m_iSocketFd st)
      then Returns (drop_connection (tick st), 0, None)
      else
        let st = tick st;
            answer = o_connect os (clock st) (m_iSocketFd st) strIP (iPort mod 65536)
        in after_connect os n strHttpHead answer (tick st))"

definition connect_and_exchange :: "os \<Rightarrow> nat \<Rightarrow> string \<Rightarrow> heap_string \<Rightarrow> sock \<Rightarrow> reply outcome" where
  "connect_and_exchange os n strUrl strHttpHead st =
     (if \<not> o_socket os (clock st)
      then Returns (tick (st\<lparr>m_iSocketFd := - 1\<rparr>), 0, None)
      else
        let fd = lowest_free (open_fds st);
            st = tick (st\<lparr>m_iSocketFd := fd, open_fds := fd # open_fds st\<rparr>)
        in
          bind_out (outcome_of (GetPortFromUrl strUrl)) (\<lambda>iPort.
          if iPort < 0 then Returns (st, 0, None)
          else
            bind_out (outcome_of (GetIPFromUrl (o_gethostbyname os) strUrl)) (\<lambda>strIP.
            case strIP of
              None \<Rightarrow> Returns (st, 0, None)
            | Some ip \<Rightarrow> connect_to os n strHttpHead ip iPort st)))"

definition HttpRequestExec ::
  "os \<Rightarrow> nat \<Rightarrow> string \<Rightarrow> string option \<Rightarrow> string option \<Rightarrow> sock \<Rightarrow> reply outcome" where
  "HttpRequestExec os n strMethod strUrl strData st =
     (case strUrl of
        None \<Rightarrow> Returns (st, 0, None)
      | Some url \<Rightarrow>
          if url = '''' then Returns (st, 0, None)
          else if URLSIZE < length url then Returns (st, 0, None)
          else
            bind_out (outcome_of (HttpHeadCreate strMethod url strData)) (\<lambda>strHttpHead.
            if m_iSocketFd st \<noteq> INVALID_SOCKET then
              bind_out (outcome_of (SocketFdCheck os (m_iSocketFd st) st)) (\<lambda>(st, iRet).
              if iRet > 0 then
                bind_out (HttpDataTransmit os (Live strHttpHead) (m_iSocketFd st) st)
                  (\<lambda>(st, strResult).
                    case strResult of
                      Some r \<Rightarrow>
                        bind_out (outcome_of (copy_response n r)) (\<lambda>s. Returns (st, 1, Some s))
                    | None \<Rightarrow> connect_and_exchange os n url Freed st)
              else connect_and_exchange os n url (Live strHttpHead) st)
            else connect_and_exchange os n url (Live strHttpHead) st))"

definition HttpGet :: "os \<Rightarrow> nat \<Rightarrow> string option \<Rightarrow> sock \<Rightarrow> reply outcome" where
  "HttpGet os n strUrl st = HttpRequestExec os n ''GET'' strUrl None st"

definition HttpPost :: "os \<Rightarrow> nat \<Rightarrow> string option \<Rightarrow> string option \<Rightarrow> sock \<Rightarrow> reply outcome" where
  "HttpPost os n strUrl strData st = HttpRequestExec os n ''POST'' strUrl strData st"

text \<open>The state a process starts in: the three standard streams, no connection.\<close>

definition sock_init :: sock where
  "sock_init = \<lparr>m_iSocketFd = INVALID_SOCKET, open_fds = [0, 1, 2], sent = [], bad_closes = 0, clock = 0\<rparr>"

section \<open>The receive loop\<close>

lemma recv_loop_decisive:
  "o_recv os t fd \<noteq> Again \<Longrightarrow> recv_loop os fd t = Some (o_recv os t fd, Suc t)"
  by (subst recv_loop.simps) (cases "o_recv os t fd"; simp)

lemma recv_loop_again: "o_recv os t fd = Again \<Longrightarrow> recv_loop os fd t = recv_loop os fd (Suc t)"
  by (subst recv_loop.simps) simp

lemma recv_loop_wait:
  "(\<forall>j < k. o_recv os (t + j) fd = Again) \<Longrightarrow> recv_loop os fd t = recv_loop os fd (t + k)"
proof (induction k)
  case (Suc k)
  then have "recv_loop os fd t = recv_loop os fd (t + k)" by simp
  also have "\<dots> = recv_loop os fd (Suc (t + k))" using Suc.prems by (intro recv_loop_again) simp
  finally show ?case by simp
qed simp

lemma recv_loop_forever:
  assumes "\<forall>k. o_recv os (t + k) fd = Again"
  shows "recv_loop os fd t = None"
proof -
  have "\<exists>k. o_recv os (t + k) fd \<noteq> Again" if "recv_loop os fd t = Some p" for p
    using that
  proof (induction rule: recv_loop.raw_induct)
    case (1 loop os fd t p)
    show ?case
    proof (cases "o_recv os t fd = Again")
      case True
      have "loop os fd (Suc t) = Some p" "recv_loop os fd (Suc t) = Some p"
        using 1(2,3) True recv_loop_again [OF True] by simp_all
      from 1(1) [OF this] obtain k where "o_recv os (Suc t + k) fd \<noteq> Again" by blast
      then have "o_recv os (t + Suc k) fd \<noteq> Again" by simp
      then show ?thesis by blast
    next
      case False
      then have "o_recv os (t + 0) fd \<noteq> Again" by simp
      then show ?thesis by blast
    qed
  qed (rule that)
  with assms show ?thesis by (cases "recv_loop os fd t") auto
qed

lemma recv_loop_cases:
  obtains (forever) "\<forall>k. o_recv os (t + k) fd = Again" "recv_loop os fd t = None"
  | (answer) k where "\<forall>j < k. o_recv os (t + j) fd = Again" "o_recv os (t + k) fd \<noteq> Again"
      "recv_loop os fd t = Some (o_recv os (t + k) fd, Suc (t + k))"
proof (cases "\<forall>k. o_recv os (t + k) fd = Again")
  case True
  then show ?thesis by (intro forever recv_loop_forever)
next
  case False
  define k where "k = (LEAST k. o_recv os (t + k) fd \<noteq> Again)"
  have "\<exists>k. o_recv os (t + k) fd \<noteq> Again" using False by blast
  from LeastI_ex [OF this] have k1: "o_recv os (t + k) fd \<noteq> Again" unfolding k_def .
  have "o_recv os (t + j) fd = Again" if "j < k" for j
    using not_less_Least [OF that [unfolded k_def]] by simp
  with k1 have k: "o_recv os (t + k) fd \<noteq> Again" "\<forall>j < k. o_recv os (t + j) fd = Again" by auto
  have "recv_loop os fd t = Some (o_recv os (t + k) fd, Suc (t + k))"
    by (rule trans [OF recv_loop_wait [OF k(2)] recv_loop_decisive [OF k(1)]])
  with k show ?thesis by (intro answer)
qed

section \<open>The descriptors\<close>

text \<open>
  The open descriptors are distinct, and the static member is either invalid or one of them:
  it never names a descriptor that was closed.
\<close>

definition sock_inv :: "sock \<Rightarrow> bool" where
  "sock_inv st \<longleftrightarrow>
     distinct (open_fds st) \<and> (\<forall>fd \<in> set (open_fds st). 0 \<le> fd) \<and>
     (m_iSocketFd st \<noteq> INVALID_SOCKET \<longrightarrow> m_iSocketFd st \<in> set (open_fds st))"

lemma sock_inv_init: "sock_inv sock_init"
  by (simp add: sock_inv_def sock_init_def)

lemma lowest_free_mem:
  "lowest_free fds \<in> set (filter (\<lambda>n. n \<notin> set fds) (map int [0..<Suc (length fds)]))"
proof -
  let ?free = "filter (\<lambda>n. n \<notin> set fds) (map int [0..<Suc (length fds)])"
  have "?free \<noteq> []"
  proof
    assume "?free = []"
    then have "\<forall>n \<in> set (map int [0..<Suc (length fds)]). n \<in> set fds"
      by (simp only: filter_empty_conv not_not)
    moreover have "set (map int [0..<Suc (length fds)]) = int ` {0..length fds}"
      by (simp only: set_map set_upt atLeastLessThanSuc_atLeastAtMost)
    ultimately have "int ` {0..length fds} \<subseteq> set fds" by blast
    then have "card (int ` {0..length fds}) \<le> card (set fds)" by (intro card_mono) auto
    moreover have "card (int ` {0..length fds}) = Suc (length fds)"
      by (simp add: card_image)
    ultimately show False using card_length [of fds] by linarith
  qed
  then show ?thesis unfolding lowest_free_def by (rule hd_in_set)
qed

lemma lowest_free_new: "lowest_free fds \<notin> set fds" "0 \<le> lowest_free fds"
proof -
  note lowest_free_mem [of fds]
  then show "lowest_free fds \<notin> set fds" "0 \<le> lowest_free fds" by (auto simp del: upt_Suc)
qed

lemma hd_least: "sorted xs \<Longrightarrow> x \<in> set xs \<Longrightarrow> hd xs \<le> (x :: int)"
  by (cases xs) auto

lemma lowest_free_least: "0 \<le> m \<Longrightarrow> m < lowest_free fds \<Longrightarrow> m \<in> set fds"
proof (rule ccontr)
  assume m: "0 \<le> m" "m < lowest_free fds" "m \<notin> set fds"
  let ?ns = "map int [0..<Suc (length fds)]"
  have le: "lowest_free fds \<le> x" if "x \<in> set (filter (\<lambda>n. n \<notin> set fds) ?ns)" for x
  proof -
    have "sorted (map int [0..<k])" for k by (induction k) (auto simp: sorted_append)
    then have "sorted ?ns" .
    then have "sorted (filter (\<lambda>n. n \<notin> set fds) ?ns)" by (rule sorted_wrt_filter)
    from hd_least [OF this that] show ?thesis unfolding lowest_free_def .
  qed
  have "lowest_free fds \<in> set ?ns"
    using lowest_free_mem [of fds] by (simp only: set_filter mem_Collect_eq)
  then have "lowest_free fds \<le> int (length fds)" by (auto simp del: upt_Suc)
  then have "m \<in> set ?ns"
    using m by (auto simp del: upt_Suc intro!: image_eqI [of _ _ "nat m"])
  with m le [of m] show False by (simp del: upt_Suc)
qed

lemma tick_simps [simp]:
  "m_iSocketFd (tick st) = m_iSocketFd st" "open_fds (tick st) = open_fds st" "sent (tick st) = sent st"
  "bad_closes (tick st) = bad_closes st"
  by (simp_all add: tick_def)

lemma close_fd_simps [simp]:
  "m_iSocketFd (close_fd fd st) = m_iSocketFd st" "sent (close_fd fd st) = sent st"
  "open_fds (close_fd fd st) = remove1 fd (open_fds st)"
  by (simp_all add: close_fd_def remove1_idem)

lemma drop_connection_inv: "sock_inv st \<Longrightarrow> sock_inv (drop_connection st)"
  by (auto simp: sock_inv_def drop_connection_def)

lemma check_state:
  "SocketFdCheck os fd st = Inr (st', r) \<Longrightarrow>
   open_fds st' = open_fds st \<and> m_iSocketFd st' = m_iSocketFd st \<and> sent st' = sent st \<and>
   bad_closes st' = bad_closes st"
  by (auto simp: SocketFdCheck_def Let_def split: if_splits prod.splits option.splits)

text \<open>After an exchange the descriptor is open exactly when there is an answer.\<close>

lemma transmit_state:
  "HttpDataTransmit os h fd st = Returns (st', r) \<Longrightarrow>
   m_iSocketFd st' = m_iSocketFd st \<and>
   open_fds st' = (if r = None then remove1 fd (open_fds st) else open_fds st) \<and>
   (\<exists>t. h = Live t \<and> (sent st' = sent st \<or> (\<exists>n. sent st' = sent st @ [(fd, take n (t @ [nul]))]))) \<and>
   (r \<noteq> None \<longrightarrow> bad_closes st' = bad_closes st)"
  by (auto simp: HttpDataTransmit_def Let_def
      split: if_splits heap_string.splits option.splits prod.splits recv_answer.splits)

text \<open>A property of the state in which a run returns.\<close>

definition ends :: "(sock \<Rightarrow> bool) \<Rightarrow> reply outcome \<Rightarrow> bool" where
  "ends P oc \<longleftrightarrow> (case oc of Returns (st, ret, resp) \<Rightarrow> P st | _ \<Rightarrow> True)"

lemma ends_simps [simp]:
  "ends P (Returns (st, r)) \<longleftrightarrow> P st" "ends P (Faults f)" "ends P Diverges"
  by (cases r; simp add: ends_def)+

lemma ends_bind: "(\<And>x. m = Returns x \<Longrightarrow> ends P (f x)) \<Longrightarrow> ends P (bind_out m f)"
  by (cases m) auto

lemma ends_bind_check:
  assumes "sock_inv st" "\<And>u r. sock_inv u \<Longrightarrow> m_iSocketFd u = m_iSocketFd st \<Longrightarrow> ends P (f (u, r))"
  shows "ends P (bind_out (outcome_of (SocketFdCheck os fd st)) f)"
proof (rule ends_bind)
  fix x
  assume "outcome_of (SocketFdCheck os fd st) = Returns x"
  then have "SocketFdCheck os fd st = Inr (fst x, snd x)" by (simp add: res_simps)
  from check_state [OF this] assms(1) have "sock_inv (fst x)" "m_iSocketFd (fst x) = m_iSocketFd st"
    by (simp_all add: sock_inv_def)
  from assms(2) [OF this, of "snd x"] show "ends P (f x)" by simp
qed

lemma exchange_inv: "sock_inv st \<Longrightarrow> ends sock_inv (exchange os n h st)"
  unfolding exchange_def
proof (rule ends_bind)
  fix x
  assume inv: "sock_inv st" and "HttpDataTransmit os h (m_iSocketFd st) st = Returns x"
  then have t: "HttpDataTransmit os h (m_iSocketFd st) st = Returns (fst x, snd x)" by simp
  show "ends sock_inv (case x of (st, strResult) \<Rightarrow> case strResult of
      None \<Rightarrow> Returns (drop_connection st, 0, None)
    | Some r \<Rightarrow> bind_out (outcome_of (copy_response n r)) (\<lambda>s. Returns (st, 1, Some s)))"
    using transmit_state [OF t] inv
    by (cases x; cases "snd x")
      (auto simp: sock_inv_def drop_connection_def intro!: ends_bind dest: notin_set_remove1)
qed

lemma after_connect_inv: "sock_inv st \<Longrightarrow> ends sock_inv (after_connect os n h answer st)"
  by (cases answer)
    (auto simp: after_connect_def exchange_inv drop_connection_inv intro!: ends_bind_check)

lemma tick_inv [simp]: "sock_inv (tick st) = sock_inv st"
  by (simp add: sock_inv_def)

lemma connect_to_inv: "sock_inv st \<Longrightarrow> ends sock_inv (connect_to os n h ip port st)"
  by (simp add: connect_to_def Let_def after_connect_inv drop_connection_inv)

definition fds_ok :: "sock \<Rightarrow> bool" where
  "fds_ok st \<longleftrightarrow> distinct (open_fds st) \<and> (\<forall>fd \<in> set (open_fds st). 0 \<le> fd)"

lemma connect_inv: "fds_ok st \<Longrightarrow> ends sock_inv (connect_and_exchange os n url h st)"
  using lowest_free_new [of "open_fds st"]
  by (auto simp: connect_and_exchange_def Let_def fds_ok_def sock_inv_def INVALID_SOCKET_def
      intro!: ends_bind connect_to_inv split: option.splits)

lemma request_inv: "sock_inv st \<Longrightarrow> ends sock_inv (HttpRequestExec os n m url data st)"
proof -
  assume inv: "sock_inv st"
  have ok: "sock_inv u \<Longrightarrow> fds_ok u" for u by (simp add: sock_inv_def fds_ok_def)
  have transmitted: "fds_ok v \<and> (r \<noteq> None \<longrightarrow> sock_inv v)"
    if "HttpDataTransmit os h (m_iSocketFd u) u = Returns (v, r)" "sock_inv u" for h u v r
    using transmit_state [OF that(1)] that(2)
    by (auto simp: sock_inv_def fds_ok_def dest: notin_set_remove1)
  have checked: "sock_inv u" if "outcome_of (SocketFdCheck os fd st) = Returns (u, r)" for fd u r
    using check_state [of os fd st u r] that inv by (simp add: sock_inv_def res_simps)
  have after: "fds_ok v" "r' \<noteq> None \<Longrightarrow> sock_inv v"
    if "outcome_of (SocketFdCheck os fd st) = Returns (u, r)"
      "HttpDataTransmit os h (m_iSocketFd u) u = Returns (v, r')" for fd u r h v r'
    using transmitted [OF that(2) checked [OF that(1)]] by auto
  have checked': "fds_ok u" if "outcome_of (SocketFdCheck os fd st) = Returns (u, r)" for fd u r
    by (rule ok [OF checked [OF that]])
  show ?thesis
    unfolding HttpRequestExec_def
    using inv ok [OF inv]
    by (auto intro!: ends_bind connect_inv split: option.splits)
      (erule (1) after(1), erule (1) after(2), simp, erule checked')
qed

end
