(* ===== verification/HttpProperties.thy ===== *)
theory HttpProperties
  imports HttpSocket
begin

text \<open>
  The properties of \<^verbatim>\<open>client/HttpRequest.h\<close>: parsing URLs, the text of a request as a receiver
  reads it, the buffer bounds, the termination of the receive loop, the life of descriptors and
  of the request head, and the successful exchange.
\<close>

section \<open>URLs\<close>

text \<open>
  C11: for a URL put together from scheme, host, port and path the three parsers return the
  parts: the host with its port as written, the path without its slash, and the port number, 80
  when none is given.
\<close>

theorem url_round_trip:
  assumes "url_parts_ok s host port path"
  shows "GetHostAddrFromUrl (make_url s host port path) = Inr (authority host port) \<and>
    GetParamFromUrl (make_url s host port path) = Inr (case path of None \<Rightarrow> '''' | Some q \<Rightarrow> q) \<and>
    GetPortFromUrl (make_url s host port path) = Inr (case port of None \<Rightarrow> 80 | Some p \<Rightarrow> p)"
  using url_host_param [OF assms] url_port [OF assms] by simp

theorem url_round_trip_witness:
  "GetPortFromUrl ''https://10.0.0.7:8080/api'' = Inr 8080 \<and>
   GetParamFromUrl ''https://10.0.0.7:8080/api'' = Inr ''api''"
proof -
  have "url_parts_ok Https ''10.0.0.7'' (Some 8080) (Some ''api'')" by code_simp
  moreover have "make_url Https ''10.0.0.7'' (Some 8080) (Some ''api'') = ''https://10.0.0.7:8080/api''"
    by code_simp
  ultimately show ?thesis using url_round_trip [of Https "''10.0.0.7''" "Some 8080" "Some ''api''"] by simp
qed

text \<open>
  The address of a host is its name itself when the name contains exactly three dots, even
  if it is not a dotted quad (the digit test of the loop can not fail), no address when it has
  fewer than two characters, and otherwise the first answer of the resolver.
\<close>

lemma ip_from_url:
  assumes "url_parts_ok s host port path"
  shows "GetIPFromUrl dns (make_url s host port path) =
    Inr (if length host \<le> 1 then None
         else if length (filter (\<lambda>c. c = CHR ''.'') host) = 3 then Some host
         else dns host)"
proof -
  have "0 \<le> p" if "port = Some p" for p using assms that by (simp add: url_parts_ok_def)
  then have nul: "nul \<notin> set (authority host port)"
    using assms by (auto simp: url_parts_ok_def authority_def isdigit_def code_of_def
        dest: dec_digits_isdigit split: option.splits)
  have "CHR '':'' \<notin> set host" using assms by (simp add: url_parts_ok_def)
  then have "takeWhile (\<lambda>c. c \<noteq> CHR '':'') (authority host port) = host"
    by (cases port) (auto simp: authority_def takeWhile_append_stop takeWhile_eq_all_conv)
  then show ?thesis
    using GetIPFromUrl_value [OF url_host_param(1) [OF assms] nul, of dns] by (simp add: Let_def)
qed

lemma ip_from_url_witness:
  "GetIPFromUrl (\<lambda>_. Some ''10.0.0.7'') ''http://a.b.example.org/x'' = Inr (Some ''a.b.example.org'')"
proof -
  have "url_parts_ok Http ''a.b.example.org'' None (Some ''x'')" by code_simp
  moreover have "make_url Http ''a.b.example.org'' None (Some ''x'') = ''http://a.b.example.org/x''"
    by code_simp
  ultimately show ?thesis
    using ip_from_url [of Http "''a.b.example.org''" None "Some ''x''" "\<lambda>_. Some ''10.0.0.7''"] by simp
qed

text \<open>
  The length guard of a request is off by one: longer URLs and empty ones are refused with 0
  and no effect, but one of exactly 1024 characters passes and overflows the copy that the
  parsers make.
\<close>

lemma url_length_guard:
  "HttpRequestExec os n m None data st = Returns (st, 0, None) \<and>
   HttpRequestExec os n m (Some '''') data st = Returns (st, 0, None) \<and>
   (1024 < length url \<longrightarrow> HttpRequestExec os n m (Some url) data st = Returns (st, 0, None)) \<and>
   (length url = 1024 \<longrightarrow> HttpRequestExec os n m (Some url) data st = Faults BufferOverflow)"
  by (auto simp: HttpRequestExec_def URLSIZE_def HttpHeadCreate_def GetHostAddrFromUrl_def buf_simps)

section \<open>The request\<close>

lemma sample_post_fits: "length (post_text ''h.org'' ''in'' ''{}'') < BUFSIZE"
  by (simp add: post_text_def lines_text_def head_lines_def post_lines_def dec_digits.simps BUFSIZE_def)

text \<open>
  C10: the bytes of a POST, read by a receiver, are a request line with the path, the host of the
  URL, and as body exactly the data; the two line ends and the NUL that the client adds are left
  in the stream.
\<close>

theorem post_body_round_trip:
  assumes "url_parts_ok s host port path" and "cr \<notin> set (make_url s host port path)"
    and "HttpHeadCreate ''POST'' (make_url s host port path) (Some data) = Inr text"
  shows "read_request (text @ [nul]) =
    Some (head_lines ''POST'' (authority host port) (case path of None \<Rightarrow> '''' | Some q \<Rightarrow> q) @ post_lines data,
          data, crlf @ crlf @ [nul])"
proof -
  let ?h = "authority host port" and ?p = "case path of None \<Rightarrow> '''' | Some q \<Rightarrow> q"
  have t: "text = post_text ?h ?p data" "length text < BUFSIZE"
    using assms(3) head_create_post [OF url_host_param [OF assms(1)], of data] by (auto split: if_splits)
  have "cr \<notin> set ?h" "cr \<notin> set ?p" using assms(2) by (auto simp: make_url_def split: option.splits)
  moreover have "length data < 2 ^ 31" using t by (simp add: post_text_def BUFSIZE_def)
  ultimately show ?thesis using read_post_text t(1) by simp
qed

theorem post_body_round_trip_witness:
  "\<exists>text. HttpHeadCreate ''POST'' ''http://h.org/in'' (Some ''{}'') = Inr text \<and>
     map_option (fst \<circ> snd) (read_request (text @ [nul])) = Some ''{}''"
proof -
  have ok: "url_parts_ok Http ''h.org'' None (Some ''in'')" by code_simp
  have url: "make_url Http ''h.org'' None (Some ''in'') = ''http://h.org/in''" by code_simp
  have "cr \<notin> set ''http://h.org/in''" by simp
  moreover have "GetHostAddrFromUrl ''http://h.org/in'' = Inr ''h.org''"
    "GetParamFromUrl ''http://h.org/in'' = Inr ''in''"
    by code_simp+
  with sample_post_fits have "\<exists>text. HttpHeadCreate ''POST'' ''http://h.org/in'' (Some ''{}'') = Inr text"
    using head_create_post by simp
  ultimately show ?thesis
    using post_body_round_trip [OF ok, of "''{}''"] unfolding url by auto
qed

text \<open>
  C34: a POST is built exactly when its text and its NUL fit the 41000 bytes of the buffer; a
  longer one overflows it, whatever the length of the data, and a POST without data reads
  through a null pointer.
\<close>

theorem post_overflow:
  assumes "GetHostAddrFromUrl url = Inr h" and "GetParamFromUrl url = Inr p"
  shows "HttpHeadCreate ''POST'' url (Some data) =
      (if length (post_text h p data) < 41000 then Inr (post_text h p data) else Inl BufferOverflow) \<and>
    HttpHeadCreate ''POST'' url None = Inl NullDeref"
proof -
  have "strcats BUFSIZE '''' [''POST'', '' /'', p, '' HTTP/1.1'' @ crlf, ''Accept: */*'' @ crlf,
        ''Accept-Language: en-us,en;q=0.5'' @ crlf, ''User-Agent: Mozilla/4.0'' @ crlf,
        ''Host: '', h, crlf, ''Cache-Control: no-cache'' @ crlf, ''Connection: Keep-Alive'' @ crlf] =
      Inr (lines_text (head_lines ''POST'' h p))"
    using parser_bounds [OF assms]
    by (simp add: strcats_cases BUFSIZE_def URLSIZE_def lines_text_def head_lines_def del: strcats.simps)
  then have "HttpHeadCreate ''POST'' url None = Inl NullDeref"
    by (simp add: HttpHeadCreate_def assms del: strcats.simps)
  with head_create_post [OF assms, of data] show ?thesis by (simp add: BUFSIZE_def)
qed

theorem post_overflow_witness:
  "HttpHeadCreate ''POST'' ''http://h.org/in'' (Some (replicate 41000 (CHR ''x''))) = Inl BufferOverflow"
proof -
  have parts: "GetHostAddrFromUrl ''http://h.org/in'' = Inr ''h.org''" "GetParamFromUrl ''http://h.org/in'' = Inr ''in''"
    by code_simp+
  have "\<not> length (post_text ''h.org'' ''in'' (replicate 41000 (CHR ''x''))) < 41000"
    by (simp add: post_text_def)
  with post_overflow [OF parts, of "replicate 41000 (CHR ''x'')"] show ?thesis by (simp only: if_False)
qed

section \<open>The exchange\<close>

text \<open>
  C33: sending a request that is still in the heap never faults; it returns when the kernel
  refuses to send or some \<^verbatim>\<open>recv\<close> gives an answer other than \<^verbatim>\<open>EAGAIN\<close>, and otherwise spins for ever:
  the loop on a non-blocking socket has no timeout.
\<close>

theorem transmit_termination:
  "(HttpDataTransmit os (Live s) fd st = Diverges \<longleftrightarrow>
      0 \<le> o_send os (clock st) fd (s @ [nul]) \<and> (\<forall>k. o_recv os (Suc (clock st) + k) fd = Again)) \<and>
   (\<nexists>f. HttpDataTransmit os (Live s) fd st = Faults f)"
proof (rule recv_loop_cases [of os "Suc (clock st)" fd])
  assume "\<forall>k. o_recv os (Suc (clock st) + k) fd = Again" "recv_loop os fd (Suc (clock st)) = None"
  then show ?thesis by (simp add: HttpDataTransmit_def Let_def tick_def not_less)
next
  fix k
  assume k: "o_recv os (Suc (clock st) + k) fd \<noteq> Again"
    "recv_loop os fd (Suc (clock st)) = Some (o_recv os (Suc (clock st) + k) fd, Suc (Suc (clock st) + k))"
  then have "\<not> (\<forall>k. o_recv os (Suc (clock st) + k) fd = Again)" by blast
  with k(2) show ?thesis
    by (auto simp: HttpDataTransmit_def Let_def tick_def split: recv_answer.splits)
qed

text \<open>
  C4: the descriptors: whatever the network does, a request that returns leaves the static
  member invalid or naming a descriptor that is still open, with all open descriptors distinct;
  so no later request is sent on a closed or recycled descriptor.
\<close>

theorem request_descriptor_invariant:
  assumes "sock_inv st" and "HttpRequestExec os n m url data st = Returns (st', ret, resp)"
  shows "sock_inv st'"
  using request_inv [OF assms(1), of os n m url data] assms(2) by simp

text \<open>A network in which the peer accepts, and answers \<open>reply\<close> after \<open>k\<close> empty polls.\<close>

definition answering :: "nat \<Rightarrow> string \<Rightarrow> os" where
  "answering k reply =
     \<lparr>o_send = (\<lambda>t fd s. int (length s)), o_recv = (\<lambda>t fd. if t < k then Again else Data reply),
      o_select = (\<lambda>t fd. (1, True, False)), o_so_error = (\<lambda>t fd. Some 0), o_socket = (\<lambda>t. True),
      o_set_nonblocking = (\<lambda>t fd. True), o_connect = (\<lambda>t fd ip port. InProgress),
      o_gethostbyname = (\<lambda>name. Some ''10.0.0.7''), o_inet_pton = (\<lambda>ip. True)\<rparr>"

lemma sample_url:
  "GetHostAddrFromUrl ''http://h.org/in'' = Inr ''h.org''" "GetParamFromUrl ''http://h.org/in'' = Inr ''in''"
  "GetPortFromUrl ''http://h.org/in'' = Inr 80"
  by code_simp+

lemma sample_ip: "GetIPFromUrl dns ''http://h.org/in'' = Inr (dns ''h.org'')"
proof -
  have "nul \<notin> set ''h.org''" by simp
  from GetIPFromUrl_value [OF sample_url(1) this, of dns] show ?thesis by (simp add: Let_def)
qed

text \<open>What the environment does for a fresh connection that succeeds, call by call.\<close>

definition connects :: "os \<Rightarrow> sock \<Rightarrow> string \<Rightarrow> nat \<Rightarrow> bool" where
  "connects os st url t \<longleftrightarrow>
     (let c = clock st; fd = lowest_free (open_fds st)
      in o_socket os c \<and>
         (case (GetPortFromUrl url, GetIPFromUrl (o_gethostbyname os) url) of
            (Inr port, Inr (Some ip)) \<Rightarrow>
              0 \<le> port \<and> o_inet_pton os ip \<and> o_set_nonblocking os (Suc c) fd \<and>
              (case o_connect os (Suc (Suc c)) fd ip (port mod 65536) of
                 Connected \<Rightarrow> t = Suc (Suc (Suc c))
               | InProgress \<Rightarrow> fd < FD_SETSIZE \<and> o_select os (Suc (Suc (Suc c))) fd = (1, True, False) \<and>
                   (case o_so_error os (Suc (Suc (Suc (Suc c)))) fd of Some e \<Rightarrow> e mod 256 = 0 | None \<Rightarrow> False) \<and> t = Suc (Suc (Suc (Suc (Suc c))))
               | Refused \<Rightarrow> False)
          | _ \<Rightarrow> False))"

lemma connects_exchange:
  assumes "connects os st url t"
  shows "connect_and_exchange os n url h st =
    exchange os n h (st\<lparr>m_iSocketFd := lowest_free (open_fds st),
      open_fds := lowest_free (open_fds st) # open_fds st, clock := t\<rparr>)"
proof -
  let ?fd = "lowest_free (open_fds st)"
  obtain port ip where p: "GetPortFromUrl url = Inr port" "GetIPFromUrl (o_gethostbyname os) url = Inr (Some ip)"
    using assms by (auto simp: connects_def Let_def split: sum.splits option.splits)
  have fd: "0 \<le> ?fd" by (rule lowest_free_new)
  show ?thesis
    using assms fd
    by (auto simp: connects_def Let_def p connect_and_exchange_def connect_to_def after_connect_def
        SocketFdCheck_def tick_def split: connect_answer.splits option.splits)
qed

text \<open>The descriptor, the answer of \<^verbatim>\<open>recv\<close> after \<open>k\<close> polls, and the end state.\<close>

lemma exchange_answer:
  assumes "o_send os (clock st) (m_iSocketFd st) (s @ [nul]) = n_sent" and "0 \<le> n_sent"
    and "\<forall>j < k. o_recv os (Suc (clock st) + j) (m_iSocketFd st) = Again"
    and "o_recv os (Suc (clock st) + k) (m_iSocketFd st) = Data b" and "b \<noteq> []"
  shows "exchange os n (Live s) st =
    bind_out (outcome_of (copy_response n (take BUFSIZE b))) (\<lambda>r. Returns
      (st\<lparr>sent := sent st @ [(m_iSocketFd st, take (nat n_sent) (s @ [nul]))],
         clock := Suc (Suc (clock st) + k)\<rparr>, 1, Some r))"
proof -
  have "recv_loop os (m_iSocketFd st) (Suc (clock st)) = Some (Data b, Suc (Suc (clock st) + k))"
    using trans [OF recv_loop_wait [OF assms(3)] recv_loop_decisive]
      assms(4) by simp
  then show ?thesis
    using assms(1,2,5) by (simp add: exchange_def HttpDataTransmit_def Let_def tick_def took_def not_less)
qed

lemma post_fresh:
  assumes "m_iSocketFd st = INVALID_SOCKET" and "connects os st url t"
    and "GetHostAddrFromUrl url = Inr h" and "GetParamFromUrl url = Inr p" and "url \<noteq> ''''"
    and "length (post_text h p data) < BUFSIZE" and "fd = lowest_free (open_fds st)"
    and "o_send os t fd (post_text h p data @ [nul]) = n_sent" and "0 \<le> n_sent"
    and "\<forall>j < k. o_recv os (Suc t + j) fd = Again" and "o_recv os (Suc t + k) fd = Data b"
    and "b \<noteq> []" and "nul \<notin> set b" and "length b < BUFSIZE"
  shows "HttpPost os n (Some url) (Some data) st =
    (if length b < n
     then Returns (st\<lparr>m_iSocketFd := fd, open_fds := fd # open_fds st,
                      sent := sent st @ [(fd, take (nat n_sent) (post_text h p data @ [nul]))],
                      clock := Suc (Suc t + k)\<rparr>, 1, Some b)
     else Faults BufferOverflow)"
proof -
  have url: "length url < URLSIZE"
    using assms(3) by (auto simp: GetHostAddrFromUrl_def res_simps buf_simps)
  let ?st = "st\<lparr>m_iSocketFd := fd, open_fds := fd # open_fds st, clock := t\<rparr>"
  have "HttpPost os n (Some url) (Some data) st = exchange os n (Live (post_text h p data)) ?st"
    using url assms(1,5,6)
    by (simp add: HttpPost_def HttpRequestExec_def head_create_post [OF assms(3,4)]
        connects_exchange [OF assms(2)] assms(7))
  also have "\<dots> = bind_out (outcome_of (copy_response n (take BUFSIZE b))) (\<lambda>r. Returns
      (?st\<lparr>sent := sent ?st @ [(fd, take (nat n_sent) (post_text h p data @ [nul]))],
           clock := Suc (Suc t + k)\<rparr>, 1, Some r))"
    using exchange_answer [of os ?st "post_text h p data" n_sent k b n] assms(8-12) by simp
  finally show ?thesis
    using assms(13,14) by (simp add: copy_response_def strcpy_buf_def)
qed

text \<open>
  C9: a POST on a fresh connection gives the request text and a NUL to the kernel, once, on the
  descriptor that becomes the static member. What goes out is the part that the kernel takes, all of
  it only when \<^verbatim>\<open>send\<close> answers with the whole length: the rest of a request taken in part, even one
  of which nothing was taken, is not sent. In each case it waits through any number of empty polls
  and returns 1 with the answer, provided that fits the caller's buffer: the copy is unchecked, and
  an answer as long as the buffer overflows it.
\<close>

theorem post_exchange:
  assumes "m_iSocketFd st = INVALID_SOCKET" and "connects os st url t"
    and "GetHostAddrFromUrl url = Inr h" and "GetParamFromUrl url = Inr p" and "url \<noteq> ''''"
    and "length (post_text h p data) < BUFSIZE" and "fd = lowest_free (open_fds st)"
    and "o_send os t fd (post_text h p data @ [nul]) = n_sent" and "0 \<le> n_sent"
    and "\<forall>j < k. o_recv os (Suc t + j) fd = Again" and "o_recv os (Suc t + k) fd = Data b"
    and "b \<noteq> []" and "nul \<notin> set b" and "length b < BUFSIZE"
  shows "HttpPost os n (Some url) (Some data) st =
    (if length b < n
     then Returns (st\<lparr>m_iSocketFd := fd, open_fds := fd # open_fds st,
                      sent := sent st @ [(fd, take (nat n_sent) (post_text h p data @ [nul]))],
                      clock := Suc (Suc t + k)\<rparr>, 1, Some b)
     else Faults BufferOverflow)"
  by (rule post_fresh [OF assms])

lemma sample_connects: "connects (answering 9 reply) sock_init ''http://h.org/in'' 5"
  and sample_connects_partial: "connects ((answering 9 reply)\<lparr>o_send := partial\<rparr>) sock_init ''http://h.org/in'' 5"
proof -
  have "lowest_free [0, 1, 2] = 3" by code_simp
  then show "connects (answering 9 reply) sock_init ''http://h.org/in'' 5"
    "connects ((answering 9 reply)\<lparr>o_send := partial\<rparr>) sock_init ''http://h.org/in'' 5"
    by (simp_all add: connects_def sample_url sample_ip answering_def sock_init_def FD_SETSIZE_def)
qed

theorem post_exchange_witness:
  "HttpPost (answering 9 ''HTTP/1.1 200 OK'') 16 (Some ''http://h.org/in'') (Some ''{}'') sock_init =
     Returns (\<lparr>m_iSocketFd = 3, open_fds = [3, 0, 1, 2],
               sent = [(3, post_text ''h.org'' ''in'' ''{}'' @ [nul])], bad_closes = 0, clock = 10\<rparr>,
              1, Some ''HTTP/1.1 200 OK'') \<and>
   HttpPost ((answering 9 ''HTTP/1.1 200 OK'')\<lparr>o_send := \<lambda>t fd s. 7\<rparr>) 16 (Some ''http://h.org/in'') (Some ''{}'')
       sock_init =
     Returns (\<lparr>m_iSocketFd = 3, open_fds = [3, 0, 1, 2], sent = [(3, ''POST /i'')], bad_closes = 0, clock = 10\<rparr>,
              1, Some ''HTTP/1.1 200 OK'')"
proof (rule conjI)
  have fd: "3 = lowest_free (open_fds sock_init)" by code_simp
  show "HttpPost ((answering 9 ''HTTP/1.1 200 OK'')\<lparr>o_send := \<lambda>t fd s. 7\<rparr>) 16 (Some ''http://h.org/in'') (Some ''{}'')
       sock_init =
     Returns (\<lparr>m_iSocketFd = 3, open_fds = [3, 0, 1, 2], sent = [(3, ''POST /i'')], bad_closes = 0, clock = 10\<rparr>,
              1, Some ''HTTP/1.1 200 OK'')"
    using post_exchange [OF _ sample_connects_partial [of "\<lambda>t fd s. 7" "''HTTP/1.1 200 OK''"] sample_url(1,2) _ _ fd,
        of "''{}''" 7 3 "''HTTP/1.1 200 OK''" 16] sample_post_fits
    by (simp add: answering_def sock_init_def BUFSIZE_def post_text_def lines_text_def head_lines_def)
  show "HttpPost (answering 9 ''HTTP/1.1 200 OK'') 16 (Some ''http://h.org/in'') (Some ''{}'') sock_init =
     Returns (\<lparr>m_iSocketFd = 3, open_fds = [3, 0, 1, 2],
               sent = [(3, post_text ''h.org'' ''in'' ''{}'' @ [nul])], bad_closes = 0, clock = 10\<rparr>,
              1, Some ''HTTP/1.1 200 OK'')"
    using post_exchange [OF _ sample_connects [of "''HTTP/1.1 200 OK''"] sample_url(1,2) _ _ fd,
        of "''{}''" "int (length (post_text ''h.org'' ''in'' ''{}'' @ [nul]))" 3 "''HTTP/1.1 200 OK''" 16]
      sample_post_fits
    by (simp add: answering_def sock_init_def BUFSIZE_def)
qed

lemma url_length_guard_witness:
  "HttpRequestExec (answering 9 ''ok'') 16 ''GET'' (Some (replicate 1024 (CHR ''a''))) None sock_init =
     Faults BufferOverflow"
  using url_length_guard [of "answering 9 ''ok''" 16 "''GET''" None sock_init "replicate 1024 (CHR ''a'')"]
  by simp

theorem request_descriptor_invariant_witness:
  "\<exists>st' ret resp. HttpRequestExec (answering 9 ''ok'') 16 ''POST'' (Some ''http://h.org/in'') (Some ''{}'') sock_init =
     Returns (st', ret, resp) \<and> m_iSocketFd st' \<in> set (open_fds st') \<and> sock_inv st'"
proof -
  have fd: "3 = lowest_free (open_fds sock_init)" by code_simp
  let ?st = "\<lparr>m_iSocketFd = 3, open_fds = [3, 0, 1, 2],
      sent = [(3, post_text ''h.org'' ''in'' ''{}'' @ [nul])], bad_closes = 0, clock = 10\<rparr>"
  have "HttpPost (answering 9 ''ok'') 16 (Some ''http://h.org/in'') (Some ''{}'') sock_init =
      Returns (?st, 1, Some ''ok'')"
    using post_fresh [OF _ sample_connects [of "''ok''"] sample_url(1,2) _ _ fd, of "''{}''"
        "int (length (post_text ''h.org'' ''in'' ''{}'' @ [nul]))" 3 "''ok''" 16]
      sample_post_fits
    by (simp add: answering_def sock_init_def BUFSIZE_def)
  then have "HttpRequestExec (answering 9 ''ok'') 16 ''POST'' (Some ''http://h.org/in'') (Some ''{}'') sock_init =
      Returns (?st, 1, Some ''ok'')"
    by (simp add: HttpPost_def)
  with request_descriptor_invariant [OF sock_inv_init this] show ?thesis by auto
qed

text \<open>
  C35: when a kept connection fails during the exchange and the client connects again, it sends
  the request from storage that the failed exchange has already freed.
\<close>

theorem reuse_use_after_free:
  assumes "m_iSocketFd st \<noteq> INVALID_SOCKET" and "HttpHeadCreate m url data = Inr head" and "url \<noteq> ''''"
    and "SocketFdCheck os (m_iSocketFd st) st = Inr (st1, r)" and "0 < r"
    and "HttpDataTransmit os (Live head) (m_iSocketFd st1) st1 = Returns (st2, None)"
    and "connects os st2 url t"
  shows "HttpRequestExec os n m (Some url) data st = Faults UseAfterFree"
proof -
  have "length url < URLSIZE"
    using assms(2) by (auto simp: HttpHeadCreate_def GetHostAddrFromUrl_def res_simps buf_simps)
  then show ?thesis
    using assms(1-6)
    by (simp add: HttpRequestExec_def connects_exchange [OF assms(7)] exchange_def HttpDataTransmit_def)
qed

theorem reuse_use_after_free_witness:
  "HttpRequestExec ((answering 0 ''ok'')\<lparr>o_send := \<lambda>t fd s. - 1\<rparr>) 4096 ''GET'' (Some ''http://h.org/in'') None
     (sock_init\<lparr>m_iSocketFd := 3, open_fds := [3, 0, 1, 2]\<rparr>) = Faults UseAfterFree"
proof -
  let ?os = "(answering 0 ''ok'')\<lparr>o_send := \<lambda>t fd s. - 1\<rparr>"
  let ?st = "sock_init\<lparr>m_iSocketFd := 3, open_fds := [3, 0, 1, 2]\<rparr>"
  let ?head = "get_text ''h.org'' ''in''"
  let ?st1 = "?st\<lparr>clock := 2\<rparr>"
  let ?st2 = "?st\<lparr>open_fds := [0, 1, 2], clock := 3\<rparr>"
  have head: "HttpHeadCreate ''GET'' ''http://h.org/in'' None = Inr ?head"
    by (rule head_create_get [OF sample_url(1,2)])
  have check: "SocketFdCheck ?os (m_iSocketFd ?st) ?st = Inr (?st1, 1)"
    by (simp add: SocketFdCheck_def answering_def sock_init_def tick_def FD_SETSIZE_def)
  have transmit: "HttpDataTransmit ?os (Live ?head) (m_iSocketFd ?st1) ?st1 = Returns (?st2, None)"
    by (simp add: HttpDataTransmit_def Let_def tick_def close_fd_def sock_init_def)
  have "lowest_free [0, 1, 2] = 3" by code_simp
  then have connects: "connects ?os ?st2 ''http://h.org/in'' 8"
    by (simp add: connects_def sample_url sample_ip answering_def sock_init_def FD_SETSIZE_def)
  have "m_iSocketFd ?st \<noteq> INVALID_SOCKET" by (simp add: INVALID_SOCKET_def)
  from reuse_use_after_free [OF this head _ check _ transmit connects] show ?thesis by simp
qed

section \<open>Leaking descriptors\<close>

text \<open>A sequence of GET requests, and a peer that refuses every connection.\<close>

fun gets :: "os \<Rightarrow> nat \<Rightarrow> string \<Rightarrow> nat \<Rightarrow> sock \<Rightarrow> sock outcome" where
  "gets os n url 0 st = Returns st"
| "gets os n url (Suc k) st =
     bind_out (gets os n url k st) (\<lambda>st.
     bind_out (HttpGet os n (Some url) st) (\<lambda>(st, ret, resp). Returns st))"

definition refuses :: "os \<Rightarrow> bool" where
  "refuses os \<longleftrightarrow>
     (\<forall>t fd ip port. o_socket os t \<and> o_inet_pton os ip \<and> o_set_nonblocking os t fd \<and>
        o_connect os t fd ip port = Refused \<and> o_select os t fd = (2, True, True))"

definition leaked :: "nat \<Rightarrow> sock \<Rightarrow> bool" where
  "leaked k st \<longleftrightarrow>
     set (open_fds st) = {0..<3 + int k} \<and> length (open_fds st) = 3 + k \<and>
     m_iSocketFd st = (if k = 0 then INVALID_SOCKET else 2 + int k)"

lemma lowest_free_upto:
  assumes "set fds = {0..<n}" "0 \<le> n"
  shows "lowest_free fds = n"
proof -
  have "\<not> lowest_free fds < n" using lowest_free_new [of fds] assms(1) by auto
  moreover have "\<not> n < lowest_free fds" using lowest_free_least [of n fds] assms by auto
  ultimately show ?thesis by simp
qed

lemma leaked_step:
  assumes "refuses os" "leaked k st" "k \<le> 1021"
    and url: "GetHostAddrFromUrl url = Inr h" "GetParamFromUrl url = Inr p" "url \<noteq> ''''"
    and addr: "GetPortFromUrl url = Inr port" "0 \<le> port" "GetIPFromUrl (o_gethostbyname os) url = Inr (Some ip)"
  shows "\<exists>st'. HttpGet os n (Some url) st = Returns (st', 0, None) \<and> leaked (Suc k) st'"
proof -
  have len: "length url < URLSIZE"
    using url(1) by (auto simp: GetHostAddrFromUrl_def res_simps buf_simps)
  have fresh: "\<exists>st'. connect_and_exchange os n url hd u = Returns (st', 0, None) \<and> leaked (Suc k) st'"
    if u: "open_fds u = open_fds st" for u hd
  proof -
    have low: "lowest_free (open_fds u) = 3 + int k"
      using assms(2) u by (intro lowest_free_upto) (simp_all add: leaked_def)
    let ?st' = "tick (tick (tick (u\<lparr>m_iSocketFd := 3 + int k, open_fds := (3 + int k) # open_fds u\<rparr>)))"
    have "connect_and_exchange os n url hd u = Returns (?st', 0, None)"
      using assms(1) addr
      by (simp add: connect_and_exchange_def Let_def connect_to_def after_connect_def refuses_def low)
    moreover have "insert (3 + int k) {0..<3 + int k} = {0..<3 + int (Suc k)}" by auto
    then have "leaked (Suc k) ?st'" using assms(2) u by (simp add: leaked_def)
    ultimately show ?thesis by blast
  qed
  show ?thesis
  proof (cases "k = 0")
    case True
    with assms(2) have "m_iSocketFd st = INVALID_SOCKET" by (simp add: leaked_def)
    with len url(3) fresh show ?thesis
      by (simp add: HttpGet_def HttpRequestExec_def head_create_get [OF url(1,2)])
  next
    case False
    with assms(2,3) have m: "m_iSocketFd st = 2 + int k" "m_iSocketFd st \<noteq> INVALID_SOCKET"
      "m_iSocketFd st < FD_SETSIZE" by (auto simp: leaked_def INVALID_SOCKET_def FD_SETSIZE_def)
    then have "SocketFdCheck os (m_iSocketFd st) st = Inr (tick st, - 2)"
      using assms(1) by (simp add: SocketFdCheck_def refuses_def)
    with m len url(3) fresh [of "tick st"] show ?thesis
      by (simp add: HttpGet_def HttpRequestExec_def head_create_get [OF url(1,2)])
  qed
qed

text \<open>
  C36: a refused connection leaves its descriptor open and the next request abandons it: against
  a peer that refuses at once, in a process whose limit of descriptors lets \<^verbatim>\<open>socket\<close> go on, \<open>k\<close> requests leave \<open>k\<close> more descriptors open, and the 1023rd request
  writes outside the \<^verbatim>\<open>fd_set\<close>.
\<close>

theorem descriptor_leak:
  assumes "refuses os" and "k \<le> 1022"
    and "GetHostAddrFromUrl url = Inr h" and "GetParamFromUrl url = Inr p" and "url \<noteq> ''''"
    and "GetPortFromUrl url = Inr port" and "0 \<le> port"
    and "GetIPFromUrl (o_gethostbyname os) url = Inr (Some ip)"
  shows "(\<exists>st. gets os n url k sock_init = Returns st \<and> length (open_fds st) = 3 + k) \<and>
    gets os n url 1023 sock_init = Faults BufferOverflow"
proof -
  have run: "\<exists>st. gets os n url j sock_init = Returns st \<and> leaked j st" if "j \<le> 1022" for j
    using that
  proof (induction j)
    case 0
    have "set (open_fds sock_init) = {0..<3}" by (auto simp: sock_init_def)
    then show ?case by (simp add: leaked_def sock_init_def)
  next
    case (Suc j)
    then obtain st where st: "gets os n url j sock_init = Returns st" "leaked j st" by auto
    from leaked_step [OF assms(1) st(2) _ assms(3-8), of n] Suc.prems
    obtain st' where "HttpGet os n (Some url) st = Returns (st', 0, None)" "leaked (Suc j) st'" by auto
    with st(1) show ?case by simp
  qed
  obtain st where st: "gets os n url 1022 sock_init = Returns st" "leaked 1022 st"
    using run [of 1022] by auto
  have "length url < URLSIZE"
    using assms(3) by (auto simp: GetHostAddrFromUrl_def res_simps buf_simps)
  then have "HttpGet os n (Some url) st = Faults BufferOverflow"
    using st(2) assms(5)
    by (simp add: HttpGet_def HttpRequestExec_def head_create_get [OF assms(3,4)] leaked_def
        SocketFdCheck_def FD_SETSIZE_def INVALID_SOCKET_def)
  moreover have "1023 = Suc 1022" by simp
  ultimately have "gets os n url 1023 sock_init = Faults BufferOverflow"
    using st(1) by (simp only: gets.simps bind_out.simps)
  moreover have "\<exists>st. gets os n url k sock_init = Returns st \<and> length (open_fds st) = 3 + k"
    using run [OF assms(2)] by (auto simp: leaked_def)
  ultimately show ?thesis by blast
qed

theorem descriptor_leak_witness:
  "gets \<lparr>o_send = \<lambda>t fd s. 0, o_recv = \<lambda>t fd. Again, o_select = \<lambda>t fd. (2, True, True),
         o_so_error = \<lambda>t fd. None, o_socket = \<lambda>t. True, o_set_nonblocking = \<lambda>t fd. True,
         o_connect = \<lambda>t fd ip port. Refused, o_gethostbyname = \<lambda>name. Some ''10.0.0.7'',
         o_inet_pton = \<lambda>ip. True\<rparr> 4096 ''http://h.org/in'' 1023 sock_init = Faults BufferOverflow"
  by (rule descriptor_leak [THEN conjunct2, OF _ _ sample_url(1,2) _ sample_url(3), of _ 0])
    (simp_all add: refuses_def sample_ip)

end
