(* ===== verification/DockerDeploy.thy ===== *)
theory DockerDeploy
  imports Prelude
begin

text \<open>
  \<^verbatim>\<open>client/DockerDeploy.h\<close>: pulling and starting the image that the server names. Both commands
  are the \<^verbatim>\<open>c_str()\<close> of a temporary that is destroyed at the end of its declaration, so they are
  read from released storage: what is found there is a parameter, \<open>stale s\<close> for a temporary that
  held \<open>s\<close>. \<open>popen i c\<close> is whether the \<open>i\<close>-th \<^verbatim>\<open>popen\<close> succeeds. The result carries the commands
  that were started.
\<close>

definition exec_deploy_command :: "(nat \<Rightarrow> string \<Rightarrow> bool) \<Rightarrow> string \<Rightarrow> string list \<Rightarrow> string list res" where
  "exec_deploy_command popen command started =
     (if popen (length started) command then Inr (started @ [command]) else Inl (Exit 1))"

definition dockerDeploy ::
  "(nat \<Rightarrow> string \<Rightarrow> bool) \<Rightarrow> (string \<Rightarrow> string res) \<Rightarrow> string \<Rightarrow> string list res" where
  "dockerDeploy popen stale dockerImage =
     bind_res (stale (''docker pull '' @ dockerImage)) (\<lambda>downloadCommand.
     bind_res (exec_deploy_command popen downloadCommand []) (\<lambda>started.
     bind_res (stale (''docker run '' @ dockerImage)) (\<lambda>deployCommand.
       exec_deploy_command popen deployCommand started)))"

text \<open>
  The image is pulled before it is started, each once, and a deployment that returns has
  started exactly the two commands found in the released temporaries; with the bytes still
  there these are \<^verbatim>\<open>docker pull\<close> and \<^verbatim>\<open>docker run\<close> of the image text as the server sent it (the
  text goes to the shell unquoted), and a \<^verbatim>\<open>popen\<close> that fails ends the process.
\<close>

lemma docker_deploy_order:
  "(dockerDeploy popen stale img = Inr started \<longleftrightarrow>
      (\<exists>p r. stale (''docker pull '' @ img) = Inr p \<and> popen 0 p \<and>
             stale (''docker run '' @ img) = Inr r \<and> popen 1 r \<and> started = [p, r])) \<and>
   dockerDeploy popen Inr img =
     (if popen 0 (''docker pull '' @ img) \<and> popen 1 (''docker run '' @ img)
      then Inr [''docker pull '' @ img, ''docker run '' @ img] else Inl (Exit 1))"
  by (auto simp: dockerDeploy_def exec_deploy_command_def res_simps split: if_splits)

end
