(* ===== verification/TimeControl.thy ===== *)
theory TimeControl
  imports LinuxProperties HttpProperties DockerDeploy
begin

text \<open>
  \<^verbatim>\<open>client/TimeControl.h\<close>: the loop that collects a report, compares it with the stored one, posts
  it and deploys the image that the answer names. One iteration is a function of what the
  environment does during it; the endless loop is the iteration over the list of environments
  met so far. The detached thread of \<^verbatim>\<open>dockerDeploy\<close> is recorded as the image it was given, and
  \<^verbatim>\<open>HttpRequest* Http\<close>, which is never initialised, only calls methods that do not use it.
\<close>

section \<open>The answer of the server\<close>

definition post_marker :: string where
  "post_marker = ''POST request.'' @ [newline]"

text \<open>\<^verbatim>\<open>find(sub, pos)\<close>\<close>

definition find_from :: "nat \<Rightarrow> string \<Rightarrow> string \<Rightarrow> nat option" where
  "find_from start pat s =
     (if start \<le> length s then map_option (\<lambda>i. start + i) (find_sub pat (drop start s)) else None)"

text \<open>
  \<^verbatim>\<open>int index = response.find(sub, index)\<close> starts at an indeterminate position, the parameter
  \<open>start\<close>, and turns \<^verbatim>\<open>npos\<close> into -1; \<^verbatim>\<open>substr\<close> throws when its position is beyond the end.
\<close>

definition response_image :: "nat \<Rightarrow> string \<Rightarrow> string res" where
  "response_image start response =
     (let index = (case find_from start post_marker response of Some i \<Rightarrow> int i | None \<Rightarrow> - 1);
          index = index + int (length post_marker)
      in if nat index \<le> length response then Inr (drop (nat index) response) else Inl OutOfRange)"

section \<open>One iteration\<close>

record client =
  diskStore :: json
  memoryStore :: json
  dockerStore :: json
  net :: sock
  posted :: "json list"
  deployed :: "string list"
  sleeps :: nat

definition client_init :: client where
  "client_init = \<lparr>diskStore = JNull, memoryStore = JNull, dockerStore = JNull, net = sock_init,
                  posted = [], deployed = [], sleeps = 0\<rparr>"

text \<open>The chain of conditions; None is \<^verbatim>\<open>continue\<close>.\<close>

definition update_stores :: "json_api \<Rightarrow> json \<Rightarrow> client \<Rightarrow> client option" where
  "update_stores J doc st =
     (if jequal J (diskStore st) (jget J doc ''disk info'') \<and>
         jequal J (memoryStore st) (jget J doc ''memory info'') \<and>
         jis_member J doc ''docker info'' \<and>
         jequal J (dockerStore st) (jget J doc ''docker info'')
      then None
      else if jequal J (diskStore st) (jget J doc ''disk info'') \<and>
              jequal J (memoryStore st) (jget J doc ''memory info'') \<and>
              jis_member J doc ''docker info''
      then None
      else if jis_member J doc ''docker info''
      then Some (st\<lparr>diskStore := jget J doc ''disk info'',
                    memoryStore := jget J doc ''memory info'',
                    dockerStore := jget J doc ''docker info''\<rparr>)
      else Some (st\<lparr>diskStore := jget J doc ''disk info'',
                    memoryStore := jget J doc ''memory info''\<rparr>))"

definition server_url :: string where
  "server_url = ''http://172.24.83.25:8080''"

text \<open>What an iteration meets: the commands, the network, and the garbage in \<^verbatim>\<open>index\<close>.\<close>

record env =
  e_shell :: shell
  e_os :: os
  e_index :: nat

definition post_report :: "json_api \<Rightarrow> env \<Rightarrow> json \<Rightarrow> client \<Rightarrow> client outcome" where
  "post_report J e doc st =
     (let jsonOut = jto_styled J doc
      in bind_out (HttpPost (e_os e) 4096 (Some server_url) (Some (cstr jsonOut)) (net st))
           (\<lambda>(net', ret, http_return).
           let response = (case http_return of Some s \<Rightarrow> s | None \<Rightarrow> '''')
           in bind_out (outcome_of (response_image (e_index e) response)) (\<lambda>dockerImage.
                let st = st\<lparr>net := net', posted := posted st @ [doc]\<rparr>;
                    st = (if dockerImage \<noteq> ''null''
                          then st\<lparr>deployed := deployed st @ [dockerImage]\<rparr> else st)
                in Returns (st\<lparr>sleeps := Suc (sleeps st)\<rparr>))))"

definition iteration :: "json_api \<Rightarrow> string \<Rightarrow> env \<Rightarrow> client \<Rightarrow> client outcome" where
  "iteration J location e st =
     bind_out (outcome_of (linux_command J (e_shell e) location)) (\<lambda>doc.
       case update_stores J doc st of
         None \<Rightarrow> Returns st
       | Some st \<Rightarrow> post_report J e doc st)"

fun timerControl :: "json_api \<Rightarrow> string \<Rightarrow> env list \<Rightarrow> client \<Rightarrow> client outcome" where
  "timerControl J location [] st = Returns st"
| "timerControl J location (e # es) st =
     bind_out (iteration J location e st) (\<lambda>st. timerControl J location es st)"

section \<open>The process\<close>

text \<open>
  \<^verbatim>\<open>client/main.cpp\<close>: the process runs the loop in one thread and waits for it. The loop has no
  exit, so \<^verbatim>\<open>join\<close> never returns; an exception that leaves the thread ends the process through
  \<^verbatim>\<open>std::terminate\<close>, and a request that never ends keeps it where it is.
\<close>

datatype process = Running client | Terminated fault | Stuck

definition main_after :: "json_api \<Rightarrow> string \<Rightarrow> env list \<Rightarrow> process" where
  "main_after J location es =
     (case timerControl J location es client_init of
        Returns st \<Rightarrow> Running st
      | Faults f \<Rightarrow> Terminated f
      | Diverges \<Rightarrow> Stuck)"

lemma timerControl_append:
  "timerControl J location (es @ es') st = bind_out (timerControl J location es st) (timerControl J location es')"
proof (induction es arbitrary: st)
  case (Cons e es)
  then show ?case by (cases "iteration J location e st") simp_all
qed simp

text \<open>A process that has ended stays so whatever the rounds after it would have met.\<close>

lemma main_final:
  "main_after J location es = Terminated f \<Longrightarrow> main_after J location (es @ es') = Terminated f"
  "main_after J location es = Stuck \<Longrightarrow> main_after J location (es @ es') = Stuck"
  by (auto simp: main_after_def timerControl_append split: outcome.splits)

lemma main_running:
  "main_after J location (es @ [e]) = Running st' \<longleftrightarrow>
     (\<exists>st. main_after J location es = Running st \<and> iteration J location e st = Returns st')"
  by (cases "timerControl J location es client_init")
    (auto simp: main_after_def timerControl_append res_simps split: outcome.splits)

section \<open>The decision\<close>

lemma update_stores_None:
  "update_stores J doc st = None \<longleftrightarrow>
     jis_member J doc ''docker info'' \<and>
     jequal J (diskStore st) (jget J doc ''disk info'') \<and>
     jequal J (memoryStore st) (jget J doc ''memory info'')"
  by (auto simp: update_stores_def)

lemma update_stores_Some:
  "update_stores J doc st = Some st' \<Longrightarrow>
     diskStore st' = jget J doc ''disk info'' \<and> memoryStore st' = jget J doc ''memory info'' \<and>
     (jis_member J doc ''docker info'' \<longrightarrow> dockerStore st' = jget J doc ''docker info'') \<and>
     (\<not> jis_member J doc ''docker info'' \<longrightarrow> dockerStore st' = dockerStore st) \<and>
     posted st' = posted st \<and> sleeps st' = sleeps st \<and> net st' = net st \<and> deployed st' = deployed st"
  by (auto simp: update_stores_def split: if_splits)

lemma post_report_state:
  "post_report J e doc st = Returns st' \<Longrightarrow>
     diskStore st' = diskStore st \<and> memoryStore st' = memoryStore st \<and> dockerStore st' = dockerStore st \<and>
     posted st' = posted st @ [doc] \<and> sleeps st' = Suc (sleeps st) \<and>
     (\<exists>ret resp. HttpPost (e_os e) 4096 (Some server_url) (Some (cstr (jto_styled J doc))) (net st) =
        Returns (net st', ret, resp))"
  by (auto simp: post_report_def Let_def res_simps split: if_splits option.splits)

text \<open>
  What holds whenever the loop is at its head: the stores are those of the last posted report,
  containers those of the last one that had any, the process slept once per report, and the
  connection is in order.
\<close>

definition stores_ok :: "json_api \<Rightarrow> client \<Rightarrow> bool" where
  "stores_ok J st \<longleftrightarrow>
     (case posted st of
        [] \<Rightarrow> diskStore st = JNull \<and> memoryStore st = JNull
      | _ \<Rightarrow> diskStore st = jget J (last (posted st)) ''disk info'' \<and>
             memoryStore st = jget J (last (posted st)) ''memory info'') \<and>
     dockerStore st = (case filter (\<lambda>d. jis_member J d ''docker info'') (posted st) of
        [] \<Rightarrow> JNull | ds \<Rightarrow> jget J (last ds) ''docker info'') \<and>
     sleeps st = length (posted st) \<and> sock_inv (net st)"

lemma stores_ok_init: "stores_ok J client_init"
  by (simp add: stores_ok_def client_init_def sock_inv_init)

lemma stores_ok_snoc:
  assumes "stores_ok J st" "update_stores J doc st = Some st1" "post_report J e doc st1 = Returns st'"
  shows "stores_ok J st'"
proof -
  obtain ret resp where
    "HttpPost (e_os e) 4096 (Some server_url) (Some (cstr (jto_styled J doc))) (net st1) =
      Returns (net st', ret, resp)"
    using post_report_state [OF assms(3)] by auto
  moreover have "sock_inv (net st1)"
    using assms(1) update_stores_Some [OF assms(2)] by (simp add: stores_ok_def)
  ultimately have "sock_inv (net st')"
    using request_inv [of "net st1" "e_os e" 4096 "''POST''" "Some server_url"
        "Some (cstr (jto_styled J doc))"] by (simp add: HttpPost_def)
  moreover have "posted st' = posted st @ [doc]" "sleeps st' = Suc (sleeps st)"
    "diskStore st' = jget J doc ''disk info''" "memoryStore st' = jget J doc ''memory info''"
    "dockerStore st' = (if jis_member J doc ''docker info'' then jget J doc ''docker info'' else dockerStore st)"
    using update_stores_Some [OF assms(2)] post_report_state [OF assms(3)] by auto
  ultimately show ?thesis
    using assms(1) by (auto simp: stores_ok_def split: list.splits)
qed

lemma stores_ok_iteration:
  "stores_ok J st \<Longrightarrow> iteration J location e st = Returns st' \<Longrightarrow> stores_ok J st'"
  by (auto simp: iteration_def res_simps split: option.splits intro: stores_ok_snoc)

lemma stores_ok_run:
  "stores_ok J st \<Longrightarrow> timerControl J location es st = Returns st' \<Longrightarrow> stores_ok J st'"
  by (induction es arbitrary: st) (auto simp: res_simps dest: stores_ok_iteration)

end
