(* ===== verification/TimeProperties.thy ===== *)
theory TimeProperties
  imports TimeControl
begin

text \<open>
  The properties of the control loop in \<^verbatim>\<open>client/TimeControl.h\<close>: when it posts, what its stores
  hold, what it deploys, and how it ends when a request fails.
\<close>

section \<open>When a report is posted\<close>

text \<open>
  A report is skipped exactly when it has containers and its disk and memory figures equal
  the stored ones; a change of the containers alone is never posted, whatever the stored
  containers, and the first report of a machine always is.
\<close>

lemma skip_iff:
  assumes "json_values J" and "linux_command J sh location = Inr doc"
  shows "(update_stores J doc st = None \<longleftrightarrow>
        sh 9 cmd_docker \<noteq> Some [] \<and> jequal J (diskStore st) (jget J doc ''disk info'') \<and>
        jequal J (memoryStore st) (jget J doc ''memory info'')) \<and>
    (update_stores J doc st = None \<longleftrightarrow> update_stores J doc (st\<lparr>dockerStore := any\<rparr>) = None) \<and>
    update_stores J doc client_init \<noteq> None"
proof -
  obtain v where "data_to_json J v = Inr doc" using linux_command_run(2) [OF assms(2)] by auto
  moreover from this have "vectors_ok v" using data_to_json_ok_iff [of J v] by auto
  ultimately have "holds J doc (report_spec J v)"
    using json_values.report_holds [OF assms(1)] by fastforce
  then have "jget J doc ''disk info'' = JArray [disk_object J v]" by (simp add: holds_def)
  then have "\<not> jequal J JNull (jget J doc ''disk info'')"
    using json_values.equal_null [OF assms(1)] by simp
  then show ?thesis
    using docker_member [OF assms] by (simp add: update_stores_None client_init_def)
qed

lemma skip_iff_witness: "\<exists>doc. linux_command ref_json sample_shell ''lab'' = Inr doc \<and>
  update_stores ref_json doc client_init \<noteq> None"
proof -
  obtain doc where doc: "linux_command ref_json sample_shell ''lab'' = Inr doc"
    using report_of_machine [OF ref_values sample_shell_shows sample_host_ok] by blast
  with skip_iff [OF ref_values doc] show ?thesis by blast
qed

section \<open>The answer\<close>

lemma find_sub_marker:
  "\<not> sublist post_marker h \<Longrightarrow> find_sub post_marker (h @ post_marker @ t) = Some (length h)"
proof -
  assume "\<not> sublist post_marker h"
  then have none: "find_sub post_marker h = None" by (simp add: find_sub_None_iff)
  have m: "post_marker = CHR ''P'' # ''OST request.'' @ [newline]" by (simp add: post_marker_def)
  have "CHR ''P'' \<notin> set (''OST request.'' @ [newline])" by simp
  from find_sub_unbordered [OF this none [unfolded m]] show ?thesis by (simp only: m)
qed

text \<open>
  The image is what follows the first marker of the answer, found from position 0; without a
  marker the client takes the answer from its fourteenth character on for an image, and an
  answer of fewer than thirteen characters, like the empty one of a failed request, throws
  \<^verbatim>\<open>out_of_range\<close>.
\<close>

lemma response_image_cases:
  assumes "\<not> sublist post_marker head" and "\<not> sublist post_marker other"
  shows "response_image 0 (head @ post_marker @ img) = Inr img \<and>
    response_image start other = (if length other < 13 then Inl OutOfRange else Inr (drop 13 other))"
proof -
  have len: "length post_marker = 14" by (simp add: post_marker_def)
  have "find_from start post_marker other = None"
  proof -
    have "\<not> sublist post_marker (drop start other)"
      using assms(2) sublist_order.order.trans [of post_marker "drop start other" other] by auto
    then show ?thesis by (simp add: find_from_def flip: find_sub_None_iff)
  qed
  then have "response_image start other = (if length other < 13 then Inl OutOfRange else Inr (drop 13 other))"
    by (simp add: response_image_def len)
  moreover have "nat (int (length head) + 14) = length head + 14" by simp
  then have "response_image 0 (head @ post_marker @ img) = Inr img"
    by (simp add: response_image_def find_from_def find_sub_marker [OF assms(1)] len)
  ultimately show ?thesis by blast
qed

lemma marker_not_inside: "i < 13 \<Longrightarrow> post_marker ! i \<noteq> newline"
proof -
  have "\<forall>i \<in> set [0..<13]. post_marker ! i \<noteq> newline" by code_simp
  then show "i < 13 \<Longrightarrow> post_marker ! i \<noteq> newline" by simp
qed

text \<open>The marker ends in its only line end, so it does not overlap itself.\<close>

lemma marker_once:
  assumes "\<not> sublist post_marker img" and "0 < k"
  shows "\<not> sublist post_marker (drop k (post_marker @ img))"
proof
  have len: "length post_marker = 14" "post_marker ! 13 = newline" by (simp_all add: post_marker_def)
  assume "sublist post_marker (drop k (post_marker @ img))"
  then obtain a b where "drop k (post_marker @ img) = a @ post_marker @ b" by (auto simp: sublist_def)
  then have split: "post_marker @ img = (take k (post_marker @ img) @ a) @ post_marker @ b"
    by (metis append_assoc append_take_drop_id)
  define p where "p = take k (post_marker @ img) @ a"
  have p: "0 < length p" using assms(2) len(1) by (simp add: p_def)
  have eq: "post_marker @ img = p @ post_marker @ b" unfolding p_def by (rule split)
  show False
  proof (cases "length p < 14")
    case True
    have "newline = (p @ post_marker @ b) ! 13" using len by (simp add: nth_append flip: eq)
    also have "\<dots> = post_marker ! (13 - length p)" using True len(1) by (simp add: nth_append less_imp_diff_less)
    finally show False using marker_not_inside [of "13 - length p"] p by simp
  next
    case False
    have "drop 14 (post_marker @ img) = drop 14 (p @ post_marker @ b)" by (simp only: eq)
    then have "img = drop 14 p @ post_marker @ b" using False len(1) by simp
    with assms(1) show False by (metis sublist_append_leftI sublist_append_rightI sublist_order.order.trans)
  qed
qed

text \<open>
  The answer of the server, from whatever position the search starts: at or before the marker the
  image is found, after it the search fails and the text from the fourteenth character on is taken.
\<close>

lemma response_image_start:
  assumes "\<not> sublist post_marker head" and "\<not> sublist post_marker img"
  shows "response_image start (head @ post_marker @ img) =
    Inr (if start \<le> length head then img else drop 13 (head @ post_marker @ img))"
proof (cases "start \<le> length head")
  case True
  have len: "length post_marker = 14" by (simp add: post_marker_def)
  have "\<not> sublist post_marker (drop start head)"
    using assms(1) sublist_order.order.trans [of post_marker "drop start head" head] by auto
  from find_sub_marker [OF this, of img] True
  have "find_from start post_marker (head @ post_marker @ img) = Some (length head)"
    by (simp add: find_from_def)
  moreover have "nat (int (length head) + 14) = length head + 14" by simp
  ultimately show ?thesis using True by (simp add: response_image_def len)
next
  case False
  have len: "length post_marker = 14" by (simp add: post_marker_def)
  have "\<not> sublist post_marker (drop (start - length head) (post_marker @ img))"
    using False by (intro marker_once [OF assms(2)]) simp
  then have "find_from start post_marker (head @ post_marker @ img) = None"
    using False by (simp add: find_from_def flip: find_sub_None_iff)
  with False show ?thesis by (simp add: response_image_def len)
qed

lemma response_image_cases_witness:
  "response_image 0 (''It's a '' @ post_marker @ ''nginx:1'') = Inr ''nginx:1'' \<and>
   response_image 0 '''' = Inl OutOfRange"
proof -
  have "\<not> sublist post_marker ''It's a ''" "\<not> sublist post_marker ''''"
    by (simp_all add: post_marker_def flip: find_sub_None_iff)
  from response_image_cases [OF this, of "''nginx:1''" 0] show ?thesis by simp
qed

section \<open>A whole iteration\<close>

lemma server_parts:
  "GetHostAddrFromUrl server_url = Inr ''172.24.83.25:8080''" "GetParamFromUrl server_url = Inr ''''"
  "GetPortFromUrl server_url = Inr 8080" "server_url \<noteq> ''''"
  by code_simp+

lemma server_ip: "GetIPFromUrl dns server_url = Inr (Some ''172.24.83.25'')"
proof -
  have "nul \<notin> set ''172.24.83.25:8080''" by simp
  from GetIPFromUrl_value [OF server_parts(1) this, of dns] show ?thesis by (simp add: Let_def)
qed

definition report_text :: "string \<Rightarrow> string" where
  "report_text data = post_text ''172.24.83.25:8080'' '''' data"

lemma iteration_delivers:
  assumes "linux_command J (e_shell e) location = Inr doc" and "update_stores J doc st = Some st1"
    and "m_iSocketFd (net st) = INVALID_SOCKET" and "connects (e_os e) (net st) server_url t"
    and "data = cstr (jto_styled J doc)" and "length (report_text data) < BUFSIZE"
    and "fd = lowest_free (open_fds (net st))"
    and "o_send (e_os e) t fd (report_text data @ [nul]) = n_sent" and "0 \<le> n_sent"
    and "\<forall>j < k. o_recv (e_os e) (Suc t + j) fd = Again"
    and "o_recv (e_os e) (Suc t + k) fd = Data (head @ post_marker @ img)"
    and "\<not> sublist post_marker head" and "\<not> sublist post_marker img"
    and "nul \<notin> set (head @ post_marker @ img)" and "length (head @ post_marker @ img) < 4096"
    and "found = (if e_index e \<le> length head then img else drop 13 (head @ post_marker @ img))"
  shows "iteration J location e st = Returns (st1
    \<lparr>net := (net st)\<lparr>m_iSocketFd := fd, open_fds := fd # open_fds (net st),
               sent := sent (net st) @ [(fd, take (nat n_sent) (report_text data @ [nul]))],
               clock := Suc (Suc t + k)\<rparr>,
     posted := posted st @ [doc],
     deployed := deployed st @ (if found = ''null'' then [] else [found]),
     sleeps := Suc (sleeps st)\<rparr>)"
proof -
  let ?b = "head @ post_marker @ img"
  have "?b \<noteq> []" by (simp add: post_marker_def)
  moreover have "length ?b < BUFSIZE" using assms(15) by (simp add: BUFSIZE_def)
  ultimately have post: "HttpPost (e_os e) 4096 (Some server_url) (Some data) (net st) =
      Returns ((net st)\<lparr>m_iSocketFd := fd, open_fds := fd # open_fds (net st),
        sent := sent (net st) @ [(fd, take (nat n_sent) (report_text data @ [nul]))], clock := Suc (Suc t + k)\<rparr>,
        1, Some ?b)"
    using post_fresh [OF assms(3,4) server_parts(1,2,4) assms(6) [unfolded report_text_def] assms(7)
        assms(8) [unfolded report_text_def] assms(9-11) _ assms(14), of 4096] assms(15)
    by (simp only: report_text_def if_True simp_thms)
  have "response_image (e_index e) ?b = Inr found"
    unfolding assms(16) by (rule response_image_start [OF assms(12,13)])
  then show ?thesis
    using update_stores_Some [OF assms(2)]
    by (cases st1) (simp add: iteration_def assms(1,2) post_report_def Let_def post flip: assms(5))
qed

text \<open>A machine, and a server that names an image.\<close>

definition sample_env :: env where
  "sample_env = \<lparr>e_shell = sample_shell, e_os = answering 9 (''It's a '' @ post_marker @ ''nginx:1''), e_index = 0\<rparr>"

lemma lowest_free_init: "lowest_free [0, 1, 2] = 3"
  by code_simp

lemma sample_server_connects: "connects (e_os sample_env) (net client_init) server_url 5"
  by (simp add: connects_def server_parts server_ip answering_def sock_init_def FD_SETSIZE_def
      sample_env_def client_init_def lowest_free_init)

lemma sample_update:
  assumes "linux_command ref_json sample_shell location = Inr doc"
  obtains st1 where "update_stores ref_json doc client_init = Some st1"
proof -
  have "jget ref_json doc ''disk info'' \<noteq> JNull"
  proof -
    obtain doc' where "linux_command ref_json sample_shell location = Inr doc'"
      "holds ref_json doc' (host_report ref_json sample_host location)"
      using report_of_machine [OF ref_values sample_shell_shows sample_host_ok] by blast
    with assms show ?thesis by (simp add: holds_def)
  qed
  then have "update_stores ref_json doc client_init \<noteq> None"
    by (simp add: update_stores_None client_init_def ref.equal_null)
  with that show ?thesis by blast
qed

text \<open>The text of the sample report as the client passes it on.\<close>

definition sample_data :: string where
  "sample_data = cstr (jto_styled ref_json sample_doc)"

text \<open>An object is printed between braces, so its text is no word.\<close>

lemma container_text:
  assumes "is_container v"
  shows "\<exists>s. filter (\<lambda>c. c \<noteq> newline \<and> c \<noteq> CHR 0x0D) (cstr (json_text v)) = CHR ''n'' # s \<or>
    filter (\<lambda>c. c \<noteq> newline \<and> c \<noteq> CHR 0x0D) (cstr (json_text v)) = CHR 0x7B # s"
proof (cases v)
  case (JObject ms)
  then have "json_text v = CHR 0x7B # joined (map (\<lambda>m. quoted (fst m) @ '': '' @ json_text (snd m)) ms) @ [CHR 0x7D]"
    by simp
  then show ?thesis by (simp add: cstr_def)
qed (use assms in \<open>simp_all add: cstr_def\<close>)

lemma sample_body: "\<exists>s. filter (\<lambda>c. c \<noteq> newline \<and> c \<noteq> CHR 0x0D) sample_data = CHR ''n'' # s \<or>
    filter (\<lambda>c. c \<noteq> newline \<and> c \<noteq> CHR 0x0D) sample_data = CHR 0x7B # s"
  using sample_doc_holds container_text [of sample_doc]
  by (simp add: sample_data_def ref_json_def holds_def)

lemma post_text_length:
  assumes "length data < 10 ^ 4"
  shows "length (post_text h p data) \<le> 300 + length h + length p + length data"
proof -
  have "length (dec_digits (int (length data))) \<le> 4"
    using assms by (intro dec_digits_length_bound) simp_all
  then show ?thesis by (simp add: post_text_def lines_text_def head_lines_def post_lines_def)
qed

lemma sample_data_length: "length sample_data < 1000"
proof -
  have "length sample_data \<le> length (json_text sample_doc)"
    by (simp add: sample_data_def cstr_def ref_json_def length_takeWhile_le)
  with sample_doc_text show ?thesis by linarith
qed

lemma sample_data_fits: "length (report_text sample_data) < BUFSIZE"
  using post_text_length [of sample_data "''172.24.83.25:8080''" "[]"] sample_data_length
  by (simp add: report_text_def BUFSIZE_def)

lemma sample_iteration:
  "\<exists>st. iteration ref_json ''lab'' sample_env client_init = Returns st \<and>
     deployed st = [''nginx:1''] \<and> m_iSocketFd (net st) = 3 \<and> sleeps st = 1 \<and> length (posted st) = 1"
proof -
  let ?st = "client_init"
  have doc: "linux_command ref_json (e_shell sample_env) ''lab'' = Inr sample_doc"
    by (simp add: sample_env_def sample_command)
  then obtain st1 where st1: "update_stores ref_json sample_doc ?st = Some st1"
    using sample_update by (auto simp: sample_env_def)
  have fresh: "m_iSocketFd (net ?st) = INVALID_SOCKET" by (simp add: client_init_def sock_init_def)
  have fd: "3 = lowest_free (open_fds (net ?st))"
    by (simp add: client_init_def sock_init_def lowest_free_init)
  let ?n = "int (length (report_text sample_data @ [nul]))"
  have os: "o_send (e_os sample_env) 5 3 (report_text sample_data @ [nul]) = ?n" "0 \<le> ?n"
    "\<forall>j < 3. o_recv (e_os sample_env) (Suc 5 + j) 3 = Again"
    "o_recv (e_os sample_env) (Suc 5 + 3) 3 = Data (''It's a '' @ post_marker @ ''nginx:1'')"
    by (simp_all add: sample_env_def answering_def)
  have answer: "\<not> sublist post_marker ''It's a ''" "\<not> sublist post_marker ''nginx:1''" "nul \<notin> set (''It's a '' @ post_marker @ ''nginx:1'')"
    "length (''It's a '' @ post_marker @ ''nginx:1'') < 4096"
    by (simp_all add: post_marker_def flip: find_sub_None_iff)
  from iteration_delivers [OF doc st1 fresh sample_server_connects sample_data_def sample_data_fits fd os answer refl]
  show ?thesis by (simp add: client_init_def sample_env_def)
qed

section \<open>Runs\<close>

lemma sample_shell_doc:
  obtains st1 where "update_stores ref_json sample_doc client_init = Some st1"
  by (rule sample_update [OF sample_command])

text \<open>A network without sockets: every request fails.\<close>

definition offline_env :: env where
  "offline_env = sample_env\<lparr>e_os := (e_os sample_env)\<lparr>o_socket := \<lambda>t. False\<rparr>\<rparr>"

lemma offline_post:
  "HttpPost (e_os offline_env) 4096 (Some server_url) (Some (cstr (jto_styled ref_json sample_doc))) (net client_init) =
     Returns (tick (sock_init\<lparr>m_iSocketFd := - 1\<rparr>), 0, None)"
proof -
  have "length (post_text ''172.24.83.25:8080'' [] (cstr (jto_styled ref_json sample_doc))) < BUFSIZE"
    using sample_data_fits by (simp add: report_text_def sample_data_def)
  moreover have "length server_url < URLSIZE" by (simp add: server_url_def URLSIZE_def)
  ultimately show ?thesis
    by (simp add: HttpPost_def HttpRequestExec_def head_create_post [OF server_parts(1,2)] server_parts(4)
        client_init_def sock_init_def connect_and_exchange_def offline_env_def)
qed

text \<open>
  C32: a request that fails ends the client: whenever the report is not skipped and the POST
  returns 0, the empty answer makes \<^verbatim>\<open>substr\<close> throw out of the thread, so the retry of the next
  iteration never happens.
\<close>

theorem failed_post_ends_client:
  assumes "linux_command J (e_shell e) location = Inr doc" and "update_stores J doc st = Some st1"
    and "HttpPost (e_os e) 4096 (Some server_url) (Some (cstr (jto_styled J doc))) (net st) =
      Returns (net', 0, None)"
  shows "timerControl J location (e # es) st = Faults OutOfRange"
proof -
  have "find_from (e_index e) post_marker '''' = None"
    by (simp add: find_from_def post_marker_def)
  then have "response_image (e_index e) '''' = Inl OutOfRange"
    by (simp add: response_image_def post_marker_def)
  moreover have "net st1 = net st" using update_stores_Some [OF assms(2)] by simp
  ultimately show ?thesis
    using assms by (simp add: iteration_def post_report_def)
qed

theorem failed_post_ends_client_witness:
  "timerControl ref_json ''lab'' [offline_env, sample_env] client_init = Faults OutOfRange"
proof -
  obtain st1 where "update_stores ref_json sample_doc client_init = Some st1" by (rule sample_shell_doc)
  then show ?thesis
    by (intro failed_post_ends_client [OF _ _ offline_post])
      (simp_all add: offline_env_def sample_env_def sample_command)
qed

text \<open>
  C3: after any number of iterations from the start, the disk and memory stores are those of the
  last report posted and the container store that of the last posted report with containers,
  the process has slept exactly once per posted report (skipped reports are followed at once by
  the next collection), and the connection satisfies its invariant.
\<close>

theorem control_loop_invariant:
  assumes "timerControl J location es client_init = Returns st"
  shows "stores_ok J st"
  by (rule stores_ok_run [OF stores_ok_init assms])

theorem control_loop_invariant_witness:
  "\<exists>st. timerControl ref_json ''lab'' [sample_env] client_init = Returns st \<and>
     stores_ok ref_json st \<and> length (posted st) = 1"
proof -
  obtain st where st: "iteration ref_json ''lab'' sample_env client_init = Returns st" "length (posted st) = 1"
    using sample_iteration by blast
  then have "timerControl ref_json ''lab'' [sample_env] client_init = Returns st" by simp
  from control_loop_invariant [OF this] this st(2) show ?thesis by blast
qed

end
