(* ===== verification/Server.thy ===== *)
theory Server
  imports LinuxProperties
begin

text \<open>
  The server of the repository, \<^verbatim>\<open>server/src/SearchServlet.java\<close> and \<^verbatim>\<open>JsonDataToMysql.java\<close>: reading
  the body of a POST, replacing the rows of the reporting machine in three tables, and answering
  with the container image assigned to it. The libraries are parameters: \<open>gson\<close> for the parser
  and its elements, \<open>connection\<close> for JDBC (whether a statement can be prepared, and whether it
  succeeds, may depend on the statements before it; closing one is taken to succeed). Exceptions
  are values; the state holds the statements that were executed, with their success, and the
  variable \<^verbatim>\<open>macId\<close>.
\<close>

section \<open>Libraries\<close>

datatype jexn =
    NullPointer
  | IllegalState
  | IndexOutOfBounds
  | NumberFormat
  | Unsupported
  | JsonIOExn
  | JsonSyntaxExn
  | SQLExn

record 'j gson =
  g_parse :: "string \<Rightarrow> jexn + 'j"
  g_as_object :: "'j \<Rightarrow> jexn + 'j"
  g_as_array :: "'j \<Rightarrow> jexn + 'j"
  g_get :: "'j \<Rightarrow> string \<Rightarrow> 'j option"
  g_has :: "'j \<Rightarrow> string \<Rightarrow> bool"
  g_size :: "'j \<Rightarrow> nat"
  g_at :: "'j \<Rightarrow> nat \<Rightarrow> jexn + 'j"
  g_double :: "'j \<Rightarrow> jexn + double"
  g_int :: "'j \<Rightarrow> jexn + int"
  g_string :: "'j \<Rightarrow> jexn + string"

text \<open>The statements, with their parameters in the order of the columns in the source.\<close>

datatype sql =
    Delete string double
  | Insert_serverinfo double double double double double double double double double int string string
  | Insert_cpuinfo double double double int int
  | Insert_dockerinfo double double double double double string

record connection =
  c_prepare :: "nat \<Rightarrow> string \<Rightarrow> bool"
  c_update :: "nat \<Rightarrow> sql \<Rightarrow> bool"

record store =
  executed :: "(sql \<times> bool) list"
  macId :: double

section \<open>Actions\<close>

type_synonym 'a action = "store \<Rightarrow> (jexn + 'a) \<times> store"

definition pure :: "jexn + 'a \<Rightarrow> 'a action" where
  "pure r s = (r, s)"

definition andthen :: "'a action \<Rightarrow> ('a \<Rightarrow> 'b action) \<Rightarrow> 'b action" where
  "andthen m f s = (case m s of (Inl e, s') \<Rightarrow> (Inl e, s') | (Inr x, s') \<Rightarrow> f x s')"

fun each :: "nat list \<Rightarrow> (nat \<Rightarrow> unit action) \<Rightarrow> unit action" where
  "each [] body = pure (Inr ())"
| "each (i # is) body = andthen (body i) (\<lambda>_. each is body)"

definition prepare :: "connection option \<Rightarrow> string \<Rightarrow> unit action" where
  "prepare con table s =
     (case con of
        None \<Rightarrow> (Inl NullPointer, s)
      | Some c \<Rightarrow> (if c_prepare c (length (executed s)) table then Inr () else Inl SQLExn, s))"

definition executeUpdate :: "connection option \<Rightarrow> sql \<Rightarrow> unit action" where
  "executeUpdate con stmt s =
     (case con of
        None \<Rightarrow> (Inl NullPointer, s)
      | Some c \<Rightarrow>
          let ok = c_update c (length (executed s)) stmt
          in (if ok then Inr () else Inl SQLExn, s\<lparr>executed := executed s @ [(stmt, ok)]\<rparr>))"

text \<open>\<^verbatim>\<open>object.get(k)\<close> is null for a missing member, and every use of it dereferences it.\<close>

definition member :: "'j gson \<Rightarrow> 'j \<Rightarrow> string \<Rightarrow> jexn + 'j" where
  "member g v k = (case g_get g v k of None \<Rightarrow> Inl NullPointer | Some x \<Rightarrow> Inr x)"

definition then_exn :: "jexn + 'a \<Rightarrow> ('a \<Rightarrow> jexn + 'b) \<Rightarrow> jexn + 'b" where
  "then_exn m f = (case m of Inl e \<Rightarrow> Inl e | Inr x \<Rightarrow> f x)"

definition double_at :: "'j gson \<Rightarrow> 'j \<Rightarrow> string \<Rightarrow> double action" where
  "double_at g v k = pure (then_exn (member g v k) (g_double g))"

definition int_at :: "'j gson \<Rightarrow> 'j \<Rightarrow> string \<Rightarrow> int action" where
  "int_at g v k = pure (then_exn (member g v k) (g_int g))"

definition string_at :: "'j gson \<Rightarrow> 'j \<Rightarrow> string \<Rightarrow> string action" where
  "string_at g v k = pure (then_exn (member g v k) (g_string g))"

definition array_at :: "'j gson \<Rightarrow> 'j \<Rightarrow> string \<Rightarrow> 'j action" where
  "array_at g v k = pure (then_exn (member g v k) (g_as_array g))"

definition object_at :: "'j gson \<Rightarrow> 'j \<Rightarrow> nat \<Rightarrow> 'j action" where
  "object_at g a i = pure (then_exn (g_at g a i) (g_as_object g))"

section \<open>JsonDataToMysql\<close>

text \<open>An \<^verbatim>\<open>SQLException\<close> is caught inside; a null connection is not.\<close>

definition deleteTable :: "connection option \<Rightarrow> string \<Rightarrow> double \<Rightarrow> unit action" where
  "deleteTable con table i s =
     (case andthen (prepare con table) (\<lambda>_. executeUpdate con (Delete table i)) s of
        (Inl SQLExn, s') \<Rightarrow> (Inr (), s')
      | r \<Rightarrow> r)"

text \<open>The sums over the network cards.\<close>

fun network_sums :: "'j gson \<Rightarrow> 'j \<Rightarrow> nat list \<Rightarrow> double \<Rightarrow> double \<Rightarrow> (double \<times> double) action" where
  "network_sums g arr [] down up = pure (Inr (down, up))"
| "network_sums g arr (j # js) down up =
     andthen (object_at g arr j) (\<lambda>net.
     andthen (double_at g net ''download rate'') (\<lambda>d.
     andthen (double_at g net ''upload rate'') (\<lambda>u.
       network_sums g arr js (down + d) (up + u))))"

definition insert_server ::
  "'j gson \<Rightarrow> connection option \<Rightarrow> double \<Rightarrow> 'j \<Rightarrow> 'j \<Rightarrow> 'j \<Rightarrow> 'j \<Rightarrow> 'j \<Rightarrow> nat \<Rightarrow> unit action" where
  "insert_server g con mac disks memories networks locations stamps i =
     andthen (object_at g disks i) (\<lambda>disk.
     andthen (object_at g memories i) (\<lambda>memory.
     andthen (object_at g locations i) (\<lambda>location.
     andthen (object_at g stamps i) (\<lambda>timestamp.
     andthen (prepare con ''serverinfo'') (\<lambda>_.
     andthen (double_at g disk ''available'') (\<lambda>da.
     andthen (double_at g disk ''total'') (\<lambda>dt.
     andthen (double_at g disk ''used'') (\<lambda>du.
     andthen (double_at g memory ''available'') (\<lambda>ma.
     andthen (double_at g memory ''total'') (\<lambda>mt.
     andthen (double_at g memory ''used'') (\<lambda>mu.
     andthen (network_sums g networks [0..<g_size g networks] 0 0) (\<lambda>(down, up).
     let cards = int (g_size g networks) in
     andthen (string_at g location ''address'') (\<lambda>address.
     andthen (string_at g timestamp ''time'') (\<lambda>time.
       executeUpdate con (Insert_serverinfo mac da dt du ma mt mu
         (down / dint cards) (up / dint cards) cards address time)))))))))))))))"

definition insert_cpu :: "'j gson \<Rightarrow> connection option \<Rightarrow> double \<Rightarrow> 'j \<Rightarrow> nat \<Rightarrow> unit action" where
  "insert_cpu g con mac cpus i =
     andthen (object_at g cpus i) (\<lambda>cpu.
     andthen (prepare con ''cpuinfo'') (\<lambda>_.
     andthen (double_at g cpu ''cpu source'') (\<lambda>used.
     andthen (double_at g cpu ''cpu Mhz'') (\<lambda>mhz.
     andthen (int_at g cpu ''cpu Cores'') (\<lambda>cores.
     andthen (int_at g cpu ''id'') (\<lambda>cid.
       executeUpdate con (Insert_cpuinfo mac used mhz cores cid)))))))"

definition insert_docker :: "'j gson \<Rightarrow> connection option \<Rightarrow> double \<Rightarrow> 'j \<Rightarrow> nat \<Rightarrow> unit action" where
  "insert_docker g con mac dockers i =
     andthen (object_at g dockers i) (\<lambda>docker.
     andthen (prepare con ''dockerinfo'') (\<lambda>_.
     andthen (double_at g docker ''cpu'') (\<lambda>cpu.
     andthen (double_at g docker ''memory'') (\<lambda>mem.
     andthen (double_at g docker ''memory usage'') (\<lambda>usage.
     andthen (double_at g docker ''memory limit'') (\<lambda>limit.
     andthen (string_at g docker ''id'') (\<lambda>did.
       executeUpdate con (Insert_dockerinfo mac cpu mem usage limit did))))))))"

definition insert_dockers :: "'j gson \<Rightarrow> connection option \<Rightarrow> double \<Rightarrow> 'j \<Rightarrow> unit action" where
  "insert_dockers g con mac doc =
     (if g_has g doc ''docker info'' then
        andthen (array_at g doc ''docker info'') (\<lambda>dockers.
          each [0..<g_size g dockers] (insert_docker g con mac dockers))
      else pure (Inr ()))"

text \<open>The body of the \<^verbatim>\<open>try\<close>; data that could not be read is null.\<close>

definition insert_all :: "'j gson \<Rightarrow> connection option \<Rightarrow> string option \<Rightarrow> unit action" where
  "insert_all g con data =
     andthen (pure (then_exn (case data of None \<Rightarrow> Inl NullPointer | Some d \<Rightarrow> g_parse g d) (g_as_object g))) (\<lambda>doc.
     andthen (array_at g doc ''mac address info'') (\<lambda>macs.
     andthen (object_at g macs 0) (\<lambda>macObject.
     andthen (double_at g macObject ''id'') (\<lambda>mac.
     andthen (\<lambda>s. (Inr (), s\<lparr>macId := mac\<rparr>)) (\<lambda>_.
     andthen (deleteTable con ''serverinfo'' mac) (\<lambda>_.
     andthen (deleteTable con ''dockerinfo'' mac) (\<lambda>_.
     andthen (deleteTable con ''cpuinfo'' mac) (\<lambda>_.
     andthen (array_at g doc ''cpu info'') (\<lambda>cpus.
     andthen (array_at g doc ''memory info'') (\<lambda>memories.
     andthen (array_at g doc ''disk info'') (\<lambda>disks.
     andthen (array_at g doc ''network info'') (\<lambda>networks.
     andthen (array_at g doc ''location info'') (\<lambda>locations.
     andthen (array_at g doc ''timestamp info'') (\<lambda>stamps.
     andthen (each [0..<g_size g memories]
       (insert_server g con mac disks memories networks locations stamps)) (\<lambda>_.
     andthen (each [0..<g_size g cpus] (insert_cpu g con mac cpus)) (\<lambda>_.
       insert_dockers g con mac doc))))))))))))))))"

definition insertData :: "'j gson \<Rightarrow> connection option \<Rightarrow> string option \<Rightarrow> double action" where
  "insertData g con data s =
     (case insert_all g con data (s\<lparr>macId := 0\<rparr>) of
        (Inr u, s') \<Rightarrow> (Inr (macId s'), s')
      | (Inl e, s') \<Rightarrow>
          if e = JsonIOExn \<or> e = JsonSyntaxExn \<or> e = SQLExn then (Inr (macId s'), s') else (Inl e, s'))"

section \<open>SearchServlet\<close>

text \<open>
  \<^verbatim>\<open>readLine\<close> ends a line at CR, LF or both, and the lines are joined without them; None is a body
  that could not be read.
\<close>

definition getBodyData :: "string option \<Rightarrow> string option" where
  "getBodyData body = map_option (filter (\<lambda>c. c \<noteq> newline \<and> c \<noteq> CHR 0x0D)) body"

text \<open>
  The address of the sender, which the servlet prints: the first proxy header that is there, is not
  empty and is not \<^verbatim>\<open>unknown\<close> in any case of letters, else the address of the connection.
\<close>

definition lower_case :: "char \<Rightarrow> char" where
  "lower_case c = (if CHR ''A'' \<le> c \<and> c \<le> CHR ''Z'' then char_of (of_char c + 32 :: nat) else c)"

definition equalsIgnoreCase :: "string \<Rightarrow> string \<Rightarrow> bool" where
  "equalsIgnoreCase s t = (map lower_case s = map lower_case t)"

definition no_address :: "string option \<Rightarrow> bool" where
  "no_address ip = (case ip of None \<Rightarrow> True | Some s \<Rightarrow> length s = 0 \<or> equalsIgnoreCase ''unknown'' s)"

definition getIpAddress :: "(string \<Rightarrow> string option) \<Rightarrow> string option \<Rightarrow> string option" where
  "getIpAddress getHeader remoteAddr =
     (let ip = getHeader ''X-Forwarded-For'';
          ip = (if no_address ip then getHeader ''Proxy-Client-IP'' else ip);
          ip = (if no_address ip then getHeader ''WL-Proxy-Client-IP'' else ip);
          ip = (if no_address ip then getHeader ''HTTP_CLIENT_IP'' else ip);
          ip = (if no_address ip then getHeader ''HTTP_X_FORWARDED_FOR'' else ip)
      in if no_address ip then remoteAddr else ip)"

definition ip_headers :: "string list" where
  "ip_headers = [''X-Forwarded-For'', ''Proxy-Client-IP'', ''WL-Proxy-Client-IP'', ''HTTP_CLIENT_IP'',
                 ''HTTP_X_FORWARDED_FOR'']"

lemma getIpAddress_first:
  "getIpAddress getHeader remoteAddr =
     (case dropWhile (\<lambda>k. no_address (getHeader k)) ip_headers of
        [] \<Rightarrow> remoteAddr | k # _ \<Rightarrow> getHeader k)"
  by (simp add: getIpAddress_def ip_headers_def Let_def)

text \<open>A header is believed whoever sent it: the address that is printed is the choice of the client.\<close>

lemma forwarded_address:
  "\<not> no_address (Some a) \<Longrightarrow> getHeader ''X-Forwarded-For'' = Some a \<Longrightarrow> getIpAddress getHeader remoteAddr = Some a"
  by (simp add: getIpAddress_def)

fun find_image :: "'j gson \<Rightarrow> 'j \<Rightarrow> double \<Rightarrow> nat list \<Rightarrow> jexn + string" where
  "find_image g arr mac [] = Inr ''null''"
| "find_image g arr mac (i # is) =
     then_exn (then_exn (g_at g arr i) (g_as_object g)) (\<lambda>docker.
     then_exn (then_exn (member g docker ''response'') (g_int g)) (\<lambda>response.
     then_exn (then_exn (member g docker ''server id'') (g_double g)) (\<lambda>serverId.
       if deq serverId mac \<and> response = 1
       then then_exn (member g docker ''docker address'') (g_string g)
       else find_image g arr mac is)))"

definition getDockerResponse :: "'j gson \<Rightarrow> string option \<Rightarrow> double \<Rightarrow> jexn + string" where
  "getDockerResponse g dockerResponseJson mac =
     then_exn (then_exn (case dockerResponseJson of None \<Rightarrow> Inl NullPointer | Some t \<Rightarrow> g_parse g t) (g_as_object g)) (\<lambda>doc.
     then_exn (then_exn (member g doc ''docker response info'') (g_as_array g)) (\<lambda>arr.
       find_image g arr mac [0..<g_size g arr]))"

definition greeting :: string where
  "greeting = ''welcome to my server. It's a POST request.''"

text \<open>
  The text that \<^verbatim>\<open>Tools.printToJson\<close> writes, after the request parameter \<open>query\<close>; \<^verbatim>\<open>trim\<close> removes
  characters up to the blank.
\<close>

definition with_query :: "string option \<Rightarrow> string \<Rightarrow> string" where
  "with_query query result =
     (case query of
        Some q \<Rightarrow> if \<exists>c \<in> set q. CHR '' '' < c then q @ '', '' @ result else result
      | None \<Rightarrow> result)"

definition doPost ::
  "'j gson \<Rightarrow> connection option \<Rightarrow> string option \<Rightarrow> string option \<Rightarrow> string option \<Rightarrow> string action" where
  "doPost g con responses query body =
     andthen (insertData g con (getBodyData body)) (\<lambda>mac.
     andthen (pure (getDockerResponse g responses mac)) (\<lambda>img.
       pure (Inr (with_query query (greeting @ [newline] @ img)))))"

text \<open>A GET stores nothing and names no image; it reads the body and drops it.\<close>

definition doGet :: "string option \<Rightarrow> string action" where
  "doGet query = pure (Inr (with_query query ''welcome to my server. It's a GET request.''))"

end
