(* ===== verification/ServerProperties.thy ===== *)
theory ServerProperties
  imports Server
begin

text \<open>
  What the server stores and answers: the statements that a report of the client becomes, and the
  image assigned to the reporting machine.
\<close>

section \<open>How a report arrives\<close>

text \<open>
  What the client's JSON library writes, the server's reads: an object carries the members of a
  JSON object, an element the members of a report. It is a hypothesis on the two libraries; JSON
  has no infinities, and \<^verbatim>\<open>getAsInt\<close> reads the whole numbers of a Java \<^verbatim>\<open>int\<close>.
\<close>

definition java_int :: "int \<Rightarrow> bool" where
  "java_int n \<longleftrightarrow> - (2 ^ 31) \<le> n \<and> n < 2 ^ 31"

definition carries :: "'j gson \<Rightarrow> json_api \<Rightarrow> 'j \<Rightarrow> json \<Rightarrow> bool" where
  "carries g J v j \<longleftrightarrow>
     (\<forall>k. case jget J j k of
        JReal d \<Rightarrow> finite_double d \<longrightarrow> (\<exists>x. g_get g v k = Some x \<and> g_double g x = Inr d \<and>
                      (\<forall>n. java_int n \<longrightarrow> is_int_double d n \<longrightarrow> g_int g x = Inr n))
      | JInt n \<Rightarrow> java_int n \<longrightarrow> (\<exists>x. g_get g v k = Some x \<and> g_int g x = Inr n)
      | JString s \<Rightarrow> \<exists>x. g_get g v k = Some x \<and> g_string g x = Inr s
      | _ \<Rightarrow> True)"

definition array_of :: "'j gson \<Rightarrow> json_api \<Rightarrow> 'j \<Rightarrow> json list \<Rightarrow> bool" where
  "array_of g J a xs \<longleftrightarrow>
     g_as_array g a = Inr a \<and> g_size g a = length xs \<and>
     (\<forall>i < length xs. \<exists>v. g_at g a i = Inr v \<and> g_as_object g v = Inr v \<and> carries g J v (xs ! i))"

definition arrives :: "'j gson \<Rightarrow> json_api \<Rightarrow> 'j \<Rightarrow> (string \<times> json list) list \<Rightarrow> bool" where
  "arrives g J v ms \<longleftrightarrow>
     g_as_object g v = Inr v \<and>
     (\<forall>k. case map_of ms k of
        Some (x # xs) \<Rightarrow> g_has g v k \<and> (\<exists>a. g_get g v k = Some a \<and> array_of g J a (x # xs))
      | _ \<Rightarrow> \<not> g_has g v k \<and> g_get g v k = None)"

section \<open>Actions that succeed\<close>

lemma andthen_Inr: "m s = (Inr x, s') \<Longrightarrow> andthen m f s = f x s'"
  by (simp add: andthen_def)

lemma andthen_pure [simp]: "andthen (pure (Inr x)) f = f x"
  by (simp add: andthen_def pure_def fun_eq_iff)

definition accepts :: "connection \<Rightarrow> bool" where
  "accepts c \<longleftrightarrow> (\<forall>i t q. c_prepare c i t \<and> c_update c i q)"

abbreviation stored :: "sql list \<Rightarrow> store \<Rightarrow> store" where
  "stored qs s \<equiv> s\<lparr>executed := executed s @ map (\<lambda>q. (q, True)) qs\<rparr>"

lemma prepare_ok: "accepts c \<Longrightarrow> prepare (Some c) t s = (Inr (), s)"
  by (simp add: prepare_def accepts_def)

lemma executeUpdate_ok: "accepts c \<Longrightarrow> executeUpdate (Some c) q s = (Inr (), stored [q] s)"
  by (simp add: executeUpdate_def accepts_def)

lemma andthen_prepare: "accepts c \<Longrightarrow> andthen (prepare (Some c) t) f = f ()"
  by (simp add: fun_eq_iff andthen_def prepare_ok)

lemma deleteTable_ok: "accepts c \<Longrightarrow> deleteTable (Some c) t i s = (Inr (), stored [Delete t i] s)"
  by (simp add: deleteTable_def andthen_prepare executeUpdate_ok)

lemma each_ok:
  "(\<And>i s. i \<in> set is \<Longrightarrow> body i s = (Inr (), stored [q i] s)) \<Longrightarrow>
     each is body s = (Inr (), stored (map q is) s)"
proof (induction "is" arbitrary: s)
  case (Cons i "is")
  then have "body i s = (Inr (), stored [q i] s)" by simp
  with Cons show ?case by (simp add: andthen_def)
qed (simp add: pure_def)

lemma carries_members:
  assumes "carries g J v j"
  shows "jget J j k = JReal d \<Longrightarrow> finite_double d \<Longrightarrow> double_at g v k = pure (Inr d)"
    and "jget J j k = JReal d \<Longrightarrow> finite_double d \<Longrightarrow> java_int n \<Longrightarrow> is_int_double d n \<Longrightarrow> int_at g v k = pure (Inr n)"
    and "jget J j k = JInt n \<Longrightarrow> java_int n \<Longrightarrow> int_at g v k = pure (Inr n)"
    and "jget J j k = JString t \<Longrightarrow> string_at g v k = pure (Inr t)"
  using assms [unfolded carries_def, rule_format, of k]
  by (auto simp: double_at_def int_at_def string_at_def member_def then_exn_def)

lemma array_of_elements:
  assumes "array_of g J a xs" "i < length xs"
  obtains v where "object_at g a i = pure (Inr v)" "carries g J v (xs ! i)"
  using assms by (auto simp: array_of_def object_at_def then_exn_def)

lemma arrives_array:
  assumes "arrives g J v ms" "map_of ms k = Some xs" "xs \<noteq> []"
  obtains a where "array_at g v k = pure (Inr a)" "array_of g J a xs" "g_has g v k"
  using assms(1) [unfolded arrives_def, THEN conjunct2, rule_format, of k] assms(2,3)
  by (cases xs) (auto simp: array_at_def member_def then_exn_def array_of_def)

section \<open>The rows of a machine\<close>

text \<open>Every number of the report is finite, and the whole numbers of the tables fit an \<^verbatim>\<open>int\<close>.\<close>

definition upload_rate :: "net_stat \<Rightarrow> double" where
  "upload_rate n = (dint (nt_rx' n) - dint (nt_rx n)) / dint 1024"

definition download_rate :: "net_stat \<Rightarrow> double" where
  "download_rate n = (dint (nt_tx' n) - dint (nt_tx n)) / dint 1024"

definition used_share :: "int \<Rightarrow> int \<Rightarrow> double" where
  "used_share t a = 1 - dint a / dint t"

definition host_finite :: "host \<Rightarrow> bool" where
  "host_finite h \<longleftrightarrow>
     (\<forall>c \<in> set (h_cpus h). finite_double (nearest (cs_idle c)) \<and> finite_double (nearest (cs_mhz c)) \<and>
        java_int (cs_cores c)) \<and> java_int (int (length (h_cpus h))) \<and>
     finite_double (used_share (h_mem_total h) (h_mem_available h)) \<and>
     finite_double (used_share (sum_list (map dk_total (h_disks h))) (sum_list (map dk_available (h_disks h)))) \<and>
     (\<forall>n \<in> set (h_nets h). finite_double (upload_rate n) \<and> finite_double (download_rate n)) \<and>
     (\<forall>d \<in> set (h_docker h). finite_double (nearest (ds_cpu d)) \<and> finite_double (nearest (ds_mem d)) \<and>
        finite_double (amount (ds_usage d) (ds_usage_unit d)) \<and>
        finite_double (amount (ds_limit d) (ds_limit_unit d))) \<and>
     finite_double (stringToHashCode (h_mac h @ [newline]))"

text \<open>The objects of the report.\<close>

abbreviation cpu_json :: "json_api \<Rightarrow> host \<Rightarrow> nat \<Rightarrow> json" where
  "cpu_json J h i \<equiv> jobject J
     [(''id'', JInt (int i)), (''cpu source'', JReal (nearest (cs_idle (h_cpus h ! i)))),
      (''cpu Mhz'', JReal (nearest (cs_mhz (h_cpus h ! i)))), (''cpu Cores'', JReal (dint (cs_cores (h_cpus h ! i))))]"

abbreviation docker_json :: "json_api \<Rightarrow> docker_stat \<Rightarrow> json" where
  "docker_json J d \<equiv> jobject J
     [(''id'', JString (ds_id d)), (''cpu'', JReal (nearest (ds_cpu d))),
      (''memory usage'', JReal (amount (ds_usage d) (ds_usage_unit d))),
      (''memory limit'', JReal (amount (ds_limit d) (ds_limit_unit d))),
      (''memory'', JReal (nearest (ds_mem d)))]"

abbreviation network_json :: "json_api \<Rightarrow> host \<Rightarrow> nat \<Rightarrow> json" where
  "network_json J h i \<equiv> jobject J
     [(''id'', JInt (int i)), (''upload rate'', JReal (upload_rate (h_nets h ! i))),
      (''download rate'', JReal (download_rate (h_nets h ! i)))]"

abbreviation amounts_json :: "json_api \<Rightarrow> int \<Rightarrow> int \<Rightarrow> json" where
  "amounts_json J t a \<equiv> jobject J
     [(''total'', JReal (dint t)), (''available'', JReal (dint a)), (''used'', JReal (used_share t a))]"

definition cpu_row :: "host \<Rightarrow> double \<Rightarrow> nat \<Rightarrow> sql" where
  "cpu_row h mac i =
     (let c = h_cpus h ! i
      in Insert_cpuinfo mac (nearest (cs_idle c)) (nearest (cs_mhz c)) (cs_cores c) (int i))"

definition container_row :: "double \<Rightarrow> docker_stat \<Rightarrow> sql" where
  "container_row mac d =
     Insert_dockerinfo mac (nearest (ds_cpu d)) (nearest (ds_mem d))
       (amount (ds_usage d) (ds_usage_unit d)) (amount (ds_limit d) (ds_limit_unit d)) (ds_id d)"

text \<open>The rates are averages over the interfaces.\<close>

definition server_row :: "host \<Rightarrow> string \<Rightarrow> double \<Rightarrow> sql" where
  "server_row h location mac =
     (let dt = sum_list (map dk_total (h_disks h)); da = sum_list (map dk_available (h_disks h));
          cards = int (length (h_nets h))
      in Insert_serverinfo mac (dint da) (dint dt) (used_share dt da)
           (dint (h_mem_available h)) (dint (h_mem_total h)) (used_share (h_mem_total h) (h_mem_available h))
           (foldl (+) 0 (map download_rate (h_nets h)) / dint cards)
           (foldl (+) 0 (map upload_rate (h_nets h)) / dint cards)
           cards location (h_date h @ [newline]))"

definition deletes :: "double \<Rightarrow> sql list" where
  "deletes mac = [Delete ''serverinfo'' mac, Delete ''dockerinfo'' mac, Delete ''cpuinfo'' mac]"

text \<open>What the report of a machine makes of the tables: its rows replace the earlier ones.\<close>

definition host_rows :: "host \<Rightarrow> string \<Rightarrow> sql list" where
  "host_rows h location =
     (let mac = stringToHashCode (h_mac h @ [newline])
      in deletes mac @ [server_row h location mac] @
         map (cpu_row h mac) [0..<length (h_cpus h)] @ map (container_row mac) (h_docker h))"

section \<open>The tables one by one\<close>

lemma count_dint [simp]: "count_ok n \<Longrightarrow> is_int_double (dint n) n" "count_ok n \<Longrightarrow> finite_double (dint n)"
  using is_int_dint [of n] by (simp_all add: is_int_double_def)

lemma insert_cpu_ok:
  assumes J: "json_values J" and "accepts c" "host_ok h" "host_finite h" "i < length (h_cpus h)"
    and "array_of g J a xs" "length xs = length (h_cpus h)"
    and x: "xs ! i = cpu_json J h i"
  shows "insert_cpu g (Some c) mac a i s = (Inr (), stored [cpu_row h mac i] s)"
proof -
  obtain v where v: "object_at g a i = pure (Inr v)" "carries g J v (xs ! i)"
    using assms(5-7) array_of_elements [of g J a xs i] by auto
  have "h_cpus h ! i \<in> set (h_cpus h)" using assms(5) by simp
  with assms(3-5) have ok: "count_ok (cs_cores (h_cpus h ! i))" "java_int (cs_cores (h_cpus h ! i))"
    "finite_double (nearest (cs_idle (h_cpus h ! i)))" "finite_double (nearest (cs_mhz (h_cpus h ! i)))"
    "java_int (int i)"
    by (auto simp: host_ok_def host_finite_def java_int_def)
  note members = carries_members [OF v(2), unfolded x json_values.get_jobject [OF J]]
  from v(1) ok assms(2) show ?thesis
    by (simp add: insert_cpu_def andthen_prepare executeUpdate_ok cpu_row_def Let_def members)
qed

lemma insert_docker_ok:
  assumes J: "json_values J" and "accepts c" "host_finite h" "i < length (h_docker h)" "d = h_docker h ! i"
    and "array_of g J a xs" "length xs = length (h_docker h)"
    and x: "xs ! i = docker_json J d"
  shows "insert_docker g (Some c) mac a i s = (Inr (), stored [container_row mac d] s)"
proof -
  obtain v where v: "object_at g a i = pure (Inr v)" "carries g J v (xs ! i)"
    using assms(4,6,7) array_of_elements [of g J a xs i] by auto
  have "d \<in> set (h_docker h)" using assms(4,5) by simp
  with assms(3) have ok: "finite_double (nearest (ds_cpu d))" "finite_double (nearest (ds_mem d))"
    "finite_double (amount (ds_usage d) (ds_usage_unit d))"
    "finite_double (amount (ds_limit d) (ds_limit_unit d))"
    by (auto simp: host_finite_def)
  note members = carries_members [OF v(2), unfolded x json_values.get_jobject [OF J]]
  from v(1) ok assms(2) show ?thesis
    by (simp add: insert_docker_def andthen_prepare executeUpdate_ok container_row_def members)
qed

lemma network_sums_ok:
  assumes J: "json_values J"
    and "\<forall>i < length (h_nets h). finite_double (upload_rate (h_nets h ! i)) \<and> finite_double (download_rate (h_nets h ! i))"
    and "array_of g J a xs" "length xs = length (h_nets h)"
    and "\<forall>i < length (h_nets h). xs ! i = network_json J h i"
    and "set is \<subseteq> {0..<length (h_nets h)}"
  shows "network_sums g a is down up =
    pure (Inr (foldl (+) down (map (\<lambda>i. download_rate (h_nets h ! i)) is),
               foldl (+) up (map (\<lambda>i. upload_rate (h_nets h ! i)) is)))"
  using assms(6)
proof (induction "is" arbitrary: down up)
  case (Cons i "is")
  then have i: "i < length xs" using assms(4) by simp
  then obtain v where v: "object_at g a i = pure (Inr v)" "carries g J v (xs ! i)"
    using array_of_elements [OF assms(3)] by auto
  have x: "xs ! i = network_json J h i"
    using assms(4,5) i by simp
  note members = carries_members [OF v(2), unfolded x json_values.get_jobject [OF J]]
  from Cons v(1) assms(2,4) i show ?case by (simp add: members)
qed simp

lemma insert_server_ok:
  assumes J: "json_values J" and c: "accepts c" and h: "host_ok h" "host_finite h"
    and arrays: "array_of g J disks [amounts_json J dt da]"
      "array_of g J memories [amounts_json J (h_mem_total h) (h_mem_available h)]"
      "array_of g J networks nets" "array_of g J locations [jobject J [(''address'', JString location)]]"
      "array_of g J stamps [jobject J [(''time'', JString (h_date h @ [newline]))]]"
    and sums: "dt = sum_list (map dk_total (h_disks h))" "da = sum_list (map dk_available (h_disks h))"
    and nets: "length nets = length (h_nets h)"
      "\<forall>i < length (h_nets h). nets ! i = network_json J h i"
  shows "insert_server g (Some c) mac disks memories networks locations stamps 0 s =
    (Inr (), stored [server_row h location mac] s)"
proof -
  obtain disk memory loc stamp where
    o: "object_at g disks 0 = pure (Inr disk)" "object_at g memories 0 = pure (Inr memory)"
      "object_at g locations 0 = pure (Inr loc)" "object_at g stamps 0 = pure (Inr stamp)"
    and "carries g J disk (amounts_json J dt da)"
      "carries g J memory (amounts_json J (h_mem_total h) (h_mem_available h))"
      "carries g J loc (jobject J [(''address'', JString location)])"
      "carries g J stamp (jobject J [(''time'', JString (h_date h @ [newline]))])"
    using arrays [THEN array_of_elements, of 0] by (metis length_Cons list.size(3) nth_Cons_0 zero_less_Suc)
  note members = carries_members [OF this(5), unfolded json_values.get_jobject [OF J]]
    carries_members [OF this(6), unfolded json_values.get_jobject [OF J]]
    carries_members [OF this(7), unfolded json_values.get_jobject [OF J]]
    carries_members [OF this(8), unfolded json_values.get_jobject [OF J]]
  have "0 \<le> dt" "dt \<le> 2 ^ 53" "0 \<le> da" "da \<le> 2 ^ 53"
    using h(1) by (auto simp: host_ok_def sums intro!: sum_list_nonneg)
  with h have fin: "finite_double (dint dt)" "finite_double (dint da)"
    "finite_double (dint (h_mem_total h))" "finite_double (dint (h_mem_available h))"
    "finite_double (used_share dt da)" "finite_double (used_share (h_mem_total h) (h_mem_available h))"
    by (simp_all add: host_ok_def host_finite_def sums)
  have "\<forall>i < length (h_nets h). finite_double (upload_rate (h_nets h ! i)) \<and> finite_double (download_rate (h_nets h ! i))"
    using h(2) by (simp add: host_finite_def)
  from network_sums_ok [OF J this arrays(3) nets, of "[0..<length (h_nets h)]" 0 0]
  have net: "network_sums g networks [0..<length (h_nets h)] 0 0 =
      pure (Inr (foldl (+) 0 (map download_rate (h_nets h)), foldl (+) 0 (map upload_rate (h_nets h))))"
    using map_nth [of "h_nets h"] by (simp flip: map_map [unfolded comp_def])
  have size: "g_size g networks = length (h_nets h)" using arrays(3) nets(1) by (simp add: array_of_def)
  from o fin net size c show ?thesis
    by (simp add: insert_server_def andthen_prepare executeUpdate_ok server_row_def Let_def members sums)
qed

section \<open>The report as a whole\<close>

lemma report_members:
  fixes J h location
  defines "ms \<equiv> host_report J h location"
  shows "map_of ms ''mac address info'' = Some [jobject J [(''id'', JReal (stringToHashCode (h_mac h @ [newline])))]]"
    and "map_of ms ''memory info'' = Some [amounts_json J (h_mem_total h) (h_mem_available h)]"
    and "map_of ms ''disk info'' = Some [amounts_json J (sum_list (map dk_total (h_disks h))) (sum_list (map dk_available (h_disks h)))]"
    and "map_of ms ''location info'' = Some [jobject J [(''address'', JString location)]]"
    and "map_of ms ''timestamp info'' = Some [jobject J [(''time'', JString (h_date h @ [newline]))]]"
    and "\<exists>xs. map_of ms ''cpu info'' = Some xs \<and> length xs = length (h_cpus h) \<and>
      (\<forall>i < length (h_cpus h). xs ! i = cpu_json J h i)"
    and "\<exists>xs. map_of ms ''network info'' = Some xs \<and> length xs = length (h_nets h) \<and>
      (\<forall>i < length (h_nets h). xs ! i = network_json J h i)"
    and "\<exists>xs. map_of ms ''docker info'' = Some xs \<and> length xs = length (h_docker h) \<and>
      (\<forall>i < length (h_docker h). xs ! i = docker_json J (h_docker h ! i))"
  by (simp_all add: ms_def host_report_def used_share_def upload_rate_def download_rate_def Let_def)

lemma arrives_empty:
  "arrives g J v ms \<Longrightarrow> map_of ms k = Some [] \<Longrightarrow>
     array_at g v k = pure (Inl NullPointer) \<and> \<not> g_has g v k"
  unfolding arrives_def by (auto simp: array_at_def member_def then_exn_def dest: spec [of _ k])

lemma andthen_fails [simp]: "andthen (pure (Inl e)) f s = (Inl e, s)"
  by (simp add: andthen_def pure_def)

lemma andthen_steps:
  "andthen (\<lambda>s. (Inr (), s\<lparr>macId := mac\<rparr>)) f s = f () (s\<lparr>macId := mac\<rparr>)"
  "accepts c \<Longrightarrow> andthen (deleteTable (Some c) t mac) f s = f () (stored [Delete t mac] s)"
  by (simp_all add: andthen_def deleteTable_ok)

lemma arrives_one:
  "arrives g J v ms \<Longrightarrow> map_of ms k = Some [x] \<Longrightarrow>
     \<exists>a. array_at g v k = pure (Inr a) \<and> array_of g J a [x]"
  by (auto elim: arrives_array)

lemma each_then:
  "each is body s = (Inr (), s') \<Longrightarrow> andthen (each is body) f s = f () s'"
  by (simp add: andthen_def)

lemma insert_cpus_ok:
  assumes J: "json_values J" and c: "accepts c" and h: "host_ok h" "host_finite h"
    and cs: "array_of g J cpus cs" "length cs = length (h_cpus h)"
      "\<forall>i < length (h_cpus h). cs ! i = cpu_json J h i"
  shows "each [0..<g_size g cpus] (insert_cpu g (Some c) mac cpus) s =
    (Inr (), stored (map (cpu_row h mac) [0..<length (h_cpus h)]) s)"
proof -
  have n: "g_size g cpus = length (h_cpus h)" using cs(1,2) by (simp add: array_of_def)
  show ?thesis
    using insert_cpu_ok [OF J c h _ cs(1,2)] cs(3) unfolding n by (intro each_ok) simp
qed

lemma insert_dockers_ok:
  assumes J: "json_values J" and c: "accepts c" and h: "host_finite h"
    and r: "arrives g J v (host_report J h location)"
  shows "insert_dockers g (Some c) mac v s = (Inr (), stored (map (container_row mac) (h_docker h)) s)"
proof -
  obtain ds where ds: "map_of (host_report J h location) ''docker info'' = Some ds"
      "length ds = length (h_docker h)"
      "\<forall>i < length (h_docker h). ds ! i = docker_json J (h_docker h ! i)"
    using report_members(8) [of J h location] by metis
  show ?thesis
  proof (cases "ds = []")
    case True
    then have "\<not> g_has g v ''docker info''" "h_docker h = []"
      using arrives_empty [OF r, of "''docker info''"] ds(1,2) by auto
    then show ?thesis by (simp add: insert_dockers_def pure_def)
  next
    case False
    obtain dockers where d: "array_at g v ''docker info'' = pure (Inr dockers)" "g_has g v ''docker info''"
      "array_of g J dockers ds"
      using arrives_array [OF r ds(1) False] by metis
    have k: "g_size g dockers = length (h_docker h)" using d(3) ds(2) by (simp add: array_of_def)
    have "each [0..<length (h_docker h)] (insert_docker g (Some c) mac dockers) s =
        (Inr (), stored (map (\<lambda>i. container_row mac (h_docker h ! i)) [0..<length (h_docker h)]) s)"
      using insert_docker_ok [OF J c h _ refl d(3) ds(2)] ds(3) by (intro each_ok) simp
    moreover have "map (\<lambda>i. container_row mac (h_docker h ! i)) [0..<length (h_docker h)] =
        map (container_row mac) (h_docker h)"
      by (rule nth_equalityI) simp_all
    ultimately show ?thesis using d(1,2) k by (simp add: insert_dockers_def)
  qed
qed

text \<open>The part of the report before the first delete: the identity of the machine.\<close>

lemma report_mac:
  assumes J: "json_values J" and r: "arrives g J v (host_report J h location)"
    and mac: "mac = stringToHashCode (h_mac h @ [newline])" "finite_double mac"
  shows "\<exists>macs m. array_at g v ''mac address info'' = pure (Inr macs) \<and>
    object_at g macs 0 = pure (Inr m) \<and> double_at g m ''id'' = pure (Inr mac)"
proof -
  obtain macs where macs: "array_at g v ''mac address info'' = pure (Inr macs)"
    "array_of g J macs [jobject J [(''id'', JReal mac)]]"
    using arrives_one [OF r report_members(1)] mac(1) by auto
  obtain m where "object_at g macs 0 = pure (Inr m)" "carries g J m (jobject J [(''id'', JReal mac)])"
    using array_of_elements [OF macs(2), of 0] by auto
  moreover from this(2) mac(2) have "double_at g m ''id'' = pure (Inr mac)"
    by (simp add: carries_members(1) json_values.get_jobject [OF J])
  ultimately show ?thesis using macs(1) by blast
qed

text \<open>Up to the rows: the deletes are done and the arrays with one element are at hand.\<close>

lemma insert_all_start:
  fixes g :: "'j gson"
  assumes J: "json_values J" and c: "accepts c" and fin: "host_finite h"
    and parsed: "g_parse g t = Inr v" and r: "arrives g J v (host_report J h location)"
    and mac: "mac = stringToHashCode (h_mac h @ [newline])"
  obtains memories disks locations stamps where
    "array_of g J memories [amounts_json J (h_mem_total h) (h_mem_available h)]"
    "array_of g J disks [amounts_json J (sum_list (map dk_total (h_disks h))) (sum_list (map dk_available (h_disks h)))]"
    "array_of g J locations [jobject J [(''address'', JString location)]]"
    "array_of g J stamps [jobject J [(''time'', JString (h_date h @ [newline]))]]"
    "insert_all g (Some c) (Some t) s =
       andthen (array_at g v ''cpu info'') (\<lambda>cpus.
       andthen (array_at g v ''network info'') (\<lambda>networks.
       andthen (each [0..<g_size g memories]
         (insert_server g (Some c) mac disks memories networks locations stamps)) (\<lambda>_.
       andthen (each [0..<g_size g cpus] (insert_cpu g (Some c) mac cpus)) (\<lambda>_.
         insert_dockers g (Some c) mac v)))) (stored (deletes mac) (s\<lparr>macId := mac\<rparr>))"
proof -
  obtain memories disks locations stamps where
    "array_at g v ''memory info'' = pure (Inr memories)" "array_at g v ''disk info'' = pure (Inr disks)"
      "array_at g v ''location info'' = pure (Inr locations)" "array_at g v ''timestamp info'' = pure (Inr stamps)"
    and arrays: "array_of g J memories [amounts_json J (h_mem_total h) (h_mem_available h)]"
      "array_of g J disks [amounts_json J (sum_list (map dk_total (h_disks h))) (sum_list (map dk_available (h_disks h)))]"
      "array_of g J locations [jobject J [(''address'', JString location)]]"
      "array_of g J stamps [jobject J [(''time'', JString (h_date h @ [newline]))]]"
    using report_members(2-5) [of J h location, THEN arrives_one [OF r]] by blast
  moreover obtain macs m where "array_at g v ''mac address info'' = pure (Inr macs)"
    "object_at g macs 0 = pure (Inr m)" "double_at g m ''id'' = pure (Inr mac)"
    using report_mac [OF J r mac] fin mac by (auto simp: host_finite_def)
  moreover have "then_exn (g_parse g t) (g_as_object g) = Inr v"
    using parsed r by (simp add: then_exn_def arrives_def)
  ultimately show ?thesis
    using that [OF arrays] by (simp add: insert_all_def andthen_steps(1) andthen_steps(2) [OF c] deletes_def)
qed

lemma insert_all_report:
  fixes g :: "'j gson"
  assumes J: "json_values J" and c: "accepts c" and h: "host_ok h" "host_finite h"
    and parsed: "g_parse g t = Inr v" and r: "arrives g J v (host_report J h location)"
    and mac: "mac = stringToHashCode (h_mac h @ [newline])"
  shows "insert_all g (Some c) (Some t) s =
    (if h_cpus h = [] \<or> h_nets h = [] then (Inl NullPointer, stored (deletes mac) (s\<lparr>macId := mac\<rparr>))
     else (Inr (), stored (host_rows h location) (s\<lparr>macId := mac\<rparr>)))"
proof (rule insert_all_start [OF J c h(2) parsed r mac, of s])
  let ?ms = "host_report J h location" and ?s = "stored (deletes mac) (s\<lparr>macId := mac\<rparr>)"
  obtain cs ns where
    cs: "map_of ?ms ''cpu info'' = Some cs" "length cs = length (h_cpus h)"
      "\<forall>i < length (h_cpus h). cs ! i = cpu_json J h i"
    and ns: "map_of ?ms ''network info'' = Some ns" "length ns = length (h_nets h)"
      "\<forall>i < length (h_nets h). ns ! i = network_json J h i"
    using report_members(6,7) [of J h location] by metis
  fix memories disks locations stamps
  assume memories: "array_of g J memories [amounts_json J (h_mem_total h) (h_mem_available h)]"
    and rest: "array_of g J disks
        [amounts_json J (sum_list (map dk_total (h_disks h))) (sum_list (map dk_available (h_disks h)))]"
      "array_of g J locations [jobject J [(''address'', JString location)]]"
      "array_of g J stamps [jobject J [(''time'', JString (h_date h @ [newline]))]]"
    and all: "insert_all g (Some c) (Some t) s =
       andthen (array_at g v ''cpu info'') (\<lambda>cpus.
       andthen (array_at g v ''network info'') (\<lambda>networks.
       andthen (each [0..<g_size g memories]
         (insert_server g (Some c) mac disks memories networks locations stamps)) (\<lambda>_.
       andthen (each [0..<g_size g cpus] (insert_cpu g (Some c) mac cpus)) (\<lambda>_.
         insert_dockers g (Some c) mac v)))) ?s"
  show ?thesis
  proof (cases "cs = [] \<or> ns = []")
    case True
    obtain a where "array_at g v ''cpu info'' = pure (Inr a)" if "cs \<noteq> []"
      using arrives_array [OF r cs(1)] by metis
    moreover have "cs = [] \<Longrightarrow> array_at g v ''cpu info'' = pure (Inl NullPointer)"
      "ns = [] \<Longrightarrow> array_at g v ''network info'' = pure (Inl NullPointer)"
      using arrives_empty [OF r] cs(1) ns(1) by auto
    ultimately show ?thesis using True cs(2) ns(2) by (cases "cs = []") (auto simp: all)
  next
    case False
    obtain cpus networks where cpus: "array_at g v ''cpu info'' = pure (Inr cpus)" "array_of g J cpus cs"
      and networks: "array_at g v ''network info'' = pure (Inr networks)" "array_of g J networks ns"
      using arrives_array [OF r cs(1)] arrives_array [OF r ns(1)] False by metis
    have "g_size g memories = 1" using memories by (simp add: array_of_def)
    then have row: "each [0..<g_size g memories]
        (insert_server g (Some c) mac disks memories networks locations stamps) ?s =
        (Inr (), stored [server_row h location mac] ?s)"
      using insert_server_ok [OF J c h rest(1) memories networks(2) rest(2,3) refl refl ns(2,3)]
      by (simp add: andthen_def pure_def)
    show ?thesis
      unfolding all cpus(1) networks(1) andthen_pure each_then [OF row]
        each_then [OF insert_cpus_ok [OF J c h cpus(2) cs(2,3)]] insert_dockers_ok [OF J c h(2) r]
      using False cs(2) ns(2) by (auto simp: host_rows_def Let_def mac)
  qed
qed

section \<open>A reader\<close>

text \<open>Gson over the values themselves; every text but the one of the assignments is the report.\<close>

fun value_int :: "json \<Rightarrow> jexn + int" where
  "value_int (JInt n) = Inr n"
| "value_int (JReal d) = (if finite_double d then Inr \<lfloor>dval d\<rfloor> else Inl NumberFormat)"
| "value_int _ = Inl Unsupported"

fun value_double :: "json \<Rightarrow> jexn + double" where
  "value_double (JReal d) = Inr d"
| "value_double (JInt n) = Inr (dint n)"
| "value_double _ = Inl Unsupported"

fun value_string :: "json \<Rightarrow> jexn + string" where
  "value_string (JString s) = Inr s"
| "value_string _ = Inl Unsupported"

definition value_gson :: "string \<Rightarrow> json \<Rightarrow> json \<Rightarrow> json gson" where
  "value_gson f assigned doc =
     \<lparr>g_parse = (\<lambda>t. Inr (if t = f then assigned else doc)),
      g_as_object = (\<lambda>v. if is_container v then Inr v else Inl IllegalState),
      g_as_array = (\<lambda>v. if is_sequence v then Inr v else Inl IllegalState),
      g_get = (\<lambda>v k. if ref_is_member v k then Some (ref_get v k) else None),
      g_has = ref_is_member,
      g_size = (\<lambda>v. length (elements v)),
      g_at = (\<lambda>v i. if i < length (elements v) then Inr (elements v ! i) else Inl IndexOutOfBounds),
      g_double = value_double, g_int = value_int, g_string = value_string\<rparr>"

lemma value_gson_fields [simp]:
  "g_parse (value_gson f a d) t = Inr (if t = f then a else d)"
  "g_as_object (value_gson f a d) v = (if is_container v then Inr v else Inl IllegalState)"
  "g_as_array (value_gson f a d) v = (if is_sequence v then Inr v else Inl IllegalState)"
  "g_get (value_gson f a d) v k = (if ref_is_member v k then Some (ref_get v k) else None)"
  "g_has (value_gson f a d) v k = ref_is_member v k"
  "g_size (value_gson f a d) v = length (elements v)"
  "g_at (value_gson f a d) v i = (if i < length (elements v) then Inr (elements v ! i) else Inl IndexOutOfBounds)"
  "g_double (value_gson f a d) = value_double" "g_int (value_gson f a d) = value_int"
  "g_string (value_gson f a d) = value_string"
  by (simp_all add: value_gson_def)

lemma ref_jobject_container: "is_container (jobject ref_json ms)"
proof -
  have "is_container v \<Longrightarrow> is_container (fold (\<lambda>(k, x) v. jput ref_json v k x) ms v)" for v
    by (induction ms arbitrary: v) (auto intro: ref.put_container)
  then show ?thesis by (simp add: jobject_def)
qed

lemma value_carries: "carries (value_gson f a d) ref_json v v"
proof -
  have "ref_get v k \<noteq> JNull \<Longrightarrow> ref_is_member v k" for k by (cases v) (auto split: option.splits)
  then show ?thesis
    by (auto simp: carries_def ref_json_def is_int_double_def split: json.split)
qed

lemma value_array:
  "\<forall>x \<in> set xs. is_container x \<Longrightarrow> array_of (value_gson f a d) ref_json (JArray xs) xs"
  by (auto simp: array_of_def value_carries)

lemma value_arrives:
  assumes "holds ref_json doc ms" and "\<forall>(k, xs) \<in> set ms. \<forall>x \<in> set xs. is_container x"
  shows "arrives (value_gson f a d) ref_json doc ms"
proof -
  have "\<forall>x \<in> set xs. is_container x" if "map_of ms k = Some xs" for k xs
    using assms(2) map_of_SomeD [OF that] by fast
  then show ?thesis
    using assms(1) value_array [of _ f a d]
    by (auto simp: arrives_def holds_def ref_json_def split: option.split list.split)
qed

definition willing :: connection where
  "willing = \<lparr>c_prepare = (\<lambda>i t. True), c_update = (\<lambda>i q. True)\<rparr>"

lemma willing_accepts: "accepts willing"
  by (simp add: accepts_def willing_def)

lemma sample_host_finite: "host_finite sample_host"
  unfolding host_finite_def sample_hash by code_simp

lemma host_report_containers:
  "\<forall>(k, xs) \<in> set (host_report ref_json h location). \<forall>x \<in> set xs. is_container x"
  by (auto simp: host_report_def Let_def ref_jobject_container)

section \<open>Storing a report\<close>

lemma insertData_report:
  assumes "json_values J" and "accepts c" and "host_ok h" and "host_finite h"
    and "g_parse g data = Inr v" and "arrives g J v (host_report J h location)"
  shows "insertData g (Some c) (Some data) s =
    (let mac = stringToHashCode (h_mac h @ [newline]);
         store = (\<lambda>rows. \<lparr>executed = executed s @ map (\<lambda>q. (q, True)) rows, macId = mac\<rparr>)
     in if h_cpus h = [] \<or> h_nets h = [] then (Inl NullPointer, store (deletes mac))
        else (Inr mac, store (host_rows h location)))"
  using insert_all_report [OF assms refl, of "s\<lparr>macId := 0\<rparr>"] by (cases s) (simp add: insertData_def Let_def)

text \<open>
  C7: the report of a machine, stored by the server: its rows in \<^verbatim>\<open>serverinfo\<close>, \<^verbatim>\<open>dockerinfo\<close> and
  \<^verbatim>\<open>cpuinfo\<close> are deleted, then one server row with its exact figures and the average rate of its
  interfaces, one row per processor and one per container are inserted, in this order, all under
  the hash of its MAC address, which is returned. A report without processors or interfaces is
  noticed only after the three deletes: the exception is not caught and the machine is left
  without rows.
\<close>

theorem report_stored:
  assumes "json_values J" and "accepts c" and "host_ok h" and "host_finite h"
    and "g_parse g data = Inr v" and "arrives g J v (host_report J h location)"
  shows "insertData g (Some c) (Some data) s =
    (let mac = stringToHashCode (h_mac h @ [newline]);
         store = (\<lambda>rows. \<lparr>executed = executed s @ map (\<lambda>q. (q, True)) rows, macId = mac\<rparr>)
     in if h_cpus h = [] \<or> h_nets h = [] then (Inl NullPointer, store (deletes mac))
        else (Inr mac, store (host_rows h location)))"
  by (rule insertData_report [OF assms])

theorem report_stored_witness:
  "\<exists>doc. insertData (value_gson [] JNull doc) (Some willing) (Some ''report'') \<lparr>executed = [], macId = 0\<rparr> =
     (let mac = stringToHashCode (h_mac sample_host @ [newline])
      in (Inr mac, \<lparr>executed = map (\<lambda>q. (q, True)) (host_rows sample_host ''lab''), macId = mac\<rparr>))"
proof -
  obtain doc where "holds ref_json doc (host_report ref_json sample_host ''lab'')"
    using report_of_machine [OF ref_values sample_shell_shows sample_host_ok] by blast
  then have "arrives (value_gson [] JNull doc) ref_json doc (host_report ref_json sample_host ''lab'')"
    by (rule value_arrives [OF _ host_report_containers])
  moreover have "g_parse (value_gson [] JNull doc) ''report'' = Inr doc" by simp
  moreover have "h_cpus sample_host \<noteq> []" "h_nets sample_host \<noteq> []" by (simp_all add: sample_host_def)
  ultimately show ?thesis
    using report_stored [OF ref_values willing_accepts sample_host_ok sample_host_finite,
        of "value_gson [] JNull doc" "''report''" doc "''lab''" "\<lparr>executed = [], macId = 0\<rparr>"]
    by (auto simp: Let_def)
qed

section \<open>The image for a machine\<close>

text \<open>The entries of \<^verbatim>\<open>docker response info\<close>.\<close>

record assignment =
  as_response :: int
  as_server :: double
  as_image :: string

definition assignment_json :: "json_api \<Rightarrow> assignment \<Rightarrow> json" where
  "assignment_json J a = jobject J
     [(''response'', JInt (as_response a)), (''server id'', JReal (as_server a)),
      (''docker address'', JString (as_image a))]"

definition assignments_ok :: "assignment list \<Rightarrow> bool" where
  "assignments_ok as \<longleftrightarrow> (\<forall>a \<in> set as. java_int (as_response a) \<and> finite_double (as_server a))"

text \<open>The image of the first entry with the identity of the machine whose \<^verbatim>\<open>response\<close> is 1.\<close>

definition image_for :: "assignment list \<Rightarrow> double \<Rightarrow> string" where
  "image_for as mac =
     (case find (\<lambda>a. deq (as_server a) mac \<and> as_response a = 1) as of
        Some a \<Rightarrow> as_image a
      | None \<Rightarrow> ''null'')"

lemma carries_actions:
  assumes "carries g J v j"
  shows "jget J j k = JReal d \<Longrightarrow> finite_double d \<Longrightarrow> then_exn (member g v k) (g_double g) = Inr d"
    and "jget J j k = JInt n \<Longrightarrow> java_int n \<Longrightarrow> then_exn (member g v k) (g_int g) = Inr n"
    and "jget J j k = JString t \<Longrightarrow> then_exn (member g v k) (g_string g) = Inr t"
  using assms [unfolded carries_def, rule_format, of k] by (auto simp: member_def then_exn_def)

lemma find_image_drop:
  assumes J: "json_values J" and ok: "assignments_ok as" and arr: "array_of g J arr (map (assignment_json J) as)"
    and "k \<le> length as"
  shows "find_image g arr mac [k..<length as] = Inr (image_for (drop k as) mac)"
  using assms(4)
proof (induction "length as - k" arbitrary: k)
  case (Suc n)
  then have k: "k < length as" by simp
  then obtain v where v: "then_exn (g_at g arr k) (g_as_object g) = Inr v"
    "carries g J v (assignment_json J (as ! k))"
    using arr by (auto simp: array_of_def then_exn_def)
  have fine: "java_int (as_response (as ! k))" "finite_double (as_server (as ! k))"
    using ok k by (simp_all add: assignments_ok_def)
  note members = carries_actions [OF v(2), unfolded assignment_json_def json_values.get_jobject [OF J]]
  have "find_image g arr mac [Suc k..<length as] = Inr (image_for (drop (Suc k) as) mac)"
    using Suc k by simp
  with v(1) fine k show ?case
    by (subst upt_conv_Cons; simp add: members image_for_def then_exn_def [of "Inr _"]
        flip: Cons_nth_drop_Suc)
qed (simp add: image_for_def)

text \<open>The file as the server reads it.\<close>

definition lists :: "'j gson \<Rightarrow> json_api \<Rightarrow> string \<Rightarrow> assignment list \<Rightarrow> bool" where
  "lists g J f as \<longleftrightarrow>
     assignments_ok as \<and>
     (\<exists>doc arr. then_exn (g_parse g f) (g_as_object g) = Inr doc \<and>
        then_exn (member g doc ''docker response info'') (g_as_array g) = Inr arr \<and>
        array_of g J arr (map (assignment_json J) as))"

lemma docker_response:
  assumes "json_values J" and "lists g J f as"
  shows "getDockerResponse g (Some f) mac = Inr (image_for as mac)"
  using assms(2) find_image_drop [OF assms(1), of as g _ 0 mac]
  by (auto simp: lists_def getDockerResponse_def then_exn_def [of "Inr _"] array_of_def)

text \<open>
  C27: the answer to a report is the greeting, preceded by the query parameter unless that is
  missing or blank, and on its last line the image of the first entry of the assignment file that names the
  machine with \<^verbatim>\<open>response\<close> 1, \<^verbatim>\<open>null\<close> when there is none; an exception while storing leaves no
  answer, and the tables as they were at that point.
\<close>

theorem post_answer:
  assumes "json_values J" and "lists g J f as"
  shows "doPost g con (Some f) query body s =
    (case insertData g con (getBodyData body) s of
       (Inl e, s') \<Rightarrow> (Inl e, s')
     | (Inr mac, s') \<Rightarrow>
         (Inr ((case query of Some q \<Rightarrow> if \<exists>c \<in> set q. CHR '' '' < c then q @ '', '' else [] | None \<Rightarrow> []) @
               greeting @ [newline] @ image_for as mac), s'))"
  using docker_response [OF assms]
  by (auto simp: doPost_def with_query_def andthen_def pure_def Let_def split: prod.split sum.split option.split)

text \<open>Three entries: one not yet granted, one for another machine, one granted.\<close>

definition sample_assignments :: "assignment list" where
  "sample_assignments =
     (let mac = stringToHashCode (h_mac sample_host @ [newline])
      in [\<lparr>as_response = 0, as_server = mac, as_image = ''old:1''\<rparr>,
          \<lparr>as_response = 2, as_server = dint 42, as_image = ''other:1''\<rparr>,
          \<lparr>as_response = 1, as_server = mac, as_image = ''nginx:1''\<rparr>])"

definition sample_file :: json where
  "sample_file = jobject ref_json
     [(''docker response info'', JArray (map (assignment_json ref_json) sample_assignments))]"

lemma sample_lists: "lists (value_gson ''assignments'' sample_file doc) ref_json ''assignments'' sample_assignments"
proof -
  let ?g = "value_gson ''assignments'' sample_file doc"
  let ?xs = "map (assignment_json ref_json) sample_assignments"
  have "assignments_ok sample_assignments"
    using sample_host_finite
    by (simp add: assignments_ok_def sample_assignments_def java_int_def host_finite_def Let_def)
  moreover have "is_container sample_file"
    by (simp add: sample_file_def ref_jobject_container)
  moreover have "ref_is_member sample_file ''docker response info''"
    "ref_get sample_file ''docker response info'' = JArray ?xs"
    by (simp_all add: sample_file_def jobject_def ref_json_def)
  moreover have "array_of ?g ref_json (JArray ?xs) ?xs"
    by (rule value_array) (auto simp: assignment_json_def ref_jobject_container)
  ultimately show ?thesis by (simp add: lists_def member_def then_exn_def)
qed

lemma sample_image:
  "image_for sample_assignments (stringToHashCode (h_mac sample_host @ [newline])) = ''nginx:1''"
proof -
  have "finite_double (stringToHashCode (h_mac sample_host @ [newline]))"
    using sample_host_finite by (simp add: host_finite_def)
  then have "deq mac mac" if "mac = stringToHashCode (h_mac sample_host @ [newline])" for mac
    by (simp add: deq_def that)
  then show ?thesis by (simp add: image_for_def sample_assignments_def Let_def)
qed

theorem post_answer_witness:
  "\<exists>doc s. doPost (value_gson ''assignments'' sample_file doc) (Some willing) (Some ''assignments'') (Some '' '')
     (Some ''report'') \<lparr>executed = [], macId = 0\<rparr> = (Inr (greeting @ [newline] @ ''nginx:1''), s)"
proof -
  obtain doc where "holds ref_json doc (host_report ref_json sample_host ''lab'')"
    using report_of_machine [OF ref_values sample_shell_shows sample_host_ok] by blast
  then have a: "arrives (value_gson ''assignments'' sample_file doc) ref_json doc
      (host_report ref_json sample_host ''lab'')"
    by (rule value_arrives [OF _ host_report_containers])
  have p: "g_parse (value_gson ''assignments'' sample_file doc) ''report'' = Inr doc" by simp
  have "h_cpus sample_host \<noteq> []" "h_nets sample_host \<noteq> []" by (simp_all add: sample_host_def)
  moreover have "getBodyData (Some ''report'') = Some ''report''" by (simp add: getBodyData_def)
  ultimately show ?thesis
    using insertData_report [OF ref_values willing_accepts sample_host_ok sample_host_finite p a,
        of "\<lparr>executed = [], macId = 0\<rparr>"]
      post_answer [OF ref_values sample_lists, of doc "Some willing" "Some '' ''" "Some ''report''"
        "\<lparr>executed = [], macId = 0\<rparr>"]
    by (auto simp: Let_def sample_image)
qed

end
