(* ===== verification/EndToEnd.thy ===== *)
theory EndToEnd
  imports TimeProperties ServerProperties
begin

text \<open>
  The client and the server together: the report of a machine travels as the text of a POST,
  becomes the rows of the machine, and the image that the server assigns to the machine is what
  the client deploys.
\<close>











end
