(* ===== verification/Tables.thy ===== *)
theory Tables
  imports EndToEnd "HOL-Library.Multiset"
begin

text \<open>
  The tables of the server after any sequence of reports. The database is not in the repository:
  the locale \<open>database\<close> states what a \<^verbatim>\<open>delete ... where id = x\<close> and an \<^verbatim>\<open>insert\<close> do to the rows of
  the three tables. The abstract state is the last report of each machine; the tables refine it.
\<close>

section \<open>Rows\<close>

text \<open>A row is what its insert statement put there.\<close>

fun table_of :: "sql \<Rightarrow> string" where
  "table_of (Delete t x) = t"
| "table_of (Insert_serverinfo mac da dt du ma mt mu down up cards address time) = ''serverinfo''"
| "table_of (Insert_cpuinfo mac used mhz cores cid) = ''cpuinfo''"
| "table_of (Insert_dockerinfo mac cpu mem usage limit did) = ''dockerinfo''"

fun row_id :: "sql \<Rightarrow> double" where
  "row_id (Delete t x) = x"
| "row_id (Insert_serverinfo mac da dt du ma mt mu down up cards address time) = mac"
| "row_id (Insert_cpuinfo mac used mhz cores cid) = mac"
| "row_id (Insert_dockerinfo mac cpu mem usage limit did) = mac"

fun is_insert :: "sql \<Rightarrow> bool" where
  "is_insert (Delete t x) = False"
| "is_insert _ = True"

section \<open>The database\<close>

text \<open>The statements that the server executed; one that failed changed nothing.\<close>

definition db_after :: "(sql \<Rightarrow> 'd \<Rightarrow> 'd) \<Rightarrow> (sql \<times> bool) list \<Rightarrow> 'd \<Rightarrow> 'd" where
  "db_after run_sql es d = fold (\<lambda>(q, ok) d. if ok then run_sql q d else d) es d"

lemma db_after_simps [simp]:
  "db_after run_sql [] d = d"
  "db_after run_sql ((q, ok) # es) d = db_after run_sql es (if ok then run_sql q d else d)"
  "db_after run_sql (es @ es') d = db_after run_sql es' (db_after run_sql es d)"
  by (simp_all add: db_after_def)

abbreviation all_done :: "sql list \<Rightarrow> (sql \<times> bool) list" where
  "all_done qs \<equiv> map (\<lambda>q. (q, True)) qs"

definition host_inserts :: "host \<Rightarrow> string \<Rightarrow> sql list" where
  "host_inserts h location =
     (let mac = stringToHashCode (h_mac h @ [newline])
      in [server_row h location mac] @
         map (cpu_row h mac) [0..<length (h_cpus h)] @ map (container_row mac) (h_docker h))"

lemma host_rows_split: "host_rows h location = deletes (stringToHashCode (h_mac h @ [newline])) @ host_inserts h location"
  by (simp add: host_rows_def host_inserts_def Let_def)

lemma host_inserts_rows:
  "q \<in> set (host_inserts h location) \<Longrightarrow> is_insert q \<and> row_id q = stringToHashCode (h_mac h @ [newline])"
  by (auto simp: host_inserts_def server_row_def cpu_row_def container_row_def Let_def)

section \<open>The last report of each machine\<close>

text \<open>Machines are told apart by the value of the hashed MAC address.\<close>

definition host_key :: "host \<Rightarrow> rat" where
  "host_key h = dval (stringToHashCode (h_mac h @ [newline]))"

type_synonym latest = "rat \<Rightarrow> (host \<times> string) option"

text \<open>A report without processors or interfaces leaves its machine without an entry.\<close>

definition reported_by :: "host \<times> string \<Rightarrow> latest \<Rightarrow> latest" where
  "reported_by r m =
     m(host_key (fst r) := if h_cpus (fst r) = [] \<or> h_nets (fst r) = [] then None else Some r)"

definition table_rows :: "string \<Rightarrow> (host \<times> string) option \<Rightarrow> sql multiset" where
  "table_rows t r =
     (case r of None \<Rightarrow> {#} | Some (h, location) \<Rightarrow> mset (filter (\<lambda>q. table_of q = t) (host_inserts h location)))"

text \<open>The statements of a report.\<close>

definition report_sql :: "host \<times> string \<Rightarrow> sql list" where
  "report_sql r =
     (if h_cpus (fst r) = [] \<or> h_nets (fst r) = []
      then deletes (stringToHashCode (h_mac (fst r) @ [newline])) else host_rows (fst r) (snd r))"

abbreviation tables :: "string set" where
  "tables \<equiv> {''serverinfo'', ''cpuinfo'', ''dockerinfo''}"

text \<open>The rows of each machine in each table are those of its last report.\<close>

definition shows_latest :: "('d \<Rightarrow> string \<Rightarrow> sql multiset) \<Rightarrow> latest \<Rightarrow> 'd \<Rightarrow> bool" where
  "shows_latest rows m d \<longleftrightarrow>
     (\<forall>t \<in> tables. (\<forall>r \<in># rows d t. finite_double (row_id r)) \<and>
        (\<forall>k. filter_mset (\<lambda>r. dval (row_id r) = k) (rows d t) = table_rows t (m k)))"

lemma table_rows_id:
  "r \<in># table_rows t (Some (h, location)) \<Longrightarrow> row_id r = stringToHashCode (h_mac h @ [newline])"
  by (auto simp: table_rows_def dest: host_inserts_rows)

lemma table_rows_key:
  "filter_mset (\<lambda>r. dval (row_id r) = k) (table_rows t (Some (h, location))) =
     (if k = host_key h then table_rows t (Some (h, location)) else {#})"
proof (cases "k = host_key h")
  case True
  then have "filter_mset (\<lambda>r. dval (row_id r) = k) (table_rows t (Some (h, location))) =
      filter_mset (\<lambda>r. True) (table_rows t (Some (h, location)))"
    using table_rows_id [of _ t h location] by (intro filter_mset_cong0) (simp add: host_key_def)
  with True show ?thesis by simp
next
  case False
  with table_rows_id [of _ t h location] show ?thesis by (auto simp: host_key_def)
qed

lemma other_rows_key:
  assumes "\<forall>r \<in># M. finite_double (row_id r)" and "finite_double mac"
  shows "filter_mset (\<lambda>r. dval (row_id r) = k) (filter_mset (\<lambda>r. \<not> deq (row_id r) mac) M) =
    (if k = dval mac then {#} else filter_mset (\<lambda>r. dval (row_id r) = k) M)"
  using assms by (auto simp: filter_filter_mset deq_def intro!: filter_mset_cong0)

locale database =
  fixes run_sql :: "sql \<Rightarrow> 'd \<Rightarrow> 'd" and rows :: "'d \<Rightarrow> string \<Rightarrow> sql multiset"
  assumes delete: "rows (run_sql (Delete t x) d) t' =
      (if t' = t then filter_mset (\<lambda>r. \<not> deq (row_id r) x) (rows d t) else rows d t')"
    and insert: "is_insert q \<Longrightarrow>
      rows (run_sql q d) t' = (if t' = table_of q then add_mset q (rows d t') else rows d t')"
begin

lemma rows_inserts:
  "\<forall>q \<in> set qs. is_insert q \<Longrightarrow>
     rows (db_after run_sql (all_done qs) d) t = rows d t + mset (filter (\<lambda>q. table_of q = t) qs)"
  by (induction qs arbitrary: d) (auto simp: insert)

lemma rows_deletes:
  "t \<in> tables \<Longrightarrow>
     rows (db_after run_sql (all_done (deletes mac)) d) t = filter_mset (\<lambda>r. \<not> deq (row_id r) mac) (rows d t)"
  by (auto simp: deletes_def delete)

lemma rows_report:
  assumes "t \<in> tables"
  shows "rows (db_after run_sql (all_done (host_rows h location)) d) t =
    filter_mset (\<lambda>r. \<not> deq (row_id r) (stringToHashCode (h_mac h @ [newline]))) (rows d t) +
    table_rows t (Some (h, location))"
  using rows_deletes [OF assms] rows_inserts [of "host_inserts h location"] host_inserts_rows
  by (simp add: host_rows_split table_rows_def del: map_append) simp

text \<open>One report: the entry of its machine changes, every other stays.\<close>

lemma report_shown:
  assumes "shows_latest rows m d" and "finite_double (stringToHashCode (h_mac h @ [newline]))"
  shows "shows_latest rows (reported_by (h, location) m)
    (db_after run_sql (all_done
      (if h_cpus h = [] \<or> h_nets h = [] then deletes (stringToHashCode (h_mac h @ [newline]))
       else host_rows h location)) d)"
proof -
  let ?mac = "stringToHashCode (h_mac h @ [newline])"
  have old: "\<forall>r \<in># rows d t. finite_double (row_id r)"
    "filter_mset (\<lambda>r. dval (row_id r) = k) (rows d t) = table_rows t (m k)" if "t \<in> tables" for t k
    using assms(1) that unfolding shows_latest_def by blast+
  note keys = other_rows_key [OF old(1) assms(2), folded host_key_def] table_rows_key
  show ?thesis
  proof (cases "h_cpus h = [] \<or> h_nets h = []")
    case True
    then show ?thesis
      using old by (auto simp: shows_latest_def reported_by_def rows_deletes keys table_rows_def [of _ None]
          simp del: insert_iff)
  next
    case False
    then show ?thesis
      using old assms(2) by (auto simp: shows_latest_def reported_by_def rows_report keys dest: table_rows_id
          simp del: insert_iff)
  qed
qed

lemma reports_shown:
  assumes "\<forall>r \<in> set rs. host_finite (fst r)" and "shows_latest rows m d"
  shows "shows_latest rows (fold reported_by rs m) (db_after run_sql (all_done (concat (map report_sql rs))) d)"
  using assms
proof (induction rs arbitrary: m d)
  case (Cons r rs)
  have "finite_double (stringToHashCode (h_mac (fst r) @ [newline]))"
    using Cons.prems(1) by (simp add: host_finite_def)
  from report_shown [OF Cons.prems(2) this, of "snd r"]
  have "shows_latest rows (reported_by r m) (db_after run_sql (all_done (report_sql r)) d)"
    by (simp only: report_sql_def prod.collapse)
  then show ?case using Cons by simp
qed simp

end

section \<open>A database\<close>

fun table_sql :: "sql \<Rightarrow> (string \<Rightarrow> sql multiset) \<Rightarrow> string \<Rightarrow> sql multiset" where
  "table_sql (Delete t x) d = d(t := filter_mset (\<lambda>r. \<not> deq (row_id r) x) (d t))"
| "table_sql q d = d(table_of q := add_mset q (d (table_of q)))"

interpretation table_db: database table_sql "\<lambda>d. d"
proof
  show "is_insert q \<Longrightarrow> table_sql q d t' = (if t' = table_of q then add_mset q (d t') else d t')"
    for q d t' by (cases q) auto
qed simp

section \<open>A sequence of requests\<close>

text \<open>The servlet answers one POST after the other; only the executed statements carry over.\<close>

fun serve :: "'j gson \<Rightarrow> connection option \<Rightarrow> string option \<Rightarrow> string list \<Rightarrow> store \<Rightarrow> store" where
  "serve g con responses [] s = s"
| "serve g con responses (b # bs) s = serve g con responses bs (snd (doPost g con responses None (Some b) s))"

text \<open>A machine with its location, and the text its client posts.\<close>

definition posts :: "'j gson \<Rightarrow> json_api \<Rightarrow> host \<times> string \<Rightarrow> string \<Rightarrow> bool" where
  "posts g J r data \<longleftrightarrow>
     host_ok (fst r) \<and> host_finite (fst r) \<and>
     (\<exists>body v. getBodyData (Some data) = Some body \<and> g_parse g body = Inr v \<and>
        arrives g J v (host_report J (fst r) (snd r)))"

lemma doPost_store: "snd (doPost g con responses query body s) = snd (insertData g con (getBodyData body) s)"
  by (simp add: doPost_def andthen_def pure_def split: prod.split sum.split)

lemma post_executed:
  assumes "json_values J" and "accepts c" and "posts g J r data"
  shows "executed (snd (doPost g (Some c) responses query (Some data) s)) = executed s @ all_done (report_sql r)"
proof -
  obtain h location where r: "r = (h, location)" by force
  obtain body v where "getBodyData (Some data) = Some body" "g_parse g body = Inr v"
    "arrives g J v (host_report J h location)" and "host_ok h" "host_finite h"
    using assms(3) by (auto simp: posts_def r)
  with insertData_report [OF assms(1,2), of h g body v location s] show ?thesis
    by (auto simp: doPost_store r report_sql_def Let_def)
qed

lemma serve_executed:
  assumes "json_values J" and "accepts c" and "list_all2 (posts g J) rs bs"
  shows "executed (serve g (Some c) responses bs s) = executed s @ all_done (concat (map report_sql rs))"
  using assms(3)
proof (induction arbitrary: s)
  case (Cons r rs b bs)
  then show ?case using post_executed [OF assms(1,2)] by simp
qed simp

text \<open>
  C8: the server as a whole refines a map from machines to reports: after any sequence of posted
  reports, starting from empty tables, the rows of each machine in each table are exactly those
  of its last report, and none after a last report without processors or interfaces. Machines are
  told apart by the hash of their MAC address only, so of two machines with the same hash the
  later one owns the rows.
\<close>

theorem tables_show_latest:
  assumes "database run_sql rows" and "json_values J" and "accepts c"
    and "list_all2 (posts g J) rs bs" and "\<forall>t. rows d t = {#}"
  shows "shows_latest rows (fold reported_by rs Map.empty)
    (db_after run_sql (executed (serve g (Some c) responses bs \<lparr>executed = [], macId = 0\<rparr>)) d)"
proof -
  have "\<forall>r \<in> set rs. host_finite (fst r)"
    using assms(4) by (induction rule: list_all2_induct) (simp_all add: posts_def)
  moreover have "shows_latest rows Map.empty d"
    using assms(5) by (simp add: shows_latest_def table_rows_def)
  ultimately show ?thesis
    using database.reports_shown [OF assms(1)] serve_executed [OF assms(2-4)] by simp
qed

theorem tables_show_latest_witness:
  "\<exists>doc. shows_latest (\<lambda>d. d) [host_key sample_host \<mapsto> (sample_host, ''lab'')]
     (db_after table_sql (executed (serve (value_gson [] JNull doc) (Some willing) None
       [''report'', ''report''] \<lparr>executed = [], macId = 0\<rparr>)) (\<lambda>t. {#}))"
proof -
  obtain doc where "holds ref_json doc (host_report ref_json sample_host ''lab'')"
    using report_of_machine [OF ref_values sample_shell_shows sample_host_ok] by blast
  then have "arrives (value_gson [] JNull doc) ref_json doc (host_report ref_json sample_host ''lab'')"
    by (rule value_arrives [OF _ host_report_containers])
  then have p: "posts (value_gson [] JNull doc) ref_json (sample_host, ''lab'') ''report''"
    using sample_host_ok sample_host_finite by (auto simp: posts_def getBodyData_def)
  have "h_cpus sample_host \<noteq> []" "h_nets sample_host \<noteq> []" by (simp_all add: sample_host_def)
  then have "fold reported_by [(sample_host, ''lab''), (sample_host, ''lab'')] Map.empty =
      [host_key sample_host \<mapsto> (sample_host, ''lab'')]"
    by (simp add: reported_by_def)
  with p tables_show_latest [OF table_db.database_axioms ref_values willing_accepts,
      of "value_gson [] JNull doc" "[(sample_host, ''lab''), (sample_host, ''lab'')]" "[''report'', ''report'']"
        "\<lambda>t. {#}" None]
  show ?thesis by auto
qed

end
