(* ===== verification/ClientServer.thy ===== *)
theory ClientServer
  imports Tables
begin

text \<open>
  The loop of the client composed with the server and its tables: a client that watches a machine
  for any number of rounds, among other machines that report in between, leaves the rows of one
  of the states it saw, and that state has the disk and memory figures of the last one.
\<close>

section \<open>What the client posted\<close>

text \<open>A round that collects from a machine in state \<open>h\<close>.\<close>

definition watches :: "env \<Rightarrow> host \<Rightarrow> bool" where
  "watches e h \<longleftrightarrow> shell_shows (e_shell e) h \<and> host_ok h \<and> host_finite h"

definition figure :: "json_api \<Rightarrow> string \<Rightarrow> host \<Rightarrow> string \<Rightarrow> json" where
  "figure J location h k =
     (case map_of (host_report J h location) k of Some (x # xs) \<Rightarrow> JArray (x # xs) | _ \<Rightarrow> JNull)"

text \<open>The same state, or figures that the comparison of the JSON library cannot tell apart.\<close>

definition same_figures :: "json_api \<Rightarrow> string \<Rightarrow> host \<Rightarrow> host \<Rightarrow> bool" where
  "same_figures J location h h' \<longleftrightarrow>
     h = h' \<or>
     jequal J (figure J location h ''disk info'') (figure J location h' ''disk info'') \<and>
     jequal J (figure J location h ''memory info'') (figure J location h' ''memory info'')"

text \<open>
  After the rounds \<open>hs\<close>, the reports posted are those of the states \<open>ps\<close>, and the last of them
  has the figures of the last round.
\<close>

definition caught_up :: "json_api \<Rightarrow> string \<Rightarrow> host list \<Rightarrow> client \<Rightarrow> host list \<Rightarrow> bool" where
  "caught_up J location hs st ps \<longleftrightarrow>
     list_all2 (\<lambda>doc h. holds J doc (host_report J h location)) (posted st) ps \<and> set ps \<subseteq> set hs \<and>
     (if hs = [] then ps = [] else ps \<noteq> [] \<and> same_figures J location (last ps) (last hs))"

lemma holds_figure: "holds J doc (host_report J h location) \<Longrightarrow> jget J doc k = figure J location h k"
  by (simp add: holds_def figure_def)

lemma figure_disk: "figure J location h ''disk info'' \<noteq> JNull"
  by (simp add: figure_def host_report_def Let_def)

lemma list_all2_last: "list_all2 P xs ys \<Longrightarrow> xs \<noteq> [] \<Longrightarrow> P (last xs) (last ys)"
  by (induction rule: list_all2_induct) auto

lemma stored_figures:
  assumes "stores_ok J st" and "caught_up J location hs st ps" and "hs \<noteq> []"
  shows "diskStore st = figure J location (last ps) ''disk info''"
    and "memoryStore st = figure J location (last ps) ''memory info''"
proof -
  have "posted st \<noteq> []" using assms(2,3) by (auto simp: caught_up_def)
  moreover from this have "holds J (last (posted st)) (host_report J (last ps) location)"
    using assms(2) list_all2_last by (fastforce simp: caught_up_def)
  ultimately show "diskStore st = figure J location (last ps) ''disk info''"
    and "memoryStore st = figure J location (last ps) ''memory info''"
    using assms(1) holds_figure by (auto simp: stores_ok_def split: list.splits)
qed

lemma caught_up_step:
  assumes "json_values J" and "stores_ok J st" and "caught_up J location hs st ps"
    and "watches e h" and "iteration J location e st = Returns st'"
  shows "\<exists>ps'. caught_up J location (hs @ [h]) st' ps'"
proof -
  obtain doc where doc: "linux_command J (e_shell e) location = Inr doc"
    and h: "holds J doc (host_report J h location)"
    using report_of_machine [OF assms(1)] assms(4) unfolding watches_def by blast
  show ?thesis
  proof (cases "update_stores J doc st")
    case None
    with assms(5) doc have st': "st' = st" by (simp add: iteration_def)
    from None have same: "jequal J (diskStore st) (figure J location h ''disk info'')"
      "jequal J (memoryStore st) (figure J location h ''memory info'')"
      by (simp_all add: update_stores_None holds_figure [OF h])
    have "hs \<noteq> []"
    proof
      assume "hs = []"
      with assms(2,3) have "diskStore st = JNull" by (auto simp: caught_up_def stores_ok_def)
      with same(1) figure_disk show False by (simp add: json_values.equal_null [OF assms(1)])
    qed
    with same stored_figures [OF assms(2,3)] have "same_figures J location (last ps) h"
      by (simp add: same_figures_def)
    with \<open>hs \<noteq> []\<close> assms(3) have "caught_up J location (hs @ [h]) st' ps"
      by (auto simp: caught_up_def st')
    then show ?thesis by blast
  next
    case (Some st1)
    with assms(5) doc have "post_report J e doc st1 = Returns st'" by (simp add: iteration_def)
    then have "posted st' = posted st @ [doc]"
      using post_report_state update_stores_Some [OF Some] by metis
    with assms(3) h have "caught_up J location (hs @ [h]) st' (ps @ [h])"
      by (auto simp: caught_up_def same_figures_def intro: list_all2_appendI)
    then show ?thesis by blast
  qed
qed

lemma caught_up_run:
  assumes "json_values J" and "stores_ok J st" and "caught_up J location hs st ps"
    and "list_all2 watches es hs'" and "timerControl J location es st = Returns st'"
  shows "\<exists>ps'. caught_up J location (hs @ hs') st' ps'"
  using assms(4,2,3,5)
proof (induction arbitrary: hs st ps)
  case (Cons e es h hs')
  then obtain st1 where st1: "iteration J location e st = Returns st1" "timerControl J location es st1 = Returns st'"
    by (auto simp: res_simps)
  obtain ps1 where "caught_up J location (hs @ [h]) st1 ps1"
    using caught_up_step [OF assms(1) Cons.prems(1,2) Cons.hyps(1) st1(1)] by blast
  from Cons.IH [OF stores_ok_iteration [OF Cons.prems(1) st1(1)] this st1(2)] show ?case by simp
qed auto

lemma caught_up_init: "caught_up J location [] client_init []"
  by (simp add: caught_up_def client_init_def)

section \<open>What the server made of it\<close>

text \<open>
  The text of a document comes back as the members it holds: what the one JSON library writes, the
  other reads.
\<close>

definition reads_back :: "'j gson \<Rightarrow> json_api \<Rightarrow> json \<Rightarrow> bool" where
  "reads_back g J doc \<longleftrightarrow>
     (\<exists>body v. getBodyData (Some (cstr (jto_styled J doc))) = Some body \<and> g_parse g body = Inr v \<and>
        (\<forall>h location. holds J doc (host_report J h location) \<longrightarrow> arrives g J v (host_report J h location)))"

definition bodies :: "json_api \<Rightarrow> client \<Rightarrow> string list" where
  "bodies J st = map (\<lambda>doc. cstr (jto_styled J doc)) (posted st)"

lemma posts_bodies:
  assumes "list_all2 (\<lambda>doc h. holds J doc (host_report J h location)) (posted st) ps"
    and "\<forall>doc \<in> set (posted st). reads_back g J doc"
    and "\<forall>h \<in> set ps. host_ok h \<and> host_finite h"
  shows "list_all2 (posts g J) (map (\<lambda>h. (h, location)) ps) (bodies J st)"
  unfolding bodies_def list_all2_map1 list_all2_map2 using assms
proof (induction)
  case (Cons doc docs h hs)
  then show ?case by (auto simp: posts_def reads_back_def)
qed simp

text \<open>Requests of two senders in some interleaving.\<close>

lemma list_all2_shuffles:
  assumes "zs \<in> shuffles xs ys" and "list_all2 P as xs" and "list_all2 P bs ys"
  shows "\<exists>cs \<in> shuffles as bs. list_all2 P cs zs"
  using assms
proof (induction xs ys arbitrary: as bs zs rule: shuffles.induct)
  case (3 x xs y ys)
  obtain a as' b bs' where ab: "as = a # as'" "bs = b # bs'" "P a x" "P b y"
    "list_all2 P as' xs" "list_all2 P bs' ys"
    using "3.prems"(2,3) by (auto simp: list_all2_Cons2)
  from "3.prems"(1) consider zs' where "zs = x # zs'" "zs' \<in> shuffles xs (y # ys)"
    | zs' where "zs = y # zs'" "zs' \<in> shuffles (x # xs) ys" by auto
  then show ?case
  proof cases
    case 1
    obtain cs where "cs \<in> shuffles as' bs" "list_all2 P cs zs'"
      using "3.IH"(1) [OF 1(2) ab(5)] "3.prems"(3) by auto
    with 1 ab show ?thesis by (intro bexI [of _ "a # cs"]) (auto simp: Cons_in_shuffles_iff)
  next
    case 2
    obtain cs where "cs \<in> shuffles as bs'" "list_all2 P cs zs'"
      using "3.IH"(2) [OF 2(2) _ ab(6)] "3.prems"(2) by auto
    with 2 ab show ?thesis by (intro bexI [of _ "b # cs"]) (auto simp: Cons_in_shuffles_iff)
  qed
qed auto

text \<open>The entry of a machine is that of its last report, whatever the others posted.\<close>

lemma fold_reported_by:
  "(fold reported_by rs m) k =
     (case rev (filter (\<lambda>r. host_key (fst r) = k) rs) of
        [] \<Rightarrow> m k
      | r # _ \<Rightarrow> if h_cpus (fst r) = [] \<or> h_nets (fst r) = [] then None else Some r)"
proof (induction rs rule: rev_induct)
  case (snoc r rs)
  then show ?case by (auto simp: reported_by_def split: list.split)
qed simp

lemma fold_reported_shuffled:
  assumes "rs \<in> shuffles mine others" and "mine \<noteq> []"
    and "\<forall>r \<in> set mine. host_key (fst r) = k" and "\<forall>r \<in> set others. host_key (fst r) \<noteq> k"
    and "h_cpus (fst (last mine)) \<noteq> []" and "h_nets (fst (last mine)) \<noteq> []"
  shows "(fold reported_by rs m) k = Some (last mine)"
proof -
  let ?f = "filter (\<lambda>r. host_key (fst r) = k)"
  have "?f rs \<in> shuffles (?f mine) (?f others)"
    using filter_shuffles [of "\<lambda>r. host_key (fst r) = k" mine others] assms(1) by blast
  moreover have "?f mine = mine" "?f others = []"
    using assms(3,4) by (auto simp: filter_id_conv filter_empty_conv)
  ultimately have "?f rs = mine" by simp
  moreover obtain ys r where "mine = ys @ [r]" using assms(2) by (cases mine rule: rev_exhaust) auto
  ultimately show ?thesis using assms(5,6) by (simp add: fold_reported_by)
qed

text \<open>
  C6: client, server and tables together: the client process is started on a machine and is still
  running after any number of rounds, and the server receives its posts interleaved in any way with those of
  machines with other MAC hashes. Afterwards the rows of the machine in all three tables are those of one
  single state that the client saw, and that state has the same disk and memory figures as the
  last one: the tables never mix two states, and what they miss are changes that leave those
  figures alone.
\<close>

theorem tables_follow_client:
  assumes "database run_sql rows" and "json_values J" and "accepts c" and "\<forall>t. rows d t = {#}"
    and "list_all2 watches es hs" and "hs \<noteq> []" and "main_after J location es = Running st"
    and "\<forall>h \<in> set hs. host_key h = k \<and> h_cpus h \<noteq> [] \<and> h_nets h \<noteq> []"
    and "\<forall>doc \<in> set (posted st). reads_back g J doc"
    and "list_all2 (posts g J) rs others" and "\<forall>r \<in> set rs. host_key (fst r) \<noteq> k"
    and "received \<in> shuffles (bodies J st) others"
  shows "\<exists>h \<in> set hs. same_figures J location h (last hs) \<and>
    (\<forall>t \<in> tables. filter_mset (\<lambda>r. dval (row_id r) = k)
       (rows (db_after run_sql (executed (serve g (Some c) responses received \<lparr>executed = [], macId = 0\<rparr>)) d) t) =
       table_rows t (Some (h, location)))"
proof -
  have "timerControl J location es client_init = Returns st"
    using assms(7) by (simp add: main_after_def split: outcome.splits)
  then obtain ps where "caught_up J location hs st ps"
    using caught_up_run [OF assms(2) stores_ok_init caught_up_init assms(5)] by auto
  then have ps: "list_all2 (\<lambda>doc h. holds J doc (host_report J h location)) (posted st) ps"
    "set ps \<subseteq> set hs" "ps \<noteq> []" "same_figures J location (last ps) (last hs)"
    using assms(6) by (simp_all add: caught_up_def)
  let ?mine = "map (\<lambda>h. (h, location)) ps"
  have "\<forall>h \<in> set hs. host_ok h \<and> host_finite h"
    using assms(5) by (induction rule: list_all2_induct) (simp_all add: watches_def)
  with ps(2) have "list_all2 (posts g J) ?mine (bodies J st)"
    by (intro posts_bodies [OF ps(1) assms(9)]) blast
  from list_all2_shuffles [OF assms(12) this assms(10)] obtain all where
    all: "all \<in> shuffles ?mine rs" "list_all2 (posts g J) all received" by blast
  have shown: "shows_latest rows (fold reported_by all Map.empty)
      (db_after run_sql (executed (serve g (Some c) responses received \<lparr>executed = [], macId = 0\<rparr>)) d)"
  proof -
    have "\<forall>r \<in> set all. host_finite (fst r)"
      using all(2) by (induction rule: list_all2_induct) (simp_all add: posts_def)
    moreover have "shows_latest rows Map.empty d"
      using assms(4) by (simp add: shows_latest_def table_rows_def)
    ultimately show ?thesis
      using database.reports_shown [OF assms(1)] serve_executed [OF assms(2,3) all(2)] by simp
  qed
  have last: "last ps \<in> set hs" using ps(2,3) by auto
  have "fold reported_by all Map.empty k = Some (last ps, location)"
    using fold_reported_shuffled [OF all(1), of k Map.empty] ps(2,3) assms(8,11) last
    by (auto simp: last_map)
  with shown last ps(4) show ?thesis by (auto simp: shows_latest_def)
qed

text \<open>Two rounds on one machine, the second of which is skipped, and a report of another machine.\<close>

definition other_host :: host where
  "other_host = sample_host\<lparr>h_mac := ''00:16:3e:00:00:08''\<rparr>"

lemma other_host_ok: "host_ok other_host"
  by code_simp

lemma other_hash: "stringToHashCode (h_mac other_host @ [newline]) = Fin 6538101838137375 1"
proof -
  have "foldl (hash_step (dint 7)) (Fin 8539561584505696 (- 5)) (''8'' @ [newline]) = Fin 6538101838137375 1"
    by code_simp
  with mac_hash [of "''8'' @ [newline]"] show ?thesis by (simp add: other_host_def)
qed

lemma other_host_finite: "host_finite other_host"
  unfolding host_finite_def other_hash by code_simp

lemma other_host_key: "host_key other_host \<noteq> host_key sample_host"
  by (simp add: host_key_def other_hash sample_hash)

lemma sample_figures:
  "json_eq (figure ref_json ''lab'' sample_host ''disk info'') (figure ref_json ''lab'' sample_host ''disk info'')"
  "json_eq (figure ref_json ''lab'' sample_host ''memory info'') (figure ref_json ''lab'' sample_host ''memory info'')"
proof -
  have fin: "finite_double (used_share 1024 424)" "finite_double (dint 1024)" "finite_double (dint 424)"
   "finite_double (used_share 2048 512)" "finite_double (dint 2048)" "finite_double (dint 512)"
    by code_simp+
  have keys: "''available'' < ''total''" "\<not> ''total'' < ''available''" "\<not> ''used'' < ''total''" "\<not> ''used'' < ''available''"
    by code_simp+
  have "figure ref_json ''lab'' sample_host ''disk info'' =
      JArray [JObject [(''available'', JReal (dint 424)), (''total'', JReal (dint 1024)), (''used'', JReal (used_share 1024 424))]]"
    "figure ref_json ''lab'' sample_host ''memory info'' =
      JArray [JObject [(''available'', JReal (dint 512)), (''total'', JReal (dint 2048)), (''used'', JReal (used_share 2048 512))]]"
    using keys by (simp_all add: figure_def host_report_def sample_host_def Let_def jobject_def ref_json_def used_share_def)
  then show
  "json_eq (figure ref_json ''lab'' sample_host ''disk info'') (figure ref_json ''lab'' sample_host ''disk info'')"
  "json_eq (figure ref_json ''lab'' sample_host ''memory info'') (figure ref_json ''lab'' sample_host ''memory info'')"
    by (simp_all add: deq_def fin)
qed

lemma sample_rounds:
  obtains st doc where "timerControl ref_json ''lab'' [sample_env, sample_env] client_init = Returns st"
    "posted st = [doc]" "holds ref_json doc (host_report ref_json sample_host ''lab'')"
proof -
  obtain doc where doc: "linux_command ref_json (e_shell sample_env) ''lab'' = Inr doc"
    and h: "holds ref_json doc (host_report ref_json sample_host ''lab'')"
    using report_of_machine [OF ref_values sample_shell_shows sample_host_ok] by (auto simp: sample_env_def)
  obtain st where st: "iteration ref_json ''lab'' sample_env client_init = Returns st" "length (posted st) = 1"
    using sample_iteration by blast
  obtain st1 where "update_stores ref_json doc client_init = Some st1"
    using doc sample_update by (auto simp: sample_env_def)
  with st(1) doc have posted: "posted st = [doc]"
    using post_report_state update_stores_Some by (fastforce simp: iteration_def client_init_def)
  have "stores_ok ref_json st" by (rule stores_ok_iteration [OF stores_ok_init st(1)])
  then have "diskStore st = figure ref_json ''lab'' sample_host ''disk info''"
    "memoryStore st = figure ref_json ''lab'' sample_host ''memory info''"
    by (simp_all add: stores_ok_def posted holds_figure [OF h])
  moreover have "jis_member ref_json doc ''docker info''"
    using h by (simp add: holds_def host_report_def sample_host_def Let_def)
  ultimately have "update_stores ref_json doc st = None"
    using sample_figures by (simp add: update_stores_None holds_figure [OF h]) (simp add: ref_json_def)
  with doc st(1) have "timerControl ref_json ''lab'' [sample_env, sample_env] client_init = Returns st"
    by (simp add: iteration_def)
  with that posted h show ?thesis by blast
qed

theorem tables_follow_client_witness:
  "\<exists>st (g :: json gson). main_after ref_json ''lab'' [sample_env, sample_env] = Running st \<and>
     (\<forall>t \<in> tables. filter_mset (\<lambda>r. dval (row_id r) = host_key sample_host)
        (db_after table_sql (executed (serve g (Some willing) None (bodies ref_json st @ [''other''])
          \<lparr>executed = [], macId = 0\<rparr>)) (\<lambda>t. {#}) t) = table_rows t (Some (sample_host, ''lab'')))"
proof -
  obtain st doc where st: "main_after ref_json ''lab'' [sample_env, sample_env] = Running st"
    and doc: "posted st = [doc]" "holds ref_json doc (host_report ref_json sample_host ''lab'')"
    by (rule sample_rounds) (simp add: main_after_def)
  obtain doc' where doc': "holds ref_json doc' (host_report ref_json other_host ''lab'')"
    using ref.report_holds [OF host_vectors_ok, of other_host "''lab''"] other_host_ok
    by (auto simp: host_report_vectors)
  let ?g = "value_gson ''other'' doc' doc"
  have "\<forall>d \<in> set (posted st). reads_back ?g ref_json d"
    using doc value_arrives [OF _ host_report_containers] container_text [of doc]
    by (auto simp: reads_back_def getBodyData_def ref_json_def holds_def)
  moreover have "list_all2 (posts ?g ref_json) [(other_host, ''lab'')] [''other'']"
    using other_host_ok other_host_finite value_arrives [OF doc' host_report_containers] by (auto simp: posts_def getBodyData_def)
  moreover have "list_all2 watches [sample_env, sample_env] [sample_host, sample_host]"
    using sample_shell_shows sample_host_ok sample_host_finite by (simp add: watches_def sample_env_def)
  moreover have "bodies ref_json st @ [''other''] \<in> shuffles (bodies ref_json st) [''other'']"
    by (simp add: bodies_def doc(1))
  moreover have "h_cpus sample_host \<noteq> []" "h_nets sample_host \<noteq> []" by (simp_all add: sample_host_def)
  ultimately have "\<exists>h \<in> set [sample_host, sample_host]. same_figures ref_json ''lab'' h (last [sample_host, sample_host]) \<and>
      (\<forall>t \<in> tables. filter_mset (\<lambda>r. dval (row_id r) = host_key sample_host)
        (db_after table_sql (executed (serve ?g (Some willing) None (bodies ref_json st @ [''other''])
          \<lparr>executed = [], macId = 0\<rparr>)) (\<lambda>t. {#}) t) = table_rows t (Some (h, ''lab'')))"
    using other_host_key
    by (intro tables_follow_client [OF table_db.database_axioms ref_values willing_accepts _ _ _ st, of _ _ _ ?g
        "[(other_host, ''lab'')]" "[''other'']"]) simp_all
  then show ?thesis
    using st by (intro exI [of _ st] exI [of _ ?g] conjI) simp_all
qed

end
