(* ===== verification/JsonIterator.thy ===== *)
theory JsonIterator
  imports JsonValue
begin

text \<open>
  The iterators of \<^verbatim>\<open>client/json_include/value.h\<close>: the inline operators of \<^verbatim>\<open>ValueIteratorBase\<close>,
  \<^verbatim>\<open>ValueConstIterator\<close> and \<^verbatim>\<open>ValueIterator\<close> over the protected methods, whose bodies are in the
  binary library and hence parameters, and the inline methods of \<^verbatim>\<open>StaticString\<close>. An operator that
  changes its object returns the value of the expression and the object afterwards.
\<close>

section \<open>Objects\<close>

record 'c value_iterator =
  current :: 'c
  isNull :: bool

text \<open>The protected methods of \<^verbatim>\<open>ValueIteratorBase\<close>.\<close>

record 'c iterator_api =
  i_deref :: "'c value_iterator \<Rightarrow> json"
  i_increment :: "'c value_iterator \<Rightarrow> 'c value_iterator"
  i_decrement :: "'c value_iterator \<Rightarrow> 'c value_iterator"
  i_computeDistance :: "'c value_iterator \<Rightarrow> 'c value_iterator \<Rightarrow> int"
  i_isEqual :: "'c value_iterator \<Rightarrow> 'c value_iterator \<Rightarrow> bool"

section \<open>Operators\<close>

definition it_eq :: "'c iterator_api \<Rightarrow> 'c value_iterator \<Rightarrow> 'c value_iterator \<Rightarrow> bool" where
  "it_eq A this other = i_isEqual A this other"

definition it_ne :: "'c iterator_api \<Rightarrow> 'c value_iterator \<Rightarrow> 'c value_iterator \<Rightarrow> bool" where
  "it_ne A this other = (\<not> i_isEqual A this other)"

definition it_minus :: "'c iterator_api \<Rightarrow> 'c value_iterator \<Rightarrow> 'c value_iterator \<Rightarrow> int" where
  "it_minus A this other = i_computeDistance A other this"

text \<open>The prefix forms return \<^verbatim>\<open>*this\<close>, the postfix forms the copy made before the prefix form ran.\<close>

definition const_pre_inc :: "'c iterator_api \<Rightarrow> 'c value_iterator \<Rightarrow> 'c value_iterator \<times> 'c value_iterator" where
  "const_pre_inc A this = (let this = i_increment A this in (this, this))"

definition const_pre_dec :: "'c iterator_api \<Rightarrow> 'c value_iterator \<Rightarrow> 'c value_iterator \<times> 'c value_iterator" where
  "const_pre_dec A this = (let this = i_decrement A this in (this, this))"

definition const_post_inc :: "'c iterator_api \<Rightarrow> 'c value_iterator \<Rightarrow> 'c value_iterator \<times> 'c value_iterator" where
  "const_post_inc A this = (let temp = this; this = snd (const_pre_inc A this) in (temp, this))"

definition const_post_dec :: "'c iterator_api \<Rightarrow> 'c value_iterator \<Rightarrow> 'c value_iterator \<times> 'c value_iterator" where
  "const_post_dec A this = (let temp = this; this = snd (const_pre_dec A this) in (temp, this))"

definition const_deref :: "'c iterator_api \<Rightarrow> 'c value_iterator \<Rightarrow> json" where
  "const_deref A this = i_deref A this"

definition const_arrow :: "'c iterator_api \<Rightarrow> 'c value_iterator \<Rightarrow> json" where
  "const_arrow A this = i_deref A this"

text \<open>The same operators of \<^verbatim>\<open>ValueIterator\<close>.\<close>

definition iter_pre_inc :: "'c iterator_api \<Rightarrow> 'c value_iterator \<Rightarrow> 'c value_iterator \<times> 'c value_iterator" where
  "iter_pre_inc A this = (let this = i_increment A this in (this, this))"

definition iter_pre_dec :: "'c iterator_api \<Rightarrow> 'c value_iterator \<Rightarrow> 'c value_iterator \<times> 'c value_iterator" where
  "iter_pre_dec A this = (let this = i_decrement A this in (this, this))"

definition iter_post_inc :: "'c iterator_api \<Rightarrow> 'c value_iterator \<Rightarrow> 'c value_iterator \<times> 'c value_iterator" where
  "iter_post_inc A this = (let temp = this; this = snd (iter_pre_inc A this) in (temp, this))"

definition iter_post_dec :: "'c iterator_api \<Rightarrow> 'c value_iterator \<Rightarrow> 'c value_iterator \<times> 'c value_iterator" where
  "iter_post_dec A this = (let temp = this; this = snd (iter_pre_dec A this) in (temp, this))"

definition iter_deref :: "'c iterator_api \<Rightarrow> 'c value_iterator \<Rightarrow> json" where
  "iter_deref A this = i_deref A this"

definition iter_arrow :: "'c iterator_api \<Rightarrow> 'c value_iterator \<Rightarrow> json" where
  "iter_arrow A this = i_deref A this"

lemmas const_ops = it_eq_def it_ne_def it_minus_def const_pre_inc_def const_pre_dec_def const_post_inc_def
  const_post_dec_def const_deref_def const_arrow_def

lemmas iter_ops = iter_pre_inc_def iter_pre_dec_def iter_post_inc_def iter_post_dec_def iter_deref_def
  iter_arrow_def

text \<open>The two classes have the same operators.\<close>

lemma iter_same_as_const:
  "iter_pre_inc = const_pre_inc" "iter_pre_dec = const_pre_dec" "iter_post_inc = const_post_inc"
  "iter_post_dec = const_post_dec" "iter_deref = const_deref" "iter_arrow = const_arrow"
  by (simp_all add: fun_eq_iff const_ops iter_ops)

section \<open>Static strings\<close>

record static_string =
  held :: string

definition StaticString :: "string \<Rightarrow> static_string" where
  "StaticString czstring = \<lparr>held = czstring\<rparr>"

definition static_to_cstr :: "static_string \<Rightarrow> string" where
  "static_to_cstr this = held this"

definition static_c_str :: "static_string \<Rightarrow> string" where
  "static_c_str this = held this"

section \<open>The contract of the protected methods\<close>

text \<open>
  A bidirectional iterator, as \<^verbatim>\<open>iterator_category\<close> says: \<open>pos\<close> is the position in the elements \<open>xs\<close>
  of the value, the end being \<open>length xs\<close>. Nothing is assumed of the distance of two iterators.
\<close>

locale iterators =
  fixes A :: "'c iterator_api" and pos :: "'c value_iterator \<Rightarrow> nat" and xs :: "json list"
  assumes increment: "pos i < length xs \<Longrightarrow> pos (i_increment A i) = Suc (pos i)"
    and decrement: "0 < pos i \<Longrightarrow> pos (i_decrement A i) = pos i - 1"
    and is_equal: "i_isEqual A i j \<longleftrightarrow> pos i = pos j"
    and deref: "pos i < length xs \<Longrightarrow> i_deref A i = xs ! pos i"
begin

text \<open>The postfix forms have the old iterator as their value, the prefix forms the new one.\<close>

lemma post_forms:
  "fst (const_post_inc A i) = i" "fst (const_post_dec A i) = i"
  "pos i < length xs \<Longrightarrow> pos (snd (const_post_inc A i)) = Suc (pos i)"
  "0 < pos i \<Longrightarrow> pos (snd (const_post_dec A i)) = pos i - 1"
  by (simp_all add: const_ops Let_def increment decrement)

lemma pre_forms:
  "fst (const_pre_inc A i) = snd (const_pre_inc A i)" "fst (const_pre_dec A i) = snd (const_pre_dec A i)"
  "snd (const_pre_inc A i) = snd (const_post_inc A i)" "snd (const_pre_dec A i) = snd (const_post_dec A i)"
  by (simp_all add: const_ops Let_def)

text \<open>The elements that \<^verbatim>\<open>*it++\<close> and \<^verbatim>\<open>*--it\<close> show.\<close>

lemma shown:
  "pos i < length xs \<Longrightarrow> const_deref A (fst (const_post_inc A i)) = xs ! pos i"
  "0 < pos i \<Longrightarrow> pos i \<le> length xs \<Longrightarrow> const_deref A (fst (const_pre_dec A i)) = xs ! (pos i - 1)"
  using deref [of "i_decrement A i"] by (simp_all add: const_ops Let_def deref decrement)

lemma back_again:
  "pos i < length xs \<Longrightarrow> it_eq A (snd (const_post_dec A (snd (const_post_inc A i)))) i"
  by (simp add: const_ops Let_def increment decrement is_equal)

end

section \<open>Positions as iterators\<close>

definition pos_api :: "json list \<Rightarrow> nat iterator_api" where
  "pos_api xs =
     \<lparr>i_deref = (\<lambda>i. xs ! current i),
      i_increment = (\<lambda>i. i\<lparr>current := Suc (current i)\<rparr>),
      i_decrement = (\<lambda>i. i\<lparr>current := current i - 1\<rparr>),
      i_computeDistance = (\<lambda>i j. int (current j) - int (current i)),
      i_isEqual = (\<lambda>i j. current i = current j)\<rparr>"

interpretation positions: iterators "pos_api xs" current xs for xs
  by unfold_locales (simp_all add: pos_api_def)

end
