(* ===== verification/JsonToMysql.thy ===== *)
theory JsonToMysql
  imports LinuxProperties
begin

text \<open>
  \<^verbatim>\<open>client/jsonToMysql.h\<close>: reading a report back into vectors. The SQL part of the function is
  commented out in the source, so the vectors are all it computes; the parse of the file
  \<^verbatim>\<open>resource.json\<close> is a parameter, None when \<^verbatim>\<open>Json::Reader\<close> rejects it.
\<close>

record rows =
  r_cpuSource :: "double list"
  r_cpuMHz :: "double list"
  r_cpuCores :: "double list"
  r_memoryInfo :: "double list"
  r_diskInfo :: "double list"
  r_ethUpload :: "double list"
  r_ethDownload :: "double list"
  r_dockerID :: "string list"
  r_dockerCpu :: "double list"
  r_dockerMemoryUsage :: "double list"
  r_dockerMemoryLimit :: "double list"
  r_dockerMemory :: "double list"

definition rows_init :: rows where
  "rows_init = \<lparr>r_cpuSource = [], r_cpuMHz = [], r_cpuCores = [], r_memoryInfo = [], r_diskInfo = [],
    r_ethUpload = [], r_ethDownload = [], r_dockerID = [], r_dockerCpu = [], r_dockerMemoryUsage = [],
    r_dockerMemoryLimit = [], r_dockerMemory = []\<rparr>"

definition field :: "json_api \<Rightarrow> json \<Rightarrow> nat \<Rightarrow> string \<Rightarrow> double" where
  "field J a i k = jas_double J (jget J (jat J a i) k)"

text \<open>
  The container loop is bounded by \<^verbatim>\<open>dockerIDInfo.size()\<close>, the vector it fills; the bound is
  evaluated again in every round.
\<close>

partial_function (option) docker_loop :: "json_api \<Rightarrow> json \<Rightarrow> nat \<Rightarrow> rows \<Rightarrow> rows option" where
  "docker_loop J docker i r =
     (if i < length (r_dockerID r)
      then docker_loop J docker (Suc i)
        (r\<lparr>r_dockerID := r_dockerID r @ [jas_string J (jget J (jat J docker i) ''id'')],
           r_dockerCpu := r_dockerCpu r @ [field J docker i ''cpu''],
           r_dockerMemoryUsage := r_dockerMemoryUsage r @ [field J docker i ''memory usage''],
           r_dockerMemoryLimit := r_dockerMemoryLimit r @ [field J docker i ''memory limit''],
           r_dockerMemory := r_dockerMemory r @ [field J docker i ''memory'']\<rparr>)
      else Some r)"

definition jsonToMysql :: "json_api \<Rightarrow> json option \<Rightarrow> rows option" where
  "jsonToMysql J parsed =
     (case parsed of
        None \<Rightarrow> Some rows_init
      | Some doc \<Rightarrow>
          let cpu = jget J doc ''cpu info'';
              r = fold (\<lambda>i r. r\<lparr>r_cpuSource := r_cpuSource r @ [field J cpu i ''cpu source''],
                                 r_cpuMHz := r_cpuMHz r @ [field J cpu i ''cpu Mhz''],
                                 r_cpuCores := r_cpuCores r @ [field J cpu i ''cpu Cores'']\<rparr>)
                [0..<jsize J cpu] rows_init;
              memory = jget J doc ''memory info'';
              r = r\<lparr>r_memoryInfo := r_memoryInfo r @ [field J memory 0 ''Total''] @ [field J memory 0 ''Available'']\<rparr>;
              disk = jget J doc ''disk info'';
              r = r\<lparr>r_diskInfo := r_diskInfo r @ [field J disk 0 ''Total''] @ [field J disk 0 ''Available'']\<rparr>;
              network = jget J doc ''network info'';
              r = fold (\<lambda>i r. r\<lparr>r_ethUpload := r_ethUpload r @ [field J network i ''upload rate''],
                                 r_ethDownload := r_ethDownload r @ [field J network i ''download rate'']\<rparr>)
                [0..<jsize J network] r;
              docker = jget J doc ''docker info''
          in case docker_loop J docker 0 r of
               None \<Rightarrow> None
             | Some r \<Rightarrow>
                 let macAddress = jget J doc ''mac address info''
                 in Some (r\<lparr>r_memoryInfo := r_memoryInfo r @ [field J macAddress 0 ''id'']\<rparr>))"

lemma docker_loop_empty: "r_dockerID r = [] \<Longrightarrow> docker_loop J docker 0 r = Some r"
  by (subst docker_loop.simps) simp

lemma fold_cpu:
  "fold (\<lambda>i r. r\<lparr>r_cpuSource := r_cpuSource r @ [f i], r_cpuMHz := r_cpuMHz r @ [g i],
                 r_cpuCores := r_cpuCores r @ [h i]\<rparr>) is r =
   r\<lparr>r_cpuSource := r_cpuSource r @ map f is, r_cpuMHz := r_cpuMHz r @ map g is,
     r_cpuCores := r_cpuCores r @ map h is\<rparr>"
  by (induction "is" arbitrary: r) simp_all

lemma fold_network:
  "fold (\<lambda>i r. r\<lparr>r_ethUpload := r_ethUpload r @ [f i], r_ethDownload := r_ethDownload r @ [g i]\<rparr>) is r =
   r\<lparr>r_ethUpload := r_ethUpload r @ map f is, r_ethDownload := r_ethDownload r @ map g is\<rparr>"
  by (induction "is" arbitrary: r) simp_all

lemma jsonToMysql_rows:
  "jsonToMysql J (Some doc) = Some
     \<lparr>r_cpuSource = map (\<lambda>i. field J (jget J doc ''cpu info'') i ''cpu source'') [0..<jsize J (jget J doc ''cpu info'')],
      r_cpuMHz = map (\<lambda>i. field J (jget J doc ''cpu info'') i ''cpu Mhz'') [0..<jsize J (jget J doc ''cpu info'')],
      r_cpuCores = map (\<lambda>i. field J (jget J doc ''cpu info'') i ''cpu Cores'') [0..<jsize J (jget J doc ''cpu info'')],
      r_memoryInfo = [field J (jget J doc ''memory info'') 0 ''Total'',
        field J (jget J doc ''memory info'') 0 ''Available'', field J (jget J doc ''mac address info'') 0 ''id''],
      r_diskInfo = [field J (jget J doc ''disk info'') 0 ''Total'', field J (jget J doc ''disk info'') 0 ''Available''],
      r_ethUpload = map (\<lambda>i. field J (jget J doc ''network info'') i ''upload rate'') [0..<jsize J (jget J doc ''network info'')],
      r_ethDownload = map (\<lambda>i. field J (jget J doc ''network info'') i ''download rate'') [0..<jsize J (jget J doc ''network info'')],
      r_dockerID = [], r_dockerCpu = [], r_dockerMemoryUsage = [], r_dockerMemoryLimit = [], r_dockerMemory = []\<rparr>"
  by (simp add: jsonToMysql_def Let_def fold_cpu fold_network docker_loop_empty rows_init_def)

text \<open>The number of elements of a member of a report.\<close>

context json_values
begin

lemma size_holds:
  "holds J doc ms \<Longrightarrow> map_of ms k = Some xs \<Longrightarrow> jsize J (jget J doc k) = length xs"
  by (cases xs) (auto simp: holds_def size_sequence)

end

text \<open>
  C38: read back from a report of the machine, the three figures of the processors and the two of the
  interfaces are recovered one for one and in order, but no container ever is (the loop that fills the vectors is bounded
  by their own size), and the amounts of memory and disk are looked up under keys that the
  report does not use, so they are the conversion of a null; the hashed MAC address ends up as
  the third amount of memory.
\<close>

theorem read_back_report:
  assumes "json_values J" and "vectors_ok v" and "data_to_json J v = Inr doc"
  shows "\<exists>r. jsonToMysql J (Some doc) = Some r \<and>
    r_cpuMHz r = cpuMHz v \<and> r_cpuSource r = take (length (cpuMHz v)) (cpuSourceAvailable v) \<and>
    r_cpuCores r = take (length (cpuMHz v)) (cpuCores v) \<and>
    r_ethUpload r = map (\<lambda>k. (ethSecondInfo v ! (2 * k) - ethFirstInfo v ! (2 * k)) / dint 1024)
      [0..<length (ethFirstInfo v) div 2] \<and>
    r_ethDownload r = map (\<lambda>k. (ethSecondInfo v ! (2 * k + 1) - ethFirstInfo v ! (2 * k + 1)) / dint 1024)
      [0..<length (ethFirstInfo v) div 2] \<and>
    r_dockerID r = [] \<and> r_dockerCpu r = [] \<and> r_dockerMemoryUsage r = [] \<and> r_dockerMemoryLimit r = [] \<and>
    r_dockerMemory r = [] \<and>
    r_memoryInfo r = [jas_double J JNull, jas_double J JNull, macAddressId v ! 0] \<and>
    r_diskInfo r = [jas_double J JNull, jas_double J JNull]"
proof -
  have doc: "holds J doc (report_spec J v)"
    using json_values.report_holds [OF assms(1,2)] assms(3) by auto
  note at = json_values.holds_at [OF assms(1) doc] json_values.get_jobject [OF assms(1)]
    json_values.as_double_real [OF assms(1)] json_values.size_holds [OF assms(1) doc]
  have "length (cpuMHz v) \<le> length (cpuSourceAvailable v)" "length (cpuMHz v) \<le> length (cpuCores v)"
    using assms(2) by (simp_all add: vectors_ok_def)
  then have cpu: "map (\<lambda>i. field J (jget J doc ''cpu info'') i ''cpu Mhz'') [0..<length (cpuMHz v)] = cpuMHz v"
    "map (\<lambda>i. field J (jget J doc ''cpu info'') i ''cpu source'') [0..<length (cpuMHz v)] =
      take (length (cpuMHz v)) (cpuSourceAvailable v)"
    "map (\<lambda>i. field J (jget J doc ''cpu info'') i ''cpu Cores'') [0..<length (cpuMHz v)] =
      take (length (cpuMHz v)) (cpuCores v)"
    by (auto intro!: nth_equalityI simp: field_def at cpu_object_def)
  have net: "map (\<lambda>i. field J (jget J doc ''network info'') i ''upload rate'') [0..<length (ethFirstInfo v) div 2] =
      map (\<lambda>k. (ethSecondInfo v ! (2 * k) - ethFirstInfo v ! (2 * k)) / dint 1024) [0..<length (ethFirstInfo v) div 2]"
    "map (\<lambda>i. field J (jget J doc ''network info'') i ''download rate'') [0..<length (ethFirstInfo v) div 2] =
      map (\<lambda>k. (ethSecondInfo v ! (2 * k + 1) - ethFirstInfo v ! (2 * k + 1)) / dint 1024)
        [0..<length (ethFirstInfo v) div 2]"
    by (intro map_cong refl; simp add: field_def at network_object_def)+
  have mem: "field J (jget J doc ''memory info'') 0 ''Total'' = jas_double J JNull"
    "field J (jget J doc ''memory info'') 0 ''Available'' = jas_double J JNull"
    "field J (jget J doc ''disk info'') 0 ''Total'' = jas_double J JNull"
    "field J (jget J doc ''disk info'') 0 ''Available'' = jas_double J JNull"
    "field J (jget J doc ''mac address info'') 0 ''id'' = macAddressId v ! 0"
    by (simp_all add: field_def at memory_object_def disk_object_def Let_def)
  show ?thesis
    using at(4) [of "''cpu info''"] at(4) [of "''network info''"]
    by (simp add: jsonToMysql_rows cpu net mem)
qed

theorem read_back_report_witness:
  "\<exists>doc r. data_to_json ref_json (host_vectors sample_host ''lab'') = Inr doc \<and>
     jsonToMysql ref_json (Some doc) = Some r \<and> r_dockerID r = [] \<and> length (r_cpuMHz r) = 2 \<and>
     length (r_cpuCores r) = 2"
proof -
  let ?v = "host_vectors sample_host ''lab''"
  obtain doc where doc: "data_to_json ref_json ?v = Inr doc"
    using ref.report_holds [OF host_vectors_ok] by blast
  have "length (cpuMHz ?v) = 2" "length (cpuCores ?v) = 2" by (simp_all add: host_vectors_def sample_host_def)
  with read_back_report [OF ref_values host_vectors_ok doc] doc show ?thesis by auto
qed

end
