(* ===== verification/SqlStates.thy ===== *)
theory SqlStates
  imports ErrorCodes "HOL-Library.Sublist"
begin

text \<open>
  \<^verbatim>\<open>client/mysql_include/sql_state.h\<close>: for server errors that have one, the SQLSTATE of the SQL
  standard and the one of ODBC when it differs. A row starts with the macro of its error.
\<close>

definition sql_states_1 :: "(string \<times> string \<times> string) list" where
  "sql_states_1 =
    [(''ER_DUP_KEY'', ''23000'', ''''),
     (''ER_OUTOFMEMORY'', ''HY001'', ''S1001''),
     (''ER_OUT_OF_SORTMEMORY'', ''HY001'', ''S1001''),
     (''ER_CON_COUNT_ERROR'', ''08004'', ''''),
     (''ER_BAD_HOST_ERROR'', ''08S01'', ''''),
     (''ER_HANDSHAKE_ERROR'', ''08S01'', ''''),
     (''ER_DBACCESS_DENIED_ERROR'', ''42000'', ''''),
     (''ER_ACCESS_DENIED_ERROR'', ''28000'', ''''),
     (''ER_NO_DB_ERROR'', ''3D000'', ''''),
     (''ER_UNKNOWN_COM_ERROR'', ''08S01'', ''''),
     (''ER_BAD_NULL_ERROR'', ''23000'', ''''),
     (''ER_BAD_DB_ERROR'', ''42000'', ''''),
     (''ER_TABLE_EXISTS_ERROR'', ''42S01'', ''''),
     (''ER_BAD_TABLE_ERROR'', ''42S02'', ''''),
     (''ER_NON_UNIQ_ERROR'', ''23000'', ''''),
     (''ER_SERVER_SHUTDOWN'', ''08S01'', ''''),
     (''ER_BAD_FIELD_ERROR'', ''42S22'', ''S0022''),
     (''ER_WRONG_FIELD_WITH_GROUP'', ''42000'', ''S1009''),
     (''ER_WRONG_GROUP_FIELD'', ''42000'', ''S1009''),
     (''ER_WRONG_SUM_SELECT'', ''42000'', ''S1009''),
     (''ER_WRONG_VALUE_COUNT'', ''21S01'', ''''),
     (''ER_TOO_LONG_IDENT'', ''42000'', ''S1009''),
     (''ER_DUP_FIELDNAME'', ''42S21'', ''S1009''),
     (''ER_DUP_KEYNAME'', ''42000'', ''S1009''),
     (''ER_DUP_ENTRY'', ''23000'', ''S1009''),
     (''ER_WRONG_FIELD_SPEC'', ''42000'', ''S1009''),
     (''ER_PARSE_ERROR'', ''42000'', ''s1009''),
     (''ER_EMPTY_QUERY'', ''42000'', ''''),
     (''ER_NONUNIQ_TABLE'', ''42000'', ''S1009''),
     (''ER_INVALID_DEFAULT'', ''42000'', ''S1009''),
     (''ER_MULTIPLE_PRI_KEY'', ''42000'', ''S1009''),
     (''ER_TOO_MANY_KEYS'', ''42000'', ''S1009''),
     (''ER_TOO_MANY_KEY_PARTS'', ''42000'', ''S1009''),
     (''ER_TOO_LONG_KEY'', ''42000'', ''S1009''),
     (''ER_KEY_COLUMN_DOES_NOT_EXITS'', ''42000'', ''S1009''),
     (''ER_BLOB_USED_AS_KEY'', ''42000'', ''S1009''),
     (''ER_TOO_BIG_FIELDLENGTH'', ''42000'', ''S1009''),
     (''ER_WRONG_AUTO_KEY'', ''42000'', ''S1009''),
     (''ER_FORCING_CLOSE'', ''08S01'', ''''),
     (''ER_IPSOCK_ERROR'', ''08S01'', ''''),
     (''ER_NO_SUCH_INDEX'', ''42S12'', ''S1009''),
     (''ER_WRONG_FIELD_TERMINATORS'', ''42000'', ''S1009''),
     (''ER_BLOBS_AND_NO_TERMINATED'', ''42000'', ''S1009''),
     (''ER_CANT_REMOVE_ALL_FIELDS'', ''42000'', ''''),
     (''ER_CANT_DROP_FIELD_OR_KEY'', ''42000'', ''''),
     (''ER_BLOB_CANT_HAVE_DEFAULT'', ''42000'', ''''),
     (''ER_WRONG_DB_NAME'', ''42000'', ''''),
     (''ER_WRONG_TABLE_NAME'', ''42000'', ''''),
     (''ER_TOO_BIG_SELECT'', ''42000'', ''''),
     (''ER_UNKNOWN_PROCEDURE'', ''42000'', ''''),
     (''ER_WRONG_PARAMCOUNT_TO_PROCEDURE'', ''42000'', ''''),
     (''ER_UNKNOWN_TABLE'', ''42S02'', ''''),
     (''ER_FIELD_SPECIFIED_TWICE'', ''42000'', ''''),
     (''ER_UNSUPPORTED_EXTENSION'', ''42000'', ''''),
     (''ER_TABLE_MUST_HAVE_COLUMNS'', ''42000'', ''''),
     (''ER_UNKNOWN_CHARACTER_SET'', ''42000'', ''''),
     (''ER_TOO_BIG_ROWSIZE'', ''42000'', ''''),
     (''ER_WRONG_OUTER_JOIN'', ''42000'', ''''),
     (''ER_NULL_COLUMN_IN_INDEX'', ''42000'', ''''),
     (''ER_PASSWORD_ANONYMOUS_USER'', ''42000'', ''''),
     (''ER_PASSWORD_NOT_ALLOWED'', ''42000'', ''''),
     (''ER_PASSWORD_NO_MATCH'', ''42000'', ''''),
     (''ER_WRONG_VALUE_COUNT_ON_ROW'', ''21S01'', ''''),
     (''ER_INVALID_USE_OF_NULL'', ''22004'', ''''),
     (''ER_REGEXP_ERROR'', ''42000'', ''''),
     (''ER_MIX_OF_GROUP_FUNC_AND_FIELDS'', ''42000'', ''''),
     (''ER_NONEXISTING_GRANT'', ''42000'', ''''),
     (''ER_TABLEACCESS_DENIED_ERROR'', ''42000'', ''''),
     (''ER_COLUMNACCESS_DENIED_ERROR'', ''42000'', ''''),
     (''ER_ILLEGAL_GRANT_FOR_TABLE'', ''42000'', ''''),
     (''ER_GRANT_WRONG_HOST_OR_USER'', ''42000'', ''''),
     (''ER_NO_SUCH_TABLE'', ''42S02'', ''''),
     (''ER_NONEXISTING_TABLE_GRANT'', ''42000'', ''''),
     (''ER_NOT_ALLOWED_COMMAND'', ''42000'', '''')]"

definition sql_states_2 :: "(string \<times> string \<times> string) list" where
  "sql_states_2 =
    [(''ER_SYNTAX_ERROR'', ''42000'', ''''),
     (''ER_ABORTING_CONNECTION'', ''08S01'', ''''),
     (''ER_NET_PACKET_TOO_LARGE'', ''08S01'', ''''),
     (''ER_NET_READ_ERROR_FROM_PIPE'', ''08S01'', ''''),
     (''ER_NET_FCNTL_ERROR'', ''08S01'', ''''),
     (''ER_NET_PACKETS_OUT_OF_ORDER'', ''08S01'', ''''),
     (''ER_NET_UNCOMPRESS_ERROR'', ''08S01'', ''''),
     (''ER_NET_READ_ERROR'', ''08S01'', ''''),
     (''ER_NET_READ_INTERRUPTED'', ''08S01'', ''''),
     (''ER_NET_ERROR_ON_WRITE'', ''08S01'', ''''),
     (''ER_NET_WRITE_INTERRUPTED'', ''08S01'', ''''),
     (''ER_TOO_LONG_STRING'', ''42000'', ''''),
     (''ER_TABLE_CANT_HANDLE_BLOB'', ''42000'', ''''),
     (''ER_TABLE_CANT_HANDLE_AUTO_INCREMENT'', ''42000'', ''''),
     (''ER_WRONG_COLUMN_NAME'', ''42000'', ''''),
     (''ER_WRONG_KEY_COLUMN'', ''42000'', ''''),
     (''ER_DUP_UNIQUE'', ''23000'', ''''),
     (''ER_BLOB_KEY_WITHOUT_LENGTH'', ''42000'', ''''),
     (''ER_PRIMARY_CANT_HAVE_NULL'', ''42000'', ''''),
     (''ER_TOO_MANY_ROWS'', ''42000'', ''''),
     (''ER_REQUIRES_PRIMARY_KEY'', ''42000'', ''''),
     (''ER_KEY_DOES_NOT_EXITS'', ''42000'', ''S1009''),
     (''ER_CHECK_NO_SUCH_TABLE'', ''42000'', ''''),
     (''ER_CHECK_NOT_IMPLEMENTED'', ''42000'', ''''),
     (''ER_CANT_DO_THIS_DURING_AN_TRANSACTION'', ''25000'', ''''),
     (''ER_NEW_ABORTING_CONNECTION'', ''08S01'', ''''),
     (''ER_MASTER_NET_READ'', ''08S01'', ''''),
     (''ER_MASTER_NET_WRITE'', ''08S01'', ''''),
     (''ER_TOO_MANY_USER_CONNECTIONS'', ''42000'', ''''),
     (''ER_READ_ONLY_TRANSACTION'', ''25000'', ''''),
     (''ER_NO_PERMISSION_TO_CREATE_USER'', ''42000'', ''''),
     (''ER_LOCK_DEADLOCK'', ''40001'', ''''),
     (''ER_NO_REFERENCED_ROW'', ''23000'', ''''),
     (''ER_ROW_IS_REFERENCED'', ''23000'', ''''),
     (''ER_CONNECT_TO_MASTER'', ''08S01'', ''''),
     (''ER_WRONG_NUMBER_OF_COLUMNS_IN_SELECT'', ''21000'', ''''),
     (''ER_USER_LIMIT_REACHED'', ''42000'', ''''),
     (''ER_SPECIFIC_ACCESS_DENIED_ERROR'', ''42000'', ''''),
     (''ER_NO_DEFAULT'', ''42000'', ''''),
     (''ER_WRONG_VALUE_FOR_VAR'', ''42000'', ''''),
     (''ER_WRONG_TYPE_FOR_VAR'', ''42000'', ''''),
     (''ER_CANT_USE_OPTION_HERE'', ''42000'', ''''),
     (''ER_NOT_SUPPORTED_YET'', ''42000'', ''''),
     (''ER_WRONG_FK_DEF'', ''42000'', ''''),
     (''ER_OPERAND_COLUMNS'', ''21000'', ''''),
     (''ER_SUBQUERY_NO_1_ROW'', ''21000'', ''''),
     (''ER_ILLEGAL_REFERENCE'', ''42S22'', ''''),
     (''ER_DERIVED_MUST_HAVE_ALIAS'', ''42000'', ''''),
     (''ER_SELECT_REDUCED'', ''01000'', ''''),
     (''ER_TABLENAME_NOT_ALLOWED_HERE'', ''42000'', ''''),
     (''ER_NOT_SUPPORTED_AUTH_MODE'', ''08004'', ''''),
     (''ER_SPATIAL_CANT_HAVE_NULL'', ''42000'', ''''),
     (''ER_COLLATION_CHARSET_MISMATCH'', ''42000'', ''''),
     (''ER_WARN_TOO_FEW_RECORDS'', ''01000'', ''''),
     (''ER_WARN_TOO_MANY_RECORDS'', ''01000'', ''''),
     (''ER_WARN_NULL_TO_NOTNULL'', ''22004'', ''''),
     (''ER_WARN_DATA_OUT_OF_RANGE'', ''22003'', ''''),
     (''WARN_DATA_TRUNCATED'', ''01000'', ''''),
     (''ER_WRONG_NAME_FOR_INDEX'', ''42000'', ''''),
     (''ER_WRONG_NAME_FOR_CATALOG'', ''42000'', ''''),
     (''ER_UNKNOWN_STORAGE_ENGINE'', ''42000'', ''''),
     (''ER_TRUNCATED_WRONG_VALUE'', ''22007'', '''')]"

definition sql_states_3 :: "(string \<times> string \<times> string) list" where
  "sql_states_3 =
    [(''ER_SP_NO_RECURSIVE_CREATE'', ''2F003'', ''''),
     (''ER_SP_ALREADY_EXISTS'', ''42000'', ''''),
     (''ER_SP_DOES_NOT_EXIST'', ''42000'', ''''),
     (''ER_SP_LILABEL_MISMATCH'', ''42000'', ''''),
     (''ER_SP_LABEL_REDEFINE'', ''42000'', ''''),
     (''ER_SP_LABEL_MISMATCH'', ''42000'', ''''),
     (''ER_SP_UNINIT_VAR'', ''01000'', ''''),
     (''ER_SP_BADSELECT'', ''0A000'', ''''),
     (''ER_SP_BADRETURN'', ''42000'', ''''),
     (''ER_SP_BADSTATEMENT'', ''0A000'', ''''),
     (''ER_UPDATE_LOG_DEPRECATED_IGNORED'', ''42000'', ''''),
     (''ER_UPDATE_LOG_DEPRECATED_TRANSLATED'', ''42000'', ''''),
     (''ER_QUERY_INTERRUPTED'', ''70100'', ''''),
     (''ER_SP_WRONG_NO_OF_ARGS'', ''42000'', ''''),
     (''ER_SP_COND_MISMATCH'', ''42000'', ''''),
     (''ER_SP_NORETURN'', ''42000'', ''''),
     (''ER_SP_NORETURNEND'', ''2F005'', ''''),
     (''ER_SP_BAD_CURSOR_QUERY'', ''42000'', ''''),
     (''ER_SP_BAD_CURSOR_SELECT'', ''42000'', ''''),
     (''ER_SP_CURSOR_MISMATCH'', ''42000'', ''''),
     (''ER_SP_CURSOR_ALREADY_OPEN'', ''24000'', ''''),
     (''ER_SP_CURSOR_NOT_OPEN'', ''24000'', ''''),
     (''ER_SP_UNDECLARED_VAR'', ''42000'', ''''),
     (''ER_SP_FETCH_NO_DATA'', ''02000'', ''''),
     (''ER_SP_DUP_PARAM'', ''42000'', ''''),
     (''ER_SP_DUP_VAR'', ''42000'', ''''),
     (''ER_SP_DUP_COND'', ''42000'', ''''),
     (''ER_SP_DUP_CURS'', ''42000'', ''''),
     (''ER_SP_SUBSELECT_NYI'', ''0A000'', ''''),
     (''ER_STMT_NOT_ALLOWED_IN_SF_OR_TRG'', ''0A000'', ''''),
     (''ER_SP_VARCOND_AFTER_CURSHNDLR'', ''42000'', ''''),
     (''ER_SP_CURSOR_AFTER_HANDLER'', ''42000'', ''''),
     (''ER_SP_CASE_NOT_FOUND'', ''20000'', ''''),
     (''ER_DIVISION_BY_ZERO'', ''22012'', ''''),
     (''ER_ILLEGAL_VALUE_FOR_TYPE'', ''22007'', ''''),
     (''ER_PROCACCESS_DENIED_ERROR'', ''42000'', ''''),
     (''ER_XAER_NOTA'', ''XAE04'', ''''),
     (''ER_XAER_INVAL'', ''XAE05'', ''''),
     (''ER_XAER_RMFAIL'', ''XAE07'', ''''),
     (''ER_XAER_OUTSIDE'', ''XAE09'', ''''),
     (''ER_XAER_RMERR'', ''XAE03'', ''''),
     (''ER_XA_RBROLLBACK'', ''XA100'', ''''),
     (''ER_NONEXISTING_PROC_GRANT'', ''42000'', ''''),
     (''ER_DATA_TOO_LONG'', ''22001'', ''''),
     (''ER_SP_BAD_SQLSTATE'', ''42000'', ''''),
     (''ER_CANT_CREATE_USER_WITH_GRANT'', ''42000'', ''''),
     (''ER_SP_DUP_HANDLER'', ''42000'', ''''),
     (''ER_SP_NOT_VAR_ARG'', ''42000'', ''''),
     (''ER_SP_NO_RETSET'', ''0A000'', ''''),
     (''ER_CANT_CREATE_GEOMETRY_OBJECT'', ''22003'', ''''),
     (''ER_TOO_BIG_SCALE'', ''42000'', ''S1009''),
     (''ER_TOO_BIG_PRECISION'', ''42000'', ''S1009''),
     (''ER_M_BIGGER_THAN_D'', ''42000'', ''S1009''),
     (''ER_TOO_LONG_BODY'', ''42000'', ''S1009''),
     (''ER_TOO_BIG_DISPLAYWIDTH'', ''42000'', ''S1009''),
     (''ER_XAER_DUPID'', ''XAE08'', ''''),
     (''ER_DATETIME_FUNCTION_OVERFLOW'', ''22008'', '''')]"

definition sql_states_4 :: "(string \<times> string \<times> string) list" where
  "sql_states_4 =
    [(''ER_ROW_IS_REFERENCED_2'', ''23000'', ''''),
     (''ER_NO_REFERENCED_ROW_2'', ''23000'', ''''),
     (''ER_SP_BAD_VAR_SHADOW'', ''42000'', ''''),
     (''ER_SP_WRONG_NAME'', ''42000'', ''''),
     (''ER_SP_NO_AGGREGATE'', ''42000'', ''''),
     (''ER_MAX_PREPARED_STMT_COUNT_REACHED'', ''42000'', ''''),
     (''ER_NON_GROUPING_FIELD_USED'', ''42000'', ''''),
     (''ER_FOREIGN_DUPLICATE_KEY'', ''23000'', ''S1009''),
     (''ER_CANT_CHANGE_TX_ISOLATION'', ''25001'', ''''),
     (''ER_WRONG_PARAMCOUNT_TO_NATIVE_FCT'', ''42000'', ''''),
     (''ER_WRONG_PARAMETERS_TO_NATIVE_FCT'', ''42000'', ''''),
     (''ER_WRONG_PARAMETERS_TO_STORED_FCT'', ''42000'', ''''),
     (''ER_DUP_ENTRY_WITH_KEY_NAME'', ''23000'', ''S1009'')]"

definition sql_states_5 :: "(string \<times> string \<times> string) list" where
  "sql_states_5 =
    [(''ER_XA_RBTIMEOUT'', ''XA106'', ''''),
     (''ER_XA_RBDEADLOCK'', ''XA102'', ''''),
     (''ER_FUNC_INEXISTENT_NAME_COLLISION'', ''42000'', ''''),
     (''ER_DUP_SIGNAL_SET'', ''42000'', ''''),
     (''ER_SIGNAL_WARN'', ''01000'', ''''),
     (''ER_SIGNAL_NOT_FOUND'', ''02000'', ''''),
     (''ER_SIGNAL_EXCEPTION'', ''HY000'', ''''),
     (''ER_RESIGNAL_WITHOUT_ACTIVE_HANDLER'', ''0K000'', ''''),
     (''ER_SPATIAL_MUST_HAVE_GEOM_COL'', ''42000'', ''''),
     (''ER_DATA_OUT_OF_RANGE'', ''22003'', ''''),
     (''ER_ACCESS_DENIED_NO_PASSWORD_ERROR'', ''28000'', ''''),
     (''ER_TRUNCATE_ILLEGAL_FK'', ''42000'', '''')]"

definition sql_states :: "(string \<times> string \<times> string) list" where
  "sql_states = sql_states_1 @ sql_states_2 @ sql_states_3 @ sql_states_4 @ sql_states_5"

text \<open>The numbers that the macros of the rows stand for, in the order of the rows.\<close>

definition state_codes_1 :: "int list" where
  "state_codes_1 =
    [1022, 1037, 1038, 1040, 1042, 1043, 1044, 1045, 1046, 1047, 1048, 1049, 1050, 1051, 1052,
     1053, 1054, 1055, 1056, 1057, 1058, 1059, 1060, 1061, 1062, 1063, 1064, 1065, 1066, 1067,
     1068, 1069, 1070, 1071, 1072, 1073, 1074, 1075, 1080, 1081, 1082, 1083, 1084, 1090, 1091,
     1101, 1102, 1103, 1104, 1106, 1107, 1109, 1110, 1112, 1113, 1115, 1118, 1120, 1121, 1131,
     1132, 1133, 1136, 1138, 1139, 1140, 1141, 1142, 1143, 1144, 1145, 1146, 1147, 1148]"

definition state_codes_2 :: "int list" where
  "state_codes_2 =
    [1149, 1152, 1153, 1154, 1155, 1156, 1157, 1158, 1159, 1160, 1161, 1162, 1163, 1164, 1166,
     1167, 1169, 1170, 1171, 1172, 1173, 1176, 1177, 1178, 1179, 1184, 1189, 1190, 1203, 1207,
     1211, 1213, 1216, 1217, 1218, 1222, 1226, 1227, 1230, 1231, 1232, 1234, 1235, 1239, 1241,
     1242, 1247, 1248, 1249, 1250, 1251, 1252, 1253, 1261, 1262, 1263, 1264, 1265, 1280, 1281,
     1286, 1292]"

definition state_codes_3 :: "int list" where
  "state_codes_3 =
    [1303, 1304, 1305, 1308, 1309, 1310, 1311, 1312, 1313, 1314, 1315, 1316, 1317, 1318, 1319,
     1320, 1321, 1322, 1323, 1324, 1325, 1326, 1327, 1329, 1330, 1331, 1332, 1333, 1335, 1336,
     1337, 1338, 1339, 1365, 1367, 1370, 1397, 1398, 1399, 1400, 1401, 1402, 1403, 1406, 1407,
     1410, 1413, 1414, 1415, 1416, 1425, 1426, 1427, 1437, 1439, 1440, 1441]"

definition state_codes_4 :: "int list" where
  "state_codes_4 =
    [1451, 1452, 1453, 1458, 1460, 1461, 1463, 1557, 1568, 1582, 1583, 1584, 1586]"

definition state_codes_5 :: "int list" where
  "state_codes_5 =
    [1613, 1614, 1630, 1641, 1642, 1643, 1644, 1645, 1687, 1690, 1698, 1701]"

definition sql_state_codes :: "int list" where
  "sql_state_codes = state_codes_1 @ state_codes_2 @ state_codes_3 @ state_codes_4 @ state_codes_5"

definition SQLSTATE_LENGTH :: nat where
  "SQLSTATE_LENGTH = 5"

definition state_char :: "char \<Rightarrow> bool" where
  "state_char c \<longleftrightarrow> c \<in> set ''0123456789ABCDEFGHIJKLMNOPQRSTUVWXYZ''"

definition state_ok :: "string \<Rightarrow> bool" where
  "state_ok s \<longleftrightarrow> length s = SQLSTATE_LENGTH \<and> list_all state_char s"

definition state_row_ok :: "string \<times> string \<times> string \<Rightarrow> bool" where
  "state_row_ok r = (case r of (n, s, odbc) \<Rightarrow> state_ok s \<and> (odbc = [] \<or> state_ok odbc))"

text \<open>Finding the rows one after the other in the header, by number first.\<close>

fun found_in_order :: "(string \<times> int) list \<Rightarrow> (string \<times> int) list \<Rightarrow> bool" where
  "found_in_order [] ys = True"
| "found_in_order (x # xs) [] = False"
| "found_in_order (x # xs) (y # ys) =
     (if snd x = snd y then (if fst x = fst y then found_in_order xs ys else found_in_order (x # xs) ys)
      else found_in_order (x # xs) ys)"

lemma found_in_order_subseq: "found_in_order xs ys \<Longrightarrow> subseq xs ys"
  by (induction xs ys rule: found_in_order.induct) (auto simp: prod_eq_iff split: if_splits)

lemma rows_1: "filter (\<lambda>r. \<not> state_row_ok r) sql_states_1 = [(''ER_PARSE_ERROR'', ''42000'', ''s1009'')]"
  by code_simp

lemma found_1: "found_in_order (zip (map fst sql_states_1) state_codes_1) mysqld_errors_1"
  by code_simp

lemma state_lengths_1: "length sql_states_1 = length state_codes_1"
  by (simp add: sql_states_1_def state_codes_1_def)

lemma rows_2: "filter (\<lambda>r. \<not> state_row_ok r) sql_states_2 = []"
  by code_simp

lemma found_2: "found_in_order (zip (map fst sql_states_2) state_codes_2) mysqld_errors_2"
  by code_simp

lemma state_lengths_2: "length sql_states_2 = length state_codes_2"
  by (simp add: sql_states_2_def state_codes_2_def)

lemma rows_3: "filter (\<lambda>r. \<not> state_row_ok r) sql_states_3 = []"
  by code_simp

lemma found_3: "found_in_order (zip (map fst sql_states_3) state_codes_3) mysqld_errors_3"
  by code_simp

lemma state_lengths_3: "length sql_states_3 = length state_codes_3"
  by (simp add: sql_states_3_def state_codes_3_def)

lemma rows_4: "filter (\<lambda>r. \<not> state_row_ok r) sql_states_4 = []"
  by code_simp

lemma found_4: "found_in_order (zip (map fst sql_states_4) state_codes_4) mysqld_errors_4"
  by code_simp

lemma state_lengths_4: "length sql_states_4 = length state_codes_4"
  by (simp add: sql_states_4_def state_codes_4_def)

lemma rows_5: "filter (\<lambda>r. \<not> state_row_ok r) sql_states_5 = []"
  by code_simp

lemma found_5: "found_in_order (zip (map fst sql_states_5) state_codes_5) mysqld_errors_5"
  by code_simp

lemma state_lengths_5: "length sql_states_5 = length state_codes_5"
  by (simp add: sql_states_5_def state_codes_5_def)

lemma sql_state_codes_sorted: "sorted_wrt (<) sql_state_codes"
  by code_simp

lemma sql_states_defined: "subseq (zip (map fst sql_states) sql_state_codes) mysqld_errors"
  by (simp add: sql_states_def sql_state_codes_def mysqld_errors_def state_lengths_1 state_lengths_2
      state_lengths_3 state_lengths_4 zip_append)
    (intro list_emb_append_mono found_in_order_subseq found_1 found_2 found_3 found_4 found_5)

text \<open>
  Every row of the table of SQLSTATEs names a macro of the error header, the rows stand in
  strictly ascending order of the numbers of their macros, and every state is five digits or
  capital letters, the ODBC one possibly absent, except for one row: the ODBC state of
  \<^verbatim>\<open>ER_PARSE_ERROR\<close> is written with a small letter.
\<close>

lemma sql_state_table:
  "subseq (zip (map fst sql_states) sql_state_codes) mysqld_errors \<and>
   length sql_state_codes = length sql_states \<and> sorted_wrt (<) sql_state_codes \<and>
   filter (\<lambda>r. \<not> state_row_ok r) sql_states = [(''ER_PARSE_ERROR'', ''42000'', ''s1009'')]"
proof -
  have "length sql_state_codes = length sql_states"
    by (simp only: sql_states_def sql_state_codes_def length_append state_lengths_1 state_lengths_2
        state_lengths_3 state_lengths_4 state_lengths_5)
  then show ?thesis
    using sql_states_defined sql_state_codes_sorted rows_1 rows_2 rows_3 rows_4 rows_5
    by (simp add: sql_states_def)
qed

end
