(* ===== verification/ByteOrder.thy ===== *)
theory ByteOrder
  imports Prelude "HOL-Library.Word"
begin

text \<open>
  The macros of \<^verbatim>\<open>client/mysql_include/my_global.h\<close> that read and write integers low byte first:
  the branch for Intel x86, which accesses memory through integer pointers, and the portable
  branch, which puts the bytes together. A pointer is the function from offsets to bytes; a store
  is the list of bytes written. An access through an integer pointer is little-endian, as on the
  machines of the first branch.
\<close>

unbundle bit_operations_syntax

type_synonym uchar = "8 word"
type_synonym bytes = "nat \<Rightarrow> uchar"

section \<open>Little-endian memory\<close>

fun le_int :: "bytes \<Rightarrow> nat \<Rightarrow> int" where
  "le_int A 0 = 0"
| "le_int A (Suc n) = le_int A n + uint (A n) * 256 ^ n"

definition load :: "nat \<Rightarrow> bytes \<Rightarrow> 'a::len word" where
  "load n A = word_of_int (le_int A n)"

definition save :: "nat \<Rightarrow> 'a::len word \<Rightarrow> uchar list" where
  "save n w = map (\<lambda>i. word_of_int (uint w div 256 ^ i)) [0..<n]"

section \<open>The branch for x86\<close>

definition x86_sint2korr :: "bytes \<Rightarrow> 16 word" where "x86_sint2korr A = load 2 A"
definition x86_uint2korr :: "bytes \<Rightarrow> 16 word" where "x86_uint2korr A = load 2 A"
definition x86_sint4korr :: "bytes \<Rightarrow> 32 word" where "x86_sint4korr A = load 4 A"
definition x86_uint4korr :: "bytes \<Rightarrow> 32 word" where "x86_uint4korr A = load 4 A"
definition x86_uint8korr :: "bytes \<Rightarrow> 64 word" where "x86_uint8korr A = load 8 A"
definition x86_sint8korr :: "bytes \<Rightarrow> 64 word" where "x86_sint8korr A = load 8 A"

text \<open>
  This one reads four bytes and masks the last away. Memory has a byte at every offset here, so the
  access to the fourth byte, which need not belong to the number, is not an error of the model.
\<close>

definition x86_uint3korr :: "bytes \<Rightarrow> 32 word" where
  "x86_uint3korr A = load 4 A AND 0xFFFFFF"

text \<open>Under a memory checker it reads three.\<close>

definition purify_uint3korr :: "bytes \<Rightarrow> 32 word" where
  "purify_uint3korr A = ucast (A 0) + push_bit 8 (ucast (A 1)) + push_bit 16 (ucast (A 2))"

text \<open>Odd widths have no pointer type; these are put together byte by byte here too.\<close>

definition x86_sint3korr :: "bytes \<Rightarrow> 32 word" where
  "x86_sint3korr A =
     (if A 2 AND 128 \<noteq> 0
      then push_bit 24 255 OR push_bit 16 (ucast (A 2)) OR push_bit 8 (ucast (A 1)) OR ucast (A 0)
      else push_bit 16 (ucast (A 2)) OR push_bit 8 (ucast (A 1)) OR ucast (A 0))"

definition x86_uint5korr :: "bytes \<Rightarrow> 64 word" where
  "x86_uint5korr A =
     ucast (ucast (A 0) + push_bit 8 (ucast (A 1)) + push_bit 16 (ucast (A 2)) + push_bit 24 (ucast (A 3)) :: 32 word) +
     push_bit 32 (ucast (A 4))"

definition x86_uint6korr :: "bytes \<Rightarrow> 64 word" where
  "x86_uint6korr A =
     ucast (ucast (A 0) + push_bit 8 (ucast (A 1)) + push_bit 16 (ucast (A 2)) + push_bit 24 (ucast (A 3)) :: 32 word) +
     push_bit 32 (ucast (A 4)) + push_bit 40 (ucast (A 5))"

definition x86_int3store :: "32 word \<Rightarrow> uchar list" where
  "x86_int3store A = [ucast A, ucast (drop_bit 8 A), ucast (drop_bit 16 A)]"

definition x86_int5store :: "64 word \<Rightarrow> uchar list" where
  "x86_int5store A =
     [ucast A, ucast (drop_bit 8 A), ucast (drop_bit 16 A), ucast (drop_bit 24 A), ucast (drop_bit 32 A)]"

definition x86_int6store :: "64 word \<Rightarrow> uchar list" where
  "x86_int6store A =
     [ucast A, ucast (drop_bit 8 A), ucast (drop_bit 16 A), ucast (drop_bit 24 A), ucast (drop_bit 32 A),
      ucast (drop_bit 40 A)]"

definition x86_int2store :: "32 word \<Rightarrow> uchar list" where "x86_int2store A = save 2 A"
definition x86_int4store :: "32 word \<Rightarrow> uchar list" where "x86_int4store A = save 4 A"
definition x86_int8store :: "64 word \<Rightarrow> uchar list" where "x86_int8store A = save 8 A"

section \<open>The portable branch\<close>

definition sint2korr :: "bytes \<Rightarrow> 16 word" where
  "sint2korr A = ucast (A 0) + push_bit 8 (ucast (A 1))"

definition sint3korr :: "bytes \<Rightarrow> 32 word" where
  "sint3korr A =
     (if A 2 AND 128 \<noteq> 0
      then push_bit 24 255 OR push_bit 16 (ucast (A 2)) OR push_bit 8 (ucast (A 1)) OR ucast (A 0)
      else push_bit 16 (ucast (A 2)) OR push_bit 8 (ucast (A 1)) OR ucast (A 0))"

definition sint4korr :: "bytes \<Rightarrow> 32 word" where
  "sint4korr A = ucast (A 0) + push_bit 8 (ucast (A 1)) + push_bit 16 (ucast (A 2)) + push_bit 24 (ucast (A 3))"

definition uint2korr :: "bytes \<Rightarrow> 16 word" where
  "uint2korr A = ucast (A 0) + push_bit 8 (ucast (A 1))"

definition uint3korr :: "bytes \<Rightarrow> 32 word" where
  "uint3korr A = ucast (A 0) + push_bit 8 (ucast (A 1)) + push_bit 16 (ucast (A 2))"

definition uint4korr :: "bytes \<Rightarrow> 32 word" where
  "uint4korr A = ucast (A 0) + push_bit 8 (ucast (A 1)) + push_bit 16 (ucast (A 2)) + push_bit 24 (ucast (A 3))"

text \<open>The wider ones add up 32-bit halves before widening.\<close>

definition uint5korr :: "bytes \<Rightarrow> 64 word" where
  "uint5korr A =
     ucast (ucast (A 0) + push_bit 8 (ucast (A 1)) + push_bit 16 (ucast (A 2)) + push_bit 24 (ucast (A 3)) :: 32 word) +
     push_bit 32 (ucast (A 4))"

definition uint6korr :: "bytes \<Rightarrow> 64 word" where
  "uint6korr A =
     ucast (ucast (A 0) + push_bit 8 (ucast (A 1)) + push_bit 16 (ucast (A 2)) + push_bit 24 (ucast (A 3)) :: 32 word) +
     push_bit 32 (ucast (A 4)) + push_bit 40 (ucast (A 5))"

definition uint8korr :: "bytes \<Rightarrow> 64 word" where
  "uint8korr A =
     ucast (ucast (A 0) + push_bit 8 (ucast (A 1)) + push_bit 16 (ucast (A 2)) + push_bit 24 (ucast (A 3)) :: 32 word) +
     push_bit 32 (ucast (ucast (A 4) + push_bit 8 (ucast (A 5)) + push_bit 16 (ucast (A 6)) + push_bit 24 (ucast (A 7)) :: 32 word))"

definition sint8korr :: "bytes \<Rightarrow> 64 word" where
  "sint8korr A = uint8korr A"

definition int2store :: "32 word \<Rightarrow> uchar list" where
  "int2store A = [ucast A, ucast (drop_bit 8 A)]"

definition int3store :: "32 word \<Rightarrow> uchar list" where
  "int3store A = [ucast A, ucast (drop_bit 8 A), ucast (drop_bit 16 A)]"

definition int4store :: "32 word \<Rightarrow> uchar list" where
  "int4store A = [ucast A, ucast (drop_bit 8 A), ucast (drop_bit 16 A), ucast (drop_bit 24 A)]"

definition int5store :: "64 word \<Rightarrow> uchar list" where
  "int5store A = [ucast A, ucast (drop_bit 8 A), ucast (drop_bit 16 A), ucast (drop_bit 24 A), ucast (drop_bit 32 A)]"

definition int6store :: "64 word \<Rightarrow> uchar list" where
  "int6store A =
     [ucast A, ucast (drop_bit 8 A), ucast (drop_bit 16 A), ucast (drop_bit 24 A), ucast (drop_bit 32 A),
      ucast (drop_bit 40 A)]"

definition int8store :: "64 word \<Rightarrow> uchar list" where
  "int8store A = int4store (ucast A) @ int4store (ucast (drop_bit 32 A))"

text \<open>Network byte order: high byte first.\<close>

definition int4net :: "bytes \<Rightarrow> 32 word" where
  "int4net A = ucast (A 3) OR push_bit 8 (ucast (A 2)) OR push_bit 16 (ucast (A 1)) OR push_bit 24 (ucast (A 0))"

section \<open>Bytes and numbers\<close>

lemma le_int_bounds: "0 \<le> le_int A n \<and> le_int A n < 256 ^ n"
proof (induction n)
  case (Suc n)
  have "uint (A n) < 256" "0 \<le> uint (A n)" using uint_lt2p [of "A n"] by simp_all
  then have "uint (A n) * 256 ^ n \<le> 255 * 256 ^ n" "0 \<le> uint (A n) * 256 ^ n"
    by (intro mult_right_mono) auto
  with Suc show ?case unfolding le_int.simps power_Suc by linarith
qed simp

lemma uint_byte: "uint (word_of_int x :: uchar) = x mod 256"
  by (simp add: uint_word_of_int)

lemma le_int_digits:
  "(\<And>i. i < n \<Longrightarrow> A i = word_of_int (x div 256 ^ i)) \<Longrightarrow> le_int A n = x mod 256 ^ n"
proof (induction n)
  case (Suc n)
  then have "le_int A (Suc n) = x mod 256 ^ n + (x div 256 ^ n) mod 256 * 256 ^ n"
    by (simp add: uint_byte)
  also have "\<dots> = x mod (256 ^ n * 256)"
    using zmod_zmult2_eq [of 256 x "256 ^ n"] by (simp add: mult.commute)
  finally show ?case by (simp add: mult.commute)
qed simp

text \<open>
  The contract of a reader and a writer of \<open>n\<close> bytes: the reader sees the little-endian value
  of the bytes, the writer leaves the digits of its argument.
\<close>

locale byte_codec =
  fixes n :: nat and korr :: "bytes \<Rightarrow> 'a::len word" and store :: "'b::len word \<Rightarrow> uchar list"
  assumes korr_value: "korr A = word_of_int (le_int A n)"
    and store_bytes: "store w = save n w"
begin

lemma length_store: "length (store w) = n"
  by (simp add: store_bytes save_def)

lemma korr_store: "korr (\<lambda>i. store w ! i) = word_of_int (uint w mod 256 ^ n)"
proof -
  have "le_int (\<lambda>i. store w ! i) n = uint w mod 256 ^ n"
    by (rule le_int_digits) (simp add: store_bytes save_def)
  then show ?thesis by (simp add: korr_value)
qed

lemma store_korr:
  assumes "256 ^ n \<le> (2 :: int) ^ LENGTH('a)" and "LENGTH('a) \<le> LENGTH('b)"
  shows "store (ucast (korr A)) = map A [0..<n]"
proof -
  have le: "0 \<le> le_int A n" "le_int A n < 256 ^ n" using le_int_bounds [of A n] by auto
  then have "le_int A n < 2 ^ LENGTH('a)" using assms(1) by linarith
  then have "uint (korr A) = le_int A n"
    using le by (simp add: korr_value uint_word_of_int take_bit_int_eq_self_iff flip: take_bit_eq_mod)
  moreover have "uint (ucast (korr A) :: 'b word) = uint (korr A)"
  proof -
    have "(2 :: int) ^ LENGTH('a) \<le> 2 ^ LENGTH('b)" using assms(2) by (rule power_increasing) simp
    then have "uint (korr A) < 2 ^ LENGTH('b)" using uint_lt2p [of "korr A"] by linarith
    then show ?thesis by (simp add: unsigned_ucast_eq take_bit_int_eq_self_iff)
  qed
  moreover have "word_of_int (le_int A n div 256 ^ i) = A i" if "i < n" for i
  proof -
    have digit: "le_int A m div 256 ^ i mod 256 = uint (A i)" if "i < m" for m
      using that
    proof (induction m)
      case (Suc m)
      show ?case
      proof (cases "i = m")
        case True
        have "(le_int A m + uint (A m) * 256 ^ m) div 256 ^ m = uint (A m)"
          using le_int_bounds [of A m] by simp
        then show ?thesis using True uint_lt2p [of "A m"] by simp
      next
        case False
        then have "i < m" using Suc.prems by simp
        then obtain k where k: "m = i + Suc k" using less_imp_Suc_add [of i m] by auto
        have "uint (A m) * 256 ^ m = (uint (A m) * 256 ^ k * 256) * 256 ^ i" by (simp add: k power_add)
        moreover have "(le_int A m + (uint (A m) * 256 ^ k * 256) * 256 ^ i) div 256 ^ i =
            uint (A m) * 256 ^ k * 256 + le_int A m div 256 ^ i"
          by (rule div_mult_self1) simp
        ultimately have "le_int A (Suc m) div 256 ^ i = uint (A m) * 256 ^ k * 256 + le_int A m div 256 ^ i"
          by (simp only: le_int.simps)
        then show ?thesis using Suc.IH [OF \<open>i < m\<close>] by simp
      qed
    qed simp
    have "uint (word_of_int (le_int A n div 256 ^ i) :: uchar) = uint (A i)"
      by (simp only: uint_byte digit [OF that])
    then show ?thesis by (simp only: word_uint_eq_iff)
  qed
  ultimately show ?thesis by (simp add: store_bytes save_def)
qed

end

lemma ucast_byte: "ucast (b :: uchar) = (word_of_int (uint b) :: 'a::len word)"
  by (simp only: ucast_eq)

lemma shift_int: "push_bit k (word_of_int x) = (word_of_int (x * 2 ^ k) :: 'a::len word)"
  by (simp only: push_bit_eq_mult of_int_mult of_int_power of_int_numeral)

lemmas byte_words = ucast_byte shift_int

lemma uint2korr_value: "uint2korr A = word_of_int (le_int A 2)"
  by (simp only: uint2korr_def byte_words of_int_add [symmetric])
    (rule arg_cong [where f = word_of_int], simp add: numeral_2_eq_2)

lemma four_bytes:
  "ucast (A i) + push_bit 8 (ucast (A j)) + push_bit 16 (ucast (A k)) + push_bit 24 (ucast (A l)) =
   (word_of_int (uint (A i) + uint (A j) * 256 + uint (A k) * 65536 + uint (A l) * 16777216) :: 'a::len word)"
  for A :: bytes
  by (simp only: byte_words of_int_add [symmetric]) (rule arg_cong [where f = word_of_int], simp)

lemma le_int_4: "le_int A 4 = uint (A 0) + uint (A 1) * 256 + uint (A 2) * 65536 + uint (A 3) * 16777216"
  by (simp add: numeral_eq_Suc)

lemma le_int_3: "le_int A 3 = uint (A 0) + uint (A 1) * 256 + uint (A 2) * 65536"
  by (simp add: numeral_eq_Suc)

lemma le_int_5: "le_int A 5 = le_int A 4 + uint (A 4) * 2 ^ 32"
  and le_int_6: "le_int A 6 = le_int A 5 + uint (A 5) * 2 ^ 40"
  by (simp_all add: eval_nat_numeral)

lemma le_int_8:
  "le_int A 8 = le_int A 4 + (uint (A 4) + uint (A 5) * 256 + uint (A 6) * 65536 + uint (A 7) * 16777216) * 2 ^ 32"
  by (simp add: eval_nat_numeral)

lemma four_bytes_value:
  "ucast (A 0) + push_bit 8 (ucast (A 1)) + push_bit 16 (ucast (A 2)) + push_bit 24 (ucast (A 3)) =
   (word_of_int (le_int A 4) :: 'a::len word)"
  by (simp only: four_bytes le_int_4)

lemma uint_byte_bounds: "0 \<le> uint (b :: uchar)" "uint (b :: uchar) \<le> 255"
  using uint_lt2p [of b] by simp_all

lemma four_bytes_bound:
  fixes A :: bytes
  shows "0 \<le> uint (A i) + uint (A j) * 256 + uint (A k) * 65536 + uint (A l) * 16777216"
    and "uint (A i) + uint (A j) * 256 + uint (A k) * 65536 + uint (A l) * 16777216 < 2 ^ 32"
  using uint_byte_bounds [of "A i"] uint_byte_bounds [of "A j"] uint_byte_bounds [of "A k"]
    uint_byte_bounds [of "A l"] by simp_all

lemma ucast_32: "0 \<le> x \<Longrightarrow> x < 2 ^ 32 \<Longrightarrow> ucast (word_of_int x :: 32 word) = (word_of_int x :: 'a::len word)"
  by (simp only: ucast_eq uint_word_of_int len_num1) (simp add: mod_pos_pos_trivial)

lemma uint3korr_value: "uint3korr A = word_of_int (le_int A 3)"
  by (simp only: uint3korr_def byte_words of_int_add [symmetric])
    (rule arg_cong [where f = word_of_int], simp add: le_int_3)

lemma uint5korr_value: "uint5korr A = word_of_int (le_int A 5)"
  and uint6korr_value: "uint6korr A = word_of_int (le_int A 6)"
  and uint8korr_value: "uint8korr A = word_of_int (le_int A 8)"
proof -
  have b: "0 \<le> le_int A 4" "le_int A 4 < 2 ^ 32" using le_int_bounds [of A 4] by simp_all
  show "uint5korr A = word_of_int (le_int A 5)"
    unfolding uint5korr_def four_bytes_value ucast_32 [OF b] le_int_5
    unfolding ucast_byte unfolding shift_int of_int_add ..
  show "uint6korr A = word_of_int (le_int A 6)"
    unfolding uint6korr_def four_bytes_value ucast_32 [OF b] le_int_6 le_int_5
    unfolding ucast_byte unfolding shift_int of_int_add ..
  show "uint8korr A = word_of_int (le_int A 8)"
    unfolding uint8korr_def four_bytes ucast_32 [OF four_bytes_bound [of A]] le_int_8 le_int_4
    unfolding shift_int unfolding of_int_add ..
qed

section \<open>The stores\<close>

lemma byte_of: "ucast (drop_bit k w) = (word_of_int (uint w div 2 ^ k) :: uchar)"
proof -
  have "uint (drop_bit k w) = uint w div 2 ^ k"
    using uint_lt2p [of w] by (simp add: unsigned_drop_bit_eq take_bit_int_eq_self flip: drop_bit_eq_div)
  then show ?thesis by (simp only: ucast_eq)
qed

lemma save_bytes: "map (\<lambda>i. ucast (drop_bit (8 * i) w)) [0..<n] = save n w"
proof -
  have "(2 :: int) ^ (8 * i) = 256 ^ i" for i by (simp add: power_mult)
  then show ?thesis unfolding save_def byte_of by simp
qed

lemma upt_lists:
  "[0..<2] = [0, 1]" "[0..<3] = [0, 1, 2]" "[0..<4] = [0, 1, 2, 3]" "[0..<5] = [0, 1, 2, 3, 4]"
  "[0..<6] = [0, 1, 2, 3, 4, 5]" "[0..<8] = [0, 1, 2, 3, 4, 5, 6, 7 :: nat]"
  by (simp_all add: upt_rec)

lemma store_values:
  "int2store w = save 2 w" "int3store w = save 3 w" "int4store w = save 4 w"
  "int5store v = save 5 v" "int6store v = save 6 v"
  unfolding save_bytes [symmetric] int2store_def int3store_def int4store_def int5store_def int6store_def
  by (simp_all add: upt_lists)

lemma narrow_byte: "k + 8 \<le> 32 \<Longrightarrow> ucast (drop_bit k (ucast w :: 32 word)) = (ucast (drop_bit k w) :: uchar)"
  for w :: "64 word"
  by (rule bit_word_eqI) (simp add: bit_simps)

lemma int8store_value: "int8store w = save 8 w"
proof -
  have "ucast (ucast w :: 32 word) = (ucast w :: uchar)" "ucast (ucast (drop_bit 32 w) :: 32 word) = (ucast (drop_bit 32 w) :: uchar)"
    using narrow_byte [of 0] by simp_all
  then show ?thesis
    unfolding save_bytes [symmetric] int8store_def int4store_def
    by (simp add: upt_lists narrow_byte drop_bit_drop_bit)
qed

section \<open>Both branches meet the contract\<close>

lemma x86_uint3korr_value: "x86_uint3korr A = word_of_int (le_int A 3)"
proof -
  have "x86_uint3korr A = take_bit 24 (load 4 A)"
    by (simp add: x86_uint3korr_def take_bit_eq_mask mask_eq_exp_minus_1)
  also have "\<dots> = word_of_int (take_bit 24 (le_int A 4))"
    by (simp only: load_def take_bit_of_int)
  also have "take_bit 24 (le_int A 4) = le_int A 3"
  proof -
    have "le_int A 4 = le_int A 3 + uint (A 3) * 2 ^ 24" by (simp add: eval_nat_numeral)
    then show ?thesis using le_int_bounds [of A 3] by (simp add: take_bit_eq_mod)
  qed
  finally show ?thesis .
qed

interpretation portable2: byte_codec 2 uint2korr int2store
  by unfold_locales (simp_all only: uint2korr_value store_values)

interpretation portable3: byte_codec 3 uint3korr int3store
  by unfold_locales (simp_all only: uint3korr_value store_values)

interpretation portable4: byte_codec 4 uint4korr int4store
  by unfold_locales (simp_all only: uint4korr_def four_bytes_value store_values)

interpretation portable5: byte_codec 5 uint5korr int5store
  by unfold_locales (simp_all only: uint5korr_value store_values)

interpretation portable6: byte_codec 6 uint6korr int6store
  by unfold_locales (simp_all only: uint6korr_value store_values)

interpretation portable8: byte_codec 8 uint8korr int8store
  by unfold_locales (simp_all only: uint8korr_value int8store_value)

interpretation x86_2: byte_codec 2 x86_uint2korr x86_int2store
  by unfold_locales (simp_all only: x86_uint2korr_def x86_int2store_def load_def)

interpretation x86_4: byte_codec 4 x86_uint4korr x86_int4store
  by unfold_locales (simp_all only: x86_uint4korr_def x86_int4store_def load_def)

interpretation x86_8: byte_codec 8 x86_uint8korr x86_int8store
  by unfold_locales (simp_all only: x86_uint8korr_def x86_int8store_def load_def)

text \<open>
  C28: on a little-endian machine the two branches of the byte order macros are the same
  functions: every reader and writer of the x86 branch, which goes through an integer pointer,
  agrees with the one of the portable branch, which puts the bytes together, on all bytes and all
  numbers. This is about the values; the x86 branch reads a fourth byte of a number of three.
\<close>

theorem branches_agree:
  "x86_uint2korr = uint2korr \<and> x86_sint2korr = sint2korr \<and> x86_uint3korr = uint3korr \<and>
   x86_uint4korr = uint4korr \<and> x86_sint4korr = sint4korr \<and>
   x86_uint8korr = uint8korr \<and> x86_sint8korr = sint8korr \<and>
   x86_int2store = int2store \<and> x86_int4store = int4store \<and> x86_int8store = int8store \<and>
   purify_uint3korr = x86_uint3korr \<and> x86_sint3korr = sint3korr \<and> x86_uint5korr = uint5korr \<and>
   x86_uint6korr = uint6korr \<and> x86_int3store = int3store \<and> x86_int5store = int5store \<and>
   x86_int6store = int6store"
proof -
  have "sint2korr = uint2korr" "sint4korr = uint4korr"
    by (simp_all add: fun_eq_iff sint2korr_def uint2korr_def sint4korr_def uint4korr_def)
  moreover have "purify_uint3korr = uint3korr"
    by (simp add: fun_eq_iff purify_uint3korr_def uint3korr_def)
  moreover have "x86_sint3korr = sint3korr" "x86_uint5korr = uint5korr" "x86_uint6korr = uint6korr"
    "x86_int3store = int3store" "x86_int5store = int5store" "x86_int6store = int6store"
    by (simp_all add: fun_eq_iff x86_sint3korr_def sint3korr_def x86_uint5korr_def uint5korr_def
        x86_uint6korr_def uint6korr_def x86_int3store_def int3store_def x86_int5store_def int5store_def
        x86_int6store_def int6store_def)
  ultimately show ?thesis
    by (simp add: fun_eq_iff x86_sint2korr_def x86_sint4korr_def x86_sint8korr_def sint8korr_def load_def
        x86_2.korr_value x86_4.korr_value x86_8.korr_value portable2.korr_value portable3.korr_value
        portable4.korr_value portable8.korr_value x86_uint3korr_value
        x86_2.store_bytes x86_4.store_bytes x86_8.store_bytes
        portable2.store_bytes portable4.store_bytes portable8.store_bytes)
qed

lemma uint_reduced:
  assumes "k \<le> LENGTH('a::len)"
  shows "uint (word_of_int (x mod 2 ^ k) :: 'a word) = x mod 2 ^ k"
proof -
  have "(2 :: int) ^ k \<le> 2 ^ LENGTH('a)" using assms by (rule power_increasing) simp
  moreover have "x mod 2 ^ k < 2 ^ k" by simp
  ultimately have "x mod 2 ^ k < 2 ^ LENGTH('a)" by linarith
  then show ?thesis by (simp add: uint_word_of_int)
qed

lemma word_of_uint_mod: "(word_of_int (uint v mod 2 ^ LENGTH('a)) :: 'a::len word) = v"
proof -
  have "uint v mod 2 ^ LENGTH('a) = uint v" using uint_lt2p [of v] by (intro mod_pos_pos_trivial) auto
  then show ?thesis by simp
qed

text \<open>
  C29: a number written by one of the stores is read back by its reader: exactly for two, four and
  eight bytes of their width, reduced to the width of the store for three, five and six; and for each
  of the six widths the bytes that a reader turned into a number are written back unchanged.
\<close>

theorem store_read_round_trip:
  "uint2korr (\<lambda>i. int2store (ucast (w2 :: 16 word)) ! i) = w2 \<and>
   uint4korr (\<lambda>i. int4store w4 ! i) = w4 \<and> uint8korr (\<lambda>i. int8store w8 ! i) = w8 \<and>
   uint (uint3korr (\<lambda>i. int3store w4 ! i)) = uint w4 mod 2 ^ 24 \<and>
   uint (uint5korr (\<lambda>i. int5store w8 ! i)) = uint w8 mod 2 ^ 40 \<and>
   uint (uint6korr (\<lambda>i. int6store w8 ! i)) = uint w8 mod 2 ^ 48 \<and>
   int2store (ucast (uint2korr A)) = map A [0..<2] \<and> int3store (uint3korr A) = map A [0..<3] \<and>
   int4store (uint4korr A) = map A [0..<4] \<and> int5store (uint5korr A) = map A [0..<5] \<and>
   int6store (uint6korr A) = map A [0..<6] \<and> int8store (uint8korr A) = map A [0..<8]"
proof -
  have "uint2korr (\<lambda>i. int2store (ucast w2) ! i) = w2"
  proof -
    have "uint w2 mod 4294967296 = uint w2" using uint_lt2p [of w2] by (intro mod_pos_pos_trivial) auto
    then show ?thesis
      using portable2.korr_store [of "ucast w2"] word_of_uint_mod [of w2]
      by (simp add: unsigned_ucast_eq take_bit_eq_mod)
  qed
  moreover have "uint4korr (\<lambda>i. int4store w4 ! i) = w4" "uint8korr (\<lambda>i. int8store w8 ! i) = w8"
    using portable4.korr_store [of w4] portable8.korr_store [of w8] word_of_uint_mod [of w4] word_of_uint_mod [of w8] by simp_all
  moreover have "uint (uint3korr (\<lambda>i. int3store w4 ! i)) = uint w4 mod 2 ^ 24"
    using portable3.korr_store [of w4] uint_reduced [where 'a = 32 and k = 24 and x = "uint w4"] by simp
  moreover have "uint (uint5korr (\<lambda>i. int5store w8 ! i)) = uint w8 mod 2 ^ 40"
    "uint (uint6korr (\<lambda>i. int6store w8 ! i)) = uint w8 mod 2 ^ 48"
    using portable5.korr_store [of w8] portable6.korr_store [of w8]
      uint_reduced [where 'a = 64 and k = 40 and x = "uint w8"]
      uint_reduced [where 'a = 64 and k = 48 and x = "uint w8"] by simp_all
  moreover have "int2store (ucast (uint2korr A)) = map A [0..<2]" "int3store (uint3korr A) = map A [0..<3]"
    "int4store (uint4korr A) = map A [0..<4]" "int5store (uint5korr A) = map A [0..<5]"
    "int6store (uint6korr A) = map A [0..<6]" "int8store (uint8korr A) = map A [0..<8]"
    using portable2.store_korr [of A] portable3.store_korr [of A] portable4.store_korr [of A]
      portable5.store_korr [of A] portable6.store_korr [of A] portable8.store_korr [of A] by simp_all
  ultimately show ?thesis by blast
qed

end
