(* ===== verification/MString.thy ===== *)
theory MString
  imports ByteOrder
begin

text \<open>
  \<^verbatim>\<open>skip_trailing_space\<close> of \<^verbatim>\<open>client/mysql_include/m_string.h\<close>: the end of a string without its
  trailing blanks. Longer strings are scanned a machine word at a time between the aligned
  addresses inside them. Memory is a function from addresses to bytes, an \<^verbatim>\<open>int\<close> has four bytes
  (\<^verbatim>\<open>SIZEOF_INT\<close> of \<^verbatim>\<open>my_config.h\<close>) and pointers are addresses.
\<close>

section \<open>The function\<close>

definition SIZEOF_INT :: nat where
  "SIZEOF_INT = 4"

definition SPACE_INT :: "32 word" where
  "SPACE_INT = 0x20202020"

text \<open>\<^verbatim>\<open>while (end > limit && end[-1] == 0x20) end--\<close>\<close>

fun skip_chars :: "bytes \<Rightarrow> nat \<Rightarrow> nat \<Rightarrow> nat" where
  "skip_chars m limit 0 = 0"
| "skip_chars m limit (Suc e) = (if limit < Suc e \<and> m e = 0x20 then skip_chars m limit e else Suc e)"

text \<open>\<^verbatim>\<open>while (end > start_words && ((unsigned *)end)[-1] == SPACE_INT) end -= SIZEOF_INT\<close>\<close>

definition word_before :: "bytes \<Rightarrow> nat \<Rightarrow> 32 word" where
  "word_before m e = load SIZEOF_INT (\<lambda>i. m (e - SIZEOF_INT + i))"

function skip_words :: "bytes \<Rightarrow> nat \<Rightarrow> nat \<Rightarrow> nat" where
  "skip_words m limit e =
     (if limit < e \<and> word_before m e = SPACE_INT then skip_words m limit (e - SIZEOF_INT) else e)"
  by pat_completeness auto
termination
  by (relation "measure (\<lambda>(m, limit, e). e)") (auto simp: SIZEOF_INT_def)

declare skip_words.simps [simp del]

definition skip_trailing_space :: "bytes \<Rightarrow> nat \<Rightarrow> nat \<Rightarrow> nat" where
  "skip_trailing_space m ptr len =
     (let stop = ptr + len;
          stop =
            (if 20 < len then
               let end_words = stop div SIZEOF_INT * SIZEOF_INT;
                   start_words = (ptr + SIZEOF_INT - 1) div SIZEOF_INT * SIZEOF_INT
               in if ptr < end_words then
                    (let stop = skip_chars m end_words stop
                     in if m (stop - 1) = 0x20 \<and> start_words < end_words
                        then skip_words m start_words stop else stop)
                  else stop
             else stop)
      in skip_chars m ptr stop)"

text \<open>\<^verbatim>\<open>strlen\<close> of a C string: up to its NUL.\<close>

record lex_string =
  ls_str :: string
  ls_length :: nat

definition lex_string_set :: "lex_string \<Rightarrow> string \<Rightarrow> lex_string" where
  "lex_string_set lex_str c_str = lex_str\<lparr>ls_str := c_str, ls_length := length (cstr c_str)\<rparr>"

lemma lex_string_content: "take (ls_length (lex_string_set l s)) (ls_str (lex_string_set l s)) = cstr s"
  by (simp add: lex_string_set_def cstr_def takeWhile_eq_take [symmetric])

section \<open>What the loops skip\<close>

definition blank :: "bytes \<Rightarrow> nat \<Rightarrow> nat \<Rightarrow> bool" where
  "blank m f e \<longleftrightarrow> (\<forall>a. f \<le> a \<and> a < e \<longrightarrow> m a = 0x20)"

lemma blank_trans: "blank m f g \<Longrightarrow> blank m g e \<Longrightarrow> blank m f e"
  by (auto simp: blank_def) (meson not_le)

lemma skip_chars_result:
  "limit \<le> e \<Longrightarrow> limit \<le> skip_chars m limit e \<and> skip_chars m limit e \<le> e \<and>
     blank m (skip_chars m limit e) e \<and>
     (skip_chars m limit e = limit \<or> m (skip_chars m limit e - 1) \<noteq> 0x20)"
proof (induction e)
  case (Suc e)
  show ?case
  proof (cases "limit < Suc e \<and> m e = 0x20")
    case True
    then have "limit \<le> e" by simp
    from Suc.IH [OF this] True show ?thesis by (auto simp: blank_def less_Suc_eq)
  next
    case False
    with Suc.prems show ?thesis by (auto simp: blank_def le_Suc_eq)
  qed
qed (simp add: blank_def)

lemma skip_chars_from:
  assumes "blank m f e" "limit \<le> f" "f \<le> e"
  shows "skip_chars m limit e = skip_chars m limit f"
  using assms
proof (induction e)
  case (Suc e)
  show ?case
  proof (cases "f = Suc e")
    case False
    with Suc.prems have "f \<le> e" "m e = 0x20" "blank m f e" by (auto simp: blank_def)
    with Suc show ?thesis by simp
  qed simp
qed simp

lemma word_of_blanks:
  assumes "word_before m e = SPACE_INT" "SIZEOF_INT \<le> e"
  shows "blank m (e - SIZEOF_INT) e"
proof -
  let ?A = "\<lambda>i. m (e - 4 + i)"
  have "uint4korr ?A = 0x20202020"
    using assms(1) by (simp add: word_before_def SPACE_INT_def SIZEOF_INT_def load_def portable4.korr_value)
  moreover have "int4store 0x20202020 = [0x20, 0x20, 0x20, 0x20]" by code_simp
  ultimately have "map ?A [0..<4] = [0x20, 0x20, 0x20, 0x20]"
    using portable4.store_korr [of ?A] by simp
  then have b: "m (e - 4) = 0x20" "m (e - 4 + 1) = 0x20" "m (e - 4 + 2) = 0x20" "m (e - 4 + 3) = 0x20"
    by (simp_all add: upt_lists)
  show ?thesis
    unfolding blank_def
  proof (intro allI impI)
    fix a assume "e - SIZEOF_INT \<le> a \<and> a < e"
    then have "a = e - 4 \<or> a = e - 4 + 1 \<or> a = e - 4 + 2 \<or> a = e - 4 + 3"
      using assms(2) by (auto simp: SIZEOF_INT_def)
    with b show "m a = 0x20" by blast
  qed
qed

lemma skip_words_result:
  assumes "SIZEOF_INT dvd limit" "SIZEOF_INT dvd e" "limit \<le> e"
  shows "limit \<le> skip_words m limit e \<and> skip_words m limit e \<le> e \<and> blank m (skip_words m limit e) e"
  using assms
proof (induction m limit e rule: skip_words.induct)
  case (1 m limit e)
  show ?case
  proof (cases "limit < e \<and> word_before m e = SPACE_INT")
    case True
    then have w: "limit < e" "word_before m e = SPACE_INT" by auto
    have step: "limit \<le> e - SIZEOF_INT" "SIZEOF_INT dvd e - SIZEOF_INT" "SIZEOF_INT \<le> e"
      using 1(2,3) w(1) by (auto elim!: dvdE simp: SIZEOF_INT_def)
    with 1 True have ih: "limit \<le> skip_words m limit (e - SIZEOF_INT)"
      "skip_words m limit (e - SIZEOF_INT) \<le> e - SIZEOF_INT"
      "blank m (skip_words m limit (e - SIZEOF_INT)) (e - SIZEOF_INT)"
      by auto
    have "skip_words m limit e = skip_words m limit (e - SIZEOF_INT)"
      using True by (subst skip_words.simps) simp
    with ih blank_trans [OF ih(3) word_of_blanks [OF w(2) step(3)]] show ?thesis by simp
  next
    case False
    then have "skip_words m limit e = e" by (subst skip_words.simps) auto
    moreover have "blank m e e" by (auto simp: blank_def)
    ultimately show ?thesis using 1(4) by simp
  qed
qed

lemma skip_trailing_space_naive: "skip_trailing_space m ptr len = skip_chars m ptr (ptr + len)"
proof -
  let ?stop = "ptr + len"
  let ?ew = "?stop div SIZEOF_INT * SIZEOF_INT" and ?sw = "(ptr + SIZEOF_INT - 1) div SIZEOF_INT * SIZEOF_INT"
  have ew: "?ew \<le> ?stop" "SIZEOF_INT dvd ?ew" by (simp_all add: SIZEOF_INT_def)
  have sw: "ptr \<le> ?sw" "SIZEOF_INT dvd ?sw"
    by (simp_all add: SIZEOF_INT_def)
  define e where "e = skip_chars m ?ew ?stop"
  have e: "?ew \<le> e" "e \<le> ?stop" "blank m e ?stop" "e = ?ew \<or> m (e - 1) \<noteq> 0x20"
    using skip_chars_result [OF ew(1), of m] by (auto simp: e_def)
  define f where "f = (if m (e - 1) = 0x20 \<and> ?sw < ?ew then skip_words m ?sw e else e)"
  have f: "blank m f ?stop \<and> ptr \<le> f \<and> f \<le> ?stop" if "ptr < ?ew"
  proof (cases "m (e - 1) = 0x20 \<and> ?sw < ?ew")
    case True
    then have "e = ?ew" using e(4) by auto
    with True ew(2) sw have r: "?sw \<le> skip_words m ?sw e \<and> skip_words m ?sw e \<le> e \<and> blank m (skip_words m ?sw e) e"
      by (intro skip_words_result) auto
    then have "blank m (skip_words m ?sw e) ?stop" using blank_trans e(3) by blast
    with True r sw(1) e(2) show ?thesis by (auto simp: f_def)
  next
    case False
    with e that show ?thesis by (auto simp: f_def)
  qed
  show ?thesis
  proof (cases "20 < len \<and> ptr < ?ew")
    case True
    then have "skip_trailing_space m ptr len = skip_chars m ptr f"
      by (simp add: skip_trailing_space_def Let_def f_def e_def)
    also have "\<dots> = skip_chars m ptr ?stop"
      using skip_chars_from [of m f ?stop ptr] f True by auto
    finally show ?thesis .
  next
    case False
    then show ?thesis by (auto simp: skip_trailing_space_def Let_def)
  qed
qed

text \<open>
  C31: the word-wise scan returns what the plain scan from the end returns, at every address and
  for every length: all bytes from the result to the end are blanks, and the byte before the
  result is not, unless the result is the start of the string.
\<close>

theorem skip_trailing_space_correct:
  "skip_trailing_space m ptr len = skip_chars m ptr (ptr + len) \<and>
   ptr \<le> skip_trailing_space m ptr len \<and> skip_trailing_space m ptr len \<le> ptr + len \<and>
   blank m (skip_trailing_space m ptr len) (ptr + len) \<and>
   (skip_trailing_space m ptr len = ptr \<or> m (skip_trailing_space m ptr len - 1) \<noteq> 0x20)"
  using skip_chars_result [of ptr "ptr + len" m] by (simp add: skip_trailing_space_naive)

theorem skip_trailing_space_correct_witness:
  "skip_trailing_space (\<lambda>a. if a < 7 then 0x61 else 0x20) 5 27 = 7"
proof -
  let ?m = "\<lambda>a :: nat. if a < 7 then 0x61 else 0x20 :: uchar"
  have "skip_chars ?m 5 (5 + 27) = 7" by code_simp
  with skip_trailing_space_correct [of ?m 5 27] show ?thesis by simp
qed

end
