(* ===== verification/PsiProg.thy ===== *)
theory PsiProg
  imports Prelude
begin

text \<open>
  What the instrumented wrappers of \<^verbatim>\<open>client/mysql_include/mysql/psi\<close> share. Each inline function is a
  program tree over the calls of the platform, the queries of the instrumentation \<^verbatim>\<open>PSI_server\<close>
  that return a pointer, the notes to it that return nothing, and the result. The platform and
  the instrumentation are not part of the repository; a run takes them as a parameter. Pointers
  are naturals and 0 is NULL; a source position is a file and a line.
\<close>

section \<open>Programs\<close>

type_synonym ptr = nat

datatype ('c, 'a, 'q, 'n, 'r) prog =
    Ret 'r
  | Os 'c "'a \<Rightarrow> ('c, 'a, 'q, 'n, 'r) prog"
  | Ask 'q "ptr \<Rightarrow> ('c, 'a, 'q, 'n, 'r) prog"
  | Tell 'n "('c, 'a, 'q, 'n, 'r) prog"

text \<open>
  The build: \<^verbatim>\<open>HAVE_PSI_INTERFACE\<close> and \<^verbatim>\<open>SAFE_MUTEX\<close> are macros, \<open>PSI_server\<close> says that the
  pointer to the instrumentation is not NULL.
\<close>

record psi_config =
  HAVE_PSI_INTERFACE :: bool
  SAFE_MUTEX :: bool
  PSI_server :: bool

definition serving :: "psi_config \<Rightarrow> bool" where
  "serving cfg \<longleftrightarrow> HAVE_PSI_INTERFACE cfg \<and> PSI_server cfg"

text \<open>The guard \<^verbatim>\<open>PSI_server && that->m_psi\<close>, compiled in or not.\<close>

definition hooked :: "psi_config \<Rightarrow> ptr \<Rightarrow> bool" where
  "hooked cfg psi \<longleftrightarrow> serving cfg \<and> psi \<noteq> 0"

section \<open>The shapes of the wrappers\<close>

text \<open>
  A wrapper that may wait: a locker is asked for, the wait starts and ends only if there is one,
  and the platform call stands between, whatever the instrumentation does.
\<close>

definition timed ::
  "bool \<Rightarrow> 'q \<Rightarrow> (ptr \<Rightarrow> 'n) \<Rightarrow> 'c \<Rightarrow> (ptr \<Rightarrow> 'a \<Rightarrow> 'n) \<Rightarrow> ('c, 'a, 'q, 'n, 'a) prog" where
  "timed guarded get_locker start call finish =
     (if guarded then
        Ask get_locker (\<lambda>locker.
          if locker \<noteq> 0 then
            Tell (start locker) (Os call (\<lambda>result. Tell (finish locker result) (Ret result)))
          else Os call Ret)
      else Os call Ret)"

text \<open>A wait that opens a file starts with a query: the instrumentation returns a handle.\<close>

definition timed_open ::
  "bool \<Rightarrow> 'q \<Rightarrow> (ptr \<Rightarrow> 'q) \<Rightarrow> 'c \<Rightarrow> (ptr \<Rightarrow> 'a \<Rightarrow> 'n) \<Rightarrow> ('c, 'a, 'q, 'n, 'a) prog" where
  "timed_open guarded get_locker start call finish =
     (if guarded then
        Ask get_locker (\<lambda>locker.
          if locker \<noteq> 0 then
            Ask (start locker) (\<lambda>handle.
              Os call (\<lambda>result. Tell (finish locker result) (Ret result)))
          else Os call Ret)
      else Os call Ret)"

text \<open>A wrapper that only reports: the note goes out before the platform call.\<close>

definition reported :: "bool \<Rightarrow> 'n \<Rightarrow> 'c \<Rightarrow> ('c, 'a, 'q, 'n, 'a) prog" where
  "reported guarded note call = (if guarded then Tell note (Os call Ret) else Os call Ret)"

text \<open>Creating and destroying an object sets and clears its hook.\<close>

definition created :: "bool \<Rightarrow> 'q \<Rightarrow> 'c \<Rightarrow> (ptr \<Rightarrow> 'b) \<Rightarrow> ('c, 'a, 'q, 'n, 'a \<times> 'b) prog" where
  "created guarded init call with_psi =
     (if guarded then Ask init (\<lambda>psi. Os call (\<lambda>result. Ret (result, with_psi psi)))
      else Os call (\<lambda>result. Ret (result, with_psi 0)))"

definition destroyed :: "bool \<Rightarrow> 'n \<Rightarrow> 'c \<Rightarrow> 'b \<Rightarrow> 'b \<Rightarrow> ('c, 'a, 'q, 'n, 'a \<times> 'b) prog" where
  "destroyed guarded note call that cleared =
     (if guarded then Tell note (Os call (\<lambda>result. Ret (result, cleared)))
      else Os call (\<lambda>result. Ret (result, that)))"

section \<open>Runs\<close>

record ('c, 'a, 'q, 'n, 'o, 'p) platform =
  os_do :: "'c \<Rightarrow> 'o \<Rightarrow> 'a \<times> 'o"
  psi_ask :: "'q \<Rightarrow> 'p \<Rightarrow> ptr \<times> 'p"
  psi_tell :: "'n \<Rightarrow> 'p \<Rightarrow> 'p"

primrec run ::
  "('c, 'a, 'q, 'n, 'o, 'p) platform \<Rightarrow> ('c, 'a, 'q, 'n, 'r) prog \<Rightarrow> 'o \<Rightarrow> 'p \<Rightarrow> 'r \<times> 'o \<times> 'p" where
  "run pl (Ret r) os ps = (r, os, ps)"
| "run pl (Os c k) os ps = run pl (k (fst (os_do pl c os))) (snd (os_do pl c os)) ps"
| "run pl (Ask q k) os ps = run pl (k (fst (psi_ask pl q ps))) os (snd (psi_ask pl q ps))"
| "run pl (Tell n k) os ps = run pl k os (psi_tell pl n ps)"

primrec bind_prog ::
  "('c, 'a, 'q, 'n, 'r) prog \<Rightarrow> ('r \<Rightarrow> ('c, 'a, 'q, 'n, 's) prog) \<Rightarrow> ('c, 'a, 'q, 'n, 's) prog" where
  "bind_prog (Ret r) f = f r"
| "bind_prog (Os c k) f = Os c (\<lambda>a. bind_prog (k a) f)"
| "bind_prog (Ask q k) f = Ask q (\<lambda>p. bind_prog (k p) f)"
| "bind_prog (Tell n k) f = Tell n (bind_prog k f)"

lemma run_bind:
  "run pl (bind_prog p f) os ps =
     (case run pl p os ps of (r, os', ps') \<Rightarrow> run pl (f r) os' ps')"
  by (induction p arbitrary: os ps) auto

text \<open>What a caller and the platform see of a run: the result and the platform's state.\<close>

definition plain :: "'r \<times> 'o \<times> 'p \<Rightarrow> 'r \<times> 'o" where
  "plain x = (fst x, fst (snd x))"

definition plain_object :: "('a \<times> 'b) \<times> 'o \<times> 'p \<Rightarrow> 'a \<times> 'o" where
  "plain_object x = (fst (fst x), fst (snd x))"

lemma timed_plain: "plain (run pl (timed g q start c finish) os ps) = os_do pl c os"
  by (simp add: timed_def plain_def)

lemma timed_open_plain: "plain (run pl (timed_open g q start c finish) os ps) = os_do pl c os"
  by (simp add: timed_open_def plain_def)

lemma reported_plain: "plain (run pl (reported g n c) os ps) = os_do pl c os"
  by (simp add: reported_def plain_def)

lemma created_plain: "plain_object (run pl (created g q c f) os ps) = os_do pl c os"
  by (simp add: created_def plain_object_def)

lemma destroyed_plain: "plain_object (run pl (destroyed g n c a b) os ps) = os_do pl c os"
  by (simp add: destroyed_def plain_object_def)

lemmas run_plain = timed_plain timed_open_plain reported_plain created_plain destroyed_plain

end
