(* ===== verification/PsiThread.thy ===== *)
theory PsiThread
  imports PsiProg
begin

text \<open>
  The instrumented synchronisation wrappers of \<^verbatim>\<open>client/mysql_include/mysql/psi/mysql_thread.h\<close>:
  mutexes, read write locks, conditions and thread creation, each as a program over the calls
  of \<^verbatim>\<open>pthread\<close> and of the safe mutexes.
\<close>

section \<open>Calls\<close>

datatype os_call =
    Pthread_mutex_init ptr ptr
  | Safe_mutex_init ptr ptr string nat
  | Pthread_mutex_destroy ptr
  | Safe_mutex_destroy ptr string nat
  | Pthread_mutex_lock ptr
  | Pthread_mutex_trylock ptr
  | Safe_mutex_lock ptr bool string nat
  | Pthread_mutex_unlock ptr
  | Safe_mutex_unlock ptr string nat
  | My_rwlock_init ptr
  | Rwlock_destroy ptr
  | Rw_rdlock ptr
  | Rw_wrlock ptr
  | Rw_tryrdlock ptr
  | Rw_trywrlock ptr
  | Rw_unlock ptr
  | Rw_pr_init ptr
  | Rw_pr_destroy ptr
  | Rw_pr_rdlock ptr
  | Rw_pr_wrlock ptr
  | Rw_pr_unlock ptr
  | Pthread_cond_init ptr ptr
  | Pthread_cond_destroy ptr
  | Pthread_cond_wait ptr ptr
  | Pthread_cond_timedwait ptr ptr nat
  | Pthread_cond_signal ptr
  | Pthread_cond_broadcast ptr
  | Pthread_create ptr ptr ptr ptr
  | Spawn_thread nat ptr ptr ptr ptr

datatype psi_mutex_operation = PSI_MUTEX_LOCK | PSI_MUTEX_TRYLOCK

datatype psi_rwlock_operation =
    PSI_RWLOCK_READLOCK
  | PSI_RWLOCK_WRITELOCK
  | PSI_RWLOCK_TRYREADLOCK
  | PSI_RWLOCK_TRYWRITELOCK

datatype psi_cond_operation = PSI_COND_WAIT | PSI_COND_TIMEDWAIT

datatype psi_query =
    Init_mutex nat ptr
  | Init_rwlock nat ptr
  | Init_cond nat ptr
  | Get_thread_mutex_locker ptr psi_mutex_operation
  | Get_thread_rwlock_locker ptr psi_rwlock_operation
  | Get_thread_cond_locker ptr ptr psi_cond_operation
  | Get_thread

datatype psi_note =
    Destroy_mutex ptr
  | Destroy_rwlock ptr
  | Destroy_cond ptr
  | Start_mutex_wait ptr string nat
  | End_mutex_wait ptr int
  | Unlock_mutex ptr
  | Start_rwlock_rdwait ptr string nat
  | End_rwlock_rdwait ptr int
  | Start_rwlock_wrwait ptr string nat
  | End_rwlock_wrwait ptr int
  | Unlock_rwlock ptr
  | Start_cond_wait ptr string nat
  | End_cond_wait ptr int
  | Signal_cond ptr
  | Broadcast_cond ptr
  | Set_thread_id ptr nat

type_synonym 'r sync = "(os_call, int, psi_query, psi_note, 'r) prog"

section \<open>The instrumented objects\<close>

record mysql_mutex =
  m_mutex :: ptr
  mutex_psi :: ptr

record mysql_rwlock =
  m_rwlock :: ptr
  rwlock_psi :: ptr

record mysql_prlock =
  m_prlock :: ptr
  prlock_psi :: ptr

record mysql_cond =
  m_cond :: ptr
  cond_psi :: ptr

section \<open>Mutexes\<close>

definition inline_mysql_mutex_init ::
  "psi_config \<Rightarrow> nat \<Rightarrow> mysql_mutex \<Rightarrow> ptr \<Rightarrow> string \<Rightarrow> nat \<Rightarrow> (int \<times> mysql_mutex) sync" where
  "inline_mysql_mutex_init cfg key that attr src_file src_line =
     created (serving cfg) (Init_mutex key (m_mutex that))
       (if SAFE_MUTEX cfg then Safe_mutex_init (m_mutex that) attr src_file src_line
        else Pthread_mutex_init (m_mutex that) attr)
       (\<lambda>psi. that\<lparr>mutex_psi := psi\<rparr>)"

definition inline_mysql_mutex_destroy ::
  "psi_config \<Rightarrow> mysql_mutex \<Rightarrow> string \<Rightarrow> nat \<Rightarrow> (int \<times> mysql_mutex) sync" where
  "inline_mysql_mutex_destroy cfg that src_file src_line =
     destroyed (hooked cfg (mutex_psi that)) (Destroy_mutex (mutex_psi that))
       (if SAFE_MUTEX cfg then Safe_mutex_destroy (m_mutex that) src_file src_line
        else Pthread_mutex_destroy (m_mutex that))
       that (that\<lparr>mutex_psi := 0\<rparr>)"

definition inline_mysql_mutex_lock :: "psi_config \<Rightarrow> mysql_mutex \<Rightarrow> string \<Rightarrow> nat \<Rightarrow> int sync" where
  "inline_mysql_mutex_lock cfg that src_file src_line =
     timed (hooked cfg (mutex_psi that)) (Get_thread_mutex_locker (mutex_psi that) PSI_MUTEX_LOCK)
       (\<lambda>locker. Start_mutex_wait locker src_file src_line)
       (if SAFE_MUTEX cfg then Safe_mutex_lock (m_mutex that) False src_file src_line
        else Pthread_mutex_lock (m_mutex that))
       End_mutex_wait"

definition inline_mysql_mutex_trylock :: "psi_config \<Rightarrow> mysql_mutex \<Rightarrow> string \<Rightarrow> nat \<Rightarrow> int sync" where
  "inline_mysql_mutex_trylock cfg that src_file src_line =
     timed (hooked cfg (mutex_psi that)) (Get_thread_mutex_locker (mutex_psi that) PSI_MUTEX_TRYLOCK)
       (\<lambda>locker. Start_mutex_wait locker src_file src_line)
       (if SAFE_MUTEX cfg then Safe_mutex_lock (m_mutex that) True src_file src_line
        else Pthread_mutex_trylock (m_mutex that))
       End_mutex_wait"

definition inline_mysql_mutex_unlock :: "psi_config \<Rightarrow> mysql_mutex \<Rightarrow> string \<Rightarrow> nat \<Rightarrow> int sync" where
  "inline_mysql_mutex_unlock cfg that src_file src_line =
     reported (hooked cfg (mutex_psi that)) (Unlock_mutex (mutex_psi that))
       (if SAFE_MUTEX cfg then Safe_mutex_unlock (m_mutex that) src_file src_line
        else Pthread_mutex_unlock (m_mutex that))"

section \<open>Read write locks\<close>

definition inline_mysql_rwlock_init :: "psi_config \<Rightarrow> nat \<Rightarrow> mysql_rwlock \<Rightarrow> (int \<times> mysql_rwlock) sync" where
  "inline_mysql_rwlock_init cfg key that =
     created (serving cfg) (Init_rwlock key (m_rwlock that)) (My_rwlock_init (m_rwlock that))
       (\<lambda>psi. that\<lparr>rwlock_psi := psi\<rparr>)"

definition inline_mysql_prlock_init :: "psi_config \<Rightarrow> nat \<Rightarrow> mysql_prlock \<Rightarrow> (int \<times> mysql_prlock) sync" where
  "inline_mysql_prlock_init cfg key that =
     created (serving cfg) (Init_rwlock key (m_prlock that)) (Rw_pr_init (m_prlock that))
       (\<lambda>psi. that\<lparr>prlock_psi := psi\<rparr>)"

definition inline_mysql_rwlock_destroy :: "psi_config \<Rightarrow> mysql_rwlock \<Rightarrow> (int \<times> mysql_rwlock) sync" where
  "inline_mysql_rwlock_destroy cfg that =
     destroyed (hooked cfg (rwlock_psi that)) (Destroy_rwlock (rwlock_psi that))
       (Rwlock_destroy (m_rwlock that)) that (that\<lparr>rwlock_psi := 0\<rparr>)"

definition inline_mysql_prlock_destroy :: "psi_config \<Rightarrow> mysql_prlock \<Rightarrow> (int \<times> mysql_prlock) sync" where
  "inline_mysql_prlock_destroy cfg that =
     destroyed (hooked cfg (prlock_psi that)) (Destroy_rwlock (prlock_psi that))
       (Rw_pr_destroy (m_prlock that)) that (that\<lparr>prlock_psi := 0\<rparr>)"

definition inline_mysql_rwlock_rdlock :: "psi_config \<Rightarrow> mysql_rwlock \<Rightarrow> string \<Rightarrow> nat \<Rightarrow> int sync" where
  "inline_mysql_rwlock_rdlock cfg that src_file src_line =
     timed (hooked cfg (rwlock_psi that)) (Get_thread_rwlock_locker (rwlock_psi that) PSI_RWLOCK_READLOCK)
       (\<lambda>locker. Start_rwlock_rdwait locker src_file src_line)
       (Rw_rdlock (m_rwlock that)) End_rwlock_rdwait"

definition inline_mysql_prlock_rdlock :: "psi_config \<Rightarrow> mysql_prlock \<Rightarrow> string \<Rightarrow> nat \<Rightarrow> int sync" where
  "inline_mysql_prlock_rdlock cfg that src_file src_line =
     timed (hooked cfg (prlock_psi that)) (Get_thread_rwlock_locker (prlock_psi that) PSI_RWLOCK_READLOCK)
       (\<lambda>locker. Start_rwlock_rdwait locker src_file src_line)
       (Rw_pr_rdlock (m_prlock that)) End_rwlock_rdwait"

definition inline_mysql_rwlock_wrlock :: "psi_config \<Rightarrow> mysql_rwlock \<Rightarrow> string \<Rightarrow> nat \<Rightarrow> int sync" where
  "inline_mysql_rwlock_wrlock cfg that src_file src_line =
     timed (hooked cfg (rwlock_psi that)) (Get_thread_rwlock_locker (rwlock_psi that) PSI_RWLOCK_WRITELOCK)
       (\<lambda>locker. Start_rwlock_wrwait locker src_file src_line)
       (Rw_wrlock (m_rwlock that)) End_rwlock_wrwait"

definition inline_mysql_prlock_wrlock :: "psi_config \<Rightarrow> mysql_prlock \<Rightarrow> string \<Rightarrow> nat \<Rightarrow> int sync" where
  "inline_mysql_prlock_wrlock cfg that src_file src_line =
     timed (hooked cfg (prlock_psi that)) (Get_thread_rwlock_locker (prlock_psi that) PSI_RWLOCK_WRITELOCK)
       (\<lambda>locker. Start_rwlock_wrwait locker src_file src_line)
       (Rw_pr_wrlock (m_prlock that)) End_rwlock_wrwait"

definition inline_mysql_rwlock_tryrdlock :: "psi_config \<Rightarrow> mysql_rwlock \<Rightarrow> string \<Rightarrow> nat \<Rightarrow> int sync" where
  "inline_mysql_rwlock_tryrdlock cfg that src_file src_line =
     timed (hooked cfg (rwlock_psi that)) (Get_thread_rwlock_locker (rwlock_psi that) PSI_RWLOCK_TRYREADLOCK)
       (\<lambda>locker. Start_rwlock_rdwait locker src_file src_line)
       (Rw_tryrdlock (m_rwlock that)) End_rwlock_rdwait"

definition inline_mysql_rwlock_trywrlock :: "psi_config \<Rightarrow> mysql_rwlock \<Rightarrow> string \<Rightarrow> nat \<Rightarrow> int sync" where
  "inline_mysql_rwlock_trywrlock cfg that src_file src_line =
     timed (hooked cfg (rwlock_psi that)) (Get_thread_rwlock_locker (rwlock_psi that) PSI_RWLOCK_TRYWRITELOCK)
       (\<lambda>locker. Start_rwlock_wrwait locker src_file src_line)
       (Rw_trywrlock (m_rwlock that)) End_rwlock_wrwait"

definition inline_mysql_rwlock_unlock :: "psi_config \<Rightarrow> mysql_rwlock \<Rightarrow> int sync" where
  "inline_mysql_rwlock_unlock cfg that =
     reported (hooked cfg (rwlock_psi that)) (Unlock_rwlock (rwlock_psi that)) (Rw_unlock (m_rwlock that))"

definition inline_mysql_prlock_unlock :: "psi_config \<Rightarrow> mysql_prlock \<Rightarrow> int sync" where
  "inline_mysql_prlock_unlock cfg that =
     reported (hooked cfg (prlock_psi that)) (Unlock_rwlock (prlock_psi that)) (Rw_pr_unlock (m_prlock that))"

section \<open>Conditions and threads\<close>

definition inline_mysql_cond_init :: "psi_config \<Rightarrow> nat \<Rightarrow> mysql_cond \<Rightarrow> ptr \<Rightarrow> (int \<times> mysql_cond) sync" where
  "inline_mysql_cond_init cfg key that attr =
     created (serving cfg) (Init_cond key (m_cond that)) (Pthread_cond_init (m_cond that) attr)
       (\<lambda>psi. that\<lparr>cond_psi := psi\<rparr>)"

definition inline_mysql_cond_destroy :: "psi_config \<Rightarrow> mysql_cond \<Rightarrow> (int \<times> mysql_cond) sync" where
  "inline_mysql_cond_destroy cfg that =
     destroyed (hooked cfg (cond_psi that)) (Destroy_cond (cond_psi that))
       (Pthread_cond_destroy (m_cond that)) that (that\<lparr>cond_psi := 0\<rparr>)"

definition inline_mysql_cond_wait ::
  "psi_config \<Rightarrow> mysql_cond \<Rightarrow> mysql_mutex \<Rightarrow> string \<Rightarrow> nat \<Rightarrow> int sync" where
  "inline_mysql_cond_wait cfg that mutex src_file src_line =
     timed (hooked cfg (cond_psi that))
       (Get_thread_cond_locker (cond_psi that) (mutex_psi mutex) PSI_COND_WAIT)
       (\<lambda>locker. Start_cond_wait locker src_file src_line)
       (Pthread_cond_wait (m_cond that) (m_mutex mutex)) End_cond_wait"

definition inline_mysql_cond_timedwait ::
  "psi_config \<Rightarrow> mysql_cond \<Rightarrow> mysql_mutex \<Rightarrow> nat \<Rightarrow> string \<Rightarrow> nat \<Rightarrow> int sync" where
  "inline_mysql_cond_timedwait cfg that mutex abstime src_file src_line =
     timed (hooked cfg (cond_psi that))
       (Get_thread_cond_locker (cond_psi that) (mutex_psi mutex) PSI_COND_TIMEDWAIT)
       (\<lambda>locker. Start_cond_wait locker src_file src_line)
       (Pthread_cond_timedwait (m_cond that) (m_mutex mutex) abstime) End_cond_wait"

definition inline_mysql_cond_signal :: "psi_config \<Rightarrow> mysql_cond \<Rightarrow> int sync" where
  "inline_mysql_cond_signal cfg that =
     reported (hooked cfg (cond_psi that)) (Signal_cond (cond_psi that)) (Pthread_cond_signal (m_cond that))"

definition inline_mysql_cond_broadcast :: "psi_config \<Rightarrow> mysql_cond \<Rightarrow> int sync" where
  "inline_mysql_cond_broadcast cfg that =
     reported (hooked cfg (cond_psi that)) (Broadcast_cond (cond_psi that)) (Pthread_cond_broadcast (m_cond that))"

text \<open>
  The macro \<^verbatim>\<open>mysql_thread_create\<close>: with the interface compiled in, the instrumentation, if there
  is one, creates the thread.
\<close>

definition mysql_thread_create :: "psi_config \<Rightarrow> nat \<Rightarrow> ptr \<Rightarrow> ptr \<Rightarrow> ptr \<Rightarrow> ptr \<Rightarrow> int sync" where
  "mysql_thread_create cfg key thread attr start_routine arg =
     (if serving cfg
      then Os (Spawn_thread key thread attr start_routine arg) Ret
      else Os (Pthread_create thread attr start_routine arg) Ret)"

definition mysql_thread_set_psi_id :: "psi_config \<Rightarrow> nat \<Rightarrow> unit sync" where
  "mysql_thread_set_psi_id cfg i =
     (if serving cfg
      then Ask Get_thread (\<lambda>psi. if psi \<noteq> 0 then Tell (Set_thread_id psi i) (Ret ()) else Ret ())
      else Ret ())"

lemmas waiting_wrappers =
  inline_mysql_mutex_lock_def inline_mysql_mutex_trylock_def
  inline_mysql_rwlock_rdlock_def inline_mysql_rwlock_wrlock_def
  inline_mysql_prlock_rdlock_def inline_mysql_prlock_wrlock_def
  inline_mysql_rwlock_tryrdlock_def inline_mysql_rwlock_trywrlock_def
  inline_mysql_cond_wait_def inline_mysql_cond_timedwait_def

lemmas reporting_wrappers =
  inline_mysql_mutex_unlock_def inline_mysql_rwlock_unlock_def inline_mysql_prlock_unlock_def
  inline_mysql_cond_signal_def inline_mysql_cond_broadcast_def

lemmas creating_wrappers =
  inline_mysql_mutex_init_def inline_mysql_rwlock_init_def inline_mysql_prlock_init_def
  inline_mysql_cond_init_def

lemmas destroying_wrappers =
  inline_mysql_mutex_destroy_def inline_mysql_rwlock_destroy_def inline_mysql_prlock_destroy_def
  inline_mysql_cond_destroy_def

end
