(* ===== verification/PsiRuns.thy ===== *)
theory PsiRuns
  imports PsiThread
begin

text \<open>
  Runs of one instrumented call: the platform and the instrumentation as a parameter, what the
  wrappers return and do to the platform whatever the instrumentation answers, and which events
  the instrumentation sees.
\<close>

lemma thread_plain:
  "plain (run pl (mysql_thread_create cfg key th a routine arg) os ps) =
     os_do pl (if HAVE_PSI_INTERFACE cfg \<and> PSI_server cfg then Spawn_thread key th a routine arg
               else Pthread_create th a routine arg) os"
  "plain (run pl (mysql_thread_set_psi_id cfg i) os ps) = ((), os)"
  by (simp_all add: mysql_thread_create_def mysql_thread_set_psi_id_def serving_def plain_def)

text \<open>
  C17: instrumentation is transparent, but for the creation of threads. Whatever the
  instrumentation answers and records, compiled in or not, with or without safe mutexes, each of the
  wrappers for mutexes, read write locks and conditions returns what the one platform call it
  stands for returns and leaves the platform in the state that call leaves, and naming a thread does
  nothing to the platform. Creating a thread is \<^verbatim>\<open>pthread_create\<close> only without an instrumentation;
  with one, the instrumentation creates the thread, and what it does is what happens.
\<close>

theorem psi_transparent:
  "plain (run pl (inline_mysql_mutex_lock cfg mx f l) os ps) =
     os_do pl (if SAFE_MUTEX cfg then Safe_mutex_lock (m_mutex mx) False f l
               else Pthread_mutex_lock (m_mutex mx)) os \<and>
   plain (run pl (inline_mysql_mutex_trylock cfg mx f l) os ps) =
     os_do pl (if SAFE_MUTEX cfg then Safe_mutex_lock (m_mutex mx) True f l
               else Pthread_mutex_trylock (m_mutex mx)) os \<and>
   plain (run pl (inline_mysql_mutex_unlock cfg mx f l) os ps) =
     os_do pl (if SAFE_MUTEX cfg then Safe_mutex_unlock (m_mutex mx) f l
               else Pthread_mutex_unlock (m_mutex mx)) os \<and>
   plain_object (run pl (inline_mysql_mutex_init cfg key mx a f l) os ps) =
     os_do pl (if SAFE_MUTEX cfg then Safe_mutex_init (m_mutex mx) a f l
               else Pthread_mutex_init (m_mutex mx) a) os \<and>
   plain_object (run pl (inline_mysql_mutex_destroy cfg mx f l) os ps) =
     os_do pl (if SAFE_MUTEX cfg then Safe_mutex_destroy (m_mutex mx) f l
               else Pthread_mutex_destroy (m_mutex mx)) os \<and>
   plain_object (run pl (inline_mysql_rwlock_init cfg key rw) os ps) =
     os_do pl (My_rwlock_init (m_rwlock rw)) os \<and>
   plain_object (run pl (inline_mysql_rwlock_destroy cfg rw) os ps) =
     os_do pl (Rwlock_destroy (m_rwlock rw)) os \<and>
   plain (run pl (inline_mysql_rwlock_rdlock cfg rw f l) os ps) = os_do pl (Rw_rdlock (m_rwlock rw)) os \<and>
   plain (run pl (inline_mysql_rwlock_wrlock cfg rw f l) os ps) = os_do pl (Rw_wrlock (m_rwlock rw)) os \<and>
   plain (run pl (inline_mysql_rwlock_tryrdlock cfg rw f l) os ps) =
     os_do pl (Rw_tryrdlock (m_rwlock rw)) os \<and>
   plain (run pl (inline_mysql_rwlock_trywrlock cfg rw f l) os ps) =
     os_do pl (Rw_trywrlock (m_rwlock rw)) os \<and>
   plain (run pl (inline_mysql_rwlock_unlock cfg rw) os ps) = os_do pl (Rw_unlock (m_rwlock rw)) os \<and>
   plain_object (run pl (inline_mysql_prlock_init cfg key pr) os ps) =
     os_do pl (Rw_pr_init (m_prlock pr)) os \<and>
   plain_object (run pl (inline_mysql_prlock_destroy cfg pr) os ps) =
     os_do pl (Rw_pr_destroy (m_prlock pr)) os \<and>
   plain (run pl (inline_mysql_prlock_rdlock cfg pr f l) os ps) =
     os_do pl (Rw_pr_rdlock (m_prlock pr)) os \<and>
   plain (run pl (inline_mysql_prlock_wrlock cfg pr f l) os ps) =
     os_do pl (Rw_pr_wrlock (m_prlock pr)) os \<and>
   plain (run pl (inline_mysql_prlock_unlock cfg pr) os ps) = os_do pl (Rw_pr_unlock (m_prlock pr)) os \<and>
   plain_object (run pl (inline_mysql_cond_init cfg key cv a) os ps) =
     os_do pl (Pthread_cond_init (m_cond cv) a) os \<and>
   plain_object (run pl (inline_mysql_cond_destroy cfg cv) os ps) =
     os_do pl (Pthread_cond_destroy (m_cond cv)) os \<and>
   plain (run pl (inline_mysql_cond_wait cfg cv mx f l) os ps) =
     os_do pl (Pthread_cond_wait (m_cond cv) (m_mutex mx)) os \<and>
   plain (run pl (inline_mysql_cond_timedwait cfg cv mx t f l) os ps) =
     os_do pl (Pthread_cond_timedwait (m_cond cv) (m_mutex mx) t) os \<and>
   plain (run pl (inline_mysql_cond_signal cfg cv) os ps) = os_do pl (Pthread_cond_signal (m_cond cv)) os \<and>
   plain (run pl (inline_mysql_cond_broadcast cfg cv) os ps) =
     os_do pl (Pthread_cond_broadcast (m_cond cv)) os \<and>
   plain (run pl (mysql_thread_create cfg key th a routine arg) os ps) =
     os_do pl (if HAVE_PSI_INTERFACE cfg \<and> PSI_server cfg then Spawn_thread key th a routine arg
               else Pthread_create th a routine arg) os \<and>
   plain (run pl (mysql_thread_set_psi_id cfg i) os ps) = ((), os)"
  by (simp only: waiting_wrappers reporting_wrappers creating_wrappers destroying_wrappers
      run_plain thread_plain simp_thms)

end
