(* ===== verification/PsiMonitor.thy ===== *)
theory PsiMonitor
  imports PsiThread
begin

text \<open>
  Threads that lock, try and unlock mutexes through the wrappers of \<^verbatim>\<open>mysql_thread.h\<close> and are
  interleaved between any two calls. The platform is what POSIX says of a mutex; the
  instrumentation is any at all: it may answer a query with any locker or none. The monitor is
  the account of ownership its events give, and it is compared with the real owners.
\<close>

section \<open>The events and the monitor\<close>

datatype psi_event = Asked psi_query ptr | Told psi_note

type_synonym thread = nat
type_synonym log = "(thread \<times> psi_event) list"

text \<open>
  Newest event first: the hook each thread last asked a locker for, and the owner of each hook.
  A wait that ends with 0 makes the thread the owner; an unlock ends the ownership.
\<close>

fun waiting :: "log \<Rightarrow> thread \<Rightarrow> ptr" where
  "waiting [] t = 0"
| "waiting ((u, Asked (Get_thread_mutex_locker h op) locker) # es) t = (if u = t then h else waiting es t)"
| "waiting (e # es) t = waiting es t"

fun monitor :: "log \<Rightarrow> ptr \<Rightarrow> thread option" where
  "monitor [] h = None"
| "monitor ((u, Told (End_mutex_wait locker rc)) # es) h =
     (if rc = 0 \<and> waiting es u = h then Some u else monitor es h)"
| "monitor ((u, Told (Unlock_mutex g)) # es) h = (if g = h then None else monitor es h)"
| "monitor (e # es) h = monitor es h"

text \<open>Whether the instrumentation gave a locker each time it was asked.\<close>

fun answered :: "log \<Rightarrow> bool" where
  "answered [] \<longleftrightarrow> True"
| "answered ((u, Asked (Get_thread_mutex_locker h op) locker) # es) \<longleftrightarrow> locker \<noteq> 0 \<and> answered es"
| "answered (e # es) \<longleftrightarrow> answered es"

section \<open>The machine\<close>

text \<open>\<open>owner\<close> is the platform's; \<open>threads\<close> has the rest of the call each thread is in.\<close>

record machine =
  owner :: "ptr \<Rightarrow> thread option"
  threads :: "thread \<Rightarrow> int sync option"
  events :: log

definition EBUSY :: int where
  "EBUSY = 16"

definition mutex_at :: "(ptr \<Rightarrow> ptr) \<Rightarrow> ptr \<Rightarrow> mysql_mutex" where
  "mutex_at hook m = \<lparr>m_mutex = m, mutex_psi = hook m\<rparr>"

definition machine_init :: machine where
  "machine_init = \<lparr>owner = (\<lambda>m. None), threads = (\<lambda>t. None), events = []\<rparr>"

abbreviation goes :: "machine \<Rightarrow> thread \<Rightarrow> int sync \<Rightarrow> machine" where
  "goes s t p \<equiv> s\<lparr>threads := (threads s)(t \<mapsto> p)\<rparr>"

inductive mstep :: "psi_config \<Rightarrow> (ptr \<Rightarrow> ptr) \<Rightarrow> machine \<Rightarrow> machine \<Rightarrow> bool" for cfg hook where
  call_lock: "threads s t = None \<Longrightarrow>
    mstep cfg hook s (goes s t (inline_mysql_mutex_lock cfg (mutex_at hook m) f l))"
| call_trylock: "threads s t = None \<Longrightarrow>
    mstep cfg hook s (goes s t (inline_mysql_mutex_trylock cfg (mutex_at hook m) f l))"
| call_unlock: "threads s t = None \<Longrightarrow> owner s m = Some t \<Longrightarrow>
    mstep cfg hook s (goes s t (inline_mysql_mutex_unlock cfg (mutex_at hook m) f l))"
| ask: "threads s t = Some (Ask q k) \<Longrightarrow>
    mstep cfg hook s ((goes s t (k a))\<lparr>events := (t, Asked q a) # events s\<rparr>)"
| tell: "threads s t = Some (Tell n p) \<Longrightarrow>
    mstep cfg hook s ((goes s t p)\<lparr>events := (t, Told n) # events s\<rparr>)"
| lock: "threads s t = Some (Os (Pthread_mutex_lock m) k) \<Longrightarrow> owner s m = None \<Longrightarrow>
    mstep cfg hook s ((goes s t (k 0))\<lparr>owner := (owner s)(m \<mapsto> t)\<rparr>)"
| trylock: "threads s t = Some (Os (Pthread_mutex_trylock m) k) \<Longrightarrow> owner s m = None \<Longrightarrow>
    mstep cfg hook s ((goes s t (k 0))\<lparr>owner := (owner s)(m \<mapsto> t)\<rparr>)"
| trylock_busy: "threads s t = Some (Os (Pthread_mutex_trylock m) k) \<Longrightarrow> owner s m \<noteq> None \<Longrightarrow>
    mstep cfg hook s (goes s t (k EBUSY))"
| unlock: "threads s t = Some (Os (Pthread_mutex_unlock m) k) \<Longrightarrow> owner s m = Some t \<Longrightarrow>
    mstep cfg hook s ((goes s t (k 0))\<lparr>owner := (owner s)(m := None)\<rparr>)"
| return: "threads s t = Some (Ret r) \<Longrightarrow>
    mstep cfg hook s (s\<lparr>threads := (threads s)(t := None)\<rparr>)"

inductive_cases mstepE: "mstep cfg hook s s'"

inductive reaches :: "psi_config \<Rightarrow> (ptr \<Rightarrow> ptr) \<Rightarrow> machine \<Rightarrow> bool" for cfg hook where
  start: "reaches cfg hook machine_init"
| step: "reaches cfg hook s \<Longrightarrow> mstep cfg hook s s' \<Longrightarrow> reaches cfg hook s'"

section \<open>Where a thread can be in a call\<close>

definition takes :: "ptr \<Rightarrow> os_call \<Rightarrow> bool" where
  "takes m c \<longleftrightarrow> c = Pthread_mutex_lock m \<or> c = Pthread_mutex_trylock m"

abbreviation wait_tail :: "os_call \<Rightarrow> ptr \<Rightarrow> int sync" where
  "wait_tail c locker \<equiv> Os c (\<lambda>result. Tell (End_mutex_wait locker result) (Ret result))"

inductive at_point :: "psi_config \<Rightarrow> (ptr \<Rightarrow> ptr) \<Rightarrow> machine \<Rightarrow> thread \<Rightarrow> int sync \<Rightarrow> bool"
  for cfg hook s t where
  asking: "hooked cfg (hook m) \<Longrightarrow> takes m c \<Longrightarrow> at_point cfg hook s t
     (Ask (Get_thread_mutex_locker (hook m) op) (\<lambda>locker.
        if locker \<noteq> 0 then Tell (Start_mutex_wait locker f l) (wait_tail c locker) else Os c Ret))"
| starting: "hooked cfg (hook m) \<Longrightarrow> takes m c \<Longrightarrow> waiting (events s) t = hook m \<Longrightarrow>
     at_point cfg hook s t (Tell (Start_mutex_wait locker f l) (wait_tail c locker))"
| timed_take: "hooked cfg (hook m) \<Longrightarrow> takes m c \<Longrightarrow> waiting (events s) t = hook m \<Longrightarrow>
     at_point cfg hook s t (wait_tail c locker)"
| taken: "hooked cfg (hook m) \<Longrightarrow> waiting (events s) t = hook m \<Longrightarrow>
     (rc = 0 \<longrightarrow> owner s m = Some t) \<Longrightarrow>
     at_point cfg hook s t (Tell (End_mutex_wait locker rc) (Ret rc))"
| plain_take: "takes m c \<Longrightarrow> (hooked cfg (hook m) \<longrightarrow> \<not> answered (events s)) \<Longrightarrow>
     at_point cfg hook s t (Os c Ret)"
| releasing: "owner s m = Some t \<Longrightarrow> hooked cfg (hook m) \<Longrightarrow>
     at_point cfg hook s t (Tell (Unlock_mutex (hook m)) (Os (Pthread_mutex_unlock m) Ret))"
| release: "owner s m = Some t \<Longrightarrow> monitor (events s) (hook m) = None \<Longrightarrow>
     at_point cfg hook s t (Os (Pthread_mutex_unlock m) Ret)"
| over: "at_point cfg hook s t (Ret r)"

inductive_simps at_point_simps [simp]:
  "at_point cfg hook s t (Ask q k)"
  "at_point cfg hook s t (Tell n p)"
  "at_point cfg hook s t (Os c k)"
  "at_point cfg hook s t (Ret r)"

definition sound :: "psi_config \<Rightarrow> (ptr \<Rightarrow> ptr) \<Rightarrow> machine \<Rightarrow> bool" where
  "sound cfg hook s \<longleftrightarrow>
     (\<forall>t p. threads s t = Some p \<longrightarrow> at_point cfg hook s t p) \<and>
     (\<forall>m t. monitor (events s) (hook m) = Some t \<longrightarrow> hooked cfg (hook m) \<and> owner s m = Some t)"

lemma at_point_keeps:
  assumes "at_point cfg hook s u p"
    and "waiting (events s') u = waiting (events s) u"
    and "\<And>m. owner s m = Some u \<Longrightarrow> owner s' m = Some u"
    and "\<And>m. owner s m = Some u \<Longrightarrow> monitor (events s) (hook m) = None \<Longrightarrow> monitor (events s') (hook m) = None"
    and "answered (events s') \<Longrightarrow> answered (events s)"
  shows "at_point cfg hook s' u p"
  using assms
  by (induction rule: at_point.induct) (auto intro: at_point.intros simp del: at_point_simps neq0_conv)

lemma soundD:
  "sound cfg hook s \<Longrightarrow> threads s t = Some p \<Longrightarrow> at_point cfg hook s t p"
  "sound cfg hook s \<Longrightarrow> monitor (events s) (hook m) = Some t \<Longrightarrow> owner s m = Some t"
  "sound cfg hook s \<Longrightarrow> monitor (events s) (hook m) = Some t \<Longrightarrow> hooked cfg (hook m)"
  by (auto simp: sound_def)

lemma sound_init: "sound cfg hook machine_init"
  by (simp add: sound_def machine_init_def)

text \<open>One thread moves: its new point, the points of the others, and the monitor's owners.\<close>

lemma sound_move:
  assumes "sound cfg hook s" and "threads s' = (threads s)(t \<mapsto> p)" and "at_point cfg hook s' t p"
    and "\<And>u. u \<noteq> t \<Longrightarrow> waiting (events s') u = waiting (events s) u"
    and "\<And>u m. u \<noteq> t \<Longrightarrow> owner s m = Some u \<Longrightarrow> owner s' m = Some u"
    and "\<And>u m. u \<noteq> t \<Longrightarrow> owner s m = Some u \<Longrightarrow> monitor (events s) (hook m) = None \<Longrightarrow>
           monitor (events s') (hook m) = None"
    and "answered (events s') \<Longrightarrow> answered (events s)"
    and "\<And>u m. monitor (events s') (hook m) = Some u \<Longrightarrow> hooked cfg (hook m) \<and> owner s' m = Some u"
  shows "sound cfg hook s'"
proof -
  have "at_point cfg hook s' u q" if "at_point cfg hook s u q" "u \<noteq> t" for u q
    using that(1) by (rule at_point_keeps) (use that(2) assms(4-7) in auto)
  with assms(1,2,3,8) show ?thesis by (auto simp: sound_def)
qed

lemma sound_goes:
  "sound cfg hook s \<Longrightarrow> at_point cfg hook s t p \<Longrightarrow> sound cfg hook (goes s t p)"
  by (rule sound_move [of cfg hook s _ t p]) (auto intro: at_point_keeps dest: soundD)

lemma sound_call:
  assumes "sound cfg hook s" "\<not> SAFE_MUTEX cfg"
  shows "sound cfg hook (goes s t (inline_mysql_mutex_lock cfg (mutex_at hook m) f l))"
    "sound cfg hook (goes s t (inline_mysql_mutex_trylock cfg (mutex_at hook m) f l))"
    "owner s m = Some t \<Longrightarrow>
     sound cfg hook (goes s t (inline_mysql_mutex_unlock cfg (mutex_at hook m) f l))"
proof -
  show "sound cfg hook (goes s t (inline_mysql_mutex_lock cfg (mutex_at hook m) f l))"
    using assms(2) by (intro sound_goes assms(1))
      (auto simp: inline_mysql_mutex_lock_def mutex_at_def timed_def takes_def fun_eq_iff)
  show "sound cfg hook (goes s t (inline_mysql_mutex_trylock cfg (mutex_at hook m) f l))"
    using assms(2) by (intro sound_goes assms(1))
      (auto simp: inline_mysql_mutex_trylock_def mutex_at_def timed_def takes_def fun_eq_iff)
  show "sound cfg hook (goes s t (inline_mysql_mutex_unlock cfg (mutex_at hook m) f l))"
    if "owner s m = Some t"
  proof -
    have "\<not> hooked cfg (hook m) \<Longrightarrow> monitor (events s) (hook m) = None"
      using soundD(3) [OF assms(1), of m] by (cases "monitor (events s) (hook m)") auto
    with that assms(2) show ?thesis
      by (intro sound_goes assms(1))
        (auto simp: inline_mysql_mutex_unlock_def mutex_at_def reported_def)
  qed
qed

lemma sound_ask:
  assumes "sound cfg hook s" "threads s t = Some (Ask q k)"
  shows "sound cfg hook ((goes s t (k a))\<lparr>events := (t, Asked q a) # events s\<rparr>)"
proof -
  obtain m c op f l where q: "q = Get_thread_mutex_locker (hook m) op" "hooked cfg (hook m)" "takes m c"
    "k = (\<lambda>locker. if locker \<noteq> 0 then Tell (Start_mutex_wait locker f l) (wait_tail c locker) else Os c Ret)"
    using soundD(1) [OF assms] by auto
  show ?thesis
    by (rule sound_move [OF assms(1), of _ t "k a"])
      (use q soundD(2,3) [OF assms(1)] in \<open>auto simp: takes_def\<close>)
qed

lemma sound_tell:
  assumes "sound cfg hook s" "threads s t = Some (Tell n p)" "inj hook"
  shows "sound cfg hook ((goes s t p)\<lparr>events := (t, Told n) # events s\<rparr>)"
proof -
  note [simp] = inj_eq [OF assms(3)]
  note old = soundD(2,3) [OF assms(1)]
  consider (starting) m c locker f l where "n = Start_mutex_wait locker f l" "p = wait_tail c locker"
      "hooked cfg (hook m)" "takes m c" "waiting (events s) t = hook m"
    | (taken) m locker rc where "n = End_mutex_wait locker rc" "p = Ret rc"
      "hooked cfg (hook m)" "waiting (events s) t = hook m" "rc = 0 \<longrightarrow> owner s m = Some t"
    | (releasing) m where "n = Unlock_mutex (hook m)" "p = Os (Pthread_mutex_unlock m) Ret"
      "owner s m = Some t"
    using soundD(1) [OF assms(1,2)] by (cases rule: at_point.cases) blast+
  then show ?thesis
  proof cases
    case starting
    then show ?thesis
      by (intro sound_move [OF assms(1), of _ t p]) (use old in auto)
  next
    case taken
    then show ?thesis
      by (intro sound_move [OF assms(1), of _ t p]) (use old in \<open>auto split: if_splits\<close>)
  next
    case releasing
    then show ?thesis
      by (intro sound_move [OF assms(1), of _ t p]) (use old in \<open>auto split: if_splits\<close>)
  qed
qed

lemma sound_take:
  assumes "sound cfg hook s" "threads s t = Some (Os c k)" "takes m c" "owner s m = None"
  shows "sound cfg hook ((goes s t (k 0))\<lparr>owner := (owner s)(m \<mapsto> t)\<rparr>)"
proof -
  have k: "at_point cfg hook ((goes s t (k 0))\<lparr>owner := (owner s)(m \<mapsto> t)\<rparr>) t (k 0)"
    using soundD(1) [OF assms(1,2)] assms(3) by (auto simp: takes_def)
  have "n \<noteq> m" if "monitor (events s) (hook n) = Some u" for n u
    using soundD(2) [OF assms(1) that] assms(4) by auto
  then show ?thesis
    by (intro sound_move [OF assms(1) _ k]) (use assms(4) soundD(2,3) [OF assms(1)] in auto)
qed

lemma sound_unlock:
  assumes "sound cfg hook s" "threads s t = Some (Os (Pthread_mutex_unlock m) k)" "owner s m = Some t"
  shows "sound cfg hook ((goes s t (k 0))\<lparr>owner := (owner s)(m := None)\<rparr>)"
proof -
  have "monitor (events s) (hook m) = None \<and> k = Ret"
    using soundD(1) [OF assms(1,2)] by (auto simp: takes_def)
  then show ?thesis
    by (intro sound_move [OF assms(1), of _ t "k 0"]) (use assms(3) soundD(2,3) [OF assms(1)] in auto)
qed

lemma sound_busy:
  assumes "sound cfg hook s" "threads s t = Some (Os (Pthread_mutex_trylock m) k)"
  shows "sound cfg hook (goes s t (k EBUSY))"
  using assms(1)
proof (rule sound_goes)
  show "at_point cfg hook s t (k EBUSY)"
    using soundD(1) [OF assms] by (auto simp: takes_def EBUSY_def)
qed

lemma sound_return:
  assumes "sound cfg hook s"
  shows "sound cfg hook (s\<lparr>threads := (threads s)(t := None)\<rparr>)"
proof -
  have "at_point cfg hook (s\<lparr>threads := (threads s)(t := None)\<rparr>) u q" if "at_point cfg hook s u q" for u q
    using that by (rule at_point_keeps) auto
  with assms show ?thesis by (auto simp: sound_def)
qed

lemma sound_step:
  assumes "mstep cfg hook s s'" "sound cfg hook s" "\<not> SAFE_MUTEX cfg" "inj hook"
  shows "sound cfg hook s'"
  using assms(1)
proof cases
  case (call_lock t m f l)
  with sound_call(1) [OF assms(2,3)] show ?thesis by simp
next
  case (call_trylock t m f l)
  with sound_call(2) [OF assms(2,3)] show ?thesis by simp
next
  case (call_unlock t m f l)
  with sound_call(3) [OF assms(2,3)] show ?thesis by simp
next
  case (ask t q k a)
  with sound_ask [OF assms(2)] show ?thesis by simp
next
  case (tell t n p)
  with sound_tell [OF assms(2)] assms(4) show ?thesis by simp
next
  case (lock t m k)
  with sound_take [OF assms(2)] show ?thesis by (simp add: takes_def)
next
  case (trylock t m k)
  with sound_take [OF assms(2)] show ?thesis by (simp add: takes_def)
next
  case (trylock_busy t m k)
  with sound_busy [OF assms(2)] show ?thesis by simp
next
  case (unlock t m k)
  with sound_unlock [OF assms(2)] show ?thesis by simp
next
  case (return t r)
  with sound_return [OF assms(2)] show ?thesis by simp
qed

lemma reaches_sound:
  "reaches cfg hook s \<Longrightarrow> \<not> SAFE_MUTEX cfg \<Longrightarrow> inj hook \<Longrightarrow> sound cfg hook s"
  by (induction rule: reaches.induct) (auto intro: sound_init sound_step)

section \<open>The monitor lags only inside a call\<close>

definition lagging :: "(ptr \<Rightarrow> ptr) \<Rightarrow> machine \<Rightarrow> ptr \<Rightarrow> thread \<Rightarrow> bool" where
  "lagging hook s m t \<longleftrightarrow>
     (\<exists>locker. threads s t = Some (Tell (End_mutex_wait locker 0) (Ret 0)) \<and> waiting (events s) t = hook m) \<or>
     threads s t = Some (Os (Pthread_mutex_unlock m) Ret)"

definition exact :: "psi_config \<Rightarrow> (ptr \<Rightarrow> ptr) \<Rightarrow> machine \<Rightarrow> bool" where
  "exact cfg hook s \<longleftrightarrow>
     (\<forall>m t. owner s m = Some t \<and> hooked cfg (hook m) \<and> answered (events s) \<longrightarrow>
        monitor (events s) (hook m) = Some t \<or> lagging hook s m t)"

lemma exactD:
  "exact cfg hook s \<Longrightarrow> owner s m = Some t \<Longrightarrow> hooked cfg (hook m) \<Longrightarrow> answered (events s) \<Longrightarrow>
     monitor (events s) (hook m) = Some t \<or> lagging hook s m t"
  by (auto simp: exact_def)

lemma exact_init: "exact cfg hook machine_init"
  by (simp add: exact_def machine_init_def)

text \<open>A move that changes neither owners nor the monitor, from a point that does not lag.\<close>

lemma exact_quiet:
  assumes "exact cfg hook s" "\<And>m. \<not> lagging hook s m t"
    and "\<And>u. u \<noteq> t \<Longrightarrow> threads s' u = threads s u \<and> waiting (events s') u = waiting (events s) u"
    and "owner s' = owner s" "monitor (events s') = monitor (events s)"
    and "answered (events s') \<Longrightarrow> answered (events s)"
  shows "exact cfg hook s'"
  unfolding exact_def
proof (intro allI impI)
  fix m u assume h: "owner s' m = Some u \<and> hooked cfg (hook m) \<and> answered (events s')"
  with assms(4,6) have "monitor (events s) (hook m) = Some u \<or> lagging hook s m u"
    by (intro exactD [OF assms(1)]) auto
  then show "monitor (events s') (hook m) = Some u \<or> lagging hook s' m u"
    using assms(2,3,5) by (cases "u = t") (auto simp: lagging_def)
qed

lemma exact_ask:
  assumes "exact cfg hook s" "sound cfg hook s" "threads s t = Some (Ask q k)"
  shows "exact cfg hook ((goes s t (k a))\<lparr>events := (t, Asked q a) # events s\<rparr>)"
proof -
  obtain m op where "q = Get_thread_mutex_locker (hook m) op"
    using soundD(1) [OF assms(2,3)] by auto
  then show ?thesis
    by (intro exact_quiet [OF assms(1), of t]) (use assms(3) in \<open>auto simp: lagging_def\<close>)
qed

lemma exact_tell:
  assumes "exact cfg hook s" "sound cfg hook s" "threads s t = Some (Tell n p)" "inj hook"
  shows "exact cfg hook ((goes s t p)\<lparr>events := (t, Told n) # events s\<rparr>)" (is "exact _ _ ?s'")
  unfolding exact_def
proof (intro allI impI)
  note [simp] = inj_eq [OF assms(4)]
  fix k u assume h: "owner ?s' k = Some u \<and> hooked cfg (hook k) \<and> answered (events ?s')"
  have pt: "at_point cfg hook s t (Tell n p)" using soundD(1) [OF assms(2,3)] .
  then have "answered (events ?s') = answered (events s)" by (cases rule: at_point.cases) auto
  with h have own: "owner s k = Some u" and old: "monitor (events s) (hook k) = Some u \<or> lagging hook s k u"
    using exactD [OF assms(1), of k u] by auto
  show "monitor (events ?s') (hook k) = Some u \<or> lagging hook ?s' k u"
    using pt
  proof (cases rule: at_point.cases)
    case (starting m c locker f l)
    with old assms(3) show ?thesis by (auto simp: lagging_def)
  next
    case (taken m rc locker)
    then show ?thesis
      using old own assms(3) by (cases "rc = 0"; cases "k = m"; cases "u = t") (auto simp: lagging_def)
  next
    case (releasing m)
    then show ?thesis
      using old own assms(3) by (cases "k = m"; cases "u = t") (auto simp: lagging_def)
  qed
qed

text \<open>A platform call changes the owner of one mutex \<open>m\<close>; the others keep theirs.\<close>

lemma exact_owner:
  assumes "exact cfg hook s" "\<And>n. n \<noteq> m \<Longrightarrow> \<not> lagging hook s n t"
    and "\<And>u. owner s m = Some u \<Longrightarrow> u = t"
    and "\<And>u. v = Some u \<Longrightarrow> u = t \<and> (hooked cfg (hook m) \<and> answered (events s) \<longrightarrow>
           (\<exists>locker. p = Tell (End_mutex_wait locker 0) (Ret 0)) \<and> waiting (events s) t = hook m)"
  shows "exact cfg hook ((goes s t p)\<lparr>owner := (owner s)(m := v)\<rparr>)" (is "exact _ _ ?s'")
  unfolding exact_def
proof (intro allI impI)
  fix n u assume h: "owner ?s' n = Some u \<and> hooked cfg (hook n) \<and> answered (events ?s')"
  show "monitor (events ?s') (hook n) = Some u \<or> lagging hook ?s' n u"
  proof (cases "n = m")
    case True
    with h assms(4) [of u] show ?thesis by (auto simp: lagging_def)
  next
    case False
    with h have "monitor (events s) (hook n) = Some u \<or> lagging hook s n u"
      by (intro exactD [OF assms(1)]) auto
    with False assms(2) show ?thesis by (cases "u = t") (auto simp: lagging_def)
  qed
qed

lemma exact_take:
  assumes "exact cfg hook s" "sound cfg hook s" "threads s t = Some (Os c k)" "takes m c" "owner s m = None"
  shows "exact cfg hook ((goes s t (k 0))\<lparr>owner := (owner s)(m \<mapsto> t)\<rparr>)"
proof -
  have "hooked cfg (hook m) \<and> answered (events s) \<longrightarrow>
      (\<exists>locker. k 0 = Tell (End_mutex_wait locker 0) (Ret 0)) \<and> waiting (events s) t = hook m"
    using soundD(1) [OF assms(2,3)] assms(4) by (auto simp: takes_def)
  then show ?thesis
    by (intro exact_owner [OF assms(1)]) (use assms(3,4,5) in \<open>auto simp: lagging_def takes_def\<close>)
qed

lemma exact_step:
  assumes "mstep cfg hook s s'" "exact cfg hook s" "sound cfg hook s" "inj hook"
  shows "exact cfg hook s'"
  using assms(1)
proof cases
  case (ask t q k a)
  with exact_ask [OF assms(2,3)] show ?thesis by simp
next
  case (tell t n p)
  with exact_tell [OF assms(2,3)] assms(4) show ?thesis by simp
next
  case (lock t m k)
  with exact_take [OF assms(2,3)] show ?thesis by (simp add: takes_def)
next
  case (trylock t m k)
  with exact_take [OF assms(2,3)] show ?thesis by (simp add: takes_def)
next
  case (trylock_busy t m k)
  then show ?thesis by (intro exact_quiet [OF assms(2), of t]) (auto simp: lagging_def)
next
  case (unlock t m k)
  show ?thesis
    unfolding unlock(1) by (rule exact_owner [OF assms(2)]) (use unlock(2,3) in \<open>auto simp: lagging_def\<close>)
next
  case (call_lock t m f l)
  then show ?thesis by (intro exact_quiet [OF assms(2), of t]) (auto simp: lagging_def)
next
  case (call_trylock t m f l)
  then show ?thesis by (intro exact_quiet [OF assms(2), of t]) (auto simp: lagging_def)
next
  case (call_unlock t m f l)
  then show ?thesis by (intro exact_quiet [OF assms(2), of t]) (auto simp: lagging_def)
next
  case (return t r)
  then show ?thesis by (intro exact_quiet [OF assms(2), of t]) (auto simp: lagging_def)
qed

lemma reaches_exact:
  "reaches cfg hook s \<Longrightarrow> \<not> SAFE_MUTEX cfg \<Longrightarrow> inj hook \<Longrightarrow> exact cfg hook s"
  by (induction rule: reaches.induct) (auto intro: exact_init exact_step reaches_sound)

text \<open>A call of \<open>inline_mysql_mutex_lock\<close> on a free mutex, with no other thread moving.\<close>

lemma lock_alone:
  fixes locker :: ptr
  assumes "reaches cfg hook s" "threads s t = None" "owner s m = None" "locker \<noteq> 0"
    and "hooked cfg (hook m)" "\<not> SAFE_MUTEX cfg"
  shows "\<exists>s'. reaches cfg hook s' \<and> owner s' m = Some t \<and> threads s' t = None \<and>
           answered (events s') = answered (events s)"
proof -
  let ?q = "Get_thread_mutex_locker (hook m) PSI_MUTEX_LOCK"
  let ?tail = "wait_tail (Pthread_mutex_lock m)"
  let ?k = "\<lambda>locker. if locker \<noteq> 0 then Tell (Start_mutex_wait locker [] 0) (?tail locker)
                    else Os (Pthread_mutex_lock m) Ret"
  have call: "inline_mysql_mutex_lock cfg (mutex_at hook m) [] 0 = Ask ?q ?k"
    using assms(5,6) by (simp add: inline_mysql_mutex_lock_def mutex_at_def timed_def)
  have 1: "reaches cfg hook (goes s t (Ask ?q ?k))" (is "reaches _ _ ?s1")
    using reaches.step [OF assms(1) call_lock [OF assms(2), where m = m and f = "[]" and l = 0]] call by simp
  have 2: "reaches cfg hook ((goes ?s1 t (?k locker))\<lparr>events := (t, Asked ?q locker) # events ?s1\<rparr>)"
    (is "reaches _ _ ?s2")
    by (rule reaches.step [OF 1 mstep.ask]) simp
  have 3: "reaches cfg hook ((goes ?s2 t (?tail locker))\<lparr>events := (t, Told (Start_mutex_wait locker [] 0)) # events ?s2\<rparr>)"
    (is "reaches _ _ ?s3")
    by (rule reaches.step [OF 2 mstep.tell]) (simp add: assms(4))
  have 4: "reaches cfg hook ((goes ?s3 t (Tell (End_mutex_wait locker 0) (Ret 0)))\<lparr>owner := (owner ?s3)(m \<mapsto> t)\<rparr>)"
    (is "reaches _ _ ?s4")
    by (rule reaches.step [OF 3 mstep.lock [where k = "\<lambda>r. Tell (End_mutex_wait locker r) (Ret r)"]]) (simp_all add: assms(3))
  have 5: "reaches cfg hook ((goes ?s4 t (Ret 0))\<lparr>events := (t, Told (End_mutex_wait locker 0)) # events ?s4\<rparr>)"
    (is "reaches _ _ ?s5")
    by (rule reaches.step [OF 4 mstep.tell]) simp
  have 6: "reaches cfg hook (?s5\<lparr>threads := (threads ?s5)(t := None)\<rparr>)"
    by (rule reaches.step [OF 5 mstep.return [where r = 0]]) simp
  show ?thesis
    using 6 assms(4) by (intro exI [of _ "?s5\<lparr>threads := (threads ?s5)(t := None)\<rparr>"]) simp
qed

definition sample_build :: psi_config where
  "sample_build = \<lparr>HAVE_PSI_INTERFACE = True, SAFE_MUTEX = False, PSI_server = True\<rparr>"

text \<open>
  C12: in a build without safe mutexes, where each mutex has a hook of its own, however the threads
  interleave and whichever lockers the instrumentation hands out, its account of ownership is right. A thread it names as the owner of a mutex holds the mutex. If
  it always had a locker to give, a thread that holds an instrumented mutex and is not inside a
  call is named.
\<close>

theorem monitor_agrees:
  assumes "reaches cfg hook s" "\<not> SAFE_MUTEX cfg" "inj hook"
  shows "(monitor (events s) (hook m) = Some t \<longrightarrow> owner s m = Some t) \<and>
         (owner s m = Some t \<and> threads s t = None \<and> hooked cfg (hook m) \<and> answered (events s) \<longrightarrow>
            monitor (events s) (hook m) = Some t)"
  using soundD(2) [OF reaches_sound [OF assms]] exactD [OF reaches_exact [OF assms], of m t]
  by (auto simp: lagging_def)

theorem monitor_agrees_witness:
  "\<exists>s. reaches sample_build Suc s \<and> owner s 7 = Some 3 \<and> monitor (events s) 8 = Some 3"
proof -
  have h: "hooked sample_build (Suc 7)" "\<not> SAFE_MUTEX sample_build"
    by (simp_all add: sample_build_def hooked_def serving_def)
  obtain s where s: "reaches sample_build Suc s" "owner s 7 = Some 3" "threads s 3 = None" "answered (events s)"
    using lock_alone [of sample_build Suc machine_init 3 7 5, OF start _ _ _ h]
    by (auto simp: machine_init_def)
  have "monitor (events s) (Suc 7) = Some 3"
    using monitor_agrees [OF s(1) h(2), of 7 3] s h by simp
  with s show ?thesis by auto
qed

end
