(* ===== verification/PsiFile.thy ===== *)
theory PsiFile
  imports PsiProg
begin

text \<open>
  The instrumented file wrappers of \<^verbatim>\<open>client/mysql_include/mysql/psi/mysql_file.h\<close>, each as a program
  over the calls of the C library and of mysys. Sizes and offsets are the integers the C types
  hold; \<^verbatim>\<open>size_t\<close> has 64 bits. An answer of the platform is a number (a result code, a descriptor,
  a size, or a pointer with 0 for NULL) or, for \<^verbatim>\<open>fgets\<close>, the line read, None for NULL.
\<close>

unbundle bit_operations_syntax

section \<open>Calls\<close>

datatype answer = Number int | Line "string option"

fun number :: "answer \<Rightarrow> int" where
  "number (Number n) = n"
| "number (Line s) = 0"

fun line_bytes :: "answer \<Rightarrow> int" where
  "line_bytes (Line (Some s)) = int (length s)"
| "line_bytes _ = 0"

definition size_t :: "int \<Rightarrow> int" where
  "size_t n = n mod 2 ^ 64"

definition MY_FILE_ERROR :: int where
  "MY_FILE_ERROR = size_t (- 1)"

definition MY_FNABP :: int where
  "MY_FNABP = 2"

definition MY_NABP :: int where
  "MY_NABP = 4"

datatype file_call =
    Fgets ptr int ptr
  | Fgetc ptr
  | Fputs "string option" ptr
  | Fputc char ptr
  | Vfprintf ptr string ptr
  | Fflush ptr
  | Feof ptr
  | My_fstat int ptr int
  | My_stat string ptr int
  | My_chsize int int int int
  | My_malloc_file
  | My_free ptr
  | My_fopen string int int
  | My_fclose ptr int
  | My_fread ptr ptr int int
  | My_fwrite ptr ptr int int
  | My_fseek ptr int int int
  | My_ftell ptr int
  | My_create string int int int
  | Create_temp_file ptr string string int int
  | My_open string int int
  | My_close int int
  | My_read int ptr int int
  | My_write int ptr int int
  | My_pread int ptr int int int
  | My_pwrite int ptr int int int
  | My_seek int int int int
  | My_tell int int
  | My_delete string int
  | My_rename string string int
  | My_create_with_symlink string string int int int
  | My_delete_with_symlink string int
  | My_rename_with_symlink string string int
  | My_sync int int

datatype psi_file_operation =
    PSI_FILE_CREATE
  | PSI_FILE_CREATE_TMP
  | PSI_FILE_OPEN
  | PSI_FILE_STREAM_OPEN
  | PSI_FILE_CLOSE
  | PSI_FILE_STREAM_CLOSE
  | PSI_FILE_READ
  | PSI_FILE_WRITE
  | PSI_FILE_SEEK
  | PSI_FILE_TELL
  | PSI_FILE_FLUSH
  | PSI_FILE_STAT
  | PSI_FILE_FSTAT
  | PSI_FILE_CHSIZE
  | PSI_FILE_DELETE
  | PSI_FILE_RENAME
  | PSI_FILE_SYNC

text \<open>The identity given with a name: the address of the local locker, or of the new object.\<close>

datatype identity = The_locker | The_file ptr

datatype file_query =
    Get_thread_file_name_locker nat psi_file_operation string identity
  | Get_thread_file_stream_locker ptr psi_file_operation
  | Get_thread_file_descriptor_locker int psi_file_operation
  | Start_file_open_wait ptr string nat

datatype file_note =
    Start_file_wait ptr int string nat
  | End_file_wait ptr int
  | End_file_open_wait ptr
  | End_file_open_wait_and_bind_to_descriptor ptr int
  | Create_file nat ptr int

type_synonym 'r file_prog = "(file_call, answer, file_query, file_note, 'r) prog"

record mysql_file =
  m_file :: ptr
  file_psi :: ptr

section \<open>The bytes a transfer reports\<close>

definition transferred :: "int \<Rightarrow> int \<Rightarrow> int \<Rightarrow> int" where
  "transferred flags count result =
     (if flags AND (MY_NABP OR MY_FNABP) \<noteq> 0 then (if result = 0 then count else 0)
      else (if result \<noteq> MY_FILE_ERROR then result else 0))"

section \<open>Streams\<close>

definition inline_mysql_file_fgets :: "psi_config \<Rightarrow> string \<Rightarrow> nat \<Rightarrow> ptr \<Rightarrow> int \<Rightarrow> mysql_file \<Rightarrow> answer file_prog" where
  "inline_mysql_file_fgets cfg src_file src_line str siz file =
     timed (hooked cfg (file_psi file)) (Get_thread_file_stream_locker (file_psi file) PSI_FILE_READ)
       (\<lambda>locker. Start_file_wait locker (size_t siz) src_file src_line)
       (Fgets str siz (m_file file))
       (\<lambda>locker result. End_file_wait locker (line_bytes result))"

definition inline_mysql_file_fgetc :: "psi_config \<Rightarrow> string \<Rightarrow> nat \<Rightarrow> mysql_file \<Rightarrow> answer file_prog" where
  "inline_mysql_file_fgetc cfg src_file src_line file =
     timed (hooked cfg (file_psi file)) (Get_thread_file_stream_locker (file_psi file) PSI_FILE_READ)
       (\<lambda>locker. Start_file_wait locker 1 src_file src_line)
       (Fgetc (m_file file))
       (\<lambda>locker result. End_file_wait locker 1)"

definition fputs_bytes :: "string option \<Rightarrow> int" where
  "fputs_bytes str = (case str of Some s \<Rightarrow> int (length s) | None \<Rightarrow> 0)"

definition inline_mysql_file_fputs :: "psi_config \<Rightarrow> string \<Rightarrow> nat \<Rightarrow> string option \<Rightarrow> mysql_file \<Rightarrow> answer file_prog" where
  "inline_mysql_file_fputs cfg src_file src_line str file =
     timed (hooked cfg (file_psi file)) (Get_thread_file_stream_locker (file_psi file) PSI_FILE_WRITE)
       (\<lambda>locker. Start_file_wait locker (fputs_bytes str) src_file src_line)
       (Fputs str (m_file file))
       (\<lambda>locker result. End_file_wait locker (fputs_bytes str))"

definition inline_mysql_file_fputc :: "psi_config \<Rightarrow> string \<Rightarrow> nat \<Rightarrow> char \<Rightarrow> mysql_file \<Rightarrow> answer file_prog" where
  "inline_mysql_file_fputc cfg src_file src_line c file =
     timed (hooked cfg (file_psi file)) (Get_thread_file_stream_locker (file_psi file) PSI_FILE_WRITE)
       (\<lambda>locker. Start_file_wait locker 1 src_file src_line)
       (Fputc c (m_file file))
       (\<lambda>locker result. End_file_wait locker 1)"

text \<open>\<^verbatim>\<open>fprintf\<close> passes the position of the header itself.\<close>

definition inline_mysql_file_fprintf :: "psi_config \<Rightarrow> string \<Rightarrow> nat \<Rightarrow> mysql_file \<Rightarrow> string \<Rightarrow> ptr \<Rightarrow> answer file_prog" where
  "inline_mysql_file_fprintf cfg src_file src_line file format args =
     timed (hooked cfg (file_psi file)) (Get_thread_file_stream_locker (file_psi file) PSI_FILE_WRITE)
       (\<lambda>locker. Start_file_wait locker 0 src_file src_line)
       (Vfprintf (m_file file) format args)
       (\<lambda>locker result. End_file_wait locker (size_t (number result)))"

definition inline_mysql_file_vfprintf :: "psi_config \<Rightarrow> string \<Rightarrow> nat \<Rightarrow> mysql_file \<Rightarrow> string \<Rightarrow> ptr \<Rightarrow> answer file_prog" where
  "inline_mysql_file_vfprintf cfg src_file src_line file format args =
     timed (hooked cfg (file_psi file)) (Get_thread_file_stream_locker (file_psi file) PSI_FILE_WRITE)
       (\<lambda>locker. Start_file_wait locker 0 src_file src_line)
       (Vfprintf (m_file file) format args)
       (\<lambda>locker result. End_file_wait locker (size_t (number result)))"

definition inline_mysql_file_fflush :: "psi_config \<Rightarrow> string \<Rightarrow> nat \<Rightarrow> mysql_file \<Rightarrow> answer file_prog" where
  "inline_mysql_file_fflush cfg src_file src_line file =
     timed (hooked cfg (file_psi file)) (Get_thread_file_stream_locker (file_psi file) PSI_FILE_FLUSH)
       (\<lambda>locker. Start_file_wait locker 0 src_file src_line)
       (Fflush (m_file file))
       (\<lambda>locker result. End_file_wait locker 0)"

definition inline_mysql_file_feof :: "mysql_file \<Rightarrow> answer file_prog" where
  "inline_mysql_file_feof file = Os (Feof (m_file file)) Ret"

definition inline_mysql_file_fread :: "psi_config \<Rightarrow> string \<Rightarrow> nat \<Rightarrow> mysql_file \<Rightarrow> ptr \<Rightarrow> int \<Rightarrow> int \<Rightarrow> answer file_prog" where
  "inline_mysql_file_fread cfg src_file src_line file buffer count flags =
     timed (hooked cfg (file_psi file)) (Get_thread_file_stream_locker (file_psi file) PSI_FILE_READ)
       (\<lambda>locker. Start_file_wait locker count src_file src_line)
       (My_fread (m_file file) buffer count flags)
       (\<lambda>locker result. End_file_wait locker (transferred flags count (number result)))"

definition inline_mysql_file_fwrite :: "psi_config \<Rightarrow> string \<Rightarrow> nat \<Rightarrow> mysql_file \<Rightarrow> ptr \<Rightarrow> int \<Rightarrow> int \<Rightarrow> answer file_prog" where
  "inline_mysql_file_fwrite cfg src_file src_line file buffer count flags =
     timed (hooked cfg (file_psi file)) (Get_thread_file_stream_locker (file_psi file) PSI_FILE_WRITE)
       (\<lambda>locker. Start_file_wait locker count src_file src_line)
       (My_fwrite (m_file file) buffer count flags)
       (\<lambda>locker result. End_file_wait locker (transferred flags count (number result)))"

definition inline_mysql_file_fseek :: "psi_config \<Rightarrow> string \<Rightarrow> nat \<Rightarrow> mysql_file \<Rightarrow> int \<Rightarrow> int \<Rightarrow> int \<Rightarrow> answer file_prog" where
  "inline_mysql_file_fseek cfg src_file src_line file pos whence flags =
     timed (hooked cfg (file_psi file)) (Get_thread_file_stream_locker (file_psi file) PSI_FILE_SEEK)
       (\<lambda>locker. Start_file_wait locker 0 src_file src_line)
       (My_fseek (m_file file) pos whence flags)
       (\<lambda>locker result. End_file_wait locker 0)"

definition inline_mysql_file_ftell :: "psi_config \<Rightarrow> string \<Rightarrow> nat \<Rightarrow> mysql_file \<Rightarrow> int \<Rightarrow> answer file_prog" where
  "inline_mysql_file_ftell cfg src_file src_line file flags =
     timed (hooked cfg (file_psi file)) (Get_thread_file_stream_locker (file_psi file) PSI_FILE_TELL)
       (\<lambda>locker. Start_file_wait locker 0 src_file src_line)
       (My_ftell (m_file file) flags)
       (\<lambda>locker result. End_file_wait locker 0)"

text \<open>
  Opening a stream allocates the object, asks for a hook, and frees the object again when the
  open fails; closing one frees it.
\<close>

definition opened :: "ptr \<Rightarrow> ptr \<Rightarrow> answer \<Rightarrow> (ptr \<times> mysql_file) option file_prog" where
  "opened that psi a =
     (if number a = 0 then Os (My_free that) (\<lambda>_. Ret None)
      else Ret (Some (that, \<lparr>m_file = nat (number a), file_psi = psi\<rparr>)))"

definition inline_mysql_file_fopen ::
  "psi_config \<Rightarrow> nat \<Rightarrow> string \<Rightarrow> nat \<Rightarrow> string \<Rightarrow> int \<Rightarrow> int \<Rightarrow> (ptr \<times> mysql_file) option file_prog" where
  "inline_mysql_file_fopen cfg key src_file src_line filename flags myFlags =
     Os My_malloc_file (\<lambda>a.
       let that = nat (number a)
       in if that = 0 then Ret None
          else if serving cfg then
            Ask (Get_thread_file_name_locker key PSI_FILE_STREAM_OPEN filename (The_file that)) (\<lambda>locker.
              if locker \<noteq> 0 then
                Ask (Start_file_open_wait locker src_file src_line) (\<lambda>psi.
                  Os (My_fopen filename flags myFlags) (\<lambda>a.
                    Tell (End_file_open_wait locker) (opened that psi a)))
              else Os (My_fopen filename flags myFlags) (opened that 0))
          else Os (My_fopen filename flags myFlags) (opened that 0))"

definition inline_mysql_file_fclose ::
  "psi_config \<Rightarrow> string \<Rightarrow> nat \<Rightarrow> (ptr \<times> mysql_file) option \<Rightarrow> int \<Rightarrow> answer file_prog" where
  "inline_mysql_file_fclose cfg src_file src_line file flags =
     (case file of
        None \<Rightarrow> Ret (Number 0)
      | Some (that, file) \<Rightarrow>
          bind_prog
            (timed (hooked cfg (file_psi file)) (Get_thread_file_stream_locker (file_psi file) PSI_FILE_STREAM_CLOSE)
              (\<lambda>locker. Start_file_wait locker 0 src_file src_line)
              (My_fclose (m_file file) flags)
              (\<lambda>locker result. End_file_wait locker 0))
            (\<lambda>result. Os (My_free that) (\<lambda>_. Ret result)))"

section \<open>Descriptors\<close>

definition inline_mysql_file_fstat :: "psi_config \<Rightarrow> string \<Rightarrow> nat \<Rightarrow> int \<Rightarrow> ptr \<Rightarrow> int \<Rightarrow> answer file_prog" where
  "inline_mysql_file_fstat cfg src_file src_line filenr stat_area flags =
     timed (serving cfg) (Get_thread_file_descriptor_locker filenr PSI_FILE_FSTAT)
       (\<lambda>locker. Start_file_wait locker 0 src_file src_line)
       (My_fstat filenr stat_area flags)
       (\<lambda>locker result. End_file_wait locker 0)"

definition inline_mysql_file_chsize :: "psi_config \<Rightarrow> string \<Rightarrow> nat \<Rightarrow> int \<Rightarrow> int \<Rightarrow> int \<Rightarrow> int \<Rightarrow> answer file_prog" where
  "inline_mysql_file_chsize cfg src_file src_line file newlength filler flags =
     timed (serving cfg) (Get_thread_file_descriptor_locker file PSI_FILE_CHSIZE)
       (\<lambda>locker. Start_file_wait locker (size_t newlength) src_file src_line)
       (My_chsize file newlength filler flags)
       (\<lambda>locker result. End_file_wait locker (size_t newlength))"

definition inline_mysql_file_create :: "psi_config \<Rightarrow> nat \<Rightarrow> string \<Rightarrow> nat \<Rightarrow> string \<Rightarrow> int \<Rightarrow> int \<Rightarrow> int \<Rightarrow> answer file_prog" where
  "inline_mysql_file_create cfg key src_file src_line filename create_flags access_flags myFlags =
     timed_open (serving cfg) (Get_thread_file_name_locker key PSI_FILE_CREATE filename The_locker)
       (\<lambda>locker. Start_file_open_wait locker src_file src_line)
       (My_create filename create_flags access_flags myFlags)
       (\<lambda>locker result. End_file_open_wait_and_bind_to_descriptor locker (number result))"

definition inline_mysql_file_create_temp ::
  "psi_config \<Rightarrow> nat \<Rightarrow> ptr \<Rightarrow> string \<Rightarrow> string \<Rightarrow> int \<Rightarrow> int \<Rightarrow> answer file_prog" where
  "inline_mysql_file_create_temp cfg key to_name dir pfx mode myFlags =
     Os (Create_temp_file to_name dir pfx mode myFlags) (\<lambda>file.
       if serving cfg then Tell (Create_file key to_name (number file)) (Ret file) else Ret file)"

definition inline_mysql_file_open :: "psi_config \<Rightarrow> nat \<Rightarrow> string \<Rightarrow> nat \<Rightarrow> string \<Rightarrow> int \<Rightarrow> int \<Rightarrow> answer file_prog" where
  "inline_mysql_file_open cfg key src_file src_line filename flags myFlags =
     timed_open (serving cfg) (Get_thread_file_name_locker key PSI_FILE_OPEN filename The_locker)
       (\<lambda>locker. Start_file_open_wait locker src_file src_line)
       (My_open filename flags myFlags)
       (\<lambda>locker result. End_file_open_wait_and_bind_to_descriptor locker (number result))"

definition inline_mysql_file_close :: "psi_config \<Rightarrow> string \<Rightarrow> nat \<Rightarrow> int \<Rightarrow> int \<Rightarrow> answer file_prog" where
  "inline_mysql_file_close cfg src_file src_line file flags =
     timed (serving cfg) (Get_thread_file_descriptor_locker file PSI_FILE_CLOSE)
       (\<lambda>locker. Start_file_wait locker 0 src_file src_line)
       (My_close file flags)
       (\<lambda>locker result. End_file_wait locker 0)"

definition inline_mysql_file_read :: "psi_config \<Rightarrow> string \<Rightarrow> nat \<Rightarrow> int \<Rightarrow> ptr \<Rightarrow> int \<Rightarrow> int \<Rightarrow> answer file_prog" where
  "inline_mysql_file_read cfg src_file src_line file buffer count flags =
     timed (serving cfg) (Get_thread_file_descriptor_locker file PSI_FILE_READ)
       (\<lambda>locker. Start_file_wait locker count src_file src_line)
       (My_read file buffer count flags)
       (\<lambda>locker result. End_file_wait locker (transferred flags count (number result)))"

definition inline_mysql_file_write :: "psi_config \<Rightarrow> string \<Rightarrow> nat \<Rightarrow> int \<Rightarrow> ptr \<Rightarrow> int \<Rightarrow> int \<Rightarrow> answer file_prog" where
  "inline_mysql_file_write cfg src_file src_line file buffer count flags =
     timed (serving cfg) (Get_thread_file_descriptor_locker file PSI_FILE_WRITE)
       (\<lambda>locker. Start_file_wait locker count src_file src_line)
       (My_write file buffer count flags)
       (\<lambda>locker result. End_file_wait locker (transferred flags count (number result)))"

definition inline_mysql_file_pread :: "psi_config \<Rightarrow> string \<Rightarrow> nat \<Rightarrow> int \<Rightarrow> ptr \<Rightarrow> int \<Rightarrow> int \<Rightarrow> int \<Rightarrow> answer file_prog" where
  "inline_mysql_file_pread cfg src_file src_line file buffer count offset flags =
     timed (serving cfg) (Get_thread_file_descriptor_locker file PSI_FILE_READ)
       (\<lambda>locker. Start_file_wait locker count src_file src_line)
       (My_pread file buffer count offset flags)
       (\<lambda>locker result. End_file_wait locker (transferred flags count (number result)))"

definition inline_mysql_file_pwrite :: "psi_config \<Rightarrow> string \<Rightarrow> nat \<Rightarrow> int \<Rightarrow> ptr \<Rightarrow> int \<Rightarrow> int \<Rightarrow> int \<Rightarrow> answer file_prog" where
  "inline_mysql_file_pwrite cfg src_file src_line file buffer count offset flags =
     timed (serving cfg) (Get_thread_file_descriptor_locker file PSI_FILE_WRITE)
       (\<lambda>locker. Start_file_wait locker count src_file src_line)
       (My_pwrite file buffer count offset flags)
       (\<lambda>locker result. End_file_wait locker (transferred flags count (number result)))"

definition inline_mysql_file_seek :: "psi_config \<Rightarrow> string \<Rightarrow> nat \<Rightarrow> int \<Rightarrow> int \<Rightarrow> int \<Rightarrow> int \<Rightarrow> answer file_prog" where
  "inline_mysql_file_seek cfg src_file src_line file pos whence flags =
     timed (serving cfg) (Get_thread_file_descriptor_locker file PSI_FILE_SEEK)
       (\<lambda>locker. Start_file_wait locker 0 src_file src_line)
       (My_seek file pos whence flags)
       (\<lambda>locker result. End_file_wait locker 0)"

definition inline_mysql_file_tell :: "psi_config \<Rightarrow> string \<Rightarrow> nat \<Rightarrow> int \<Rightarrow> int \<Rightarrow> answer file_prog" where
  "inline_mysql_file_tell cfg src_file src_line file flags =
     timed (serving cfg) (Get_thread_file_descriptor_locker file PSI_FILE_TELL)
       (\<lambda>locker. Start_file_wait locker 0 src_file src_line)
       (My_tell file flags)
       (\<lambda>locker result. End_file_wait locker 0)"

definition inline_mysql_file_sync :: "psi_config \<Rightarrow> string \<Rightarrow> nat \<Rightarrow> int \<Rightarrow> int \<Rightarrow> answer file_prog" where
  "inline_mysql_file_sync cfg src_file src_line fd flags =
     timed (serving cfg) (Get_thread_file_descriptor_locker fd PSI_FILE_SYNC)
       (\<lambda>locker. Start_file_wait locker 0 src_file src_line)
       (My_sync fd flags)
       (\<lambda>locker result. End_file_wait locker 0)"

section \<open>Names\<close>

text \<open>\<^verbatim>\<open>stat\<close> starts an open wait and ends a plain one.\<close>

definition inline_mysql_file_stat :: "psi_config \<Rightarrow> nat \<Rightarrow> string \<Rightarrow> nat \<Rightarrow> string \<Rightarrow> ptr \<Rightarrow> int \<Rightarrow> answer file_prog" where
  "inline_mysql_file_stat cfg key src_file src_line path stat_area flags =
     timed_open (serving cfg) (Get_thread_file_name_locker key PSI_FILE_STAT path The_locker)
       (\<lambda>locker. Start_file_open_wait locker src_file src_line)
       (My_stat path stat_area flags)
       (\<lambda>locker result. End_file_wait locker 0)"

definition inline_mysql_file_delete :: "psi_config \<Rightarrow> nat \<Rightarrow> string \<Rightarrow> nat \<Rightarrow> string \<Rightarrow> int \<Rightarrow> answer file_prog" where
  "inline_mysql_file_delete cfg key src_file src_line name flags =
     timed (serving cfg) (Get_thread_file_name_locker key PSI_FILE_DELETE name The_locker)
       (\<lambda>locker. Start_file_wait locker 0 src_file src_line)
       (My_delete name flags)
       (\<lambda>locker result. End_file_wait locker 0)"

definition inline_mysql_file_rename :: "psi_config \<Rightarrow> nat \<Rightarrow> string \<Rightarrow> nat \<Rightarrow> string \<Rightarrow> string \<Rightarrow> int \<Rightarrow> answer file_prog" where
  "inline_mysql_file_rename cfg key src_file src_line old new flags =
     timed (serving cfg) (Get_thread_file_name_locker key PSI_FILE_RENAME new The_locker)
       (\<lambda>locker. Start_file_wait locker 0 src_file src_line)
       (My_rename old new flags)
       (\<lambda>locker result. End_file_wait locker 0)"

definition inline_mysql_file_create_with_symlink :: "psi_config \<Rightarrow> nat \<Rightarrow> string \<Rightarrow> nat \<Rightarrow> string \<Rightarrow> string \<Rightarrow> int \<Rightarrow> int \<Rightarrow> int \<Rightarrow> answer file_prog" where
  "inline_mysql_file_create_with_symlink cfg key src_file src_line linkname filename create_flags access_flags flags =
     timed_open (serving cfg) (Get_thread_file_name_locker key PSI_FILE_CREATE filename The_locker)
       (\<lambda>locker. Start_file_open_wait locker src_file src_line)
       (My_create_with_symlink linkname filename create_flags access_flags flags)
       (\<lambda>locker result. End_file_open_wait_and_bind_to_descriptor locker (number result))"

definition inline_mysql_file_delete_with_symlink :: "psi_config \<Rightarrow> nat \<Rightarrow> string \<Rightarrow> nat \<Rightarrow> string \<Rightarrow> int \<Rightarrow> answer file_prog" where
  "inline_mysql_file_delete_with_symlink cfg key src_file src_line name flags =
     timed (serving cfg) (Get_thread_file_name_locker key PSI_FILE_DELETE name The_locker)
       (\<lambda>locker. Start_file_wait locker 0 src_file src_line)
       (My_delete_with_symlink name flags)
       (\<lambda>locker result. End_file_wait locker 0)"

definition inline_mysql_file_rename_with_symlink :: "psi_config \<Rightarrow> nat \<Rightarrow> string \<Rightarrow> nat \<Rightarrow> string \<Rightarrow> string \<Rightarrow> int \<Rightarrow> answer file_prog" where
  "inline_mysql_file_rename_with_symlink cfg key src_file src_line old new flags =
     timed (serving cfg) (Get_thread_file_name_locker key PSI_FILE_RENAME new The_locker)
       (\<lambda>locker. Start_file_wait locker 0 src_file src_line)
       (My_rename_with_symlink old new flags)
       (\<lambda>locker result. End_file_wait locker 0)"

end
