(* ===== verification/PsiFileRuns.thy ===== *)
theory PsiFileRuns
  imports PsiFile
begin

text \<open>
  What the file wrappers of \<^verbatim>\<open>mysql_file.h\<close> do: the platform's answer under any instrumentation,
  the pairing of the waits they start and end, and the bytes they report.
\<close>

section \<open>Transparency\<close>

lemmas file_wrappers =
  inline_mysql_file_fgets_def
  inline_mysql_file_fgetc_def
  inline_mysql_file_fputs_def
  inline_mysql_file_fputc_def
  inline_mysql_file_fprintf_def
  inline_mysql_file_vfprintf_def
  inline_mysql_file_fflush_def
  inline_mysql_file_fread_def
  inline_mysql_file_fwrite_def
  inline_mysql_file_fseek_def
  inline_mysql_file_ftell_def
  inline_mysql_file_fstat_def
  inline_mysql_file_chsize_def
  inline_mysql_file_create_def
  inline_mysql_file_open_def
  inline_mysql_file_close_def
  inline_mysql_file_read_def
  inline_mysql_file_write_def
  inline_mysql_file_pread_def
  inline_mysql_file_pwrite_def
  inline_mysql_file_seek_def
  inline_mysql_file_tell_def
  inline_mysql_file_sync_def
  inline_mysql_file_stat_def
  inline_mysql_file_delete_def
  inline_mysql_file_rename_def
  inline_mysql_file_create_with_symlink_def
  inline_mysql_file_delete_with_symlink_def
  inline_mysql_file_rename_with_symlink_def

definition stream_of :: "(ptr \<times> mysql_file) option \<Rightarrow> (ptr \<times> ptr) option" where
  "stream_of r = map_option (\<lambda>(that, file). (that, m_file file)) r"

text \<open>Opening and closing a stream are more than one platform call.\<close>

lemma fopen_plain:
  "map_prod stream_of id (plain (run pl (inline_mysql_file_fopen cfg key f l filename flags myFlags) os ps)) =
     (let (a, os1) = os_do pl My_malloc_file os
      in if nat (number a) = 0 then (None, os1)
         else let (b, os2) = os_do pl (My_fopen filename flags myFlags) os1
              in if number b = 0 then (None, snd (os_do pl (My_free (nat (number a))) os2))
                 else (Some (nat (number a), nat (number b)), os2))"
  by (auto simp: inline_mysql_file_fopen_def opened_def plain_def stream_of_def Let_def split: prod.splits)

lemma fclose_plain:
  "plain (run pl (inline_mysql_file_fclose cfg f l stream flags) os ps) =
     (case stream of
        None \<Rightarrow> (Number 0, os)
      | Some (that, file) \<Rightarrow>
          let (a, os1) = os_do pl (My_fclose (m_file file) flags) os
          in (a, snd (os_do pl (My_free that) os1)))"
proof (cases stream)
  case None
  then show ?thesis by (simp add: inline_mysql_file_fclose_def plain_def)
next
  case (Some r)
  obtain that h where r: "r = (that, h)" by force
  let ?p = "timed (hooked cfg (file_psi h)) (Get_thread_file_stream_locker (file_psi h) PSI_FILE_STREAM_CLOSE)
     (\<lambda>locker. Start_file_wait locker 0 f l) (My_fclose (m_file h) flags) (\<lambda>locker result. End_file_wait locker 0)"
  obtain a os1 ps1 where x: "run pl ?p os ps = (a, os1, ps1)" by (cases "run pl ?p os ps") auto
  have "os_do pl (My_fclose (m_file h) flags) os = plain (run pl ?p os ps)" by (simp only: timed_plain)
  then have "os_do pl (My_fclose (m_file h) flags) os = (a, os1)" unfolding x by (simp add: plain_def)
  then show ?thesis
    unfolding Some r by (simp add: inline_mysql_file_fclose_def run_bind x) (simp add: plain_def)
qed

text \<open>
  C18: the file wrappers are transparent: whatever the instrumentation answers and records, each
  returns the platform's answer and leaves the platform as its one call leaves it. Opening a
  stream frees the object it allocated exactly when the open fails, and closing one frees it.
\<close>

theorem psi_file_transparent:
  "plain (run pl (inline_mysql_file_fgets cfg src_file src_line str siz file) os ps) = os_do pl (Fgets str siz (m_file file)) os \<and>
   plain (run pl (inline_mysql_file_fgetc cfg src_file src_line file) os ps) = os_do pl (Fgetc (m_file file)) os \<and>
   plain (run pl (inline_mysql_file_fputs cfg src_file src_line txt file) os ps) = os_do pl (Fputs txt (m_file file)) os \<and>
   plain (run pl (inline_mysql_file_fputc cfg src_file src_line c file) os ps) = os_do pl (Fputc c (m_file file)) os \<and>
   plain (run pl (inline_mysql_file_fprintf cfg src_file src_line file format args) os ps) = os_do pl (Vfprintf (m_file file) format args) os \<and>
   plain (run pl (inline_mysql_file_vfprintf cfg src_file src_line file format args) os ps) = os_do pl (Vfprintf (m_file file) format args) os \<and>
   plain (run pl (inline_mysql_file_fflush cfg src_file src_line file) os ps) = os_do pl (Fflush (m_file file)) os \<and>
   plain (run pl (inline_mysql_file_fread cfg src_file src_line file buffer count flags) os ps) = os_do pl (My_fread (m_file file) buffer count flags) os \<and>
   plain (run pl (inline_mysql_file_fwrite cfg src_file src_line file buffer count flags) os ps) = os_do pl (My_fwrite (m_file file) buffer count flags) os \<and>
   plain (run pl (inline_mysql_file_fseek cfg src_file src_line file pos whence flags) os ps) = os_do pl (My_fseek (m_file file) pos whence flags) os \<and>
   plain (run pl (inline_mysql_file_ftell cfg src_file src_line file flags) os ps) = os_do pl (My_ftell (m_file file) flags) os \<and>
   plain (run pl (inline_mysql_file_fstat cfg src_file src_line filenr stat_area flags) os ps) = os_do pl (My_fstat filenr stat_area flags) os \<and>
   plain (run pl (inline_mysql_file_chsize cfg src_file src_line fd newlength filler flags) os ps) = os_do pl (My_chsize fd newlength filler flags) os \<and>
   plain (run pl (inline_mysql_file_create cfg key src_file src_line filename create_flags access_flags myFlags) os ps) = os_do pl (My_create filename create_flags access_flags myFlags) os \<and>
   plain (run pl (inline_mysql_file_open cfg key src_file src_line filename flags myFlags) os ps) = os_do pl (My_open filename flags myFlags) os \<and>
   plain (run pl (inline_mysql_file_close cfg src_file src_line fd flags) os ps) = os_do pl (My_close fd flags) os \<and>
   plain (run pl (inline_mysql_file_read cfg src_file src_line fd buffer count flags) os ps) = os_do pl (My_read fd buffer count flags) os \<and>
   plain (run pl (inline_mysql_file_write cfg src_file src_line fd buffer count flags) os ps) = os_do pl (My_write fd buffer count flags) os \<and>
   plain (run pl (inline_mysql_file_pread cfg src_file src_line fd buffer count offset flags) os ps) = os_do pl (My_pread fd buffer count offset flags) os \<and>
   plain (run pl (inline_mysql_file_pwrite cfg src_file src_line fd buffer count offset flags) os ps) = os_do pl (My_pwrite fd buffer count offset flags) os \<and>
   plain (run pl (inline_mysql_file_seek cfg src_file src_line fd pos whence flags) os ps) = os_do pl (My_seek fd pos whence flags) os \<and>
   plain (run pl (inline_mysql_file_tell cfg src_file src_line fd flags) os ps) = os_do pl (My_tell fd flags) os \<and>
   plain (run pl (inline_mysql_file_sync cfg src_file src_line fd flags) os ps) = os_do pl (My_sync fd flags) os \<and>
   plain (run pl (inline_mysql_file_stat cfg key src_file src_line path stat_area flags) os ps) = os_do pl (My_stat path stat_area flags) os \<and>
   plain (run pl (inline_mysql_file_delete cfg key src_file src_line name flags) os ps) = os_do pl (My_delete name flags) os \<and>
   plain (run pl (inline_mysql_file_rename cfg key src_file src_line old new flags) os ps) = os_do pl (My_rename old new flags) os \<and>
   plain (run pl (inline_mysql_file_create_with_symlink cfg key src_file src_line linkname filename create_flags access_flags flags) os ps) = os_do pl (My_create_with_symlink linkname filename create_flags access_flags flags) os \<and>
   plain (run pl (inline_mysql_file_delete_with_symlink cfg key src_file src_line name flags) os ps) = os_do pl (My_delete_with_symlink name flags) os \<and>
   plain (run pl (inline_mysql_file_rename_with_symlink cfg key src_file src_line old new flags) os ps) = os_do pl (My_rename_with_symlink old new flags) os \<and>
   plain (run pl (inline_mysql_file_feof file) os ps) = os_do pl (Feof (m_file file)) os \<and>
   plain (run pl (inline_mysql_file_create_temp cfg key to_name dir pfx mode myFlags) os ps) =
     os_do pl (Create_temp_file to_name dir pfx mode myFlags) os \<and>
   map_prod stream_of id (plain (run pl (inline_mysql_file_fopen cfg key src_file src_line filename flags myFlags) os ps)) =
     (let (a, os1) = os_do pl My_malloc_file os
      in if nat (number a) = 0 then (None, os1)
         else let (b, os2) = os_do pl (My_fopen filename flags myFlags) os1
              in if number b = 0 then (None, snd (os_do pl (My_free (nat (number a))) os2))
                 else (Some (nat (number a), nat (number b)), os2)) \<and>
   plain (run pl (inline_mysql_file_fclose cfg src_file src_line stream flags) os ps) =
     (case stream of
        None \<Rightarrow> (Number 0, os)
      | Some (that, file) \<Rightarrow>
          let (a, os1) = os_do pl (My_fclose (m_file file) flags) os
          in (a, snd (os_do pl (My_free that) os1)))"
  by (intro conjI fopen_plain fclose_plain)
    (simp_all only: file_wrappers timed_plain timed_open_plain,
     simp_all add: inline_mysql_file_feof_def inline_mysql_file_create_temp_def plain_def)

section \<open>Pairing of waits\<close>

text \<open>
  The wait a program is in: none, or a locker that was started, by an open or by another
  operation. The end must name the same locker and be of the same kind.
\<close>

datatype wait = Idle | Waiting ptr bool | Broken

fun wait_query :: "wait \<Rightarrow> file_query \<Rightarrow> wait" where
  "wait_query Idle (Start_file_open_wait l f n) = Waiting l True"
| "wait_query w (Start_file_open_wait l f n) = Broken"
| "wait_query w q = w"

fun wait_note :: "wait \<Rightarrow> file_note \<Rightarrow> wait" where
  "wait_note Idle (Start_file_wait l b f n) = Waiting l False"
| "wait_note (Waiting k False) (End_file_wait l b) = (if k = l then Idle else Broken)"
| "wait_note (Waiting k True) (End_file_open_wait l) = (if k = l then Idle else Broken)"
| "wait_note (Waiting k True) (End_file_open_wait_and_bind_to_descriptor l fd) = (if k = l then Idle else Broken)"
| "wait_note w (Create_file key n fd) = w"
| "wait_note w n = Broken"

text \<open>Along every path of the program, for every answer, each wait is started, then ended.\<close>

primrec paired :: "'r file_prog \<Rightarrow> wait \<Rightarrow> bool" where
  "paired (Ret r) w \<longleftrightarrow> w = Idle"
| "paired (Os c k) w \<longleftrightarrow> (\<forall>a. paired (k a) w)"
| "paired (Ask q k) w \<longleftrightarrow> (\<forall>p. paired (k p) (wait_query w q))"
| "paired (Tell n k) w \<longleftrightarrow> paired k (wait_note w n)"

lemma paired_bind:
  "paired p w \<Longrightarrow> (\<And>r. paired (f r) Idle) \<Longrightarrow> paired (bind_prog p f) w"
  by (induction p arbitrary: w) auto

lemma paired_timed:
  "(\<And>w. wait_query w q = w) \<Longrightarrow>
     paired (timed g q (\<lambda>locker. Start_file_wait locker b f l) c (\<lambda>locker r. End_file_wait locker (n r))) Idle"
  by (simp add: timed_def)

lemma paired_open:
  "(\<And>w. wait_query w q = w) \<Longrightarrow>
     paired (timed_open g q (\<lambda>locker. Start_file_open_wait locker f l) c
       (\<lambda>locker r. End_file_open_wait_and_bind_to_descriptor locker (n r))) Idle"
  by (simp add: timed_open_def)

text \<open>
  C19: every wait a file wrapper starts it ends, once, for the same locker and in the same way,
  on every path; except \<^verbatim>\<open>stat\<close>, which ends the open wait it starts as a plain one whenever the
  instrumentation gives it a locker.
\<close>

theorem psi_file_waits_paired:
  "paired (inline_mysql_file_fgets cfg src_file src_line str siz file) Idle \<and>
   paired (inline_mysql_file_fgetc cfg src_file src_line file) Idle \<and>
   paired (inline_mysql_file_fputs cfg src_file src_line txt file) Idle \<and>
   paired (inline_mysql_file_fputc cfg src_file src_line c file) Idle \<and>
   paired (inline_mysql_file_fprintf cfg src_file src_line file format args) Idle \<and>
   paired (inline_mysql_file_vfprintf cfg src_file src_line file format args) Idle \<and>
   paired (inline_mysql_file_fflush cfg src_file src_line file) Idle \<and>
   paired (inline_mysql_file_fread cfg src_file src_line file buffer count flags) Idle \<and>
   paired (inline_mysql_file_fwrite cfg src_file src_line file buffer count flags) Idle \<and>
   paired (inline_mysql_file_fseek cfg src_file src_line file pos whence flags) Idle \<and>
   paired (inline_mysql_file_ftell cfg src_file src_line file flags) Idle \<and>
   paired (inline_mysql_file_fstat cfg src_file src_line filenr stat_area flags) Idle \<and>
   paired (inline_mysql_file_chsize cfg src_file src_line fd newlength filler flags) Idle \<and>
   paired (inline_mysql_file_create cfg key src_file src_line filename create_flags access_flags myFlags) Idle \<and>
   paired (inline_mysql_file_open cfg key src_file src_line filename flags myFlags) Idle \<and>
   paired (inline_mysql_file_close cfg src_file src_line fd flags) Idle \<and>
   paired (inline_mysql_file_read cfg src_file src_line fd buffer count flags) Idle \<and>
   paired (inline_mysql_file_write cfg src_file src_line fd buffer count flags) Idle \<and>
   paired (inline_mysql_file_pread cfg src_file src_line fd buffer count offset flags) Idle \<and>
   paired (inline_mysql_file_pwrite cfg src_file src_line fd buffer count offset flags) Idle \<and>
   paired (inline_mysql_file_seek cfg src_file src_line fd pos whence flags) Idle \<and>
   paired (inline_mysql_file_tell cfg src_file src_line fd flags) Idle \<and>
   paired (inline_mysql_file_sync cfg src_file src_line fd flags) Idle \<and>
   paired (inline_mysql_file_delete cfg key src_file src_line name flags) Idle \<and>
   paired (inline_mysql_file_rename cfg key src_file src_line old new flags) Idle \<and>
   paired (inline_mysql_file_create_with_symlink cfg key src_file src_line linkname filename create_flags access_flags flags) Idle \<and>
   paired (inline_mysql_file_delete_with_symlink cfg key src_file src_line name flags) Idle \<and>
   paired (inline_mysql_file_rename_with_symlink cfg key src_file src_line old new flags) Idle \<and>
   paired (inline_mysql_file_feof file) Idle \<and>
   paired (inline_mysql_file_create_temp cfg key to_name dir pfx mode myFlags) Idle \<and>
   paired (inline_mysql_file_fopen cfg key src_file src_line filename flags myFlags) Idle \<and>
   paired (inline_mysql_file_fclose cfg src_file src_line stream flags) Idle \<and>
   (paired (inline_mysql_file_stat cfg key src_file src_line path stat_area flags) Idle \<longleftrightarrow> \<not> serving cfg)"
proof (intro conjI)
  show "paired (inline_mysql_file_fclose cfg src_file src_line stream flags) Idle"
    by (cases stream) (auto simp: inline_mysql_file_fclose_def intro!: paired_bind paired_timed)
  show "paired (inline_mysql_file_fopen cfg key src_file src_line filename flags myFlags) Idle"
    by (simp add: inline_mysql_file_fopen_def opened_def Let_def)
  show "paired (inline_mysql_file_stat cfg key src_file src_line path stat_area flags) Idle \<longleftrightarrow> \<not> serving cfg"
    by (auto simp: inline_mysql_file_stat_def timed_open_def)
qed (simp_all add: file_wrappers paired_timed paired_open inline_mysql_file_feof_def
    inline_mysql_file_create_temp_def)

section \<open>Reported bytes\<close>

text \<open>
  A platform that gives one answer and an instrumentation that gives one locker and records the
  notes.
\<close>

definition recorder :: "ptr \<Rightarrow> int \<Rightarrow> (file_call, answer, file_query, file_note, unit, file_note list) platform" where
  "recorder locker result =
     \<lparr>os_do = \<lambda>c u. (Number result, u), psi_ask = \<lambda>q ns. (locker, ns), psi_tell = \<lambda>n ns. ns @ [n]\<rparr>"

definition recorded :: "ptr \<Rightarrow> int \<Rightarrow> answer file_prog \<Rightarrow> file_note list" where
  "recorded locker result p = snd (snd (run (recorder locker result) p () []))"

text \<open>
  The convention of mysys: with \<open>MY_NABP\<close> or \<open>MY_FNABP\<close> a transfer answers 0 when all bytes moved,
  otherwise it answers how many did; \<open>MY_FILE_ERROR\<close> is a failure, after which any number may have
  moved.
\<close>

definition transfer_answer :: "int \<Rightarrow> int \<Rightarrow> int \<Rightarrow> int \<Rightarrow> bool" where
  "transfer_answer flags count moved result \<longleftrightarrow>
     0 \<le> moved \<and> moved \<le> count \<and> count < MY_FILE_ERROR \<and>
     (result = MY_FILE_ERROR \<or>
      (if flags AND (MY_NABP OR MY_FNABP) \<noteq> 0 then result = 0 \<and> moved = count else result = moved))"

definition counted :: "int \<Rightarrow> int \<Rightarrow> int" where
  "counted moved result = (if result = MY_FILE_ERROR then 0 else moved)"

lemma MY_FILE_ERROR_value: "MY_FILE_ERROR = 18446744073709551615"
  by (simp add: MY_FILE_ERROR_def size_t_def)

lemma transferred_counted: "transfer_answer flags count moved result \<Longrightarrow> transferred flags count result = counted moved result"
  by (auto simp: transfer_answer_def transferred_def counted_def MY_FILE_ERROR_value split: if_splits)

lemma recorded_timed:
  "locker \<noteq> 0 \<Longrightarrow> recorded locker result (timed g q start c finish) =
     (if g then [start locker, finish locker (Number result)] else [])"
  by (simp add: recorded_def recorder_def timed_def)

text \<open>
  The six transfers report the bytes that moved, whichever of the two answer conventions the
  flags select, and 0 for a failed call. The comments of \<^verbatim>\<open>psi.h\<close> ask for -1 there, which only
  \<^verbatim>\<open>fprintf\<close> reports; \<^verbatim>\<open>fgetc\<close> and \<^verbatim>\<open>fputc\<close> report one byte even at the end of the file or on an
  error.
\<close>

lemma psi_file_bytes:
  assumes "serving cfg" "locker \<noteq> 0" "file_psi file \<noteq> 0" "transfer_answer flags count moved result"
  shows "recorded locker result (inline_mysql_file_fread cfg f l file buffer count flags) =
           [Start_file_wait locker count f l, End_file_wait locker (counted moved result)] \<and>
         recorded locker result (inline_mysql_file_fwrite cfg f l file buffer count flags) =
           [Start_file_wait locker count f l, End_file_wait locker (counted moved result)] \<and>
         recorded locker result (inline_mysql_file_read cfg f l fd buffer count flags) =
           [Start_file_wait locker count f l, End_file_wait locker (counted moved result)] \<and>
         recorded locker result (inline_mysql_file_write cfg f l fd buffer count flags) =
           [Start_file_wait locker count f l, End_file_wait locker (counted moved result)] \<and>
         recorded locker result (inline_mysql_file_pread cfg f l fd buffer count offset flags) =
           [Start_file_wait locker count f l, End_file_wait locker (counted moved result)] \<and>
         recorded locker result (inline_mysql_file_pwrite cfg f l fd buffer count offset flags) =
           [Start_file_wait locker count f l, End_file_wait locker (counted moved result)] \<and>
         recorded locker (- 1) (inline_mysql_file_fprintf cfg f l file format args) =
           [Start_file_wait locker 0 f l, End_file_wait locker (2 ^ 64 - 1)] \<and>
         recorded locker (- 1) (inline_mysql_file_fgetc cfg f l file) =
           [Start_file_wait locker 1 f l, End_file_wait locker 1] \<and>
         recorded locker (- 1) (inline_mysql_file_fputc cfg f l c file) =
           [Start_file_wait locker 1 f l, End_file_wait locker 1]"
  using assms(1,2,3) transferred_counted [OF assms(4)]
  by (simp add: file_wrappers recorded_timed hooked_def size_t_def)

lemma psi_file_bytes_witness:
  "recorded 5 7 (inline_mysql_file_read \<lparr>HAVE_PSI_INTERFACE = True, SAFE_MUTEX = False, PSI_server = True\<rparr>
     ''log.c'' 10 3 800 64 0) = [Start_file_wait 5 64 ''log.c'' 10, End_file_wait 5 7]"
proof -
  let ?cfg = "\<lparr>HAVE_PSI_INTERFACE = True, SAFE_MUTEX = False, PSI_server = True\<rparr>"
  have "serving ?cfg" by (simp add: serving_def)
  moreover have "transfer_answer 0 64 7 7" by (simp add: transfer_answer_def MY_FILE_ERROR_value)
  ultimately show ?thesis
    using psi_file_bytes [of ?cfg 5 "\<lparr>m_file = 1, file_psi = 1\<rparr>" 0 64 7 7 "''log.c''" 10 800 3]
    by (simp add: counted_def MY_FILE_ERROR_value)
qed

end
