(* ===== verification/RwLock.thy ===== *)
theory RwLock
  imports PsiThread "HOL-Library.Multiset"
begin

text \<open>
  The locks of \<^verbatim>\<open>client/mysql_include/my_pthread.h\<close>: which library function each \<^verbatim>\<open>pthread_mutex_*\<close> and
  \<^verbatim>\<open>rw_*\<close> macro calls on a platform, the debug checks of the owner, and what is left of a read write
  lock on a platform that uses a mutex in its place. The library functions are parameters.
\<close>

section \<open>Platforms\<close>

record lock_platform =
  HAVE_BROKEN_RWLOCK :: bool
  USE_MUTEX_INSTEAD_OF_RW_LOCKS :: bool
  HAVE_PTHREAD_RWLOCK_RDLOCK :: bool
  HAVE_RWLOCK_INIT :: bool
  SAFE_MUTEX_ON :: bool
  MY_PTHREAD_FASTMUTEX :: bool

text \<open>\<^verbatim>\<open>my_config.h\<close> as it is in the repository; the macros it does not mention are not defined.\<close>

definition shipped :: lock_platform where
  "shipped = \<lparr>HAVE_BROKEN_RWLOCK = False, USE_MUTEX_INSTEAD_OF_RW_LOCKS = False,
              HAVE_PTHREAD_RWLOCK_RDLOCK = True, HAVE_RWLOCK_INIT = False,
              SAFE_MUTEX_ON = False, MY_PTHREAD_FASTMUTEX = False\<rparr>"

definition without_broken :: "lock_platform \<Rightarrow> lock_platform" where
  "without_broken p =
     (if HAVE_BROKEN_RWLOCK p then p\<lparr>HAVE_PTHREAD_RWLOCK_RDLOCK := False, HAVE_RWLOCK_INIT := False\<rparr> else p)"

section \<open>Calls after macro expansion\<close>

text \<open>A call that no macro changes is \<open>Plain\<close>.\<close>

datatype lib_call =
    Plain os_call
  | Fastmutex_init ptr ptr
  | Fastmutex_lock ptr
  | Pthread_rwlock_init ptr ptr
  | Pthread_rwlock_rdlock ptr
  | Pthread_rwlock_wrlock ptr
  | Pthread_rwlock_tryrdlock ptr
  | Pthread_rwlock_trywrlock ptr
  | Pthread_rwlock_unlock ptr
  | Pthread_rwlock_destroy ptr
  | Rwlock_init ptr nat
  | My_rw_init ptr
  | My_rw_rdlock ptr
  | My_rw_wrlock ptr
  | My_rw_tryrdlock ptr
  | My_rw_trywrlock ptr
  | My_rw_unlock ptr
  | My_rw_destroy ptr

text \<open>\<^verbatim>\<open>&(A)->mutex\<close>: the first field of \<^verbatim>\<open>my_pthread_fastmutex_t\<close>.\<close>

definition fastmutex_field :: "ptr \<Rightarrow> ptr" where
  "fastmutex_field a = a"

fun safe_mutex_call :: "string \<Rightarrow> nat \<Rightarrow> os_call \<Rightarrow> lib_call" where
  "safe_mutex_call f l (Pthread_mutex_init a b) = Plain (Safe_mutex_init a b f l)"
| "safe_mutex_call f l (Pthread_mutex_lock a) = Plain (Safe_mutex_lock a False f l)"
| "safe_mutex_call f l (Pthread_mutex_unlock a) = Plain (Safe_mutex_unlock a f l)"
| "safe_mutex_call f l (Pthread_mutex_destroy a) = Plain (Safe_mutex_destroy a f l)"
| "safe_mutex_call f l (Pthread_mutex_trylock a) = Plain (Safe_mutex_lock a True f l)"
| "safe_mutex_call f l c = Plain c"

fun fastmutex_call :: "os_call \<Rightarrow> lib_call" where
  "fastmutex_call (Pthread_mutex_init a b) = Fastmutex_init a b"
| "fastmutex_call (Pthread_mutex_lock a) = Fastmutex_lock a"
| "fastmutex_call (Pthread_mutex_unlock a) = Plain (Pthread_mutex_unlock (fastmutex_field a))"
| "fastmutex_call (Pthread_mutex_destroy a) = Plain (Pthread_mutex_destroy (fastmutex_field a))"
| "fastmutex_call (Pthread_cond_wait a b) = Plain (Pthread_cond_wait a (fastmutex_field b))"
| "fastmutex_call (Pthread_cond_timedwait a b t) = Plain (Pthread_cond_timedwait a (fastmutex_field b) t)"
| "fastmutex_call (Pthread_mutex_trylock a) = Plain (Pthread_mutex_trylock (fastmutex_field a))"
| "fastmutex_call c = Plain c"

definition mutex_call :: "lock_platform \<Rightarrow> string \<Rightarrow> nat \<Rightarrow> os_call \<Rightarrow> lib_call" where
  "mutex_call p f l c =
     (if SAFE_MUTEX_ON p then safe_mutex_call f l c
      else if MY_PTHREAD_FASTMUTEX p then fastmutex_call c
      else Plain c)"

text \<open>
  The four branches of the \<^verbatim>\<open>rw_*\<close> macros. On a platform with \<^verbatim>\<open>HAVE_RWLOCK_INIT\<close> only the
  initialisation is a macro, and the other names are functions of the system. The attribute of an
  initialisation is the NULL of its caller in \<^verbatim>\<open>mysql_thread.h\<close>.
\<close>

fun rw_as_mutex :: "os_call \<Rightarrow> os_call" where
  "rw_as_mutex (My_rwlock_init a) = Pthread_mutex_init a 0"
| "rw_as_mutex (Rw_rdlock a) = Pthread_mutex_lock a"
| "rw_as_mutex (Rw_wrlock a) = Pthread_mutex_lock a"
| "rw_as_mutex (Rw_tryrdlock a) = Pthread_mutex_trylock a"
| "rw_as_mutex (Rw_trywrlock a) = Pthread_mutex_trylock a"
| "rw_as_mutex (Rw_unlock a) = Pthread_mutex_unlock a"
| "rw_as_mutex (Rwlock_destroy a) = Pthread_mutex_destroy a"
| "rw_as_mutex c = c"

fun rw_as_pthread :: "os_call \<Rightarrow> lib_call" where
  "rw_as_pthread (My_rwlock_init a) = Pthread_rwlock_init a 0"
| "rw_as_pthread (Rw_rdlock a) = Pthread_rwlock_rdlock a"
| "rw_as_pthread (Rw_wrlock a) = Pthread_rwlock_wrlock a"
| "rw_as_pthread (Rw_tryrdlock a) = Pthread_rwlock_tryrdlock a"
| "rw_as_pthread (Rw_trywrlock a) = Pthread_rwlock_trywrlock a"
| "rw_as_pthread (Rw_unlock a) = Pthread_rwlock_unlock a"
| "rw_as_pthread (Rwlock_destroy a) = Pthread_rwlock_destroy a"
| "rw_as_pthread c = Plain c"

fun rw_as_system :: "nat \<Rightarrow> os_call \<Rightarrow> lib_call" where
  "rw_as_system usync (My_rwlock_init a) = Rwlock_init a usync"
| "rw_as_system usync c = Plain c"

fun rw_as_own :: "os_call \<Rightarrow> lib_call" where
  "rw_as_own (My_rwlock_init a) = My_rw_init a"
| "rw_as_own (Rw_rdlock a) = My_rw_rdlock a"
| "rw_as_own (Rw_wrlock a) = My_rw_wrlock a"
| "rw_as_own (Rw_tryrdlock a) = My_rw_tryrdlock a"
| "rw_as_own (Rw_trywrlock a) = My_rw_trywrlock a"
| "rw_as_own (Rw_unlock a) = My_rw_unlock a"
| "rw_as_own (Rwlock_destroy a) = My_rw_destroy a"
| "rw_as_own c = Plain c"

fun is_rw :: "os_call \<Rightarrow> bool" where
  "is_rw (My_rwlock_init a) = True"
| "is_rw (Rw_rdlock a) = True"
| "is_rw (Rw_wrlock a) = True"
| "is_rw (Rw_tryrdlock a) = True"
| "is_rw (Rw_trywrlock a) = True"
| "is_rw (Rw_unlock a) = True"
| "is_rw (Rwlock_destroy a) = True"
| "is_rw c = False"

text \<open>A call of the source at line \<open>l\<close> of file \<open>f\<close>, after all macros: the mutex macros expand in the result of the first branch.\<close>

definition lib_of :: "lock_platform \<Rightarrow> nat \<Rightarrow> string \<Rightarrow> nat \<Rightarrow> os_call \<Rightarrow> lib_call" where
  "lib_of plat usync f l c =
     (let p = without_broken plat
      in if \<not> is_rw c then mutex_call p f l c
         else if USE_MUTEX_INSTEAD_OF_RW_LOCKS p then mutex_call p f l (rw_as_mutex c)
         else if HAVE_PTHREAD_RWLOCK_RDLOCK p then rw_as_pthread c
         else if HAVE_RWLOCK_INIT p then rw_as_system usync c
         else rw_as_own c)"

section \<open>The structures of the locks and their debug checks\<close>

record rw_pr_lock =
  pr_lock :: ptr
  no_active_readers :: ptr
  active_readers :: nat
  writers_waiting_readers :: nat
  active_writer :: bool
  writer_thread :: nat

record my_rw_lock =
  rw_lock :: ptr
  rw_readers :: ptr
  rw_writers :: ptr
  rw_state :: int
  rw_waiters :: int
  write_thread :: nat

record safe_mutex =
  sm_global :: ptr
  sm_mutex :: ptr
  sm_file :: string
  sm_line :: nat
  sm_count :: nat
  sm_thread :: nat

text \<open>What each \<^verbatim>\<open>DBUG_ASSERT\<close> tests in the thread \<open>self\<close>.\<close>

definition safe_mutex_assert_owner :: "nat \<Rightarrow> safe_mutex \<Rightarrow> bool" where
  "safe_mutex_assert_owner self mp = (0 < sm_count mp \<and> self = sm_thread mp)"

definition safe_mutex_assert_not_owner :: "nat \<Rightarrow> safe_mutex \<Rightarrow> bool" where
  "safe_mutex_assert_not_owner self mp = (sm_count mp = 0 \<or> self \<noteq> sm_thread mp)"

definition rw_pr_lock_assert_write_owner :: "nat \<Rightarrow> rw_pr_lock \<Rightarrow> bool" where
  "rw_pr_lock_assert_write_owner self A = (active_writer A \<and> self = writer_thread A)"

definition rw_pr_lock_assert_not_write_owner :: "nat \<Rightarrow> rw_pr_lock \<Rightarrow> bool" where
  "rw_pr_lock_assert_not_write_owner self A = (\<not> active_writer A \<or> self \<noteq> writer_thread A)"

definition my_rw_lock_assert_write_owner :: "nat \<Rightarrow> my_rw_lock \<Rightarrow> bool" where
  "my_rw_lock_assert_write_owner self A = (rw_state A = - 1 \<and> self = write_thread A)"

definition my_rw_lock_assert_not_write_owner :: "nat \<Rightarrow> my_rw_lock \<Rightarrow> bool" where
  "my_rw_lock_assert_not_write_owner self A = (0 \<le> rw_state A \<or> self \<noteq> write_thread A)"

lemmas owner_checks = safe_mutex_assert_owner_def safe_mutex_assert_not_owner_def
  rw_pr_lock_assert_write_owner_def rw_pr_lock_assert_not_write_owner_def
  my_rw_lock_assert_write_owner_def my_rw_lock_assert_not_write_owner_def

text \<open>The two checks of a kind are complementary; for the own locks as long as the state is one that its comment allows.\<close>

lemma owner_checks_opposite:
  "safe_mutex_assert_not_owner self mp \<longleftrightarrow> \<not> safe_mutex_assert_owner self mp"
  "rw_pr_lock_assert_not_write_owner self pr \<longleftrightarrow> \<not> rw_pr_lock_assert_write_owner self pr"
  "- 1 \<le> rw_state A \<Longrightarrow> my_rw_lock_assert_not_write_owner self A \<longleftrightarrow> \<not> my_rw_lock_assert_write_owner self A"
  by (auto simp: owner_checks)

section \<open>What a read write lock promises\<close>

datatype rw_state = Free | Reading "nat multiset" | Writing nat

fun readers :: "rw_state \<Rightarrow> nat multiset" where
  "readers (Reading R) = R"
| "readers _ = {#}"

text \<open>The states of the own locks: -1 for a writer, 0 for none, else the number of readers.\<close>

fun state_number :: "rw_state \<Rightarrow> int" where
  "state_number Free = 0"
| "state_number (Reading R) = int (size R)"
| "state_number (Writing t) = - 1"

definition holders :: "rw_state \<Rightarrow> nat multiset" where
  "holders s = (case s of Free \<Rightarrow> {#} | Reading R \<Rightarrow> R | Writing t \<Rightarrow> {#t#})"

text \<open>
  A call of thread \<open>t\<close> that returns \<open>r\<close>: a reader enters unless there is a writer, a writer only
  when there is nobody; a call that fails finds the lock held and changes nothing.
\<close>

inductive rw_step :: "nat \<Rightarrow> os_call \<Rightarrow> rw_state \<Rightarrow> int \<Rightarrow> rw_state \<Rightarrow> bool" where
  Read: "c \<in> {Rw_rdlock a, Rw_tryrdlock a} \<Longrightarrow> \<forall>w. s \<noteq> Writing w \<Longrightarrow>
    rw_step t c s 0 (Reading (add_mset t (readers s)))"
| Write: "c \<in> {Rw_wrlock a, Rw_trywrlock a} \<Longrightarrow> rw_step t c Free 0 (Writing t)"
| Busy: "c \<in> {Rw_rdlock a, Rw_wrlock a, Rw_tryrdlock a, Rw_trywrlock a} \<Longrightarrow> s \<noteq> Free \<Longrightarrow> r \<noteq> 0 \<Longrightarrow>
    rw_step t c s r s"
| Leave: "t \<in># R \<Longrightarrow> rw_step t (Rw_unlock a) (Reading R) 0
    (if R = {#t#} then Free else Reading (R - {#t#}))"
| Unwrite: "rw_step t (Rw_unlock a) (Writing t) 0 Free"

inductive_cases rw_stepE: "rw_step t c s r s'"

text \<open>A history: which thread called what, with which result.\<close>

inductive history :: "(nat \<Rightarrow> os_call \<Rightarrow> 's \<Rightarrow> int \<Rightarrow> 's \<Rightarrow> bool) \<Rightarrow> 's \<Rightarrow> (nat \<times> os_call \<times> int) list \<Rightarrow> 's \<Rightarrow> bool"
  for step :: "nat \<Rightarrow> os_call \<Rightarrow> 's \<Rightarrow> int \<Rightarrow> 's \<Rightarrow> bool" where
  Start: "history step s [] s"
| Call: "step t c s r s' \<Longrightarrow> history step s' h s'' \<Longrightarrow> history step s ((t, c, r) # h) s''"

inductive_simps history_simps [simp]:
  "history step s [] s'"
  "history step s ((t, c, r) # h) s'"

text \<open>Who holds the lock after a call, read off the results alone.\<close>

fun held_after :: "nat \<times> os_call \<times> int \<Rightarrow> nat multiset \<Rightarrow> nat multiset" where
  "held_after (t, Rw_unlock a, r) H = H - {#t#}"
| "held_after (t, c, r) H = (if r = 0 then add_mset t H else H)"

text \<open>What the callers owe: only the calls that take and leave the lock at \<open>a\<close>, and a thread leaves only what it holds.\<close>

definition lock_calls :: "ptr \<Rightarrow> os_call set" where
  "lock_calls a = {Rw_rdlock a, Rw_wrlock a, Rw_tryrdlock a, Rw_trywrlock a, Rw_unlock a}"

fun lawful :: "ptr \<Rightarrow> nat multiset \<Rightarrow> (nat \<times> os_call \<times> int) list \<Rightarrow> bool" where
  "lawful a H [] = True"
| "lawful a H (e # h) =
     (fst (snd e) \<in> lock_calls a \<and> (fst (snd e) = Rw_unlock a \<longrightarrow> fst e \<in># H) \<and> lawful a (held_after e H) h)"

lemma lock_callsE:
  assumes "c \<in> lock_calls a"
  obtains "c \<in> {Rw_rdlock a, Rw_tryrdlock a}" | "c \<in> {Rw_wrlock a, Rw_trywrlock a}" | "c = Rw_unlock a"
  using assms by (auto simp: lock_calls_def)

text \<open>A read write lock knows its holders, has no empty set of readers, and a writer is alone.\<close>

definition rw_ok :: "rw_state \<Rightarrow> bool" where
  "rw_ok s \<longleftrightarrow> s \<noteq> Reading {#}"

lemma rw_step_holders:
  assumes "rw_step t c s r s'" and "rw_ok s"
  shows "rw_ok s' \<and> holders s' = held_after (t, c, r) (holders s)"
  using assms
  by (cases s) (auto elim!: rw_stepE simp: rw_ok_def holders_def split: if_splits dest: multi_member_split)

lemma rw_history_holders:
  "history rw_step s h s' \<Longrightarrow> rw_ok s \<Longrightarrow> rw_ok s' \<and> holders s' = fold held_after h (holders s)"
proof (induction rule: history.induct)
  case (Call t c s r s' h s'')
  with rw_step_holders [OF Call.hyps(1)] show ?case by simp
qed simp

section \<open>Mutexes\<close>

text \<open>
  The contract of a mutex, plain, safe or fast: a lock that succeeds found it free and is its owner,
  one that fails (\<^verbatim>\<open>EBUSY\<close>, \<^verbatim>\<open>EDEADLK\<close>) found it owned, and the owner can leave.
\<close>

locale mutexes =
  fixes mstep :: "lib_call \<Rightarrow> nat \<Rightarrow> 'm \<Rightarrow> int \<Rightarrow> 'm \<Rightarrow> bool" and owner :: "'m \<Rightarrow> nat option"
  assumes lock: "c \<in> {Plain (Pthread_mutex_lock a), Plain (Pthread_mutex_trylock a),
        Plain (Safe_mutex_lock a try f l), Fastmutex_lock a} \<Longrightarrow> mstep c t m r m' \<Longrightarrow>
      (if r = 0 then owner m = None \<and> owner m' = Some t else owner m \<noteq> None \<and> owner m' = owner m)"
    and unlock: "c \<in> {Plain (Pthread_mutex_unlock a), Plain (Safe_mutex_unlock a f l)} \<Longrightarrow>
      owner m = Some t \<Longrightarrow> mstep c t m r m' \<Longrightarrow> r = 0 \<and> owner m' = None"
begin

lemma mutex_lock:
  "c \<in> {Pthread_mutex_lock a, Pthread_mutex_trylock a} \<Longrightarrow> mstep (mutex_call p f l c) t m r m' \<Longrightarrow>
     (if r = 0 then owner m = None \<and> owner m' = Some t else owner m \<noteq> None \<and> owner m' = owner m)"
  by (rule lock [of "mutex_call p f l c" a "c = Pthread_mutex_trylock a" f l])
    (auto simp: mutex_call_def fastmutex_field_def)

lemma mutex_unlock:
  "mstep (mutex_call p f l (Pthread_mutex_unlock a)) t m r m' \<Longrightarrow> owner m = Some t \<Longrightarrow> r = 0 \<and> owner m' = None"
  by (rule unlock [of "mutex_call p f l (Pthread_mutex_unlock a)" a f l])
    (auto simp: mutex_call_def fastmutex_field_def)

end

text \<open>The owner of the mutex reads or writes, and nobody else does.\<close>

definition stands_for :: "nat option \<Rightarrow> rw_state \<Rightarrow> bool" where
  "stands_for o' s \<longleftrightarrow> (case o' of None \<Rightarrow> s = Free | Some t \<Rightarrow> s = Reading {#t#} \<or> s = Writing t)"

lemma lib_of_mutex:
  "USE_MUTEX_INSTEAD_OF_RW_LOCKS p \<Longrightarrow> is_rw c \<Longrightarrow>
     lib_of p usync f l c = mutex_call (without_broken p) f l (rw_as_mutex c)"
  by (simp add: lib_of_def without_broken_def Let_def)

context mutexes
begin

lemma acquire_step:
  assumes "USE_MUTEX_INSTEAD_OF_RW_LOCKS p" and "c \<in> lock_calls a" and "c \<noteq> Rw_unlock a"
    and "mstep (lib_of p usync f l c) t m r m'"
  shows "if r = 0 then owner m = None \<and> owner m' = Some t else owner m \<noteq> None \<and> owner m' = owner m"
proof -
  have "rw_as_mutex c \<in> {Pthread_mutex_lock a, Pthread_mutex_trylock a}" "is_rw c"
    using assms(2,3) by (auto simp: lock_calls_def)
  from mutex_lock [OF this(1)] assms(1,4) this(2) show ?thesis by (simp add: lib_of_mutex)
qed

lemma step_refines:
  assumes "USE_MUTEX_INSTEAD_OF_RW_LOCKS p" and c: "c \<in> lock_calls a"
    and "c = Rw_unlock a \<longrightarrow> t \<in># holders s" and s: "stands_for (owner m) s"
    and m: "mstep (lib_of p usync f l c) t m r m'"
  shows "\<exists>s'. rw_step t c s r s' \<and> stands_for (owner m') s'"
proof (cases "c = Rw_unlock a")
  case True
  with assms(3) s have t: "owner m = Some t"
    by (auto simp: stands_for_def holders_def split: option.splits)
  with True assms(1) m have "r = 0" "owner m' = None"
    using mutex_unlock [of "without_broken p" f l a] by (auto simp: lib_of_mutex)
  with True t s rw_step.Leave [of t "{#t#}" a] rw_step.Unwrite [of t a] show ?thesis
    by (auto simp: stands_for_def)
next
  case False
  note step = acquire_step [OF assms(1) c False m]
  show ?thesis
  proof (cases "r = 0")
    case True
    with step s have "s = Free" "owner m' = Some t" by (auto simp: stands_for_def)
    then show ?thesis
      using c False True rw_step.Read [of c a Free t] rw_step.Write [of c a t]
      by (elim lock_callsE) (auto simp: stands_for_def)
  next
    case False
    with step s have "s \<noteq> Free" "stands_for (owner m') s" by (auto simp: stands_for_def)
    with rw_step.Busy [of c a s r t] c False \<open>c \<noteq> Rw_unlock a\<close> show ?thesis
      by (auto simp: lock_calls_def)
  qed
qed

lemma history_refines:
  assumes "USE_MUTEX_INSTEAD_OF_RW_LOCKS p" and "history (\<lambda>t c. mstep (lib_of p usync f l c) t) m h m'"
    and "lawful a (holders s) h" and "stands_for (owner m) s"
  shows "\<exists>s'. history rw_step s h s' \<and> stands_for (owner m') s'"
  using assms(2-)
proof (induction arbitrary: s rule: history.induct)
  case (Call t c m r m1 h m')
  then obtain s1 where s1: "rw_step t c s r s1" "stands_for (owner m1) s1"
    using step_refines [OF assms(1), of c a t s m usync f l r m1] by auto
  have "rw_ok s" using Call.prems(2) by (auto simp: stands_for_def rw_ok_def split: option.splits)
  with Call.prems(1) rw_step_holders [OF s1(1)] have "lawful a (holders s1) h" by simp
  from Call.IH [OF this s1(2)] s1(1) show ?case by auto
qed auto

end

section \<open>A mutex\<close>

text \<open>Its owner; a lock of an owned mutex blocks, or fails when it is a try.\<close>

fun mutex_step :: "lib_call \<Rightarrow> nat \<Rightarrow> nat option \<Rightarrow> int \<Rightarrow> nat option \<Rightarrow> bool" where
  "mutex_step (Plain (Pthread_mutex_lock a)) t m r m' = (m = None \<and> r = 0 \<and> m' = Some t)"
| "mutex_step (Fastmutex_lock a) t m r m' = (m = None \<and> r = 0 \<and> m' = Some t)"
| "mutex_step (Plain (Pthread_mutex_trylock a)) t m r m' =
     (if m = None then r = 0 \<and> m' = Some t else r = 16 \<and> m' = m)"
| "mutex_step (Plain (Safe_mutex_lock a try f l)) t m r m' =
     (if m = None then r = 0 \<and> m' = Some t else try \<and> r = 16 \<and> m' = m)"
| "mutex_step (Plain (Pthread_mutex_unlock a)) t m r m' = (m = Some t \<and> r = 0 \<and> m' = None)"
| "mutex_step (Plain (Safe_mutex_unlock a f l)) t m r m' = (m = Some t \<and> r = 0 \<and> m' = None)"
| "mutex_step c t m r m' = False"

interpretation owned: mutexes mutex_step "\<lambda>m. m"
  by unfold_locales (auto split: if_splits)

section \<open>The properties\<close>

text \<open>
  C13: on a platform that uses mutexes in place of read write locks, with the plain, safe or fast
  mutexes, every history of lawful calls on a lock is a history of a read write lock, so that a writer
  excludes everybody, but never more than one thread holds the lock: readers exclude each other,
  where a read write lock admits any number of them.
\<close>

theorem mutex_substitute_refines:
  assumes "mutexes mstep owner" and "USE_MUTEX_INSTEAD_OF_RW_LOCKS p" and "owner m = None"
    and "lawful a {#} h" and "history (\<lambda>t c. mstep (lib_of p usync f l c) t) m h m'"
  shows "(\<exists>s. history rw_step Free h s \<and> stands_for (owner m') s \<and> holders s = fold held_after h {#}) \<and>
    size (fold held_after h {#}) \<le> 1 \<and>
    history rw_step Free [(1, Rw_rdlock a, 0), (2, Rw_rdlock a, 0)] (Reading {#2, 1#})"
proof -
  have "holders Free = {#}" "rw_ok Free" by (simp_all add: holders_def rw_ok_def)
  then obtain s where s: "history rw_step Free h s" "stands_for (owner m') s" "holders s = fold held_after h {#}"
    using mutexes.history_refines [OF assms(1,2,5), of a Free] assms(3,4) rw_history_holders [of Free h]
    by (auto simp: stands_for_def)
  then have "size (fold held_after h {#}) \<le> 1"
    by (auto simp: stands_for_def holders_def split: option.splits simp flip: s(3))
  moreover have "history rw_step Free [(1, Rw_rdlock a, 0), (2, Rw_rdlock a, 0)] (Reading {#2, 1#})"
    using rw_step.Read [of "Rw_rdlock a" a Free 1] rw_step.Read [of "Rw_rdlock a" a "Reading {#1#}" 2] by auto
  ultimately show ?thesis using s by blast
qed

definition mutex_platform :: lock_platform where
  "mutex_platform = shipped\<lparr>USE_MUTEX_INSTEAD_OF_RW_LOCKS := True\<rparr>"

theorem mutex_substitute_refines_witness:
  "\<exists>s. history rw_step Free [(1, Rw_rdlock 64, 0), (2, Rw_tryrdlock 64, 16), (1, Rw_unlock 64, 0), (2, Rw_wrlock 64, 0)] s \<and>
     stands_for (Some 2) s"
proof -
  let ?h = "[(1, Rw_rdlock 64, 0), (2, Rw_tryrdlock 64, 16), (1, Rw_unlock 64, 0), (2, Rw_wrlock 64, 0)]"
  have "history (\<lambda>t c. mutex_step (lib_of mutex_platform 0 ''f.c'' 1 c) t) None ?h (Some 2)"
    by (simp add: lib_of_mutex mutex_platform_def mutex_call_def without_broken_def shipped_def)
  then show ?thesis
    using mutex_substitute_refines [OF owned.mutexes_axioms, of mutex_platform None 64 ?h 0 "''f.c''" 1 "Some 2"]
    by (simp add: mutex_platform_def lock_calls_def) blast
qed

text \<open>The platform of the repository has read write locks of its own, and plain mutexes.\<close>

lemma shipped_locks: "lib_of shipped usync f l c = rw_as_pthread c"
  by (cases c) (simp_all add: lib_of_def shipped_def without_broken_def mutex_call_def Let_def)

end
