(* ===== verification/IoCache.thy ===== *)
theory IoCache
  imports Prelude "HOL-Library.Word"
begin

text \<open>
  The buffered files of \<^verbatim>\<open>client/mysql_include/my_sys.h\<close>: the macros \<^verbatim>\<open>my_b_read\<close>, \<^verbatim>\<open>my_b_get\<close>,
  \<^verbatim>\<open>my_b_write\<close>, \<^verbatim>\<open>my_b_write_byte\<close> and their companions, which serve a request from the buffer of an
  \<^verbatim>\<open>IO_CACHE\<close> and call a function of the cache when the buffer does not have it. These functions
  have no body in the repository; what the comments of the struct ask of them is stated by the
  locales \<open>io_reader\<close> and \<open>io_writer\<close>. A pointer into a buffer is its offset.
\<close>

section \<open>The cache\<close>

datatype cache_type =
    TYPE_NOT_SET
  | READ_CACHE
  | WRITE_CACHE
  | SEQ_READ_APPEND
  | READ_FIFO
  | READ_NET
  | WRITE_NET

text \<open>The fields the macros use; an empty \<open>buffer\<close> is a null pointer.\<close>

record io_cache =
  pos_in_file :: nat
  read_pos :: nat
  read_end :: nat
  buffer :: "8 word list"
  request_pos :: nat
  write_buffer :: "8 word list"
  write_pos :: nat
  write_end :: nat
  cache_kind :: cache_type

text \<open>\<open>current_pos\<close> and \<open>current_end\<close> point to the write positions in a \<open>WRITE_CACHE\<close>.\<close>

definition current_pos :: "io_cache \<Rightarrow> nat" where
  "current_pos c = (if cache_kind c = WRITE_CACHE then write_pos c else read_pos c)"

definition current_end :: "io_cache \<Rightarrow> nat" where
  "current_end c = (if cache_kind c = WRITE_CACHE then write_end c else read_end c)"

definition my_b_EOF :: int where
  "my_b_EOF = - (2 ^ 31)"

definition my_b_clear :: "io_cache \<Rightarrow> io_cache" where
  "my_b_clear c = c\<lparr>buffer := []\<rparr>"

definition my_b_inited :: "io_cache \<Rightarrow> bool" where
  "my_b_inited c \<longleftrightarrow> buffer c \<noteq> []"

text \<open>Both are unsigned differences of pointers.\<close>

definition my_b_tell :: "io_cache \<Rightarrow> int" where
  "my_b_tell c = (int (pos_in_file c) + (int (current_pos c) - int (request_pos c))) mod 2 ^ 64"

definition my_b_bytes_in_cache :: "io_cache \<Rightarrow> int" where
  "my_b_bytes_in_cache c = (int (current_end c) - int (current_pos c)) mod 2 ^ 64"

section \<open>Reading\<close>

text \<open>
  A function that reads gives its return code, the bytes it put into the caller's buffer, and the
  cache. An access outside the buffer is a fault.
\<close>

type_synonym read_fun = "io_cache \<Rightarrow> nat \<Rightarrow> int \<times> 8 word list \<times> io_cache"

definition my_b_read :: "read_fun \<Rightarrow> io_cache \<Rightarrow> nat \<Rightarrow> (int \<times> 8 word list \<times> io_cache) res" where
  "my_b_read read_function c count =
     (if read_pos c + count \<le> read_end c
      then if read_pos c + count \<le> length (buffer c)
           then Inr (0, take count (drop (read_pos c) (buffer c)), c\<lparr>read_pos := read_pos c + count\<rparr>)
           else Inl OutOfBounds
      else Inr (read_function c count))"

definition my_b_get :: "(io_cache \<Rightarrow> int \<times> io_cache) \<Rightarrow> io_cache \<Rightarrow> (int \<times> io_cache) res" where
  "my_b_get get_function c =
     (if read_pos c \<noteq> read_end c
      then if read_pos c < length (buffer c)
           then Inr (uint (buffer c ! read_pos c), c\<lparr>read_pos := Suc (read_pos c)\<rparr>)
           else Inl OutOfBounds
      else Inr (get_function c))"

definition my_b_fill_cache :: "read_fun \<Rightarrow> io_cache \<Rightarrow> int \<times> 8 word list \<times> io_cache" where
  "my_b_fill_cache read_function c = read_function (c\<lparr>read_end := read_pos c\<rparr>) 0"

section \<open>Writing\<close>

text \<open>\<open>'w\<close> is the state of the file; a function that writes gives its return code.\<close>

type_synonym 'w write_fun = "io_cache \<Rightarrow> 8 word list \<Rightarrow> 'w \<Rightarrow> int \<times> io_cache \<times> 'w"

definition put_bytes :: "8 word list \<Rightarrow> io_cache \<Rightarrow> io_cache res" where
  "put_bytes bs c =
     (if write_pos c + length bs \<le> length (write_buffer c)
      then Inr (c\<lparr>write_buffer := take (write_pos c) (write_buffer c) @ bs @ drop (write_pos c + length bs) (write_buffer c),
                  write_pos := write_pos c + length bs\<rparr>)
      else Inl OutOfBounds)"

definition my_b_write ::
  "'w write_fun \<Rightarrow> io_cache \<Rightarrow> 8 word list \<Rightarrow> 'w \<Rightarrow> (int \<times> io_cache \<times> 'w) res" where
  "my_b_write write_function c bs w =
     (if write_pos c + length bs \<le> write_end c
      then bind_res (put_bytes bs c) (\<lambda>c. Inr (0, c, w))
      else Inr (write_function c bs w))"

text \<open>
  The return code of the flush is dropped, and the byte is stored wherever \<open>write_pos\<close> is
  afterwards: past the buffer when the flush has not made room.
\<close>

definition my_b_write_byte :: "'w write_fun \<Rightarrow> io_cache \<Rightarrow> 8 word \<Rightarrow> 'w \<Rightarrow> (io_cache \<times> 'w) res" where
  "my_b_write_byte write_function c chr w =
     (let (c, w) = (if write_pos c < write_end c then (c, w) else snd (write_function c [] w))
      in bind_res (put_bytes [chr] c) (\<lambda>c. Inr (c, w)))"

section \<open>The contract of a reader\<close>

text \<open>A cache in order: its buffer holds a part of the file, and the next byte is \<open>here c\<close>.\<close>

definition here :: "io_cache \<Rightarrow> nat" where
  "here c = pos_in_file c + read_pos c"

definition reads :: "8 word list \<Rightarrow> io_cache \<Rightarrow> bool" where
  "reads content c \<longleftrightarrow>
     cache_kind c = READ_CACHE \<and> request_pos c = 0 \<and> length content < 2 ^ 64 \<and>
     read_pos c \<le> read_end c \<and> read_end c \<le> length (buffer c) \<and> pos_in_file c + read_end c \<le> length content \<and>
     take (read_end c) (buffer c) = take (read_end c) (drop (pos_in_file c) content)"

lemma reads_tell: "reads content c \<Longrightarrow> my_b_tell c = int (here c)"
  by (simp add: reads_def my_b_tell_def current_pos_def here_def)

lemma reads_buffer:
  assumes "reads content c" and "read_pos c + n \<le> read_end c"
  shows "take n (drop (read_pos c) (buffer c)) = take n (drop (here c) content)"
proof -
  have "take n (drop (read_pos c) (take (read_end c) (buffer c))) =
      take n (drop (read_pos c) (take (read_end c) (drop (pos_in_file c) content)))"
    using assms(1) by (simp add: reads_def)
  then show ?thesis using assms(2) by (simp add: drop_take here_def add.commute)
qed

datatype read_op = Read nat | Get

fun wanted :: "read_op \<Rightarrow> nat" where
  "wanted (Read n) = n"
| "wanted Get = 1"

abbreviation asked :: "read_op list \<Rightarrow> nat" where
  "asked ops \<equiv> sum_list (map wanted ops)"

text \<open>None is a request that failed: a return code other than 0, or the end of the file.\<close>

fun read_one ::
  "read_fun \<Rightarrow> (io_cache \<Rightarrow> int \<times> io_cache) \<Rightarrow> read_op \<Rightarrow> io_cache \<Rightarrow> (8 word list \<times> io_cache) option res" where
  "read_one rf gf (Read n) c =
     bind_res (my_b_read rf c n) (\<lambda>(rc, bs, c). Inr (if rc = 0 then Some (bs, c) else None))"
| "read_one rf gf Get c =
     bind_res (my_b_get gf c) (\<lambda>(x, c). Inr (if x = my_b_EOF then None else Some ([word_of_int x], c)))"

fun run_reads ::
  "read_fun \<Rightarrow> (io_cache \<Rightarrow> int \<times> io_cache) \<Rightarrow> read_op list \<Rightarrow> io_cache \<Rightarrow> (8 word list \<times> io_cache) option res" where
  "run_reads rf gf [] c = Inr (Some ([], c))"
| "run_reads rf gf (op # ops) c =
     bind_res (read_one rf gf op c) (\<lambda>r.
       case r of
         None \<Rightarrow> Inr None
       | Some (bs, c) \<Rightarrow>
           bind_res (run_reads rf gf ops c) (\<lambda>r. Inr (map_option (\<lambda>(bs', c). (bs @ bs', c)) r)))"

locale io_reader =
  fixes content :: "8 word list" and read_function :: read_fun and get_function :: "io_cache \<Rightarrow> int \<times> io_cache"
  assumes read_more: "reads content c \<Longrightarrow> read_end c < read_pos c + n \<Longrightarrow> here c + n \<le> length content \<Longrightarrow>
      \<exists>c'. read_function c n = (0, take n (drop (here c) content), c') \<and> reads content c' \<and> here c' = here c + n"
    and read_short: "reads content c \<Longrightarrow> length content < here c + n \<Longrightarrow> fst (read_function c n) \<noteq> 0"
    and get_more: "reads content c \<Longrightarrow> read_pos c = read_end c \<Longrightarrow> here c < length content \<Longrightarrow>
      \<exists>c'. get_function c = (uint (content ! here c), c') \<and> reads content c' \<and> here c' = Suc (here c)"
    and get_short: "reads content c \<Longrightarrow> here c = length content \<Longrightarrow> fst (get_function c) = my_b_EOF"
begin

lemma my_b_read_more:
  assumes "reads content c" and "here c + n \<le> length content"
  shows "\<exists>c'. my_b_read read_function c n = Inr (0, take n (drop (here c) content), c') \<and>
    reads content c' \<and> here c' = here c + n"
proof (cases "read_pos c + n \<le> read_end c")
  case True
  then have "reads content (c\<lparr>read_pos := read_pos c + n\<rparr>)" "read_pos c + n \<le> length (buffer c)"
    using assms(1) by (auto simp: reads_def)
  with True reads_buffer [OF assms(1) True] show ?thesis by (simp add: my_b_read_def here_def)
next
  case False
  with read_more [OF assms(1) _ assms(2)] show ?thesis by (auto simp: my_b_read_def)
qed

lemma my_b_read_short:
  assumes "reads content c" and "length content < here c + n"
  shows "\<exists>rc bs c'. my_b_read read_function c n = Inr (rc, bs, c') \<and> rc \<noteq> 0"
proof -
  have "read_end c < read_pos c + n" using assms by (auto simp: reads_def here_def)
  with read_short [OF assms] show ?thesis by (cases "read_function c n") (auto simp: my_b_read_def)
qed

lemma my_b_get_more:
  assumes "reads content c" and "here c < length content"
  shows "\<exists>c'. my_b_get get_function c = Inr (uint (content ! here c), c') \<and> reads content c' \<and> here c' = Suc (here c)"
proof (cases "read_pos c = read_end c")
  case True
  with get_more [OF assms(1) _ assms(2)] show ?thesis by (auto simp: my_b_get_def)
next
  case False
  then have "read_pos c + 1 \<le> read_end c" "read_pos c < length (buffer c)" using assms(1) by (auto simp: reads_def)
  moreover from this(1) have "take 1 (drop (read_pos c) (buffer c)) = take 1 (drop (here c) content)"
    by (rule reads_buffer [OF assms(1)])
  ultimately have "buffer c ! read_pos c = content ! here c"
    using assms(2) by (simp add: take_Suc_conv_app_nth)
  moreover have "reads content (c\<lparr>read_pos := Suc (read_pos c)\<rparr>)"
    using assms(1) False by (auto simp: reads_def)
  ultimately show ?thesis
    using False \<open>read_pos c < length (buffer c)\<close> by (simp add: my_b_get_def here_def)
qed

lemma my_b_get_short:
  assumes "reads content c" and "here c = length content"
  shows "\<exists>c'. my_b_get get_function c = Inr (my_b_EOF, c')"
proof -
  have "read_pos c = read_end c" using assms by (auto simp: reads_def here_def)
  with get_short [OF assms] show ?thesis by (cases "get_function c") (simp add: my_b_get_def)
qed

lemma read_one_more:
  assumes "reads content c" and "here c + wanted op \<le> length content"
  shows "\<exists>c'. read_one read_function get_function op c =
      Inr (Some (take (wanted op) (drop (here c) content), c')) \<and>
    reads content c' \<and> here c' = here c + wanted op"
proof (cases op)
  case (Read n)
  then show ?thesis using my_b_read_more [OF assms(1), of n] assms(2) by auto
next
  case Get
  obtain c' where "my_b_get get_function c = Inr (uint (content ! here c), c')" "reads content c'"
    "here c' = Suc (here c)"
    using my_b_get_more [OF assms(1)] assms(2) Get by auto
  moreover have "uint (content ! here c) \<noteq> my_b_EOF"
  proof -
    have "my_b_EOF < 0" "0 \<le> uint (content ! here c)" by (simp_all add: my_b_EOF_def)
    then show ?thesis by linarith
  qed
  moreover have "take 1 (drop (here c) content) = [content ! here c]"
    using assms(2) Get by (simp add: take_Suc hd_drop_conv_nth)
  ultimately show ?thesis using Get by simp
qed

lemma read_one_short:
  assumes "reads content c" and "length content < here c + wanted op"
  shows "read_one read_function get_function op c = Inr None"
proof (cases op)
  case (Read n)
  then show ?thesis using my_b_read_short [OF assms(1), of n] assms(2) by auto
next
  case Get
  then have "here c = length content" using assms by (simp add: reads_def here_def)
  with Get my_b_get_short [OF assms(1)] show ?thesis by auto
qed

text \<open>Any mixture of reads and gets, which stops at the first that fails.\<close>

lemma run_reads_content:
  assumes "reads content c"
  shows "\<exists>r. run_reads read_function get_function ops c = Inr r \<and>
    (if here c + asked ops \<le> length content
     then \<exists>c'. r = Some (take (asked ops) (drop (here c) content), c') \<and>
                reads content c' \<and> here c' = here c + asked ops
     else r = None)"
  using assms
proof (induction ops arbitrary: c)
  case (Cons op ops)
  have part: "take n (drop k content) @ take m (drop (k + n) content) = take (n + m) (drop k content)"
    for n m k by (simp only: take_add drop_drop add.commute [of k n])
  show ?case
  proof (cases "here c + wanted op \<le> length content")
    case True
    with read_one_more [OF Cons.prems] obtain c' where c': "read_one read_function get_function op c =
        Inr (Some (take (wanted op) (drop (here c) content), c'))" "reads content c'" "here c' = here c + wanted op"
      by blast
    obtain r where r: "run_reads read_function get_function ops c' = Inr r"
      "if here c' + asked ops \<le> length content
       then \<exists>c''. r = Some (take (asked ops) (drop (here c') content), c'') \<and>
                  reads content c'' \<and> here c'' = here c' + asked ops
       else r = None"
      using Cons.IH [OF c'(2)] by blast
    with c' part [of "wanted op" "here c" "asked ops"] show ?thesis
      by (cases "here c' + asked ops \<le> length content") (auto simp: add.assoc)
  next
    case False
    with read_one_short [OF Cons.prems, of op] show ?thesis by simp
  qed
qed (simp add: reads_def here_def)

end

section \<open>A reader\<close>

text \<open>It reads past the buffer and then fills the buffer with what follows.\<close>

definition ref_read :: "8 word list \<Rightarrow> read_fun" where
  "ref_read content c n =
     (if here c + n \<le> length content
      then let chunk = take (length (buffer c)) (drop (here c + n) content)
           in (0, take n (drop (here c) content),
               c\<lparr>pos_in_file := here c + n, read_pos := 0, read_end := length chunk,
                 buffer := chunk @ drop (length chunk) (buffer c)\<rparr>)
      else (1, [], c))"

definition ref_get :: "8 word list \<Rightarrow> io_cache \<Rightarrow> int \<times> io_cache" where
  "ref_get content c =
     (case ref_read content c 1 of (rc, bs, c) \<Rightarrow> if rc = 0 then (uint (hd bs), c) else (my_b_EOF, c))"

lemma ref_read_more:
  assumes "reads content c" and "here c + n \<le> length content"
  shows "\<exists>c'. ref_read content c n = (0, take n (drop (here c) content), c') \<and>
    reads content c' \<and> here c' = here c + n"
  using assms by (auto simp: ref_read_def reads_def here_def Let_def)

interpretation ref_reader: io_reader content "ref_read content" "ref_get content" for content
proof
  fix c n
  assume r: "reads content c"
  show "here c + n \<le> length content \<Longrightarrow> \<exists>c'. ref_read content c n = (0, take n (drop (here c) content), c') \<and>
      reads content c' \<and> here c' = here c + n"
    by (rule ref_read_more [OF r])
  show "length content < here c + n \<Longrightarrow> fst (ref_read content c n) \<noteq> 0"
    by (simp add: ref_read_def)
  show "here c = length content \<Longrightarrow> fst (ref_get content c) = my_b_EOF"
    by (simp add: ref_get_def ref_read_def)
  assume "here c < length content"
  with ref_read_more [OF r, of 1]
  show "\<exists>c'. ref_get content c = (uint (content ! here c), c') \<and> reads content c' \<and> here c' = Suc (here c)"
    by (auto simp: ref_get_def hd_drop_conv_nth take_Suc)
qed

text \<open>
  C15: reading through the cache is reading the file: any mixture of \<^verbatim>\<open>my_b_read\<close> and \<^verbatim>\<open>my_b_get\<close>,
  of any sizes, whether the buffer has the bytes or not, delivers the next bytes of the file in
  order and moves \<^verbatim>\<open>my_b_tell\<close> by their number; it fails exactly when it asks for more than the
  file has, and never accesses a byte outside the buffer.
\<close>

theorem cache_reads_file:
  assumes "io_reader content rf gf" and "reads content c"
  shows "\<exists>r. run_reads rf gf ops c = Inr r \<and>
    (if my_b_tell c + int (asked ops) \<le> int (length content)
     then \<exists>c'. r = Some (take (asked ops) (drop (nat (my_b_tell c)) content), c') \<and>
                my_b_tell c' = my_b_tell c + int (asked ops)
     else r = None)"
proof (cases "here c + asked ops \<le> length content")
  case True
  then show ?thesis
    using io_reader.run_reads_content [OF assms, of ops] reads_tell [OF assms(2)] reads_tell by fastforce
next
  case False
  then show ?thesis
    using io_reader.run_reads_content [OF assms, of ops] reads_tell [OF assms(2)] by simp
qed

text \<open>A buffer of two bytes that already holds the first two of five.\<close>

theorem cache_reads_file_witness:
  "\<exists>c'. run_reads (ref_read [1, 2, 3, 4, 5]) (ref_get [1, 2, 3, 4, 5]) [Get, Read 3]
     \<lparr>pos_in_file = 0, read_pos = 0, read_end = 2, buffer = [1, 2], request_pos = 0, write_buffer = [],
      write_pos = 0, write_end = 0, cache_kind = READ_CACHE\<rparr> = Inr (Some ([1, 2, 3, 4], c'))"
proof -
  let ?f = "[1, 2, 3, 4, 5] :: 8 word list"
  let ?c = "\<lparr>pos_in_file = 0, read_pos = 0, read_end = 2, buffer = [1, 2], request_pos = 0, write_buffer = [],
      write_pos = 0, write_end = 0, cache_kind = READ_CACHE\<rparr>"
  have "reads ?f ?c" by (simp add: reads_def)
  from cache_reads_file [OF ref_reader.io_reader_axioms this, of "[Get, Read 3]"] show ?thesis
    by (auto simp: my_b_tell_def current_pos_def)
qed

section \<open>The contract of a writer\<close>

definition writes :: "io_cache \<Rightarrow> bool" where
  "writes c \<longleftrightarrow> cache_kind c = WRITE_CACHE \<and> write_pos c \<le> write_end c \<and>
     0 < write_end c \<and> write_end c \<le> length (write_buffer c)"

text \<open>What the file will hold: the bytes that reached it, then those in the buffer.\<close>

definition written :: "('w \<Rightarrow> 8 word list) \<Rightarrow> io_cache \<Rightarrow> 'w \<Rightarrow> 8 word list" where
  "written disk c w = disk w @ take (write_pos c) (write_buffer c)"

lemma put_bytes_writes:
  assumes "writes c" and "write_pos c + length bs \<le> write_end c"
  shows "\<exists>c'. put_bytes bs c = Inr c' \<and> writes c' \<and> written disk c' w = written disk c w @ bs"
  using assms by (auto simp: put_bytes_def writes_def written_def)

datatype write_op = Write "8 word list" | Byte "8 word"

fun offered :: "write_op \<Rightarrow> 8 word list" where
  "offered (Write bs) = bs"
| "offered (Byte b) = [b]"

abbreviation given :: "write_op list \<Rightarrow> 8 word list" where
  "given ops \<equiv> concat (map offered ops)"

text \<open>
  None is a write that returned a code other than 0; \<^verbatim>\<open>my_b_write_byte\<close> returns none. The cache's
  own \<^verbatim>\<open>write_function\<close> is \<open>f\<close>, the library's \<^verbatim>\<open>_my_b_write\<close> is \<open>g\<close>.
\<close>

fun write_one :: "'w write_fun \<Rightarrow> 'w write_fun \<Rightarrow> write_op \<Rightarrow> io_cache \<Rightarrow> 'w \<Rightarrow> (io_cache \<times> 'w) option res" where
  "write_one f g (Write bs) c w =
     bind_res (my_b_write f c bs w) (\<lambda>(rc, c, w). Inr (if rc = 0 then Some (c, w) else None))"
| "write_one f g (Byte b) c w = bind_res (my_b_write_byte g c b w) (\<lambda>r. Inr (Some r))"

fun run_writes ::
  "'w write_fun \<Rightarrow> 'w write_fun \<Rightarrow> write_op list \<Rightarrow> io_cache \<Rightarrow> 'w \<Rightarrow> (io_cache \<times> 'w) option res" where
  "run_writes f g [] c w = Inr (Some (c, w))"
| "run_writes f g (op # ops) c w =
     bind_res (write_one f g op c w) (\<lambda>r.
       case r of None \<Rightarrow> Inr None | Some (c, w) \<Rightarrow> run_writes f g ops c w)"

text \<open>
  A call of the write function moves the bytes on unless it fails; called on a full buffer with
  nothing to add it flushes, and makes room unless it fails.
\<close>

locale io_writer =
  fixes write_function :: "'w write_fun" and disk :: "'w \<Rightarrow> 8 word list"
  assumes keeps: "writes c \<Longrightarrow> write_function c bs w = (rc, c', w') \<Longrightarrow> writes c'"
    and moves: "writes c \<Longrightarrow> write_function c bs w = (0, c', w') \<Longrightarrow>
      written disk c' w' = written disk c w @ bs"
    and makes_room: "writes c \<Longrightarrow> write_pos c = write_end c \<Longrightarrow> write_function c [] w = (0, c', w') \<Longrightarrow>
      write_pos c' < write_end c'"
begin

lemma my_b_write_safe:
  assumes "writes c"
  shows "\<exists>rc c' w'. my_b_write write_function c bs w = Inr (rc, c', w') \<and> writes c' \<and>
    (rc = 0 \<longrightarrow> written disk c' w' = written disk c w @ bs)"
proof (cases "write_pos c + length bs \<le> write_end c")
  case True
  then show ?thesis using put_bytes_writes [OF assms] by (fastforce simp: my_b_write_def)
next
  case False
  then show ?thesis
    using keeps [OF assms, of bs w] moves [OF assms, of bs w]
    by (cases "write_function c bs w") (auto simp: my_b_write_def)
qed

lemma my_b_write_byte_flushed:
  assumes "writes c" and "write_pos c = write_end c \<Longrightarrow> fst (write_function c [] w) = 0"
  shows "\<exists>c' w'. my_b_write_byte write_function c b w = Inr (c', w') \<and> writes c' \<and>
    written disk c' w' = written disk c w @ [b]"
proof (cases "write_pos c < write_end c")
  case True
  then show ?thesis
    using put_bytes_writes [OF assms(1), of "[b]" disk w] by (auto simp: my_b_write_byte_def Let_def)
next
  case False
  then have "write_pos c = write_end c" using assms(1) by (simp add: writes_def)
  moreover from this assms(2) obtain c1 w1 where f: "write_function c [] w = (0, c1, w1)"
    by (cases "write_function c [] w") auto
  ultimately have "writes c1" "written disk c1 w1 = written disk c w" "write_pos c1 < write_end c1"
    using keeps [OF assms(1) f] moves [OF assms(1) f] makes_room [OF assms(1) _ f] by auto
  then show ?thesis
    using put_bytes_writes [of c1 "[b]" disk w1] False f by (auto simp: my_b_write_byte_def Let_def)
qed

end

text \<open>A writer whose file never fails.\<close>

locale reliable_writer = io_writer +
  assumes succeeds: "writes c \<Longrightarrow> fst (write_function c bs w) = 0"
begin

lemma my_b_write_written:
  assumes "writes c"
  shows "\<exists>c' w'. my_b_write write_function c bs w = Inr (0, c', w') \<and> writes c' \<and>
    written disk c' w' = written disk c w @ bs"
proof -
  obtain rc c' w' where r: "my_b_write write_function c bs w = Inr (rc, c', w')" "writes c'"
    "rc = 0 \<longrightarrow> written disk c' w' = written disk c w @ bs"
    using my_b_write_safe [OF assms, of bs w] by blast
  moreover have "rc = 0"
    using r(1) succeeds [OF assms, of bs w] by (auto simp: my_b_write_def res_simps split: if_splits)
  ultimately show ?thesis by auto
qed

lemmas my_b_write_byte_written = my_b_write_byte_flushed [OF _ succeeds]

end

locale reliable_cache =
  own: reliable_writer write_function disk + library: reliable_writer my_b_write_function disk
  for write_function my_b_write_function :: "'w write_fun" and disk :: "'w \<Rightarrow> 8 word list"
begin

lemma run_writes_written:
  assumes "writes c"
  shows "\<exists>c' w'. run_writes write_function my_b_write_function ops c w = Inr (Some (c', w')) \<and> writes c' \<and>
    written disk c' w' = written disk c w @ given ops"
  using assms
proof (induction ops arbitrary: c w)
  case (Cons op ops)
  have "\<exists>c' w'. write_one write_function my_b_write_function op c w = Inr (Some (c', w')) \<and> writes c' \<and>
      written disk c' w' = written disk c w @ offered op"
  proof (cases op)
    case (Write bs)
    then show ?thesis using own.my_b_write_written [OF Cons.prems, of bs w] by auto
  next
    case (Byte b)
    then show ?thesis using library.my_b_write_byte_written [OF Cons.prems Cons.prems, of b w] by auto
  qed
  with Cons.IH show ?case by fastforce
qed simp

end

section \<open>A writer\<close>

text \<open>The file is the list of its bytes; a call writes the buffer and the new bytes to it.\<close>

definition ref_write :: "8 word list write_fun" where
  "ref_write c bs disk = (0, c\<lparr>write_pos := 0\<rparr>, disk @ take (write_pos c) (write_buffer c) @ bs)"

text \<open>A file that is full: the call fails and changes nothing, which the contract allows.\<close>

definition full_write :: "8 word list write_fun" where
  "full_write c bs disk = (1, c, disk)"

interpretation ref_writer: io_writer ref_write "\<lambda>disk. disk"
  by unfold_locales (auto simp: ref_write_def writes_def written_def)

interpretation full_writer: io_writer full_write "\<lambda>disk. disk"
  by unfold_locales (auto simp: full_write_def)

interpretation ref_reliable: reliable_writer ref_write "\<lambda>disk. disk"
  by unfold_locales (simp add: ref_write_def)

interpretation ref_cache: reliable_cache ref_write ref_write "\<lambda>disk. disk" ..

text \<open>
  C16: writing through the cache is writing the file: when the write functions succeed, any mixture
  of \<^verbatim>\<open>my_b_write\<close> and \<^verbatim>\<open>my_b_write_byte\<close>, of any sizes, succeeds without an access outside the
  buffer, and the file followed by the buffer is what it was before and then the bytes given, in
  order.
\<close>

theorem cache_writes_file:
  assumes "reliable_cache f g disk" and "writes c"
  shows "\<exists>c' w'. run_writes f g ops c w = Inr (Some (c', w')) \<and> writes c' \<and>
    written disk c' w' = written disk c w @ concat (map offered ops)"
  by (rule reliable_cache.run_writes_written [OF assms])

text \<open>A buffer of two bytes that already holds one.\<close>

theorem cache_writes_file_witness:
  "\<exists>c' w'. run_writes ref_write ref_write [Byte 8, Byte 9, Write [1, 2, 3], Byte 4]
     \<lparr>pos_in_file = 0, read_pos = 0, read_end = 0, buffer = [], request_pos = 0, write_buffer = [7, 0],
      write_pos = 1, write_end = 2, cache_kind = WRITE_CACHE\<rparr> [5, 6] = Inr (Some (c', w')) \<and>
     written (\<lambda>disk. disk) c' w' = [5, 6, 7, 8, 9, 1, 2, 3, 4]"
proof -
  let ?c = "\<lparr>pos_in_file = 0, read_pos = 0, read_end = 0, buffer = [], request_pos = 0, write_buffer = [7, 0],
      write_pos = 1, write_end = 2, cache_kind = WRITE_CACHE\<rparr>"
  have "writes ?c" by (simp add: writes_def)
  from cache_writes_file [OF ref_cache.reliable_cache_axioms this,
      of "[Byte 8, Byte 9, Write [1, 2, 3], Byte 4]" "[5, 6]"]
  show ?thesis by (auto simp: written_def)
qed

text \<open>
  \<^verbatim>\<open>my_b_write\<close> reports a write that fails, and accesses nothing outside the buffer;
  \<^verbatim>\<open>my_b_write_byte\<close> does not see it: with a full buffer that the failed flush has left full to
  the end of its memory, it stores the byte past the buffer.
\<close>

lemma failed_flush:
  assumes "write_pos c = write_end c" and "write_end c = length (write_buffer c)" and "\<And>bs. f c bs w = (rc, c, w)" and "rc \<noteq> 0"
  shows "my_b_write f c (b # bs) w = Inr (rc, c, w) \<and> my_b_write_byte f c b w = Inl OutOfBounds"
  using assms by (simp add: my_b_write_def my_b_write_byte_def put_bytes_def Let_def)

lemma failed_flush_witness:
  "my_b_write_byte full_write
     \<lparr>pos_in_file = 0, read_pos = 0, read_end = 0, buffer = [], request_pos = 0, write_buffer = [7, 8],
      write_pos = 2, write_end = 2, cache_kind = WRITE_CACHE\<rparr> 9 [5, 6] = Inl OutOfBounds"
proof -
  let ?c = "\<lparr>pos_in_file = 0, read_pos = 0, read_end = 0, buffer = [], request_pos = 0, write_buffer = [7, 8],
      write_pos = 2, write_end = 2, cache_kind = WRITE_CACHE\<rparr>"
  from failed_flush [of ?c full_write "[5, 6]" 1 9] show ?thesis by (simp add: full_write_def)
qed

end
