(* ===== verification/MySys.thy ===== *)
theory MySys
  imports IoCache
begin

text \<open>
  The small macros of \<^verbatim>\<open>client/mysql_include/my_sys.h\<close> and \<^verbatim>\<open>my_alloc.h\<close>: arrays that grow, memory
  roots, and the buffer of a cache as its callbacks see it. Addresses are natural numbers, the
  fields of an array have their 32 bits. \<^verbatim>\<open>insert_dynamic\<close>, \<^verbatim>\<open>my_qsort\<close> and \<^verbatim>\<open>dirname_length\<close> have no
  body in the repository and are parameters.
\<close>

section \<open>Arrays\<close>

record dynamic_array =
  da_buffer :: nat
  da_elements :: "32 word"
  da_max_element :: "32 word"
  da_alloc_increment :: "32 word"
  da_size_of_element :: "32 word"

text \<open>The product of two \<^verbatim>\<open>uint\<close> is one; \<^verbatim>\<open>dynamic_element\<close> steps by the size of its type.\<close>

definition dynamic_array_ptr :: "dynamic_array \<Rightarrow> 32 word \<Rightarrow> nat" where
  "dynamic_array_ptr array array_index = da_buffer array + unat (array_index * da_size_of_element array)"

definition dynamic_element :: "dynamic_array \<Rightarrow> 32 word \<Rightarrow> nat \<Rightarrow> nat" where
  "dynamic_element array array_index size_of_type = da_buffer array + unat array_index * size_of_type"

definition push_dynamic :: "(dynamic_array \<Rightarrow> nat \<Rightarrow> 'r) \<Rightarrow> dynamic_array \<Rightarrow> nat \<Rightarrow> 'r" where
  "push_dynamic insert_dynamic A B = insert_dynamic A B"

definition reset_dynamic :: "dynamic_array \<Rightarrow> dynamic_array" where
  "reset_dynamic array = array\<lparr>da_elements := 0\<rparr>"

definition sort_dynamic :: "(nat \<Rightarrow> 32 word \<Rightarrow> 32 word \<Rightarrow> 'cmp \<Rightarrow> 'r) \<Rightarrow> dynamic_array \<Rightarrow> 'cmp \<Rightarrow> 'r" where
  "sort_dynamic my_qsort A cmp = my_qsort (da_buffer A) (da_elements A) (da_size_of_element A) cmp"

section \<open>Memory roots\<close>

record mem_root =
  mr_free :: nat
  mr_used :: nat
  mr_pre_alloc :: nat
  min_malloc :: "64 word"
  block_size :: "64 word"
  block_num :: "32 word"
  first_block_usage :: "32 word"
  error_handler :: nat

definition alloc_root_inited :: "mem_root \<Rightarrow> bool" where
  "alloc_root_inited A = (min_malloc A \<noteq> 0)"

definition clear_alloc_root :: "mem_root \<Rightarrow> mem_root" where
  "clear_alloc_root A = A\<lparr>mr_free := 0, mr_used := 0, mr_pre_alloc := 0, min_malloc := 0\<rparr>"

text \<open>A cleared root is one that was never initialised, and keeps its block size and its count of blocks.\<close>

lemma clear_alloc_root_state:
  "\<not> alloc_root_inited (clear_alloc_root A)"
  "block_size (clear_alloc_root A) = block_size A" "block_num (clear_alloc_root A) = block_num A"
  "clear_alloc_root (clear_alloc_root A) = clear_alloc_root A"
  by (simp_all add: alloc_root_inited_def clear_alloc_root_def)

section \<open>Names\<close>

definition base_name :: "(string \<Rightarrow> nat) \<Rightarrow> string \<Rightarrow> string" where
  "base_name dirname_length A = drop (dirname_length A) A"

section \<open>The buffer of a cache\<close>

definition my_b_get_buffer_start :: "io_cache \<Rightarrow> nat" where
  "my_b_get_buffer_start info = request_pos info"

definition my_b_get_bytes_in_buffer :: "io_cache \<Rightarrow> int" where
  "my_b_get_bytes_in_buffer info = int (read_end info) - int (my_b_get_buffer_start info)"

definition my_b_get_pos_in_file :: "io_cache \<Rightarrow> nat" where
  "my_b_get_pos_in_file info = pos_in_file info"

text \<open>What a callback is shown of a cache in order is the part of the file that it says.\<close>

lemma buffer_shows_file:
  assumes "reads content c"
  shows "take (nat (my_b_get_bytes_in_buffer c)) (drop (my_b_get_buffer_start c) (buffer c)) =
    take (nat (my_b_get_bytes_in_buffer c)) (drop (my_b_get_pos_in_file c) content)"
  using assms
  by (simp add: reads_def my_b_get_bytes_in_buffer_def my_b_get_buffer_start_def my_b_get_pos_in_file_def)

section \<open>The address of an element\<close>

text \<open>
  C21: for an index of 32 bits, the two ways to reach an element of an array give the same address exactly
  as long as the offset is below four gigabytes: from there on the product of the index and the size of an element
  wraps around and \<^verbatim>\<open>dynamic_array_ptr\<close> points to an earlier element; elements below the limit do
  not overlap, and emptying the array leaves every address as it was.
\<close>

theorem dynamic_addresses:
  assumes "width = unat (da_size_of_element array)"
  shows "(dynamic_array_ptr array i = dynamic_element array i width \<longleftrightarrow> unat i * width < 2 ^ 32) \<and>
    dynamic_array_ptr array i \<le> dynamic_element array i width \<and>
    (i < j \<and> unat j * width < 2 ^ 32 \<longrightarrow> dynamic_array_ptr array i + width \<le> dynamic_array_ptr array j) \<and>
    dynamic_array_ptr (reset_dynamic array) i = dynamic_array_ptr array i"
proof -
  have wrap: "unat (k * da_size_of_element array) = unat k * width mod 2 ^ 32" for k
    by (simp add: unat_word_ariths(2) assms)
  have below: "x mod 4294967296 = x \<longleftrightarrow> x < 4294967296" for x :: nat
    by (metis mod_less mod_less_divisor zero_less_numeral)
  have "dynamic_array_ptr array i + width \<le> dynamic_array_ptr array j" if "i < j" "unat j * width < 2 ^ 32"
  proof -
    from that(1) have "Suc (unat i) \<le> unat j" by (simp add: word_less_nat_alt)
    then have "Suc (unat i) * width \<le> unat j * width" by (rule mult_le_mono1)
    then have "unat i * width + width \<le> unat j * width" by simp
    with that(2) show ?thesis by (simp add: dynamic_array_ptr_def wrap)
  qed
  then show ?thesis
    by (simp add: dynamic_array_ptr_def dynamic_element_def wrap below reset_dynamic_def)
qed

theorem dynamic_addresses_witness:
  "dynamic_array_ptr \<lparr>da_buffer = 64, da_elements = 0, da_max_element = 0x20000001, da_alloc_increment = 1,
     da_size_of_element = 8\<rparr> 0x20000000 \<noteq>
   dynamic_element \<lparr>da_buffer = 64, da_elements = 0, da_max_element = 0x20000001, da_alloc_increment = 1,
     da_size_of_element = 8\<rparr> 0x20000000 8"
  using dynamic_addresses [of 8 "\<lparr>da_buffer = 64, da_elements = 0, da_max_element = 0x20000001,
    da_alloc_increment = 1, da_size_of_element = 8\<rparr>" "0x20000000"] by simp

end
