(* ===== verification/Counters.thy ===== *)
theory Counters
  imports Prelude "HOL-Library.Word"
begin

text \<open>
  The shared counters of \<^verbatim>\<open>client/mysql_include/my_pthread.h\<close>: \<^verbatim>\<open>thread_safe_add\<close> and its companions
  add to a variable under a mutex, or with an interlocked instruction on Windows; \<^verbatim>\<open>statistic_add\<close>
  and its companions do so only when compiled with \<^verbatim>\<open>SAFE_STATISTICS\<close>. Each macro is the list of
  the instructions of one thread, and the threads run in any order: \<^verbatim>\<open>V+= C\<close> reads the variable and
  later writes it. The type of the variable is any ring, such as the words of any width. On Windows the variable is a \<^verbatim>\<open>long\<close>, as the cast says.
\<close>

section \<open>The macros\<close>

datatype 'a instr =
    Lock
  | Load
  | Store_plus 'a
  | Unlock
  | Interlocked 'a

type_synonym 'a code = "'a instr list"

definition plus_assign :: "'a::ring_1 \<Rightarrow> 'a code" where
  "plus_assign c = [Load, Store_plus c]"

definition thread_safe_add :: "bool \<Rightarrow> 'a::ring_1 \<Rightarrow> 'a code" where
  "thread_safe_add WIN32 c = (if WIN32 then [Interlocked c] else [Lock] @ plus_assign c @ [Unlock])"

definition thread_safe_sub :: "bool \<Rightarrow> 'a::ring_1 \<Rightarrow> 'a code" where
  "thread_safe_sub WIN32 c = (if WIN32 then [Interlocked (- c)] else [Lock] @ plus_assign (- c) @ [Unlock])"

definition thread_safe_increment :: "bool \<Rightarrow> 'a::ring_1 code" where
  "thread_safe_increment WIN32 = (if WIN32 then [Interlocked 1] else [Lock] @ plus_assign 1 @ [Unlock])"

definition thread_safe_decrement :: "bool \<Rightarrow> 'a::ring_1 code" where
  "thread_safe_decrement WIN32 = (if WIN32 then [Interlocked (- 1)] else [Lock] @ plus_assign (- 1) @ [Unlock])"

definition statistic_add :: "bool \<Rightarrow> bool \<Rightarrow> 'a::ring_1 \<Rightarrow> 'a code" where
  "statistic_add SAFE_STATISTICS WIN32 c = (if SAFE_STATISTICS then thread_safe_add WIN32 c else plus_assign c)"

definition statistic_sub :: "bool \<Rightarrow> bool \<Rightarrow> 'a::ring_1 \<Rightarrow> 'a code" where
  "statistic_sub SAFE_STATISTICS WIN32 c = (if SAFE_STATISTICS then thread_safe_sub WIN32 c else plus_assign (- c))"

definition statistic_increment :: "bool \<Rightarrow> bool \<Rightarrow> 'a::ring_1 code" where
  "statistic_increment SAFE_STATISTICS WIN32 = (if SAFE_STATISTICS then thread_safe_increment WIN32 else plus_assign 1)"

definition statistic_decrement :: "bool \<Rightarrow> bool \<Rightarrow> 'a::ring_1 code" where
  "statistic_decrement SAFE_STATISTICS WIN32 = (if SAFE_STATISTICS then thread_safe_decrement WIN32 else plus_assign (- 1))"

text \<open>The counters of one thread: no lock is asked for.\<close>

definition status_var_add :: "'a::ring_1 \<Rightarrow> 'a code" where
  "status_var_add c = plus_assign c"

definition status_var_sub :: "'a::ring_1 \<Rightarrow> 'a code" where
  "status_var_sub c = plus_assign (- c)"

definition status_var_increment :: "'a::ring_1 code" where
  "status_var_increment = plus_assign 1"

definition status_var_decrement :: "'a::ring_1 code" where
  "status_var_decrement = plus_assign (- 1)"

section \<open>Threads\<close>

text \<open>The instructions a thread still has to run, and the value it has read.\<close>

record 'a thread =
  code :: "'a code"
  reg :: "'a"

record 'a machine =
  counter :: "'a"
  owner :: "nat option"
  threads :: "'a thread list"

fun step_code :: "nat \<Rightarrow> 'a::ring_1 machine \<Rightarrow> 'a thread \<Rightarrow> ('a machine \<times> 'a thread) option" where
  "step_code i m t =
     (case code t of
        [] \<Rightarrow> None
      | Lock # is \<Rightarrow> if owner m = None then Some (m\<lparr>owner := Some i\<rparr>, t\<lparr>code := is\<rparr>) else None
      | Load # is \<Rightarrow> Some (m, \<lparr>code = is, reg = counter m\<rparr>)
      | Store_plus c # is \<Rightarrow> Some (m\<lparr>counter := reg t + c\<rparr>, t\<lparr>code := is\<rparr>)
      | Unlock # is \<Rightarrow> if owner m = Some i then Some (m\<lparr>owner := None\<rparr>, t\<lparr>code := is\<rparr>) else None
      | Interlocked c # is \<Rightarrow> Some (m\<lparr>counter := counter m + c\<rparr>, t\<lparr>code := is\<rparr>))"

definition exec :: "nat \<Rightarrow> 'a::ring_1 machine \<Rightarrow> 'a machine option" where
  "exec i m =
     (if i < length (threads m)
      then map_option (\<lambda>(m, t). m\<lparr>threads := (threads m)[i := t]\<rparr>) (step_code i m (threads m ! i))
      else None)"

inductive step :: "'a::ring_1 machine \<Rightarrow> 'a machine \<Rightarrow> bool" where
  "exec i m = Some m' \<Longrightarrow> step m m'"

definition start :: "'a::ring_1 \<Rightarrow> 'a code list \<Rightarrow> 'a machine" where
  "start v codes = \<lparr>counter = v, owner = None, threads = map (\<lambda>is. \<lparr>code = is, reg = 0\<rparr>) codes\<rparr>"

definition finished :: "'a machine \<Rightarrow> bool" where
  "finished m \<longleftrightarrow> (\<forall>t \<in> set (threads m). code t = [])"

text \<open>Every step runs one instruction.\<close>

definition left :: "'a machine \<Rightarrow> nat" where
  "left m = sum_list (map (length \<circ> code) (threads m))"

lemma step_code_left: "step_code i m t = Some (m', t') \<Longrightarrow> threads m' = threads m \<and> length (code t) = Suc (length (code t'))"
  by (auto split: list.splits instr.splits if_splits)

lemma sum_list_update_Suc:
  "i < length xs \<Longrightarrow> xs ! i = Suc k \<Longrightarrow> sum_list xs = Suc (sum_list (xs[i := k]))"
  by (induction xs arbitrary: i) (auto split: nat.splits)

lemma step_left:
  assumes "step m m'"
  shows "left m = Suc (left m')"
  using assms
proof cases
  case (1 i)
  then obtain m1 t where i: "i < length (threads m)" "step_code i m (threads m ! i) = Some (m1, t)"
    and m': "m' = m1\<lparr>threads := (threads m1)[i := t]\<rparr>"
    by (auto simp: exec_def split: if_splits)
  with step_code_left [OF i(2)] show ?thesis
    using sum_list_update_Suc [of i "map (length \<circ> code) (threads m)" "length (code t)"]
    by (simp add: left_def map_update)
qed

lemma steps_left: "(step ^^ n) m m' \<Longrightarrow> left m = n + left m'"
proof (induction n arbitrary: m')
  case (Suc n)
  then obtain m1 where "(step ^^ n) m m1" "step m1 m'" by auto
  with Suc.IH [of m1] step_left show ?case by fastforce
qed simp

section \<open>One addition at a time\<close>

text \<open>
  Code that is a sequence of calls, interlocked or under the lock, and the rest of a call in the
  thread that holds the lock.
\<close>

inductive calls :: "bool \<Rightarrow> 'a code \<Rightarrow> bool" where
  calls_Nil: "calls w []"
| calls_Lock: "calls False is \<Longrightarrow> calls False (Lock # Load # Store_plus c # Unlock # is)"
| calls_Interlocked: "calls True is \<Longrightarrow> calls True (Interlocked c # is)"

inductive holds :: "'a \<Rightarrow> 'a \<Rightarrow> 'a code \<Rightarrow> bool" where
  holds_Load: "calls False is \<Longrightarrow> holds v r (Load # Store_plus c # Unlock # is)"
| holds_Store: "calls False is \<Longrightarrow> holds v v (Store_plus c # Unlock # is)"
| holds_Unlock: "calls False is \<Longrightarrow> holds v r (Unlock # is)"

inductive_simps calls_simps: "calls w []" "calls w (Lock # is)" "calls w (Interlocked c # is)" "calls w (Load # is)"
  "calls w (Store_plus c # is)" "calls w (Unlock # is)"

inductive_simps holds_simps: "holds v r []" "holds v r (Lock # is)" "holds v r (Interlocked c # is)"
  "holds v r (Load # is)" "holds v r (Store_plus c # is)" "holds v r (Unlock # is)"

lemma calls_append: "calls w is \<Longrightarrow> calls w js \<Longrightarrow> calls w (is @ js)"
  by (induction rule: calls.induct) (auto intro: calls.intros)

lemma calls_concat: "\<forall>is \<in> set iss. calls w is \<Longrightarrow> calls w (concat iss)"
  by (induction iss) (auto intro: calls.intros calls_append)

lemma calls_thread_safe:
  "calls w (thread_safe_add w c)" "calls w (thread_safe_sub w c)" "calls w (thread_safe_increment w)"
  "calls w (thread_safe_decrement w)"
  by (cases w; auto simp: thread_safe_add_def thread_safe_sub_def thread_safe_increment_def
      thread_safe_decrement_def plus_assign_def intro: calls.intros)+

definition thread_ok :: "bool \<Rightarrow> 'a machine \<Rightarrow> nat \<Rightarrow> 'a thread \<Rightarrow> bool" where
  "thread_ok w m i t \<longleftrightarrow> (if owner m = Some i then holds (counter m) (reg t) (code t) else calls w (code t))"

definition safe :: "bool \<Rightarrow> 'a machine \<Rightarrow> bool" where
  "safe w m \<longleftrightarrow> (\<forall>i < length (threads m). thread_ok w m i (threads m ! i)) \<and>
     (case owner m of None \<Rightarrow> True | Some i \<Rightarrow> \<not> w \<and> i < length (threads m))"

text \<open>The specification: a variable, and the additions each thread still has to make.\<close>

fun todo :: "'a code \<Rightarrow> 'a list" where
  "todo [] = []"
| "todo (Store_plus c # is) = c # todo is"
| "todo (Interlocked c # is) = c # todo is"
| "todo (x # is) = todo is"

inductive add_one :: "'a::ring_1 \<times> 'a list list \<Rightarrow> 'a \<times> 'a list list \<Rightarrow> bool" where
  "i < length ts \<Longrightarrow> ts ! i = c # cs \<Longrightarrow> add_one (v, ts) (v + c, ts[i := cs])"

definition abs_machine :: "'a machine \<Rightarrow> 'a \<times> 'a list list" where
  "abs_machine m = (counter m, map (todo \<circ> code) (threads m))"

text \<open>One step of a thread, and what it leaves alone.\<close>

lemma step_code_ok:
  assumes "thread_ok w m i t" and "owner m = Some i \<longrightarrow> \<not> w" and "step_code i m t = Some (m1, t')"
  shows "thread_ok w m1 i t' \<and> (\<forall>j. j \<noteq> i \<longrightarrow> (owner m1 = Some j \<longleftrightarrow> owner m = Some j)) \<and>
    (owner m1 = Some i \<longrightarrow> \<not> w \<and> owner m \<in> {None, Some i}) \<and> (w \<or> counter m1 = counter m \<or> owner m = Some i) \<and>
    (counter m1 = counter m \<and> todo (code t') = todo (code t) \<or>
     (\<exists>c cs. todo (code t) = c # cs \<and> todo (code t') = cs \<and> counter m1 = counter m + c))"
proof (cases "code t")
  case (Cons a "is")
  with assms show ?thesis
    by (cases a) (auto simp: thread_ok_def calls_simps holds_simps intro: calls.intros holds.intros split: if_splits)
qed (use assms in simp)

lemma exec_refines:
  assumes "safe w m" and "exec i m = Some m'"
  shows "safe w m' \<and> (abs_machine m' = abs_machine m \<or> add_one (abs_machine m) (abs_machine m'))"
proof -
  let ?ts = "threads m"
  obtain m1 t where i: "i < length ?ts" and st: "step_code i m (?ts ! i) = Some (m1, t)"
    and m': "m' = m1\<lparr>threads := (threads m1)[i := t]\<rparr>"
    using assms(2) by (auto simp: exec_def split: if_splits)
  have ts: "threads m1 = ?ts" using step_code_left [OF st] by simp
  have ok: "thread_ok w m j (?ts ! j)" if "j < length ?ts" for j
    using assms(1) that by (simp add: safe_def)
  have "owner m = Some i \<longrightarrow> \<not> w" using assms(1) by (auto simp: safe_def)
  note s = step_code_ok [OF ok [OF i] this st]
  have "thread_ok w m1 j (?ts ! j)" if "j < length ?ts" "j \<noteq> i" for j
  proof (cases "owner m = Some j")
    case True
    then have "counter m1 = counter m" using s assms(1) that(2) by (auto simp: safe_def)
    with True s ok [OF that(1)] that(2) show ?thesis by (auto simp: thread_ok_def)
  next
    case False
    with s ok [OF that(1)] that(2) show ?thesis by (auto simp: thread_ok_def)
  qed
  moreover have "thread_ok w m' j t' \<longleftrightarrow> thread_ok w m1 j t'" for j t'
    by (simp add: m' thread_ok_def)
  moreover have "\<not> w \<and> j < length ?ts" if "owner m1 = Some j" for j
    using that s i assms(1) by (cases "j = i") (auto simp: safe_def)
  ultimately have "safe w m'"
    using s i by (auto simp: safe_def m' ts nth_list_update split: option.splits)
  moreover have "abs_machine m' = abs_machine m \<or> add_one (abs_machine m) (abs_machine m')"
  proof -
    have a: "abs_machine m' = (counter m1, (map (todo \<circ> code) ?ts)[i := todo (code t)])"
      by (simp add: abs_machine_def m' ts map_update)
    from s consider "counter m1 = counter m" "todo (code t) = todo (code (?ts ! i))"
      | c where "todo (code (?ts ! i)) = c # todo (code t)" "counter m1 = counter m + c"
      by auto
    then show ?thesis
    proof cases
      case 1
      then have "(map (todo \<circ> code) ?ts)[i := todo (code t)] = map (todo \<circ> code) ?ts"
        using i by (metis comp_apply list_update_id nth_map)
      with 1 a show ?thesis by (simp add: abs_machine_def)
    next
      case 2
      with i add_one.intros [of i "map (todo \<circ> code) ?ts"] a show ?thesis by (simp add: abs_machine_def)
    qed
  qed
  ultimately show ?thesis ..
qed

text \<open>Some thread can run as long as one has not finished: the holder of the lock, or any other.\<close>

lemma safe_progress:
  assumes "safe w m" and "\<not> finished m"
  shows "\<exists>m'. step m m'"
proof -
  obtain i where i: "i < length (threads m)" "step_code i m (threads m ! i) \<noteq> None"
  proof (cases "owner m")
    case None
    obtain i where i: "i < length (threads m)" "code (threads m ! i) \<noteq> []"
      using assms(2) by (auto simp: finished_def in_set_conv_nth)
    moreover from this None assms(1) have "calls w (code (threads m ! i))" by (auto simp: safe_def thread_ok_def)
    ultimately have "step_code i m (threads m ! i) \<noteq> None" using None by (auto elim: calls.cases)
    with i show ?thesis by (intro that)
  next
    case (Some i)
    with assms(1) have "i < length (threads m)" "thread_ok w m i (threads m ! i)" by (auto simp: safe_def)
    moreover from this Some have "step_code i m (threads m ! i) \<noteq> None"
      by (auto simp: thread_ok_def elim!: holds.cases)
    ultimately show ?thesis by (intro that)
  qed
  then have "exec i m \<noteq> None" by (simp del: step_code.simps add: exec_def)
  then show ?thesis by (auto intro: step.intros)
qed

section \<open>Simulation\<close>

text \<open>A machine that, within an invariant, does nothing the specification could not do.\<close>

locale simulation =
  fixes machine_step :: "'s \<Rightarrow> 's \<Rightarrow> bool" and spec_step :: "'t \<Rightarrow> 't \<Rightarrow> bool"
    and inv :: "'s \<Rightarrow> bool" and abs_state :: "'s \<Rightarrow> 't"
  assumes simulates: "inv s \<Longrightarrow> machine_step s s' \<Longrightarrow>
    inv s' \<and> (abs_state s' = abs_state s \<or> spec_step (abs_state s) (abs_state s'))"
begin

lemma steps_simulate:
  "machine_step\<^sup>*\<^sup>* s s' \<Longrightarrow> inv s \<Longrightarrow> inv s' \<and> spec_step\<^sup>*\<^sup>* (abs_state s) (abs_state s')"
proof (induction rule: rtranclp_induct)
  case (step s1 s2)
  with simulates [of s1 s2] show ?case by (auto intro: rtranclp.rtrancl_into_rtrancl)
qed simp

end

interpretation counters: simulation step add_one "safe w" abs_machine for w
  by unfold_locales (auto elim!: step.cases dest: exec_refines)

text \<open>What the variable will be is what it is and the additions that are left.\<close>

lemma add_one_sum: "add_one s s' \<Longrightarrow> fst s' + sum_list (concat (snd s')) = fst s + sum_list (concat (snd s))"
proof (induction rule: add_one.induct)
  case (1 i ts c cs v)
  have "sum_list (concat ts) = c + sum_list (concat (ts[i := cs]))"
    using 1 by (induction ts arbitrary: i) (auto split: nat.splits simp: add.left_commute)
  then show ?case by (simp add: add.assoc)
qed

lemma add_ones_sum: "add_one\<^sup>*\<^sup>* s s' \<Longrightarrow> fst s' + sum_list (concat (snd s')) = fst s + sum_list (concat (snd s))"
  by (induction rule: rtranclp_induct) (simp_all add: add_one_sum)

lemma safe_start: "\<forall>is \<in> set codes. calls w is \<Longrightarrow> safe w (start v codes)"
  by (auto simp: safe_def start_def thread_ok_def)

lemma calls_steps:
  assumes "\<forall>is \<in> set codes. calls w is" and "step\<^sup>*\<^sup>* (start v codes) m"
  shows "safe w m" and "finished m \<Longrightarrow> counter m = v + sum_list (concat (map todo codes))"
proof -
  from counters.steps_simulate [OF assms(2) safe_start [OF assms(1)]]
  have s: "safe w m" and a: "add_one\<^sup>*\<^sup>* (abs_machine (start v codes)) (abs_machine m)" by auto
  from s show "safe w m" .
  assume "finished m"
  then have "concat (map (\<lambda>t. todo (code t)) (threads m)) = []" by (simp add: finished_def)
  then have "sum_list (concat (map (\<lambda>t. todo (code t)) (threads m))) = 0" by (simp only: sum_list.Nil)
  with add_ones_sum [OF a] show "counter m = v + sum_list (concat (map todo codes))"
    by (simp add: abs_machine_def start_def comp_def)
qed

section \<open>The counters are exact\<close>

datatype 'a counter_op = Add 'a | Sub 'a | Increment | Decrement

fun call :: "bool \<Rightarrow> 'a::ring_1 counter_op \<Rightarrow> 'a code" where
  "call w (Add c) = thread_safe_add w c"
| "call w (Sub c) = thread_safe_sub w c"
| "call w Increment = thread_safe_increment w"
| "call w Decrement = thread_safe_decrement w"

fun amount :: "'a::ring_1 counter_op \<Rightarrow> 'a" where
  "amount (Add c) = c"
| "amount (Sub c) = - c"
| "amount Increment = 1"
| "amount Decrement = - 1"

abbreviation calling :: "bool \<Rightarrow> 'a::ring_1 counter_op list \<Rightarrow> 'a code" where
  "calling w ops \<equiv> concat (map (call w) ops)"

lemma call_calls: "calls w (call w op)"
  by (cases op) (simp_all add: calls_thread_safe)

lemma todo_append: "todo (is @ js) = todo is @ todo js"
  by (induction "is" rule: todo.induct) auto

lemma todo_call: "todo (call w op) = [amount op]"
  by (cases op) (simp_all add: thread_safe_add_def thread_safe_sub_def thread_safe_increment_def
      thread_safe_decrement_def plus_assign_def)

lemma length_call: "length (call w op) = (if w then 1 else 4)"
  by (cases op) (simp_all add: thread_safe_add_def thread_safe_sub_def thread_safe_increment_def
      thread_safe_decrement_def plus_assign_def)

lemma todo_calling: "todo (calling w ops) = map amount ops"
  by (induction ops) (simp_all add: todo_append todo_call)

lemma length_calling: "length (calling w ops) = (if w then 1 else 4) * length ops"
  by (induction ops) (simp_all add: length_call)

lemma left_start: "left (start v codes) = length (concat codes)"
  by (simp add: left_def start_def length_concat comp_def)

text \<open>
  A schedule names the thread that runs next.
\<close>

fun scheduled :: "nat list \<Rightarrow> 'a::ring_1 machine \<Rightarrow> 'a machine option" where
  "scheduled [] m = Some m"
| "scheduled (i # is) m = Option.bind (exec i m) (scheduled is)"

lemma scheduled_steps: "scheduled is m = Some m' \<Longrightarrow> length is = n \<Longrightarrow> (step ^^ n) m m'"
proof (induction "is" arbitrary: m n)
  case (Cons i "is")
  then obtain m1 where "step m m1" "(step ^^ length is) m1 m'"
    by (auto simp: bind_eq_Some_conv intro: step.intros)
  with Cons.prems(2) show ?case by (metis length_Cons relpowp_Suc_I2)
qed simp

text \<open>
  C14: the thread safe counters lose no update and cannot block each other: however the calls of
  any number of threads are interleaved, they run at most four instructions each, one on Windows;
  the threads stop only when all of them have finished, and then the variable has changed by
  exactly the sum of the amounts, modulo its width.
\<close>

theorem thread_safe_counters_exact:
  fixes opss :: "'a::len word counter_op list list"
  assumes "(step ^^ n) (start v (map (calling w) opss)) m"
  shows "n \<le> (if w then 1 else 4) * length (concat opss) \<and>
    ((\<nexists>m'. step m m') \<longleftrightarrow> finished m) \<and>
    (finished m \<longrightarrow> counter m = v + sum_list (map amount (concat opss)))"
proof -
  let ?codes = "map (calling w) opss"
  have reached: "step\<^sup>*\<^sup>* (start v ?codes) m" using assms by (rule relpowp_imp_rtranclp)
  have "calls w (calling w ops)" for ops :: "'a word counter_op list" by (rule calls_concat) (simp add: call_calls)
  then have "\<forall>is \<in> set ?codes. calls w is" by simp
  note c = calls_steps [OF this reached]
  have "length (concat ?codes) = (if w then 1 else 4) * length (concat opss)"
    by (induction opss) (simp_all add: length_calling algebra_simps)
  then have "n \<le> (if w then 1 else 4) * length (concat opss)"
    using steps_left [OF assms] by (simp add: left_start)
  moreover have "\<not> step m m'" if "finished m" for m'
  proof -
    have "left m = 0" using that by (simp add: left_def finished_def)
    with step_left [of m m'] show ?thesis by auto
  qed
  moreover have "concat (map todo ?codes) = map amount (concat opss)"
    by (induction opss) (simp_all add: todo_calling)
  ultimately show ?thesis using c safe_progress [OF c(1)] by auto
qed

text \<open>Two threads at an 8 bit counter that wraps.\<close>

theorem thread_safe_counters_exact_witness:
  "\<exists>m. (step ^^ 8) (start (255 :: 8 word) (map (calling False) [[Increment], [Add 3]])) m \<and> counter m = 3"
proof -
  let ?m = "\<lparr>counter = 3 :: 8 word, owner = None, threads = [\<lparr>code = [], reg = 2\<rparr>, \<lparr>code = [], reg = 255\<rparr>]\<rparr>"
  have "scheduled [1, 1, 1, 1, 0, 0, 0, 0] (start (255 :: 8 word) (map (calling False) [[Increment], [Add 3]])) = Some ?m"
    by (simp add: start_def exec_def thread_safe_increment_def thread_safe_add_def plus_assign_def)
  from scheduled_steps [OF this, of 8]
  have "(step ^^ 8) (start (255 :: 8 word) (map (calling False) [[Increment], [Add 3]])) ?m" by simp
  moreover from thread_safe_counters_exact [OF this] have "counter ?m = 3" by (simp add: finished_def)
  ultimately show ?thesis by blast
qed

lemma statistic_lost:
  "\<exists>m. step\<^sup>*\<^sup>* (start v [statistic_add False w a, statistic_add False w b]) m \<and> finished m \<and> counter m = v + b"
proof -
  let ?m = "\<lparr>counter = v + b, owner = None, threads = [\<lparr>code = [], reg = v\<rparr>, \<lparr>code = [], reg = v\<rparr>]\<rparr>"
  have "scheduled [0, 1, 0, 1] (start v [statistic_add False w a, statistic_add False w b]) = Some ?m"
    by (simp add: start_def exec_def statistic_add_def plus_assign_def)
  from relpowp_imp_rtranclp [OF scheduled_steps [OF this refl]] show ?thesis
    by (intro exI [of _ ?m]) (simp add: finished_def)
qed

text \<open>
  The statistics are exact exactly with \<^verbatim>\<open>SAFE_STATISTICS\<close>: without it two additions that
  run at the same time can leave only one of them.
\<close>

lemma statistics_exact_iff_safe:
  fixes v a b :: "'a::len word"
  assumes "a \<noteq> 0"
  shows "(\<forall>m. step\<^sup>*\<^sup>* (start v [statistic_add SAFE_STATISTICS w a, statistic_add SAFE_STATISTICS w b]) m \<longrightarrow>
      finished m \<longrightarrow> counter m = v + a + b) \<longleftrightarrow> SAFE_STATISTICS"
proof (cases SAFE_STATISTICS)
  case True
  have "\<forall>is \<in> set [statistic_add True w a, statistic_add True w b]. calls w is"
    by (simp add: statistic_add_def calls_thread_safe)
  note c = calls_steps(2) [OF this]
  have "todo (statistic_add True w x) = [x]" for x :: "'a word"
    using todo_call [of w "Add x"] by (simp add: statistic_add_def)
  with True c show ?thesis by (auto simp: add.assoc)
next
  case False
  then show ?thesis using statistic_lost [of v w a b] assms by auto
qed

lemma statistics_exact_iff_safe_witness:
  "\<exists>m. step\<^sup>*\<^sup>* (start (0 :: 32 word) [statistic_add False False 1, statistic_add False False 1]) m \<and>
    finished m \<and> counter m \<noteq> 2"
  using statistics_exact_iff_safe [of 1 0 False False 1] by auto

end
