(* ===== verification/Timespec.thy ===== *)
theory Timespec
  imports Prelude "HOL-Library.Word"
begin

text \<open>
  The deadlines of \<^verbatim>\<open>client/mysql_include/my_pthread.h\<close>: \<^verbatim>\<open>set_timespec\<close>, \<^verbatim>\<open>set_timespec_nsec\<close> and
  \<^verbatim>\<open>cmp_timespec\<close>, for the builds whose \<^verbatim>\<open>timespec\<close> has seconds and nanoseconds and for Windows,
  where it is a number of 100 nanosecond units. The clocks are arguments: \<^verbatim>\<open>gettimeofday\<close> and
  \<^verbatim>\<open>time\<close> as integers, \<^verbatim>\<open>my_getsystime\<close> as its 64 bit count of 100 nanosecond units.
\<close>

section \<open>Seconds and nanoseconds\<close>

record timespec =
  tv_sec :: int
  tv_nsec :: int

text \<open>\<open>HAVE_TIMESPEC_TS_SEC\<close> selects the names \<open>ts_sec\<close> and \<open>ts_nsec\<close> and the clock \<^verbatim>\<open>time(0)\<close>.\<close>

definition set_timespec_ts :: "int \<Rightarrow> int \<Rightarrow> timespec" where
  "set_timespec_ts time0 sec = \<lparr>tv_sec = time0 + sec, tv_nsec = 0\<rparr>"

definition set_timespec_tv :: "int \<times> int \<Rightarrow> int \<Rightarrow> timespec" where
  "set_timespec_tv now sec = \<lparr>tv_sec = fst now + sec, tv_nsec = snd now * 1000\<rparr>"

text \<open>
  \<open>nsec\<close> is a value: the macro writes \<^verbatim>\<open>NSEC/100\<close> without parentheses, so an argument such as a sum
  would be divided in its last term only.
\<close>

definition set_timespec_nsec :: "64 word \<Rightarrow> 64 word \<Rightarrow> timespec" where
  "set_timespec_nsec systime nsec =
     (let now = systime + nsec div 100
      in \<lparr>tv_sec = uint (now div 10000000), tv_nsec = uint (now mod 10000000 * 100 + nsec mod 100)\<rparr>)"

definition cmp_timespec :: "timespec \<Rightarrow> timespec \<Rightarrow> int" where
  "cmp_timespec ts1 ts2 =
     (if tv_sec ts2 < tv_sec ts1 \<or> tv_sec ts1 = tv_sec ts2 \<and> tv_nsec ts2 < tv_nsec ts1 then 1
      else if tv_sec ts1 < tv_sec ts2 \<or> tv_sec ts1 = tv_sec ts2 \<and> tv_nsec ts1 < tv_nsec ts2 then - 1
      else 0)"

section \<open>Windows\<close>

record win_timespec =
  tv_i64 :: int
  max_timeout_msec :: int

text \<open>The 64 bit file time and the 32 bit \<^verbatim>\<open>long\<close> wrap.\<close>

definition i64_add :: "int \<Rightarrow> int \<Rightarrow> int" where
  "i64_add a b = sint (word_of_int (a + b) :: 64 word)"

definition to_long :: "int \<Rightarrow> int" where
  "to_long x = sint (word_of_int x :: 32 word)"

definition win_set_timespec :: "int \<Rightarrow> int \<Rightarrow> win_timespec" where
  "win_set_timespec filetime sec =
     \<lparr>tv_i64 = i64_add filetime (sec * 10000000), max_timeout_msec = to_long (sec * 1000)\<rparr>"

definition win_set_timespec_nsec :: "int \<Rightarrow> nat \<Rightarrow> win_timespec" where
  "win_set_timespec_nsec filetime nsec =
     \<lparr>tv_i64 = i64_add filetime (int (nsec div 100)), max_timeout_msec = to_long (int (nsec div 1000000))\<rparr>"

definition win_cmp_timespec :: "win_timespec \<Rightarrow> win_timespec \<Rightarrow> int" where
  "win_cmp_timespec ts1 ts2 =
     (if tv_i64 ts2 < tv_i64 ts1 then 1 else if tv_i64 ts1 < tv_i64 ts2 then - 1 else 0)"

section \<open>Deadlines in nanoseconds\<close>

definition nanos :: "timespec \<Rightarrow> int" where
  "nanos ts = tv_sec ts * 1000000000 + tv_nsec ts"

text \<open>The nanoseconds are less than a second, as \<^verbatim>\<open>pthread_cond_timedwait\<close> asks.\<close>

definition normal :: "timespec \<Rightarrow> bool" where
  "normal ts \<longleftrightarrow> 0 \<le> tv_nsec ts \<and> tv_nsec ts < 1000000000"

lemma cmp_timespec_nanos:
  assumes "normal ts1" and "normal ts2"
  shows "cmp_timespec ts1 ts2 = sgn (nanos ts1 - nanos ts2)"
  using assms by (auto simp: cmp_timespec_def nanos_def normal_def sgn_if)

lemma set_timespec_nsec_parts:
  fixes systime nsec :: "64 word"
  assumes "uint systime + uint nsec div 100 < 2 ^ 64"
  shows "tv_sec (set_timespec_nsec systime nsec) = (uint systime + uint nsec div 100) div 10000000"
    and "tv_nsec (set_timespec_nsec systime nsec) =
      (uint systime + uint nsec div 100) mod 10000000 * 100 + uint nsec mod 100"
proof -
  let ?now = "uint systime + uint nsec div 100"
  have "0 \<le> ?now" by (simp add: pos_imp_zdiv_nonneg_iff)
  then have now: "uint (systime + nsec div 100) = ?now"
    using assms by (simp add: uint_word_ariths uint_div_distrib mod_pos_pos_trivial)
  then show "tv_sec (set_timespec_nsec systime nsec) = ?now div 10000000"
    by (simp add: set_timespec_nsec_def uint_div_distrib)
  have "uint (a * 100 + b) = uint a * 100 + uint b" if "uint a < 10000000" "uint b < 100" for a b :: "64 word"
    using that by (simp add: uint_word_ariths mod_pos_pos_trivial)
  moreover have "uint ((systime + nsec div 100) mod 10000000) = ?now mod 10000000" "uint (nsec mod 100) = uint nsec mod 100"
    by (simp_all only: uint_mod_distrib now uint_numeral) simp_all
  ultimately show "tv_nsec (set_timespec_nsec systime nsec) = ?now mod 10000000 * 100 + uint nsec mod 100"
    by (simp add: set_timespec_nsec_def)
qed

lemma set_timespec_nsec_nanos:
  fixes systime nsec :: "64 word"
  assumes "uint systime + uint nsec div 100 < 2 ^ 64"
  shows "normal (set_timespec_nsec systime nsec)"
    and "nanos (set_timespec_nsec systime nsec) = uint systime * 100 + uint nsec"
proof -
  let ?ts = "set_timespec_nsec systime nsec"
  let ?now = "uint systime + uint nsec div 100"
  note parts = set_timespec_nsec_parts [OF assms]
  have "?now div 10000000 * 10000000 + ?now mod 10000000 = ?now" "uint nsec div 100 * 100 + uint nsec mod 100 = uint nsec"
    by (rule div_mult_mod_eq)+
  then show "nanos ?ts = uint systime * 100 + uint nsec"
    unfolding nanos_def parts by linarith
  have "0 \<le> ?now mod 10000000" "?now mod 10000000 < 10000000" "0 \<le> uint nsec mod 100" "uint nsec mod 100 < 100"
    by simp_all
  then show "normal ?ts" unfolding normal_def parts by linarith
qed

lemma i64_add_exact:
  assumes "- (2 ^ 63) \<le> a + b" and "a + b < 2 ^ 63"
  shows "i64_add a b = a + b"
  unfolding i64_add_def sint_sbintrunc' using assms by (simp add: signed_take_bit_int_eq_self)

lemma to_long_exact:
  assumes "- (2 ^ 31) \<le> x" and "x < 2 ^ 31"
  shows "to_long x = x"
  unfolding to_long_def sint_sbintrunc' using assms by (simp add: signed_take_bit_int_eq_self)

text \<open>
  C20: a deadline is exact: \<^verbatim>\<open>set_timespec_nsec\<close> gives the time of the call plus the timeout to the
  nanosecond, in the form that \<^verbatim>\<open>pthread_cond_timedwait\<close> accepts, and \<^verbatim>\<open>cmp_timespec\<close> orders two
  deadlines set at any times as their nanoseconds, as long as the 64 bit clock does not wrap.
\<close>

theorem deadlines_exact:
  fixes now1 now2 nsec1 nsec2 :: "64 word"
  assumes "uint now1 + uint nsec1 div 100 < 2 ^ 64" and "uint now2 + uint nsec2 div 100 < 2 ^ 64"
  shows "normal (set_timespec_nsec now1 nsec1) \<and>
    nanos (set_timespec_nsec now1 nsec1) = uint now1 * 100 + uint nsec1 \<and>
    cmp_timespec (set_timespec_nsec now1 nsec1) (set_timespec_nsec now2 nsec2) =
      sgn ((uint now1 * 100 + uint nsec1) - (uint now2 * 100 + uint nsec2))"
  using set_timespec_nsec_nanos [OF assms(1)] set_timespec_nsec_nanos [OF assms(2)] cmp_timespec_nanos
  by simp

text \<open>Two and a half seconds, and one nanosecond more set 100 nanoseconds earlier.\<close>

theorem deadlines_exact_witness:
  "cmp_timespec (set_timespec_nsec 15000000000000000 2500000000) (set_timespec_nsec 14999999999999999 2500000101) = - 1"
  using deadlines_exact [of 15000000000000000 2500000000 14999999999999999 2500000101] by simp

text \<open>
  On Windows the deadline keeps the 100 nanosecond units of the timeout and drops the rest, and
  the limit in milliseconds is right exactly up to 2147483 whole seconds, under 25 days: the 32 bit
  \<^verbatim>\<open>long\<close> is wrong for every longer timeout.
\<close>

lemma windows_limit:
  assumes "0 \<le> filetime" and "0 \<le> sec" and "filetime + sec * 10000000 < 2 ^ 63"
  shows "tv_i64 (win_set_timespec filetime sec) = filetime + sec * 10000000 \<and>
    (max_timeout_msec (win_set_timespec filetime sec) = sec * 1000 \<longleftrightarrow> sec \<le> 2147483)"
proof -
  have "to_long (sec * 1000) < 2 ^ 31"
    using sint_lt [of "word_of_int (sec * 1000) :: 32 word"] by (simp add: to_long_def)
  moreover have "sec \<le> 2147483 \<Longrightarrow> to_long (sec * 1000) = sec * 1000"
    using assms(2) by (intro to_long_exact) auto
  ultimately show ?thesis
    using assms i64_add_exact [of filetime "sec * 10000000"] by (auto simp: win_set_timespec_def)
qed

lemma windows_limit_witness:
  "max_timeout_msec (win_set_timespec 130000000000000000 2147484) \<noteq> 2147484000"
  using windows_limit [of 130000000000000000 2147484] by simp

end
