(* ===== verification/MachineBytes.thy ===== *)
theory MachineBytes
  imports ByteOrder
begin

text \<open>
  The macros of \<^verbatim>\<open>client/mysql_include/my_global.h\<close> that store floating point numbers, low byte first
  or in machine format, and integers in machine format. Which macro is compiled depends on the
  machine; a variable is its image in the memory of that machine, a list of bytes, and a
  floating point number is its 32 or 64 bits.
\<close>

section \<open>Machines\<close>

text \<open>
  \<open>X86\<close> is the first branch of the header, \<open>Float_big\<close> has little-endian integers and
  \<^verbatim>\<open>__FLOAT_WORD_ORDER\<close> big, so that the high half of a double comes first.
\<close>

datatype machine_kind = X86 | Little | Float_big | Big

definition int_image :: "machine_kind \<Rightarrow> nat \<Rightarrow> 'a::len word \<Rightarrow> uchar list" where
  "int_image k n w = (if k = Big then rev (save n w) else save n w)"

definition double_image :: "machine_kind \<Rightarrow> 64 word \<Rightarrow> uchar list" where
  "double_image k w = (if k = Float_big then drop 4 (save 8 w) @ take 4 (save 8 w) else int_image k 8 w)"

section \<open>Floating point numbers\<close>

text \<open>A big-endian machine turns the bytes around.\<close>

definition big_float4store :: "uchar list \<Rightarrow> uchar list" where
  "big_float4store A = [A ! 3, A ! 2, A ! 1, A ! 0]"

definition big_float4get :: "bytes \<Rightarrow> uchar list" where
  "big_float4get M = [M 3, M 2, M 1, M 0]"

definition big_float8store :: "uchar list \<Rightarrow> uchar list" where
  "big_float8store V = [V ! 7, V ! 6, V ! 5, V ! 4, V ! 3, V ! 2, V ! 1, V ! 0]"

definition big_float8get :: "bytes \<Rightarrow> uchar list" where
  "big_float8get M = [M 7, M 6, M 5, M 4, M 3, M 2, M 1, M 0]"

text \<open>The others copy a float, and a double unless its halves are in the wrong order.\<close>

definition float4store :: "machine_kind \<Rightarrow> uchar list \<Rightarrow> uchar list" where
  "float4store k A = (if k = Big then big_float4store A else take 4 A)"

definition float4get :: "machine_kind \<Rightarrow> bytes \<Rightarrow> uchar list" where
  "float4get k M = (if k = Big then big_float4get M else map M [0..<4])"

definition swapped_doublestore :: "uchar list \<Rightarrow> uchar list" where
  "swapped_doublestore V = [V ! 4, V ! 5, V ! 6, V ! 7, V ! 0, V ! 1, V ! 2, V ! 3]"

definition swapped_doubleget :: "bytes \<Rightarrow> uchar list" where
  "swapped_doubleget M = [M 4, M 5, M 6, M 7, M 0, M 1, M 2, M 3]"

text \<open>On x86 a double is copied as two \<^verbatim>\<open>long\<close>s.\<close>

definition x86_doublestore :: "uchar list \<Rightarrow> uchar list" where
  "x86_doublestore V = take 4 V @ take 4 (drop 4 V)"

definition x86_doubleget :: "bytes \<Rightarrow> uchar list" where
  "x86_doubleget M = map M [0..<4] @ map (\<lambda>i. M (4 + i)) [0..<4]"

definition doublestore :: "machine_kind \<Rightarrow> uchar list \<Rightarrow> uchar list" where
  "doublestore k V =
     (case k of X86 \<Rightarrow> x86_doublestore V | Float_big \<Rightarrow> swapped_doublestore V | _ \<Rightarrow> take 8 V)"

definition doubleget :: "machine_kind \<Rightarrow> bytes \<Rightarrow> uchar list" where
  "doubleget k M =
     (case k of X86 \<Rightarrow> x86_doubleget M | Float_big \<Rightarrow> swapped_doubleget M | _ \<Rightarrow> map M [0..<8])"

definition float8store :: "machine_kind \<Rightarrow> uchar list \<Rightarrow> uchar list" where
  "float8store k V = (if k = Big then big_float8store V else doublestore k V)"

definition float8get :: "machine_kind \<Rightarrow> bytes \<Rightarrow> uchar list" where
  "float8get k M = (if k = Big then big_float8get M else doubleget k M)"

definition floatstore :: "uchar list \<Rightarrow> uchar list" where "floatstore V = take 4 V"
definition floatget :: "bytes \<Rightarrow> uchar list" where "floatget M = map M [0..<4]"

lemmas float_defs = big_float4store_def big_float4get_def big_float8store_def big_float8get_def float4store_def
  float4get_def swapped_doublestore_def swapped_doubleget_def x86_doublestore_def x86_doubleget_def doublestore_def
  doubleget_def float8store_def float8get_def floatstore_def floatget_def

section \<open>Integers in machine format\<close>

definition big_ushortget :: "bytes \<Rightarrow> 16 word" where
  "big_ushortget M = ucast (M 1) + push_bit 8 (ucast (M 0))"

definition big_shortget :: "bytes \<Rightarrow> 16 word" where
  "big_shortget M = ucast (M 1) + push_bit 8 (ucast (M 0))"

text \<open>The bytes go to the variable as they are, and its value is that of a big-endian machine.\<close>

definition big_longget :: "bytes \<Rightarrow> 32 word" where
  "big_longget M = load 4 (\<lambda>i. rev [M 0, M 1, M 2, M 3] ! i)"

definition big_ulongget :: "bytes \<Rightarrow> 32 word" where
  "big_ulongget M = load 4 (\<lambda>i. rev [M 0, M 1, M 2, M 3] ! i)"

definition big_shortstore :: "32 word \<Rightarrow> uchar list" where
  "big_shortstore A = [ucast (drop_bit 8 A), ucast A]"

definition big_longstore :: "32 word \<Rightarrow> uchar list" where
  "big_longstore A = [ucast (drop_bit 24 A), ucast (drop_bit 16 A), ucast (drop_bit 8 A), ucast A]"

definition ushortget :: "machine_kind \<Rightarrow> bytes \<Rightarrow> 16 word" where
  "ushortget k M = (if k = Big then big_ushortget M else uint2korr M)"

definition shortget :: "machine_kind \<Rightarrow> bytes \<Rightarrow> 16 word" where
  "shortget k M = (if k = Big then big_shortget M else sint2korr M)"

definition longget :: "machine_kind \<Rightarrow> bytes \<Rightarrow> 32 word" where
  "longget k M = (if k = Big then big_longget M else sint4korr M)"

definition ulongget :: "machine_kind \<Rightarrow> bytes \<Rightarrow> 32 word" where
  "ulongget k M = (if k = Big then big_ulongget M else uint4korr M)"

definition shortstore :: "machine_kind \<Rightarrow> 32 word \<Rightarrow> uchar list" where
  "shortstore k A = (if k = Big then big_shortstore A else int2store A)"

definition longstore :: "machine_kind \<Rightarrow> 32 word \<Rightarrow> uchar list" where
  "longstore k A = (if k = Big then big_longstore A else int4store A)"

definition longlongget :: "bytes \<Rightarrow> uchar list" where "longlongget M = map M [0..<8]"
definition longlongstore :: "uchar list \<Rightarrow> uchar list" where "longlongstore V = take 8 V"

lemmas big_defs = big_ushortget_def big_shortget_def big_longget_def big_ulongget_def big_shortstore_def
  big_longstore_def

section \<open>The format on the wire\<close>

lemma length_save: "length (save n w) = n"
  by (simp add: save_def)

lemma bytes_of_8: "length xs = 8 \<Longrightarrow> \<exists>a b c d e f g h. xs = [a, b, c, d, e, f, g, h]"
  by (auto simp: length_Suc_conv eval_nat_numeral)

lemma bytes_of_4: "length xs = 4 \<Longrightarrow> \<exists>a b c d. xs = [a, b, c, d]"
  by (auto simp: length_Suc_conv eval_nat_numeral)

text \<open>
  C30: the wire format of floating point numbers does not depend on the machine: whatever the order
  of the bytes and of the halves of a double in its memory, \<^verbatim>\<open>float4store\<close> and \<^verbatim>\<open>float8store\<close> write
  the bits of the number low byte first, and \<^verbatim>\<open>float4get\<close> and \<^verbatim>\<open>float8get\<close> of any machine turn these
  bytes into its own image of the number.
\<close>

theorem float_wire_format:
  fixes f :: "32 word" and d :: "64 word"
  shows "float4store k (int_image k 4 f) = save 4 f \<and> float4get k (\<lambda>i. save 4 f ! i) = int_image k 4 f \<and>
    float8store k (double_image k d) = save 8 d \<and> float8get k (\<lambda>i. save 8 d ! i) = double_image k d"
proof -
  obtain a b c e where f: "save 4 f = [a, b, c, e]"
    using bytes_of_4 [OF length_save] by blast
  obtain p q r s t u v w where d: "save 8 d = [p, q, r, s, t, u, v, w]"
    using bytes_of_8 [OF length_save] by blast
  have "float4store k (int_image k 4 f) = save 4 f" "float4get k (\<lambda>i. save 4 f ! i) = int_image k 4 f"
    by (simp_all add: f float_defs int_image_def upt_lists)
  moreover have "float8store k (double_image k d) = save 8 d" "float8get k (\<lambda>i. save 8 d ! i) = double_image k d"
    by (cases k; simp add: d float_defs double_image_def int_image_def upt_lists)+
  ultimately show ?thesis by blast
qed

section \<open>The machine format\<close>

lemma rev_save_2: "rev (save 2 w) = [ucast (drop_bit 8 w), ucast w]"
  unfolding save_bytes [symmetric] by (simp add: upt_lists)

lemma rev_save_4: "rev (save 4 w) = [ucast (drop_bit 24 w), ucast (drop_bit 16 w), ucast (drop_bit 8 w), ucast w]"
  unfolding save_bytes [symmetric] by (simp add: upt_lists)

lemma load_save: "load n (\<lambda>i. save n w ! i) = (word_of_int (uint w mod 256 ^ n) :: 'a::len word)"
proof -
  have "le_int (\<lambda>i. save n w ! i) n = uint w mod 256 ^ n"
    by (rule le_int_digits) (simp add: save_def)
  then show ?thesis by (simp add: load_def)
qed

lemma load_save_2: "load 2 (\<lambda>i. save 2 w ! i) = w" for w :: "16 word"
  using load_save [of 2 w, where 'a = 16] word_of_uint_mod [of w] by simp

lemma load_save_4: "load 4 (\<lambda>i. save 4 w ! i) = w" for w :: "32 word"
  using load_save [of 4 w, where 'a = 32] word_of_uint_mod [of w] by simp

lemma getters:
  "ushortget k M = load 2 (\<lambda>i. if k = Big then M (1 - i) else M i)"
  "shortget k M = ushortget k M" "longget k M = ulongget k M"
  "ulongget k M = load 4 (\<lambda>i. if k = Big then M (3 - i) else M i)"
proof -
  have u: "load 2 A = uint2korr A" for A by (simp add: load_def uint2korr_value)
  then show "ushortget k M = load 2 (\<lambda>i. if k = Big then M (1 - i) else M i)"
    by (simp add: ushortget_def u big_defs) (simp add: uint2korr_def)
  show "shortget k M = ushortget k M" by (simp add: shortget_def ushortget_def big_defs sint2korr_def uint2korr_def)
  have 4: "load 4 A = uint4korr A" for A by (simp add: load_def portable4.korr_value)
  show "longget k M = ulongget k M" by (simp add: longget_def ulongget_def big_defs sint4korr_def uint4korr_def)
  show "ulongget k M = load 4 (\<lambda>i. if k = Big then M (3 - i) else M i)"
    by (simp add: ulongget_def big_defs 4) (simp add: uint4korr_def)
qed

lemma int_image_nth: "i < n \<Longrightarrow> int_image Big n w ! (n - Suc i) = save n w ! i"
  by (simp add: int_image_def rev_nth length_save)

lemma int_image_little: "k \<noteq> Big \<Longrightarrow> int_image k n w = save n w"
  by (simp add: int_image_def)

lemma load_cong: "(\<And>i. i < n \<Longrightarrow> A i = B i) \<Longrightarrow> load n A = load n B"
proof -
  assume "\<And>i. i < n \<Longrightarrow> A i = B i"
  then have "le_int A n = le_int B n" by (induction n) auto
  then show ?thesis by (simp add: load_def)
qed

text \<open>
  In machine format the stores write what the machine has in its memory for the number, and the
  readers of the same machine recover the number from it, signed and unsigned alike: 16 bits for the
  short ones, 32 bits for the long ones, the whole image for floats, doubles and 64 bit integers.
\<close>

lemma machine_format:
  fixes w2 :: "16 word" and w4 :: "32 word" and w8 :: "64 word"
  shows "shortstore k w4 = int_image k 2 w4 \<and> longstore k w4 = int_image k 4 w4 \<and>
    ushortget k (\<lambda>i. int_image k 2 w2 ! i) = w2 \<and> shortget k (\<lambda>i. int_image k 2 w2 ! i) = w2 \<and>
    ulongget k (\<lambda>i. int_image k 4 w4 ! i) = w4 \<and> longget k (\<lambda>i. int_image k 4 w4 ! i) = w4 \<and>
    longlongget (\<lambda>i. longlongstore (int_image k 8 w8) ! i) = int_image k 8 w8 \<and>
    floatget (\<lambda>i. floatstore (int_image k 4 w4) ! i) = int_image k 4 w4 \<and>
    doubleget k (\<lambda>i. doublestore k (double_image k w8) ! i) = double_image k w8"
proof -
  have "shortstore k w4 = int_image k 2 w4" "longstore k w4 = int_image k 4 w4"
    by (simp_all add: shortstore_def longstore_def big_defs int_image_def rev_save_2 rev_save_4 store_values)
  moreover have "ushortget k (\<lambda>i. int_image k 2 w2 ! i) = load 2 (\<lambda>i. save 2 w2 ! i)"
    unfolding getters using int_image_nth [of _ 2 w2] by (intro load_cong) (auto simp: int_image_little less_Suc_eq eval_nat_numeral)
  moreover have "ulongget k (\<lambda>i. int_image k 4 w4 ! i) = load 4 (\<lambda>i. save 4 w4 ! i)"
    unfolding getters using int_image_nth [of _ 4 w4] by (intro load_cong) (auto simp: int_image_little less_Suc_eq eval_nat_numeral)
  moreover have "longlongget (\<lambda>i. longlongstore (int_image k 8 w8) ! i) = int_image k 8 w8"
    using bytes_of_8 [of "int_image k 8 w8"]
    by (auto simp: longlongget_def longlongstore_def upt_lists int_image_def length_save)
  moreover have "floatget (\<lambda>i. floatstore (int_image k 4 w4) ! i) = int_image k 4 w4"
    using bytes_of_4 [of "int_image k 4 w4"]
    by (auto simp: float_defs upt_lists int_image_def length_save)
  moreover have "doubleget k (\<lambda>i. doublestore k (double_image k w8) ! i) = double_image k w8"
  proof -
    have "length (double_image k w8) = 8" by (simp add: double_image_def int_image_def length_save)
    from bytes_of_8 [OF this] show ?thesis
      by (cases k) (auto simp: float_defs upt_lists)
  qed
  ultimately show ?thesis using load_save_2 [of w2] load_save_4 [of w4] by (simp add: getters(2,3))
qed

end
