(* ===== verification/MyGlobal.thy ===== *)
theory MyGlobal
  imports Double "HOL-Library.Word"
begin

text \<open>
  The general macros of \<^verbatim>\<open>client/mysql_include/my_global.h\<close>: rounding sizes up to an alignment,
  tests of bits, maxima and minima, and the classification of doubles for platforms that have no
  \<^verbatim>\<open>finite\<close>, \<^verbatim>\<open>isnan\<close> or \<^verbatim>\<open>isinf\<close>.
\<close>

unbundle bit_operations_syntax

section \<open>Alignment and bits\<close>

definition MY_ALIGN :: "'a::len word \<Rightarrow> 'a word \<Rightarrow> 'a word" where
  "MY_ALIGN A L = (A + L - 1) AND NOT (L - 1)"

text \<open>The size of a double is 8.\<close>

definition ALIGN_SIZE :: "'a::len word \<Rightarrow> 'a word" where
  "ALIGN_SIZE A = MY_ALIGN A 8"

definition test_all_bits :: "'a::len word \<Rightarrow> 'a word \<Rightarrow> bool" where
  "test_all_bits a b \<longleftrightarrow> a AND b = b"

text \<open>The macros that change their first argument give its new value.\<close>

definition set_if_bigger :: "'a::linorder \<Rightarrow> 'a \<Rightarrow> 'a" where
  "set_if_bigger a b = (if a < b then b else a)"

definition set_if_smaller :: "'a::linorder \<Rightarrow> 'a \<Rightarrow> 'a" where
  "set_if_smaller a b = (if b < a then b else a)"

definition swap_variables :: "'a \<times> 'a \<Rightarrow> 'a \<times> 'a" where
  "swap_variables v = (let dummy = fst v; a = snd v in (a, dummy))"

definition max_macro :: "'a::linorder \<Rightarrow> 'a \<Rightarrow> 'a" where
  "max_macro a b = (if b < a then a else b)"

definition min_macro :: "'a::linorder \<Rightarrow> 'a \<Rightarrow> 'a" where
  "min_macro a b = (if a < b then a else b)"

lemma extrema:
  "max_macro a b = max a b" "min_macro a b = min a b" "set_if_bigger a b = max a b" "set_if_smaller a b = min a b"
  by (auto simp: max_macro_def min_macro_def set_if_bigger_def set_if_smaller_def max_def min_def)

lemma test_all_bits_iff: "test_all_bits a b \<longleftrightarrow> (\<forall>n. bit b n \<longrightarrow> bit a n)"
proof
  assume "test_all_bits a b"
  then have "bit (a AND b) n = bit b n" for n by (simp add: test_all_bits_def)
  then show "\<forall>n. bit b n \<longrightarrow> bit a n" by (simp add: bit_and_iff) blast
next
  assume "\<forall>n. bit b n \<longrightarrow> bit a n"
  then have "a AND b = b" by (intro bit_word_eqI) (auto simp: bit_and_iff)
  then show "test_all_bits a b" by (simp add: test_all_bits_def)
qed

lemma and_not_mask: "w AND NOT (mask k) = push_bit k (drop_bit k w)" for w :: "'a::len word"
  by (rule bit_word_eqI) (auto simp: bit_simps)

lemma uint_push_drop: "uint (push_bit k (drop_bit k w)) = uint w div 2 ^ k * 2 ^ k"
  for w :: "'a::len word"
proof -
  have w: "0 \<le> uint w" "uint w < 2 ^ LENGTH('a)" using uint_lt2p [of w] by simp_all
  have e: "uint w div 2 ^ k * 2 ^ k = uint w - uint w mod 2 ^ k" by (simp add: minus_mod_eq_div_mult)
  have "0 \<le> uint w mod 2 ^ k" by simp
  with w e have "uint w div 2 ^ k * 2 ^ k < 2 ^ LENGTH('a)" by linarith
  moreover have "0 \<le> uint w div 2 ^ k * 2 ^ k" using w(1) by (simp add: pos_imp_zdiv_nonneg_iff)
  ultimately show ?thesis
    by (simp only: unsigned_push_bit_eq unsigned_drop_bit_eq)
      (use w in \<open>simp add: take_bit_int_eq_self push_bit_eq_mult drop_bit_eq_div\<close>)
qed

text \<open>
  \<^verbatim>\<open>MY_ALIGN\<close> to a power of two rounds up: the result is a multiple of the alignment, not below
  the size and less than one alignment above it, as long as the sum does not wrap.
\<close>

lemma my_align_rounds_up:
  fixes A :: "'a::len word"
  assumes "k < LENGTH('a)" and "uint A + 2 ^ k - 1 < 2 ^ LENGTH('a)"
  shows "2 ^ k dvd uint (MY_ALIGN A (2 ^ k)) \<and> uint A \<le> uint (MY_ALIGN A (2 ^ k)) \<and>
    uint (MY_ALIGN A (2 ^ k)) < uint A + 2 ^ k"
proof -
  let ?n = "uint A + 2 ^ k - 1"
  have L: "(2 :: 'a word) ^ k - 1 = mask k" by (simp add: mask_eq_exp_minus_1)
  have "A + 2 ^ k - 1 = word_of_int ?n" by simp
  moreover have "0 \<le> ?n" by (simp add: add_nonneg_pos)
  ultimately have "uint (A + 2 ^ k - 1) = ?n"
    using assms(2) by (simp only: uint_word_of_int mod_pos_pos_trivial)
  then have a: "uint (MY_ALIGN A (2 ^ k)) = ?n div 2 ^ k * 2 ^ k"
    by (simp only: MY_ALIGN_def L and_not_mask uint_push_drop)
  have "?n div 2 ^ k * 2 ^ k = ?n - ?n mod 2 ^ k" by (simp add: minus_mod_eq_div_mult)
  moreover have "0 \<le> ?n mod 2 ^ k" "?n mod 2 ^ k < 2 ^ k" by simp_all
  ultimately show ?thesis unfolding a by (intro conjI dvd_triv_right) linarith+
qed

text \<open>13 bytes take 16, and a size that wraps takes none.\<close>

lemma my_align_rounds_up_witness:
  "uint (MY_ALIGN (13 :: 32 word) (2 ^ 3)) = 16 \<and> MY_ALIGN (0xFFFFFFFF :: 32 word) (2 ^ 3) = 0"
proof -
  have "8 dvd uint (MY_ALIGN (13 :: 32 word) (2 ^ 3))" "13 \<le> uint (MY_ALIGN (13 :: 32 word) (2 ^ 3))"
    "uint (MY_ALIGN (13 :: 32 word) (2 ^ 3)) < 21"
    using my_align_rounds_up [of 3 "13 :: 32 word"] by simp_all
  moreover have "MY_ALIGN (0xFFFFFFFF :: 32 word) (2 ^ 3) = 0" by (simp add: MY_ALIGN_def)
  ultimately show ?thesis by presburger
qed

section \<open>Classifying doubles\<close>

definition dabs :: "double \<Rightarrow> double" where
  "dabs x = (if is_neg x then dneg x else x)"

definition dless :: "double \<Rightarrow> double \<Rightarrow> bool" where
  "dless a b =
     (if a = NaN \<or> b = NaN then False
      else if finite_double a
      then (if finite_double b then dval a < dval b else b = Inf False)
      else a = Inf True \<and> b \<noteq> Inf True)"

text \<open>\<^verbatim>\<open>1.0 / fabs(x) > 0.0\<close> and \<^verbatim>\<open>x != x\<close>.\<close>

definition finite_macro :: "double \<Rightarrow> bool" where
  "finite_macro x = dless 0 (1 / dabs x)"

definition isnan_macro :: "double \<Rightarrow> bool" where
  "isnan_macro x = (\<not> deq x x)"

definition my_isinf :: "double \<Rightarrow> bool" where
  "my_isinf x = (\<not> finite_macro x \<and> \<not> isnan_macro x)"

text \<open>Rounding does not lose a number as large as the smallest positive double.\<close>

lemma round_mag_positive:
  assumes "pow2 emin \<le> r"
  shows "dless 0 (round_mag False r)"
proof -
  have r: "0 < r" using assms pow2_pos [of emin] by linarith
  define q where "q = quantum r"
  have "pow2 q \<le> r"
  proof (cases "emin \<le> ilog2 r - 52")
    case True
    then have "pow2 q \<le> pow2 (ilog2 r)" by (simp add: q_def quantum_def)
    with ilog2_bounds(1) [OF r] show ?thesis by linarith
  qed (use assms in \<open>simp add: q_def quantum_def\<close>)
  then have "of_int 1 \<le> r / pow2 q" by simp
  then have "1 \<le> round_even (r / pow2 q)" by (rule round_even_ge)
  with r show ?thesis
    by (auto simp: round_mag_def Let_def mk_double_def dless_def zero_double_def dzero_def q_def [symmetric])
qed

lemma dabs_parts:
  "dabs x = NaN \<longleftrightarrow> x = NaN" "finite_double (dabs x) \<longleftrightarrow> finite_double x" "dval (dabs x) = \<bar>dval x\<bar>" "\<not> is_neg (dabs x)"
  by (cases x; auto simp: dabs_def dzero_def abs_mult)+

lemma one_parts: "finite_double 1" "dval 1 = 1" "\<not> is_neg 1" "1 \<noteq> NaN" "NaN \<noteq> 1"
proof -
  show f: "finite_double 1" "dval 1 = 1" "\<not> is_neg 1" by (simp_all add: one_double_def dint_exact)
  have "a \<noteq> NaN" "NaN \<noteq> a" if "finite_double a" for a using that by auto
  from this [OF f(1)] show "1 \<noteq> NaN" "NaN \<noteq> 1" .
qed

text \<open>The largest double is less than two to the 1024th.\<close>

lemma representable_bound: "representable x \<Longrightarrow> \<bar>x\<bar> < pow2 1024"
proof -
  assume "representable x"
  then obtain m e where x: "\<bar>x\<bar> = of_int m * pow2 e" "m < 2 ^ 53" "e \<le> emax" by (auto simp: representable_def)
  show ?thesis
  proof (cases "m \<le> 0")
    case False
    have "\<bar>x\<bar> < of_int (2 ^ 53) * pow2 e"
      unfolding x(1) by (rule mult_strict_right_mono) (use x(2) in \<open>simp_all only: of_int_less_iff pow2_pos\<close>)
    also have "\<dots> = pow2 (53 + e)" using pow2_of_nat [of 53] by (simp add: pow2_add)
    also have "\<dots> \<le> pow2 1024" using x(3) by (intro pow2_mono) simp
    finally show ?thesis .
  next
    case True
    then have "\<bar>x\<bar> \<le> 0" unfolding x(1) by (simp add: mult_nonpos_nonneg)
    then show ?thesis using pow2_pos [of 1024] by linarith
  qed
qed

text \<open>
  C26: the replacements classify every double correctly: the reciprocal of the absolute value is
  positive exactly for the finite numbers, both zeros and the subnormal numbers, whose reciprocal
  overflows, included, and even the reciprocal of the largest number does not underflow.
\<close>

theorem doubles_classified:
  assumes "finite_double x \<Longrightarrow> representable (dval x)"
  shows "finite_macro x = finite_double x \<and> isnan_macro x = (x = NaN) \<and> my_isinf x = (\<exists>s. x = Inf s)"
proof (cases "finite_double x")
  case True
  have "dless 0 (1 / dabs x)"
  proof (cases "dval x = 0")
    case True
    with \<open>finite_double x\<close> one_parts dabs_parts [of x] show ?thesis
      by (auto simp: divide_double_def ddiv_def dless_def zero_double_def dzero_def)
  next
    case False
    have "\<bar>dval x\<bar> < pow2 1024" using representable_bound assms \<open>finite_double x\<close> by blast
    with False have "1 / pow2 1024 \<le> 1 / \<bar>dval x\<bar>" by (intro divide_left_mono) auto
    moreover have "1 / pow2 1024 = pow2 (- 1024)" using pow2_diff [of 0 1024] by simp
    moreover have "pow2 emin \<le> pow2 (- 1024)" by simp
    ultimately have "pow2 emin \<le> 1 / \<bar>dval x\<bar>" by linarith
    then have "dless 0 (round_mag False (1 / \<bar>dval x\<bar>))" by (rule round_mag_positive)
    with \<open>finite_double x\<close> False one_parts dabs_parts [of x] show ?thesis
      by (auto simp: divide_double_def ddiv_def)
  qed
  with True show ?thesis by (auto simp: finite_macro_def isnan_macro_def my_isinf_def deq_refl)
next
  case False
  then consider "x = NaN" | s where "x = Inf s" by (cases x) auto
  then have "\<not> dless 0 (1 / dabs x)"
  proof cases
    case 2
    then have "1 / dabs x = dzero (is_neg 1)"
      using dabs_parts [of x] one_parts by (auto simp: divide_double_def ddiv_def dabs_def)
    then show ?thesis by (simp add: dless_def zero_double_def)
  qed (simp add: divide_double_def ddiv_def dabs_def dless_def)
  with False show ?thesis by (cases x) (auto simp: finite_macro_def isnan_macro_def my_isinf_def deq_refl)
qed

text \<open>The smallest positive double, whose reciprocal overflows.\<close>

theorem doubles_classified_witness:
  "finite_macro (Fin 1 emin) \<and> \<not> my_isinf (Fin 1 emin)"
proof -
  have "representable (dval (Fin 1 emin))" by (rule representableI [of _ 1 emin]) simp_all
  with doubles_classified [of "Fin 1 emin"] show ?thesis by simp
qed

end
