(* ===== verification/Rounding.thy ===== *)
theory Rounding
  imports MyGlobal "HOL-Library.Signed_Division"
begin

text \<open>
  The functions of \<^verbatim>\<open>client/mysql_include/my_global.h\<close> that stand in for conversions and roundings
  that a platform does not have or has wrong: \<^verbatim>\<open>rint\<close>, and the conversions between doubles and
  unsigned integers of 64 bits.
\<close>

section \<open>What the functions use\<close>

text \<open>\<^verbatim>\<open>modf\<close> of the C library: the fraction and the whole part, both with the sign of the number.\<close>

definition modf :: "double \<Rightarrow> double \<times> double" where
  "modf x =
     (if x = NaN then (NaN, NaN)
      else if \<not> finite_double x then (dzero (is_neg x), x)
      else let n = \<lfloor>\<bar>dval x\<bar>\<rfloor>
           in (round_mag (is_neg x) (\<bar>dval x\<bar> - of_int n), round_mag (is_neg x) (of_int n)))"

definition dle :: "double \<Rightarrow> double \<Rightarrow> bool" where
  "dle a b \<longleftrightarrow> dless a b \<or> deq a b"

text \<open>The cast of a double to an integer drops the fraction, the cast of a truth value is 0 or 1.\<close>

definition truncated :: "double \<Rightarrow> int" where
  "truncated d = (if dval d < 0 then - \<lfloor>- dval d\<rfloor> else \<lfloor>dval d\<rfloor>)"

definition bool_double :: "bool \<Rightarrow> double" where
  "bool_double b = (if b then 1 else 0)"

text \<open>The literal \<^verbatim>\<open>0.5\<close>.\<close>

definition half :: double where
  "half = Fin 1 (- 1)"

section \<open>The functions\<close>

definition MAX_EXACT_INTEGER :: int where
  "MAX_EXACT_INTEGER = push_bit 53 1 - 1"

definition rint :: "double \<Rightarrow> double" where
  "rint x =
     (let (f, i) = modf x
      in if dless 0 x
         then i + bool_double (dless half f \<or>
                    (deq f half \<and> dle i (dint MAX_EXACT_INTEGER) \<and> truncated i smod 2 \<noteq> 0))
         else i - bool_double (dless f (- half) \<or>
                    (deq f (- half) \<and> dle (dint (- MAX_EXACT_INTEGER)) i \<and> truncated i smod 2 \<noteq> 0)))"

definition my_ulonglong2double :: "64 word \<Rightarrow> double" where
  "my_ulonglong2double value =
     (let nr = sint value
      in if 0 \<le> nr then dint nr else dint 18446744073709551616 + dint nr)"

text \<open>\<open>cast\<close> is the conversion of the compiler.\<close>

definition my_double2ulonglong :: "(double \<Rightarrow> 64 word) \<Rightarrow> double \<Rightarrow> 64 word" where
  "my_double2ulonglong cast d =
     (let t = d - dint 0x8000000000000000
      in if dle 0 t then cast t + 0x8000000000000000 else cast d)"

section \<open>Parts of a double\<close>

lemma is_neg_round_mag [simp]: "is_neg (round_mag s r) = s"
proof (cases "r \<le> 0")
  case False
  then have "0 \<le> round_even (r / pow2 (quantum r))" by (intro round_even_ge) simp
  with False show ?thesis by (auto simp: round_mag_def Let_def mk_double_def)
qed (simp add: round_mag_def)

lemma round_even_minus: "round_even (- r) = - round_even r"
proof (cases "r = of_int \<lfloor>r\<rfloor>")
  case True
  then have "- r = of_int (- \<lfloor>r\<rfloor>)" by simp
  with True show ?thesis by (metis round_even_of_int)
next
  case False
  then have "of_int \<lfloor>r\<rfloor> < r" using of_int_floor_le [of r] by linarith
  then have "\<lfloor>- r\<rfloor> = - \<lfloor>r\<rfloor> - 1" by (intro floor_unique) (use floor_correct [of r] in simp_all)
  then show ?thesis by (auto simp: round_even_def Let_def)
qed

text \<open>A number with a fraction is less than \<open>2 ^ 52\<close>; both its parts are doubles.\<close>

lemma representable_parts:
  assumes "representable v"
  shows "representable (of_int \<lfloor>\<bar>v\<bar>\<rfloor>)" and "representable (\<bar>v\<bar> - of_int \<lfloor>\<bar>v\<bar>\<rfloor>)"
    and "\<bar>v\<bar> \<noteq> of_int \<lfloor>\<bar>v\<bar>\<rfloor> \<Longrightarrow> \<lfloor>\<bar>v\<bar>\<rfloor> < 2 ^ 52"
proof -
  obtain m e where v: "\<bar>v\<bar> = of_int m * pow2 e" and me: "m < 2 ^ 53" "emin \<le> e" "e \<le> emax"
    using assms by (auto simp: representable_def)
  have "0 \<le> of_int m * pow2 e" using v by (metis abs_ge_zero)
  then have m: "0 \<le> m" by (simp add: zero_le_mult_iff)
  have "representable (of_int \<lfloor>\<bar>v\<bar>\<rfloor>) \<and> representable (\<bar>v\<bar> - of_int \<lfloor>\<bar>v\<bar>\<rfloor>) \<and>
      (\<bar>v\<bar> \<noteq> of_int \<lfloor>\<bar>v\<bar>\<rfloor> \<longrightarrow> \<lfloor>\<bar>v\<bar>\<rfloor> < 2 ^ 52)"
  proof (cases "0 \<le> e")
    case True
    then have "\<bar>v\<bar> = of_int (m * 2 ^ nat e)" by (simp add: v pow2_nat)
    then have whole: "\<bar>v\<bar> = of_int \<lfloor>\<bar>v\<bar>\<rfloor>" by (metis floor_of_int)
    moreover have "representable \<bar>v\<bar>" using assms by (rule representable_abs)
    ultimately show ?thesis by simp
  next
    case False
    define k where "k = nat (- e)"
    have k: "pow2 e = 1 / of_int (2 ^ k)" "1 \<le> k" using False by (simp_all add: k_def pow2_def)
    then have v': "\<bar>v\<bar> = of_int m / of_int (2 ^ k)" by (simp add: v)
    then have n: "\<lfloor>\<bar>v\<bar>\<rfloor> = m div 2 ^ k" by (simp only: floor_divide_of_int_eq)
    have "(2 :: int) ^ 1 \<le> 2 ^ k" using k(2) by (intro power_increasing) simp_all
    then have "m div 2 ^ k \<le> m div 2" using m by (intro zdiv_mono2) simp_all
    moreover have "m div 2 < 2 ^ 52" using me(1) by simp
    ultimately have small: "m div 2 ^ k < 2 ^ 52" by linarith
    have "0 \<le> m div 2 ^ k" using m by (simp add: pos_imp_zdiv_nonneg_iff)
    with small have whole: "representable (of_int (m div 2 ^ k))" by (intro representable_int) simp
    have "rat_of_int m = of_int (m div 2 ^ k * 2 ^ k + m mod 2 ^ k)" by (simp only: div_mult_mod_eq)
    then have "rat_of_int m = of_int (m div 2 ^ k) * 2 ^ k + of_int (m mod 2 ^ k)"
      by (simp only: of_int_add of_int_mult of_int_power of_int_numeral)
    then have "\<bar>v\<bar> - of_int (m div 2 ^ k) = of_int (m mod 2 ^ k) * pow2 e"
      by (simp add: v' k(1) field_simps)
    moreover have "0 \<le> m mod 2 ^ k" "m mod 2 ^ k < 2 ^ 53"
      using m me(1) zmod_le_nonneg_dividend [OF m, of "2 ^ k"] by simp_all
    ultimately have "representable (\<bar>v\<bar> - of_int (m div 2 ^ k))"
      using me(2,3) by (intro representableI [of _ "m mod 2 ^ k" e]) (simp_all add: abs_mult)
    with small whole show ?thesis by (simp add: n)
  qed
  then show "representable (of_int \<lfloor>\<bar>v\<bar>\<rfloor>)" and "representable (\<bar>v\<bar> - of_int \<lfloor>\<bar>v\<bar>\<rfloor>)"
    and "\<bar>v\<bar> \<noteq> of_int \<lfloor>\<bar>v\<bar>\<rfloor> \<Longrightarrow> \<lfloor>\<bar>v\<bar>\<rfloor> < 2 ^ 52" by blast+
qed

text \<open>The parts that \<^verbatim>\<open>modf\<close> gives, in terms of the absolute value.\<close>

lemma modf_parts:
  assumes "finite_double x" and "representable (dval x)"
  defines "n \<equiv> \<lfloor>\<bar>dval x\<bar>\<rfloor>" and "s \<equiv> (if is_neg x then - 1 else 1 :: rat)"
  obtains f i where "modf x = (f, i)" "finite_double f" "dval f = s * (\<bar>dval x\<bar> - of_int n)"
    "finite_double i" "dval i = s * of_int n" "is_neg i = is_neg x"
proof -
  let ?f = "round_mag (is_neg x) (\<bar>dval x\<bar> - of_int n)" and ?i = "round_mag (is_neg x) (of_int n)"
  have "x \<noteq> NaN" using assms(1) by auto
  then have "modf x = (?f, ?i)" using assms(1) by (simp add: modf_def n_def Let_def)
  moreover have "0 \<le> n" "0 \<le> \<bar>dval x\<bar> - of_int n" by (simp_all add: n_def)
  ultimately show ?thesis
    using that round_mag_exact [OF representable_parts(1) [OF assms(2)], of "is_neg x"]
      round_mag_exact [OF representable_parts(2) [OF assms(2)], of "is_neg x"]
    by (simp add: n_def [symmetric] s_def)
qed

lemma bool_double_parts: "finite_double (bool_double b)" "dval (bool_double b) = of_bool b" "is_neg (bool_double b) = False"
  by (simp_all add: bool_double_def one_parts zero_double_def)

lemma minus_bool_neg: "is_neg (dneg (bool_double b))"
proof (cases b)
  case True
  then have "dval (dneg (bool_double b)) < 0" by (simp add: bool_double_parts)
  then show ?thesis by (rule is_neg_neg)
qed (simp add: bool_double_def zero_double_def dzero_def)

lemma half_parts: "finite_double half" "dval half = 1 / 2" "finite_double (- half)" "dval (- half) = - 1 / 2"
  by (simp_all add: half_def uminus_double_def pow2_def)

lemma odd_smod: "n smod 2 \<noteq> 0 \<longleftrightarrow> odd n" for n :: int
  by (simp add: smod_int_alt_def sgn_if mod_eq_0_iff_dvd even_abs_add_iff)

text \<open>The condition under which one is added to the whole part.\<close>

lemma round_up_condition:
  assumes "0 \<le> fr" "fr < 1" "fr \<noteq> 0 \<longrightarrow> n < 2 ^ 52" "0 \<le> n"
  shows "round_even (of_int n + fr) =
      n + of_bool (1 / 2 < fr \<or> fr = 1 / 2 \<and> of_int n \<le> (of_int MAX_EXACT_INTEGER :: rat) \<and> odd n)"
    and "representable (of_int n) \<Longrightarrow> representable (of_int (round_even (of_int n + fr)))"
proof -
  have "\<lfloor>of_int n + fr\<rfloor> = n" using assms(1,2) by (intro floor_unique) simp_all
  then have r: "round_even (of_int n + fr) = (if fr < 1 / 2 \<or> fr = 1 / 2 \<and> even n then n else n + 1)"
    by (simp add: round_even_def)
  moreover have "fr = 1 / 2 \<Longrightarrow> of_int n \<le> (of_int MAX_EXACT_INTEGER :: rat)"
  proof -
    assume "fr = 1 / 2"
    then have "n < 2 ^ 52" using assms(3) by simp
    then have "n \<le> MAX_EXACT_INTEGER" by (simp add: MAX_EXACT_INTEGER_def)
    then show ?thesis by (simp only: of_int_le_iff)
  qed
  ultimately show "round_even (of_int n + fr) =
      n + of_bool (1 / 2 < fr \<or> fr = 1 / 2 \<and> of_int n \<le> (of_int MAX_EXACT_INTEGER :: rat) \<and> odd n)"
    by auto
  assume n: "representable (of_int n)"
  show "representable (of_int (round_even (of_int n + fr)))"
  proof (cases "fr = 0")
    case False
    then have "\<bar>n + 1\<bar> \<le> 2 ^ 53" using assms(3,4) by simp
    with n representable_int [of "n + 1"] show ?thesis unfolding r by simp
  qed (use n r in simp)
qed

lemma max_exact_parts:
  "finite_double (dint MAX_EXACT_INTEGER)" "dval (dint MAX_EXACT_INTEGER) = of_int MAX_EXACT_INTEGER"
  "finite_double (dint (- MAX_EXACT_INTEGER))" "dval (dint (- MAX_EXACT_INTEGER)) = - of_int MAX_EXACT_INTEGER"
  using dint_exact [of MAX_EXACT_INTEGER] dint_exact [of "- MAX_EXACT_INTEGER"]
  by (simp_all add: MAX_EXACT_INTEGER_def)

lemma compare_finite:
  "finite_double a \<Longrightarrow> finite_double b \<Longrightarrow> dless a b \<longleftrightarrow> dval a < dval b"
  "finite_double a \<Longrightarrow> finite_double b \<Longrightarrow> deq a b \<longleftrightarrow> dval a = dval b"
  "finite_double a \<Longrightarrow> finite_double b \<Longrightarrow> dle a b \<longleftrightarrow> dval a \<le> dval b"
  by (auto simp: dless_def deq_def dle_def)

lemma plus_exact:
  assumes "finite_double a" "finite_double b" "representable (dval a + dval b)"
  shows "finite_double (a + b)" "dval (a + b) = dval a + dval b"
    "is_neg (a + b) = (if dval a + dval b = 0 then is_neg a \<and> is_neg b else dval a + dval b < 0)"
  using assms dadd_exact [OF assms] by (auto simp: plus_double_def dadd_def Let_def)

lemma minus_exact:
  assumes "finite_double a" "finite_double b" "representable (dval a - dval b)"
  shows "finite_double (a - b)" "dval (a - b) = dval a - dval b"
    "is_neg (a - b) = (if dval a = dval b then is_neg a \<and> is_neg (dneg b) else dval a < dval b)"
  using plus_exact [of a "dneg b"] assms by (auto simp: plus_double_def minus_double_def dsub_def)

section \<open>The properties\<close>

lemma rint_finite:
  assumes x: "finite_double x" "representable (dval x)"
  shows "finite_double (rint x) \<and> dval (rint x) = of_int (round_even (dval x)) \<and> is_neg (rint x) = is_neg x"
proof -
  define n where "n = \<lfloor>\<bar>dval x\<bar>\<rfloor>"
  define fr where "fr = \<bar>dval x\<bar> - of_int n"
  have n: "0 \<le> n" "0 \<le> fr" "fr < 1" "fr \<noteq> 0 \<longrightarrow> n < 2 ^ 52"
    using floor_correct [of "\<bar>dval x\<bar>"] representable_parts(3) [OF x(2)] by (auto simp: n_def fr_def)
  have abs: "of_int n + fr = \<bar>dval x\<bar>" by (simp add: fr_def)
  define b where "b = (1 / 2 < fr \<or> fr = 1 / 2 \<and> of_int n \<le> (of_int MAX_EXACT_INTEGER :: rat) \<and> odd n)"
  note up = round_up_condition [OF n(2-4,1), folded b_def, unfolded abs]
  have "representable (of_int n)" unfolding n_def by (rule representable_parts(1) [OF x(2)])
  from up(2) [OF this] have round: "round_even \<bar>dval x\<bar> = n + of_bool b" "representable (of_int (n + of_bool b))"
    by (simp_all only: up(1))
  obtain f i where parts: "modf x = (f, i)" "finite_double f" "dval f = (if is_neg x then - 1 else 1) * fr"
    "finite_double i" "dval i = (if is_neg x then - 1 else 1) * of_int n" "is_neg i = is_neg x"
    using modf_parts [OF x] by (auto simp: n_def fr_def)
  have zero: "finite_double 0" "dval 0 = 0" by (simp_all add: zero_double_def)
  show ?thesis
  proof (cases "0 < dval x")
    case True
    then have "\<not> is_neg x" by simp
    with parts n(1) have i: "dval f = fr" "dval i = of_int n" "truncated i = n" "\<not> is_neg i"
      by (simp_all add: truncated_def)
    have "rint x = i + bool_double b"
      using True x parts i
      by (simp add: rint_def b_def compare_finite half_parts max_exact_parts zero odd_smod)
    moreover have "dval i + dval (bool_double b) = of_int (n + of_bool b)"
      by (simp add: i bool_double_parts)
    ultimately show ?thesis
      using plus_exact [of i "bool_double b"] parts(4) round True n(1) i(4) \<open>\<not> is_neg x\<close>
      by (simp add: bool_double_parts)
  next
    case False
    then have sign: "dval x = - \<bar>dval x\<bar>" by simp
    have neg: "is_neg x \<or> n = 0 \<and> fr = 0"
      using False by (cases "dval x = 0") (auto simp: n_def fr_def)
    with parts n(1) have i: "dval f = - fr" "dval i = - of_int n" "truncated i = - n"
      by (auto simp: truncated_def)
    have "(dless f (- half) \<or> deq f (- half) \<and> dle (dint (- MAX_EXACT_INTEGER)) i \<and> truncated i smod 2 \<noteq> 0) = b"
      unfolding compare_finite(1,2) [OF parts(2) half_parts(3)] compare_finite(3) [OF max_exact_parts(3) parts(4)]
        half_parts(4) max_exact_parts(4) i odd_smod b_def neg_le_iff_le even_minus
      by (auto simp: field_simps)
    moreover have "\<not> dless 0 x" using False x(1) zero by (simp add: compare_finite)
    ultimately have "rint x = i - bool_double b" by (simp only: rint_def parts(1) prod.case Let_def if_False)
    moreover have diff: "dval i - dval (bool_double b) = - of_int (n + of_bool b)"
      by (simp add: i bool_double_parts)
    moreover from this have "representable (dval i - dval (bool_double b))"
      using round(2) by (simp only: representable_minus)
    note sub = minus_exact [OF parts(4) bool_double_parts(1) this]
    have "dval i = dval (bool_double b) \<longleftrightarrow> n = 0 \<and> \<not> b" "dval i < dval (bool_double b) \<longleftrightarrow> n \<noteq> 0 \<or> b"
      using n(1) by (auto simp: i bool_double_parts)
    moreover have "b \<longrightarrow> fr \<noteq> 0" by (auto simp: b_def)
    moreover have "round_even (dval x) = - (n + of_bool b)"
      by (subst sign) (simp add: round_even_minus round)
    ultimately show ?thesis
      using sub parts(6) neg minus_bool_neg [of b] by auto
  qed
qed

text \<open>
  C24: \<^verbatim>\<open>rint\<close> is the rounding to the nearest integer, the even one of two equally near, for every
  double: the guard by \<^verbatim>\<open>MAX_EXACT_INTEGER\<close> never keeps a number from being rounded, adding one to the
  whole part is exact, the sign is kept, that of a zero included, and infinities and NaN are
  returned as they are.
\<close>

theorem rint_nearest:
  assumes "finite_double x \<Longrightarrow> representable (dval x)"
  shows "if finite_double x
    then finite_double (rint x) \<and> dval (rint x) = of_int (round_even (dval x)) \<and> is_neg (rint x) = is_neg x
    else rint x = x"
proof (cases "finite_double x")
  case True
  with rint_finite assms show ?thesis by simp
next
  case False
  have "rint (Inf s) = Inf s" "rint NaN = NaN" for s
    by (cases s)
      (simp_all add: rint_def modf_def dless_def deq_def half_parts bool_double_def plus_double_def minus_double_def
        dadd_def dsub_def zero_double_def dzero_def half_def uminus_double_def)
  with False show ?thesis by (cases x) auto
qed

text \<open>Two and a half goes down to two, three and a half up to four, and minus a quarter to the negative zero.\<close>

theorem rint_nearest_witness:
  "dval (rint (Fin 5 (- 1))) = 2 \<and> dval (rint (Fin 7 (- 1))) = 4 \<and> rint (Fin (- 1) (- 2)) = NegZero"
proof -
  have r: "representable (dval (Fin 5 (- 1)))" "representable (dval (Fin 7 (- 1)))" "representable (dval (Fin (- 1) (- 2)))"
    by (rule representableI [of _ 5 "- 1"] representableI [of _ 7 "- 1"] representableI [of _ 1 "- 2"];
        simp add: pow2_def)+
  have e: "round_even (dval (Fin 5 (- 1))) = 2" "round_even (dval (Fin 7 (- 1))) = 4" "round_even (dval (Fin (- 1) (- 2))) = 0"
    by code_simp+
  have "dval (rint (Fin (- 1) (- 2))) = 0" "is_neg (rint (Fin (- 1) (- 2)))" "finite_double (rint (Fin (- 1) (- 2)))"
    using rint_nearest [of "Fin (- 1) (- 2)"] r(3) e(3) by simp_all
  then have "rint (Fin (- 1) (- 2)) = NegZero"
    by (cases "rint (Fin (- 1) (- 2))") auto
  then show ?thesis
    using rint_nearest [of "Fin 5 (- 1)"] rint_nearest [of "Fin 7 (- 1)"] r e by simp
qed

section \<open>Unsigned integers\<close>

lemma round_mag_True: "dval (round_mag True r) = - dval (round_mag False r)"
  by (auto simp: round_mag_def Let_def mk_double_def)

text \<open>Below \<open>2 ^ 63\<close> a double is at least one less.\<close>

lemma representable_below:
  assumes "representable v" and "v < 2 ^ 63"
  shows "v \<le> 2 ^ 63 - 1"
proof (cases "0 \<le> v")
  case True
  show ?thesis
  proof (cases "v = of_int \<lfloor>v\<rfloor>")
    case whole: True
    with assms(2) have "of_int \<lfloor>v\<rfloor> < (of_int (2 ^ 63) :: rat)" by simp
    then have "\<lfloor>v\<rfloor> \<le> 2 ^ 63 - 1" by (simp only: of_int_less_iff)
    then have "of_int \<lfloor>v\<rfloor> \<le> (of_int (2 ^ 63 - 1) :: rat)" by (simp only: of_int_le_iff)
    with whole show ?thesis by simp
  next
    case False
    with representable_parts(3) [OF assms(1)] True have "\<lfloor>v\<rfloor> < 2 ^ 52" by simp
    then have "\<lfloor>v\<rfloor> + 1 \<le> 2 ^ 52" by simp
    then have "of_int (\<lfloor>v\<rfloor> + 1) \<le> (of_int (2 ^ 52) :: rat)" by (simp only: of_int_le_iff)
    then have "v < 2 ^ 52" using floor_correct [of v] by simp
    then show ?thesis by simp
  qed
qed simp

text \<open>From \<open>2 ^ 63\<close> to \<open>2 ^ 64\<close> the subtraction is exact.\<close>

lemma representable_above:
  assumes "representable v" and "2 ^ 63 \<le> v" and "v < 2 ^ 64"
  shows "representable (v - 2 ^ 63)"
proof -
  obtain m e where v: "v = of_int m * pow2 e" and me: "m < 2 ^ 53" "emin \<le> e" "e \<le> emax"
    using assms(1,2) by (auto simp: representable_def)
  have m: "1 \<le> m"
  proof (rule ccontr)
    assume "\<not> 1 \<le> m"
    then have "v \<le> 0" by (simp add: v mult_nonpos_nonneg)
    with assms(2) show False by simp
  qed
  have "pow2 e \<le> v" unfolding v using m by simp
  then have "pow2 e < 2 ^ 64" using assms(3) by (rule le_less_trans)
  also have "\<dots> = pow2 64" using pow2_of_nat [of 64] by simp
  finally have "pow2 e < pow2 64" .
  then have e: "e < 64" by simp
  have "of_int m < (of_int (2 ^ 53) :: rat)" using me(1) by (simp only: of_int_less_iff)
  then have "v < of_int (2 ^ 53) * pow2 e" by (simp add: v)
  also have "\<dots> = pow2 (e + 53)" using pow2_of_nat [of 53] by (simp add: pow2_add)
  finally have "pow2 63 < pow2 (e + 53)" using assms(2) pow2_of_nat [of 63] by simp
  then have e': "10 < e" by simp
  have "(of_int (2 ^ nat (63 - e)) :: rat) * pow2 e = pow2 (63 - e) * pow2 e"
    by (subst pow2_nat) (use e in simp_all)
  also have "\<dots> = pow2 63" by (simp flip: pow2_add)
  also have "\<dots> = 2 ^ 63" using pow2_of_nat [of 63] by simp
  finally have "of_int (2 ^ nat (63 - e)) * pow2 e = (2 ^ 63 :: rat)" .
  then have "v - 2 ^ 63 = of_int (m - 2 ^ nat (63 - e)) * pow2 e" by (simp add: v algebra_simps)
  moreover have "0 < (2 :: int) ^ nat (63 - e)" by simp
  with me(1) have "m - 2 ^ nat (63 - e) < 2 ^ 53" by linarith
  ultimately show ?thesis
    using assms(2) me(2,3) by (intro representableI [of _ "m - 2 ^ nat (63 - e)" e]) simp_all
qed

text \<open>The literals.\<close>

lemma representable_pow2: "0 \<le> k \<Longrightarrow> k \<le> emax \<Longrightarrow> representable (pow2 k)"
  by (rule representableI [of _ 1 k]) simp_all

lemma pow2_63: "pow2 63 = 2 ^ 63" and pow2_64: "pow2 64 = 2 ^ 64"
  using pow2_of_nat [of 63] pow2_of_nat [of 64] by simp_all

lemma literals:
  "finite_double (dint 0x8000000000000000)" "dval (dint 0x8000000000000000) = 2 ^ 63"
  "finite_double (dint 18446744073709551616)" "dval (dint 18446744073709551616) = 2 ^ 64"
  using round_mag_exact [OF representable_pow2 [of 63], of False] round_mag_exact [OF representable_pow2 [of 64], of False]
  by (simp_all add: dint_def pow2_63 pow2_64)

text \<open>The sign of the difference from \<open>2 ^ 63\<close> tells on which side a double is.\<close>

lemma difference_sign:
  assumes "finite_double d" and "representable (dval d)" and "dval d < 2 ^ 63" and "- 1 < dval d"
  shows "\<not> dle 0 (d - dint 0x8000000000000000)"
proof -
  define r where "r = 2 ^ 63 - dval d"
  have r: "1 \<le> r" "r < 2 ^ 64"
    using representable_below [OF assms(2,3)] assms(4) by (simp_all add: r_def)
  have "pow2 emin \<le> pow2 0" by (intro pow2_mono) simp
  with r(1) have low: "pow2 emin \<le> r" by (simp only: pow2_0)
  have "r < pow2 64" using r(2) by (simp add: pow2_64)
  also have "\<dots> < pow2 1023" by (intro pow2_strict_mono) simp
  finally have fin: "finite_double (round_mag s r)" for s by (rule round_mag_finite)
  have "0 < dval (round_mag False r)"
    using round_mag_positive [OF low] fin [of False] by (simp add: compare_finite zero_double_def)
  then have "dval (round_mag True r) < 0" by (simp add: round_mag_True)
  moreover have "d - dint 0x8000000000000000 = round_mag True r"
    using assms(1) literals r(1) by (simp add: minus_double_def dsub_def dadd_def Let_def r_def)
  ultimately show ?thesis
    using fin [of True] by (simp add: compare_finite zero_double_def)
qed

text \<open>
  C25: the conversion of a double to an unsigned integer of 64 bits is right for every double it is
  defined for, from above -1 to below \<open>2 ^ 64\<close>, on a compiler whose cast is right below \<open>2 ^ 63\<close> only:
  above, the subtraction of \<open>2 ^ 63\<close> is exact and gives a number in that range, below, its rounding
  never hides that it is negative.
\<close>

theorem double_to_unsigned:
  assumes "\<And>x. finite_double x \<Longrightarrow> - 1 < dval x \<Longrightarrow> dval x < 2 ^ 63 \<Longrightarrow> cast x = word_of_int (truncated x)"
    and "finite_double d" and "representable (dval d)" and "- 1 < dval d" and "dval d < 2 ^ 64"
  shows "my_double2ulonglong cast d = word_of_int (truncated d)"
proof (cases "dval d < 2 ^ 63")
  case True
  with assms difference_sign [of d] show ?thesis by (simp add: my_double2ulonglong_def)
next
  case False
  define t where "t = d - dint 0x8000000000000000"
  have t: "finite_double t" "dval t = dval d - 2 ^ 63"
    using minus_exact [OF assms(2) literals(1)] representable_above [OF assms(3)] False assms(5)
    by (simp_all add: literals t_def)
  have "dval t < 2 ^ 63" "0 \<le> dval t" using False assms(5) by (simp_all add: t(2))
  moreover from this have "cast t = word_of_int (truncated t)" by (intro assms(1)) (simp_all add: t)
  moreover have "truncated t = truncated d - 2 ^ 63"
  proof -
    have "\<lfloor>dval d - of_int (2 ^ 63)\<rfloor> = \<lfloor>dval d\<rfloor> - 2 ^ 63" by (simp only: floor_diff_of_int)
    then show ?thesis using False by (simp add: truncated_def t(2))
  qed
  ultimately show ?thesis
    using t(1) by (simp add: my_double2ulonglong_def t_def [symmetric] compare_finite zero_double_def)
qed

text \<open>A cast that saturates at \<open>2 ^ 63\<close>, and the double \<open>2 ^ 63 + 2 ^ 11\<close>.\<close>

theorem double_to_unsigned_witness:
  "my_double2ulonglong (\<lambda>x. if dval x < 2 ^ 63 then word_of_int (truncated x) else 0x8000000000000000)
     (Fin (2 ^ 52 + 1) 11) = 0x8000000000000800"
proof -
  have v: "dval (Fin (2 ^ 52 + 1) 11) = 2 ^ 63 + 2 ^ 11" by (simp add: pow2_def)
  have "representable (dval (Fin (2 ^ 52 + 1) 11))"
    by (rule representableI [of _ "2 ^ 52 + 1" 11]) simp_all
  then show ?thesis
    using double_to_unsigned [of "\<lambda>x. if dval x < 2 ^ 63 then word_of_int (truncated x) else 0x8000000000000000"
        "Fin (2 ^ 52 + 1) 11"] v by (simp add: truncated_def)
qed

section \<open>Doubles of unsigned integers\<close>

lemma round_mag_nonneg: "0 \<le> dval (round_mag False r)"
proof (cases "r \<le> 0")
  case False
  then have "0 \<le> round_even (r / pow2 (quantum r))" by (intro round_even_ge) simp
  with False show ?thesis by (simp add: round_mag_def Let_def mk_double_def)
qed (simp add: round_mag_def)

lemma round_mag_error_below:
  assumes "0 \<le> x" and "x < pow2 k" and "- 1021 \<le> k" and "k \<le> 1023"
  shows "finite_double (round_mag s x)" and "\<bar>dval (round_mag False x) - x\<bar> \<le> pow2 (k - 54)"
proof -
  have "pow2 k \<le> pow2 1023" using assms(4) by simp
  with assms(2) have big: "x < pow2 1023" by linarith
  then show "finite_double (round_mag s x)" by (rule round_mag_finite)
  show "\<bar>dval (round_mag False x) - x\<bar> \<le> pow2 (k - 54)"
  proof (cases "x = 0")
    case False
    with assms(1) have x: "0 < x" by simp
    have "ilog2 x < k" by (rule ilog2_le [OF x assms(2)])
    then have "quantum x \<le> k - 53" using assms(3) by (simp add: quantum_def)
    then have "pow2 (quantum x) / 2 \<le> pow2 (k - 53) / 2" by simp
    also have "\<dots> = pow2 (k - 53) / pow2 1" by (simp add: pow2_def)
    also have "\<dots> = pow2 (k - 54)" by (simp flip: pow2_diff)
    finally show ?thesis using round_mag_error [OF x round_mag_finite [OF big]] by linarith
  qed (simp add: round_mag_def)
qed

lemma dint_error:
  assumes "\<bar>n\<bar> \<le> 2 ^ 63"
  shows "finite_double (dint n)" and "\<bar>dval (dint n) - of_int n\<bar> \<le> 2 ^ 9"
    and "n \<le> 0 \<Longrightarrow> dval (dint n) \<le> 0"
proof -
  have p: "pow2 9 = 2 ^ 9" using pow2_of_nat [of 9] by simp
  have part: "finite_double (round_mag (n < 0) (of_int \<bar>n\<bar>)) \<and> \<bar>dval (round_mag False (of_int \<bar>n\<bar>)) - of_int \<bar>n\<bar>\<bar> \<le> 2 ^ 9"
  proof (cases "\<bar>n\<bar> = 2 ^ 63")
    case True
    then have m: "of_int \<bar>n\<bar> = pow2 63" by (simp add: pow2_63)
    show ?thesis
      unfolding m using round_mag_exact [OF representable_pow2 [of 63]] by simp
  next
    case False
    with assms have "\<bar>n\<bar> < 2 ^ 63" by simp
    then have "of_int \<bar>n\<bar> < (of_int (2 ^ 63) :: rat)" by (simp only: of_int_less_iff)
    then have "of_int \<bar>n\<bar> < pow2 63" by (simp add: pow2_63)
    from round_mag_error_below [OF _ this] show ?thesis by (simp add: p)
  qed
  then show "finite_double (dint n)" by (simp add: dint_def)
  show "\<bar>dval (dint n) - of_int n\<bar> \<le> 2 ^ 9"
    using part by (cases "n < 0") (auto simp: dint_def round_mag_True)
  show "n \<le> 0 \<Longrightarrow> dval (dint n) \<le> 0"
    using round_mag_nonneg [of "of_int \<bar>n\<bar>"] by (cases "n < 0") (auto simp: dint_def round_mag_True round_mag_def [of _ 0])
qed

text \<open>
  C22: the conversion of an unsigned integer to a double is off by at most \<open>2 ^ 10 + 2 ^ 9\<close>, where the
  nearest double is off by at most \<open>2 ^ 10\<close>: from \<open>2 ^ 63\<close> on the number is rounded twice, and the
  result is not always the nearest double, as for \<open>2 ^ 63 + 1025\<close>, which becomes \<open>2 ^ 63\<close>.
\<close>

theorem unsigned_to_double:
  "\<bar>dval (my_ulonglong2double w) - of_int (uint w)\<bar> \<le> 2 ^ 10 + 2 ^ 9 \<and>
   my_ulonglong2double 0x8000000000000401 = Fin (2 ^ 52) 11 \<and>
   dint (uint (0x8000000000000401 :: 64 word)) = Fin (2 ^ 52 + 1) 11"
proof -
  have "\<bar>dval (my_ulonglong2double w) - of_int (uint w)\<bar> \<le> 2 ^ 10 + 2 ^ 9"
  proof (cases "0 \<le> sint w")
    case True
    then have "sint w = uint w" "\<bar>sint w\<bar> \<le> 2 ^ 63"
      using sint_lt [of w] uint_sint [of w] by (simp_all add: take_bit_int_eq_self)
    with True dint_error(2) [of "sint w"] show ?thesis by (simp add: my_ulonglong2double_def)
  next
    case False
    define n where "n = sint w"
    have n: "n < 0" "\<bar>n\<bar> \<le> 2 ^ 63"
      using False sint_ge [of w] by (simp_all add: n_def)
    have "uint w = n mod 2 ^ 64" by (simp add: n_def uint_sint take_bit_eq_mod)
    also have "\<dots> = (n + 2 ^ 64) mod 2 ^ 64" by simp
    also have "\<dots> = n + 2 ^ 64" by (rule mod_pos_pos_trivial) (use n in simp_all)
    finally have u: "uint w = n + 2 ^ 64" .
    note e = dint_error [OF n(2)]
    define r where "r = 2 ^ 64 + dval (dint n)"
    have "- (2 ^ 63) \<le> n" using n(2) by simp
    then have "of_int (- (2 ^ 63)) \<le> (of_int n :: rat)" by (simp only: of_int_le_iff)
    then have r: "0 < r" "r \<le> 2 ^ 64" using e(2,3) n(1) by (simp_all add: r_def abs_le_iff)
    have my: "my_ulonglong2double w = round_mag False r"
      using False literals e(1) r(1) by (simp add: my_ulonglong2double_def n_def [symmetric] plus_double_def dadd_def r_def Let_def)
    have "\<bar>dval (round_mag False r) - r\<bar> \<le> 2 ^ 10"
    proof (cases "r = 2 ^ 64")
      case True
      then have m: "r = pow2 64" by (simp add: pow2_64)
      show ?thesis
        unfolding m using round_mag_exact [OF representable_pow2 [of 64]] by simp
    next
      case False
      with r(2) have "r < pow2 64" by (simp add: pow2_64)
      from round_mag_error_below(2) [OF _ this] r(1) show ?thesis using pow2_of_nat [of 10] by simp
    qed
    moreover have "\<bar>r - of_int (uint w)\<bar> \<le> 2 ^ 9" using e(2) by (simp add: r_def u)
    ultimately show ?thesis unfolding my by linarith
  qed
  moreover have "my_ulonglong2double 0x8000000000000401 = Fin (2 ^ 52) 11" by code_simp
  moreover have "dint (uint (0x8000000000000401 :: 64 word)) = Fin (2 ^ 52 + 1) 11" by code_simp
  ultimately show ?thesis by blast
qed

end
