(* ===== verification/CType.thy ===== *)
theory CType
  imports ByteOrder
begin

text \<open>
  The character sets of \<^verbatim>\<open>client/mysql_include/m_ctype.h\<close>: the character classes, which look a
  byte up in the table \<^verbatim>\<open>ctype\<close> of a character set, the case tables, the two byte codes that are
  stored differently on x86, and the table of contractions of a collation. Looking up outside a
  table is a fault. The tables themselves are not in the repository.
\<close>

section \<open>A character set\<close>

text \<open>The fields the macros use; \<open>contractions\<close> is a pointer and its elements in memory order.\<close>

record charset_info =
  ctype :: "8 word list"
  to_lower :: "8 word list"
  to_upper :: "8 word list"
  state :: "32 word"
  contractions :: "8 word list option"

definition MY_CS_BINSORT :: "32 word" where "MY_CS_BINSORT = 16"
definition MY_CS_STRNXFRM :: "32 word" where "MY_CS_STRNXFRM = 64"

definition my_binary_compare :: "charset_info \<Rightarrow> bool" where
  "my_binary_compare s \<longleftrightarrow> state s AND MY_CS_BINSORT \<noteq> 0"

definition use_strnxfrm :: "charset_info \<Rightarrow> bool" where
  "use_strnxfrm s \<longleftrightarrow> state s AND MY_CS_STRNXFRM \<noteq> 0"

section \<open>Classes\<close>

definition MY_U :: "8 word" where "MY_U = 0x01"
definition MY_L :: "8 word" where "MY_L = 0x02"
definition MY_NMR :: "8 word" where "MY_NMR = 0x04"
definition MY_SPC :: "8 word" where "MY_SPC = 0x08"
definition MY_PNT :: "8 word" where "MY_PNT = 0x10"
definition MY_CTR :: "8 word" where "MY_CTR = 0x20"
definition MY_B :: "8 word" where "MY_B = 0x40"
definition MY_X :: "8 word" where "MY_X = 0x80"

text \<open>\<^verbatim>\<open>((s)->ctype+1)[(uchar) (c)] & mask\<close>: the cast takes any integer to a byte.\<close>

definition in_class :: "8 word \<Rightarrow> charset_info \<Rightarrow> int \<Rightarrow> bool res" where
  "in_class cls s c =
     bind_res (nth_res (ctype s) (1 + unat (word_of_int c :: 8 word))) (\<lambda>x. Inr (x AND cls \<noteq> 0))"

definition my_isalpha :: "charset_info \<Rightarrow> int \<Rightarrow> bool res" where "my_isalpha = in_class (MY_U OR MY_L)"
definition my_isupper :: "charset_info \<Rightarrow> int \<Rightarrow> bool res" where "my_isupper = in_class MY_U"
definition my_islower :: "charset_info \<Rightarrow> int \<Rightarrow> bool res" where "my_islower = in_class MY_L"
definition my_isdigit :: "charset_info \<Rightarrow> int \<Rightarrow> bool res" where "my_isdigit = in_class MY_NMR"
definition my_isxdigit :: "charset_info \<Rightarrow> int \<Rightarrow> bool res" where "my_isxdigit = in_class MY_X"
definition my_isalnum :: "charset_info \<Rightarrow> int \<Rightarrow> bool res" where "my_isalnum = in_class (MY_U OR MY_L OR MY_NMR)"
definition my_isspace :: "charset_info \<Rightarrow> int \<Rightarrow> bool res" where "my_isspace = in_class MY_SPC"
definition my_ispunct :: "charset_info \<Rightarrow> int \<Rightarrow> bool res" where "my_ispunct = in_class MY_PNT"
definition my_isprint :: "charset_info \<Rightarrow> int \<Rightarrow> bool res" where
  "my_isprint = in_class (MY_PNT OR MY_U OR MY_L OR MY_NMR OR MY_B)"
definition my_isgraph :: "charset_info \<Rightarrow> int \<Rightarrow> bool res" where
  "my_isgraph = in_class (MY_PNT OR MY_U OR MY_L OR MY_NMR)"
definition my_iscntrl :: "charset_info \<Rightarrow> int \<Rightarrow> bool res" where "my_iscntrl = in_class MY_CTR"

definition my_isvar :: "charset_info \<Rightarrow> int \<Rightarrow> bool res" where
  "my_isvar s c = bind_res (my_isalnum s c) (\<lambda>b. Inr (b \<or> c = 95))"

definition my_isvar_start :: "charset_info \<Rightarrow> int \<Rightarrow> bool res" where
  "my_isvar_start s c = bind_res (my_isalpha s c) (\<lambda>b. Inr (b \<or> c = 95))"

definition my_toupper :: "charset_info \<Rightarrow> int \<Rightarrow> 8 word res" where
  "my_toupper s c = nth_res (to_upper s) (unat (word_of_int c :: 8 word))"

definition my_tolower :: "charset_info \<Rightarrow> int \<Rightarrow> 8 word res" where
  "my_tolower s c = nth_res (to_lower s) (unat (word_of_int c :: 8 word))"

definition my_isascii :: "int \<Rightarrow> bool" where "my_isascii c \<longleftrightarrow> c AND NOT 127 = 0"
definition my_toascii :: "int \<Rightarrow> int" where "my_toascii c = c AND 127"
definition my_tocntrl :: "int \<Rightarrow> int" where "my_tocntrl c = c AND 31"
definition my_toprint :: "int \<Rightarrow> int" where "my_toprint c = c OR 64"

section \<open>Two byte codes\<close>

text \<open>
  A table entry is \<^verbatim>\<open>MB2(x)\<close>; \<^verbatim>\<open>MY_PUT_MB2\<close> writes an entry as two bytes, on x86 through a 16 bit
  pointer, low byte first.
\<close>

definition MB2 :: "bool \<Rightarrow> 16 word \<Rightarrow> 16 word" where
  "MB2 i386 x = (if i386 then drop_bit 8 x + push_bit 8 (x AND 0xFF) else x)"

definition MY_PUT_MB2 :: "bool \<Rightarrow> 16 word \<Rightarrow> 8 word list" where
  "MY_PUT_MB2 i386 code =
     (if i386 then [ucast code, ucast (drop_bit 8 code)] else [ucast (drop_bit 8 code), ucast (code AND 0xFF)])"

section \<open>Contractions\<close>

text \<open>The flags of the 256 low bytes follow the weights, 64 times 64 of 16 bits.\<close>

definition my_cs_have_contractions :: "charset_info \<Rightarrow> bool" where
  "my_cs_have_contractions cs \<longleftrightarrow> contractions cs \<noteq> None"

definition contraction_flag :: "charset_info \<Rightarrow> 64 word \<Rightarrow> 8 word res" where
  "contraction_flag cs wc =
     (case contractions cs of
        None \<Rightarrow> Inl NullDeref
      | Some m \<Rightarrow> nth_res m (0x40 * 0x40 * 2 + unat (wc AND 0xFF)))"

definition my_cs_can_be_contraction_head :: "charset_info \<Rightarrow> 64 word \<Rightarrow> 8 word res" where
  "my_cs_can_be_contraction_head cs wc = contraction_flag cs wc"

definition my_cs_can_be_contraction_tail :: "charset_info \<Rightarrow> 64 word \<Rightarrow> 8 word res" where
  "my_cs_can_be_contraction_tail cs wc = contraction_flag cs wc"

text \<open>The index of the weight, computed in \<^verbatim>\<open>my_wc_t\<close>, an unsigned long.\<close>

definition my_cs_contraction2_weight :: "64 word \<Rightarrow> 64 word \<Rightarrow> 64 word" where
  "my_cs_contraction2_weight wc1 wc2 = (wc1 - 0x40) * 0x40 + wc2 - 0x40"

section \<open>Lookups\<close>

lemma byte_index: "unat (word_of_int c :: 8 word) < 256"
  using uint_lt2p [of "word_of_int c :: 8 word"] by (simp add: unat_eq_nat_uint nat_less_iff del: nat_uint_eq)

lemma in_class_defined:
  "257 \<le> length (ctype s) \<Longrightarrow> in_class cls s c = Inr (ctype s ! (1 + unat (word_of_int c :: 8 word)) AND cls \<noteq> 0)"
  using byte_index [of c] by (simp add: in_class_def)

lemma in_class_or:
  assumes "257 \<le> length (ctype s)"
  shows "in_class (m OR n) s c = bind_res (in_class m s c) (\<lambda>a. bind_res (in_class n s c) (\<lambda>b. Inr (a \<or> b)))"
proof -
  have "x AND (m OR n) = (x AND m) OR (x AND n)" for x by (rule bit.conj_disj_distrib)
  then show ?thesis using assms by (simp add: in_class_defined or_eq_0_iff)
qed

text \<open>
  The classes fit together: the composed ones are the unions of the simple ones.
\<close>

lemma classes_compose:
  assumes "257 \<le> length (ctype s)"
  shows "my_isalpha s c = bind_res (my_isupper s c) (\<lambda>a. bind_res (my_islower s c) (\<lambda>b. Inr (a \<or> b)))"
    and "my_isalnum s c = bind_res (my_isalpha s c) (\<lambda>a. bind_res (my_isdigit s c) (\<lambda>b. Inr (a \<or> b)))"
    and "my_isgraph s c = bind_res (my_ispunct s c) (\<lambda>a. bind_res (my_isalnum s c) (\<lambda>b. Inr (a \<or> b)))"
  unfolding my_isalpha_def my_isupper_def my_islower_def my_isalnum_def my_isdigit_def my_isgraph_def my_ispunct_def
  by (simp_all only: in_class_or [OF assms, symmetric] or.assoc)

lemma my_isascii_iff: "my_isascii c \<longleftrightarrow> 0 \<le> c \<and> c < 128"
proof -
  have m: "(127 :: int) = mask 7" by (simp add: mask_eq_exp_minus_1)
  have "c AND NOT 127 = push_bit 7 (drop_bit 7 c)"
    unfolding m by (rule bit_eqI) (auto simp: bit_simps)
  then have "my_isascii c \<longleftrightarrow> drop_bit 7 c = 0" by (simp only: my_isascii_def push_bit_eq_0_iff)
  also have "\<dots> \<longleftrightarrow> c div 128 = 0" by (simp add: drop_bit_eq_div)
  also have "\<dots> \<longleftrightarrow> 0 \<le> c \<and> c < 128" by (auto simp: zdiv_eq_0_iff)
  finally show ?thesis .
qed

text \<open>The control character of a letter prints as the letter again.\<close>

lemma control_round_trip: "64 \<le> c \<Longrightarrow> c < 96 \<Longrightarrow> my_toprint (my_tocntrl c) = c"
proof -
  assume "64 \<le> c" "c < 96"
  then have "c \<in> set (map (\<lambda>n. 64 + int n) [0..<32])" by (auto intro!: image_eqI [of _ _ "nat (c - 64)"])
  then show ?thesis by (simp add: upt_rec my_toprint_def my_tocntrl_def) auto
qed

section \<open>Two byte codes agree\<close>

lemma uint_of_int: "0 \<le> k \<Longrightarrow> k < 2 ^ LENGTH('a) \<Longrightarrow> uint (word_of_int k :: 'a::len word) = k"
  by (simp add: uint_word_of_int mod_pos_pos_trivial)

text \<open>
  A two byte code comes out the same on every machine: the entry that \<^verbatim>\<open>MB2\<close> puts into a table
  on x86 is stored, low byte first, as the bytes that the portable macros store: the high byte and
  then the low one.
\<close>

lemma put_mb2_agree:
  "MY_PUT_MB2 True (MB2 True x) = MY_PUT_MB2 False (MB2 False x) \<and>
   MY_PUT_MB2 i386 (MB2 i386 x) = [word_of_int (uint x div 256), word_of_int (uint x)]"
proof -
  let ?x = "uint x" and ?code = "uint (MB2 True x)"
  have "0 \<le> ?x" "?x < 2 ^ 16" using uint_lt2p [of x] by simp_all
  then have h: "0 \<le> ?x div 256" "?x div 256 < 256" by (simp_all add: pos_imp_zdiv_nonneg_iff)
  have low: "w AND 0xFF = take_bit 8 w" for w :: "16 word"
    by (simp add: take_bit_eq_mask mask_eq_exp_minus_1)
  have "drop_bit 8 x = word_of_int (?x div 256)" "take_bit 8 x = word_of_int (?x mod 256)"
    by (simp_all only: drop_bit_eq_div take_bit_eq_mod word_div_def word_mod_def) simp_all
  then have "MB2 True x = word_of_int (?x div 256 + ?x mod 256 * 256)"
    by (simp add: MB2_def low push_bit_eq_mult)
  moreover have "0 \<le> ?x div 256 + ?x mod 256 * 256" "?x div 256 + ?x mod 256 * 256 < 2 ^ LENGTH(16)"
  proof -
    have "0 \<le> ?x mod 256" "?x mod 256 < 256" by simp_all
    with h show "0 \<le> ?x div 256 + ?x mod 256 * 256" "?x div 256 + ?x mod 256 * 256 < 2 ^ LENGTH(16)" by simp_all
  qed
  ultimately have c: "?code = ?x div 256 + ?x mod 256 * 256" by (simp only: uint_of_int)
  have z: "(256 :: 8 word) = 0" by simp
  have "ucast (drop_bit 8 (MB2 True x)) = (word_of_int (?x mod 256) :: 8 word)"
    using h by (simp only: byte_of c) (simp add: div_pos_pos_trivial)
  moreover have "ucast (MB2 True x) = (word_of_int (?x div 256) :: 8 word)"
    by (simp only: ucast_eq c of_int_add of_int_mult of_int_numeral) (simp add: z)
  moreover have "ucast (x AND 0xFF) = (word_of_int ?x :: 8 word)"
    by (rule bit_word_eqI) (simp add: low bit_simps)
  moreover have "word_of_int (?x mod 256) = (word_of_int ?x :: 8 word)"
    by (simp only: word_uint_eq_iff uint_byte) simp
  ultimately show ?thesis
    by (cases i386) (simp_all add: MY_PUT_MB2_def MB2_def [of False] byte_of)
qed

section \<open>Weights of contractions\<close>

lemma two_digits: "a * 64 + b = a' * 64 + b' \<Longrightarrow> 0 \<le> b \<and> b < 64 \<Longrightarrow> 0 \<le> b' \<and> b' < 64 \<Longrightarrow> a = a' \<and> b = b'"
  for a b :: int
proof -
  assume "a * 64 + b = a' * 64 + b'" and b: "0 \<le> b \<and> b < 64" "0 \<le> b' \<and> b' < 64"
  then have "(a * 64 + b) div 64 = (a' * 64 + b') div 64" by simp
  with b have "a = a'" by (simp add: div_pos_pos_trivial)
  with \<open>a * 64 + b = a' * 64 + b'\<close> show ?thesis by simp
qed

lemma weight_small:
  assumes "0x40 \<le> uint wc1" and "uint wc1 < 0x180" and "0x40 \<le> uint wc2" and "uint wc2 < 0x80"
  shows "uint (my_cs_contraction2_weight wc1 wc2) = (uint wc1 - 0x40) * 0x40 + (uint wc2 - 0x40)"
proof -
  have "my_cs_contraction2_weight wc1 wc2 = word_of_int ((uint wc1 - 0x40) * 0x40 + (uint wc2 - 0x40))"
    by (simp add: my_cs_contraction2_weight_def)
  moreover have "0 \<le> (uint wc1 - 0x40) * 0x40 + (uint wc2 - 0x40)"
    "(uint wc1 - 0x40) * 0x40 + (uint wc2 - 0x40) < 2 ^ LENGTH(64)" using assms by simp_all
  ultimately show ?thesis by (simp only: uint_of_int)
qed

lemma weight_index:
  assumes "0x40 \<le> uint wc1" and "uint wc1 < 0x80" and "0x40 \<le> uint wc2" and "uint wc2 < 0x80"
  shows "uint (my_cs_contraction2_weight wc1 wc2) = (uint wc1 - 0x40) * 0x40 + (uint wc2 - 0x40)"
  using assms weight_small [of wc1 wc2] by simp

text \<open>
  For two characters from @ to DEL the weight of their contraction lies within the 64 times 64
  weights, before the flags, and no other pair of such characters has the same place.
\<close>

lemma contraction_weights:
  assumes "0x40 \<le> uint wc1" and "uint wc1 < 0x80" and "0x40 \<le> uint wc2" and "uint wc2 < 0x80"
    and "0x40 \<le> uint wc1'" and "uint wc1' < 0x80" and "0x40 \<le> uint wc2'" and "uint wc2' < 0x80"
  shows "uint (my_cs_contraction2_weight wc1 wc2) < 0x40 * 0x40 \<and>
    (my_cs_contraction2_weight wc1 wc2 = my_cs_contraction2_weight wc1' wc2' \<longleftrightarrow> wc1 = wc1' \<and> wc2 = wc2')"
proof -
  have "uint wc1 = uint wc1' \<and> uint wc2 = uint wc2'"
    if "(uint wc1 - 0x40) * 0x40 + (uint wc2 - 0x40) = (uint wc1' - 0x40) * 0x40 + (uint wc2' - 0x40)"
    using two_digits [OF that] assms by simp
  then show ?thesis
    using assms weight_index [OF assms(1-4)] weight_index [OF assms(5-8)] by (auto simp: word_uint_eq_iff)
qed

lemma contraction_weights_witness:
  "my_cs_contraction2_weight 0x63 0x68 \<noteq> my_cs_contraction2_weight 0x6C 0x6A"
  using contraction_weights [of "0x63" "0x68" "0x6C" "0x6A"] by simp

text \<open>
  The flags are those of the low byte of the character, but the weight is not: the character 256
  above a letter has the flags of the letter, and the weight with it lies past the whole table.
\<close>

lemma flag_low_byte: "contraction_flag cs (wc + 0x100) = contraction_flag cs wc"
proof -
  have "w AND 0xFF = take_bit 8 w" for w :: "64 word"
    by (simp add: take_bit_eq_mask mask_eq_exp_minus_1)
  moreover have "take_bit 8 (wc + 0x100) = take_bit 8 wc"
    by transfer (simp add: take_bit_eq_mod)
  ultimately have "(wc + 0x100) AND 0xFF = wc AND 0xFF" by simp
  then show ?thesis by (simp only: contraction_flag_def)
qed

lemma weight_past_table:
  assumes "0x140 \<le> uint wc1" and "uint wc1 < 0x180" and "0x40 \<le> uint wc2" and "uint wc2 < 0x80"
  shows "0x40 * 0x40 + 128 \<le> uint (my_cs_contraction2_weight wc1 wc2)"
  using assms weight_small [of wc1 wc2] by simp

end
