(* ===== verification/FieldTypes.thy ===== *)
theory FieldTypes
  imports Prelude "HOL-Library.Word"
begin

text \<open>
  The column types of \<^verbatim>\<open>client/mysql_include/mysql_com.h\<close> and the tests of
  \<^verbatim>\<open>client/mysql_include/mysql.h\<close> on them and on the flags of a column.
\<close>

unbundle bit_operations_syntax

section \<open>Types\<close>

datatype enum_field_types =
    MYSQL_TYPE_DECIMAL
  | MYSQL_TYPE_TINY
  | MYSQL_TYPE_SHORT
  | MYSQL_TYPE_LONG
  | MYSQL_TYPE_FLOAT
  | MYSQL_TYPE_DOUBLE
  | MYSQL_TYPE_NULL
  | MYSQL_TYPE_TIMESTAMP
  | MYSQL_TYPE_LONGLONG
  | MYSQL_TYPE_INT24
  | MYSQL_TYPE_DATE
  | MYSQL_TYPE_TIME
  | MYSQL_TYPE_DATETIME
  | MYSQL_TYPE_YEAR
  | MYSQL_TYPE_NEWDATE
  | MYSQL_TYPE_VARCHAR
  | MYSQL_TYPE_BIT
  | MYSQL_TYPE_NEWDECIMAL
  | MYSQL_TYPE_ENUM
  | MYSQL_TYPE_SET
  | MYSQL_TYPE_TINY_BLOB
  | MYSQL_TYPE_MEDIUM_BLOB
  | MYSQL_TYPE_LONG_BLOB
  | MYSQL_TYPE_BLOB
  | MYSQL_TYPE_VAR_STRING
  | MYSQL_TYPE_STRING
  | MYSQL_TYPE_GEOMETRY

fun type_code :: "enum_field_types \<Rightarrow> nat" where
  "type_code MYSQL_TYPE_DECIMAL = 0"
| "type_code MYSQL_TYPE_TINY = 1"
| "type_code MYSQL_TYPE_SHORT = 2"
| "type_code MYSQL_TYPE_LONG = 3"
| "type_code MYSQL_TYPE_FLOAT = 4"
| "type_code MYSQL_TYPE_DOUBLE = 5"
| "type_code MYSQL_TYPE_NULL = 6"
| "type_code MYSQL_TYPE_TIMESTAMP = 7"
| "type_code MYSQL_TYPE_LONGLONG = 8"
| "type_code MYSQL_TYPE_INT24 = 9"
| "type_code MYSQL_TYPE_DATE = 10"
| "type_code MYSQL_TYPE_TIME = 11"
| "type_code MYSQL_TYPE_DATETIME = 12"
| "type_code MYSQL_TYPE_YEAR = 13"
| "type_code MYSQL_TYPE_NEWDATE = 14"
| "type_code MYSQL_TYPE_VARCHAR = 15"
| "type_code MYSQL_TYPE_BIT = 16"
| "type_code MYSQL_TYPE_NEWDECIMAL = 246"
| "type_code MYSQL_TYPE_ENUM = 247"
| "type_code MYSQL_TYPE_SET = 248"
| "type_code MYSQL_TYPE_TINY_BLOB = 249"
| "type_code MYSQL_TYPE_MEDIUM_BLOB = 250"
| "type_code MYSQL_TYPE_LONG_BLOB = 251"
| "type_code MYSQL_TYPE_BLOB = 252"
| "type_code MYSQL_TYPE_VAR_STRING = 253"
| "type_code MYSQL_TYPE_STRING = 254"
| "type_code MYSQL_TYPE_GEOMETRY = 255"

lemma type_code_inject: "type_code s = type_code t \<longleftrightarrow> s = t"
  by (cases s; cases t) simp_all

text \<open>Types are compared as their codes.\<close>

instantiation enum_field_types :: linorder
begin

definition less_eq_enum_field_types :: "enum_field_types \<Rightarrow> enum_field_types \<Rightarrow> bool" where
  "less_eq_enum_field_types s t \<longleftrightarrow> type_code s \<le> type_code t"

definition less_enum_field_types :: "enum_field_types \<Rightarrow> enum_field_types \<Rightarrow> bool" where
  "less_enum_field_types s t \<longleftrightarrow> type_code s < type_code t"

instance
  by standard (auto simp: less_eq_enum_field_types_def less_enum_field_types_def type_code_inject)

end

section \<open>The tests\<close>

definition NOT_NULL_FLAG :: "32 word" where "NOT_NULL_FLAG = 1"
definition PRI_KEY_FLAG :: "32 word" where "PRI_KEY_FLAG = 2"
definition BLOB_FLAG :: "32 word" where "BLOB_FLAG = 16"

definition IS_PRI_KEY :: "32 word \<Rightarrow> bool" where "IS_PRI_KEY n \<longleftrightarrow> n AND PRI_KEY_FLAG \<noteq> 0"
definition IS_NOT_NULL :: "32 word \<Rightarrow> bool" where "IS_NOT_NULL n \<longleftrightarrow> n AND NOT_NULL_FLAG \<noteq> 0"
definition IS_BLOB :: "32 word \<Rightarrow> bool" where "IS_BLOB n \<longleftrightarrow> n AND BLOB_FLAG \<noteq> 0"

definition IS_NUM :: "enum_field_types \<Rightarrow> bool" where
  "IS_NUM t \<longleftrightarrow> t \<le> MYSQL_TYPE_INT24 \<and> t \<noteq> MYSQL_TYPE_TIMESTAMP \<or> t = MYSQL_TYPE_YEAR \<or> t = MYSQL_TYPE_NEWDECIMAL"

definition IS_LONGDATA :: "enum_field_types \<Rightarrow> bool" where
  "IS_LONGDATA t \<longleftrightarrow> MYSQL_TYPE_TINY_BLOB \<le> t \<and> t \<le> MYSQL_TYPE_STRING"

text \<open>
  The comparisons select the numbers, the year and the null type, which is not a number, and the
  strings that may be sent in pieces; no type is both.
\<close>

lemma type_tests:
  "IS_NUM t \<longleftrightarrow>
     t \<in> {MYSQL_TYPE_DECIMAL, MYSQL_TYPE_TINY, MYSQL_TYPE_SHORT, MYSQL_TYPE_LONG, MYSQL_TYPE_FLOAT, MYSQL_TYPE_DOUBLE,
          MYSQL_TYPE_NULL, MYSQL_TYPE_LONGLONG, MYSQL_TYPE_INT24, MYSQL_TYPE_YEAR, MYSQL_TYPE_NEWDECIMAL}"
  "IS_LONGDATA t \<longleftrightarrow>
     t \<in> {MYSQL_TYPE_TINY_BLOB, MYSQL_TYPE_MEDIUM_BLOB, MYSQL_TYPE_LONG_BLOB, MYSQL_TYPE_BLOB, MYSQL_TYPE_VAR_STRING,
          MYSQL_TYPE_STRING}"
  "\<not> (IS_NUM t \<and> IS_LONGDATA t)"
  by (cases t; simp add: IS_NUM_def IS_LONGDATA_def less_eq_enum_field_types_def)+

end
