(* ===== verification/ClientProtocol.thy ===== *)
theory ClientProtocol
  imports FieldTypes
begin

text \<open>
  The flags and commands of the client protocol in \<^verbatim>\<open>client/mysql_include/mysql_com.h\<close>: capabilities,
  server status, column flags, refresh options, commands and shutdown levels, and the masks that
  the header builds from them.
\<close>

section \<open>Flags\<close>

text \<open>A family of flags, each of which is one bit.\<close>

locale flags =
  fixes flag :: "'f \<Rightarrow> 'w::len word" and index :: "'f \<Rightarrow> nat"
  assumes one_bit: "flag f = push_bit (index f) 1"
    and in_width: "index f < LENGTH('w)"
begin

lemma bit_flag: "bit (flag f) n \<longleftrightarrow> n = index f"
  using in_width [of f] by (auto simp: one_bit bit_simps)

lemma flag_test: "flag f AND w \<noteq> 0 \<longleftrightarrow> bit w (index f)"
proof
  assume "flag f AND w \<noteq> 0"
  then obtain n where "bit (flag f AND w) n" by (metis bit_eqI bit_0_eq bot_apply bot_bool_def)
  then show "bit w (index f)" by (auto simp: bit_and_iff bit_flag)
next
  assume "bit w (index f)"
  then have "bit (flag f AND w) (index f)" by (simp add: bit_and_iff bit_flag)
  then show "flag f AND w \<noteq> 0" by (metis bit_0_eq bot_apply bot_bool_def)
qed

lemma flag_meet: "flag f AND flag f' \<noteq> 0 \<longleftrightarrow> index f = index f'"
  by (simp add: flag_test bit_flag)

lemma bit_union: "bit (foldr (OR) (map flag fs) 0) n \<longleftrightarrow> (\<exists>f \<in> set fs. n = index f)"
  by (induction fs) (auto simp: bit_or_iff bit_flag)

lemma flag_in_union: "flag f AND foldr (OR) (map flag fs) 0 \<noteq> 0 \<longleftrightarrow> (\<exists>f' \<in> set fs. index f = index f')"
  by (simp add: flag_test bit_union)

end

section \<open>Capabilities\<close>

text \<open>What a client can do; \<open>capability_flag\<close> is the value in the source, \<open>capability_flag_bit\<close> its bit.\<close>

datatype capability =
    CLIENT_LONG_PASSWORD
  | CLIENT_FOUND_ROWS
  | CLIENT_LONG_FLAG
  | CLIENT_CONNECT_WITH_DB
  | CLIENT_NO_SCHEMA
  | CLIENT_COMPRESS
  | CLIENT_ODBC
  | CLIENT_LOCAL_FILES
  | CLIENT_IGNORE_SPACE
  | CLIENT_PROTOCOL_41
  | CLIENT_INTERACTIVE
  | CLIENT_SSL
  | CLIENT_IGNORE_SIGPIPE
  | CLIENT_TRANSACTIONS
  | CLIENT_RESERVED
  | CLIENT_SECURE_CONNECTION
  | CLIENT_MULTI_STATEMENTS
  | CLIENT_MULTI_RESULTS
  | CLIENT_PS_MULTI_RESULTS
  | CLIENT_PLUGIN_AUTH
  | CLIENT_SSL_VERIFY_SERVER_CERT
  | CLIENT_REMEMBER_OPTIONS

fun capability_flag :: "capability \<Rightarrow> 64 word" where
  "capability_flag CLIENT_LONG_PASSWORD = 1"
| "capability_flag CLIENT_FOUND_ROWS = 2"
| "capability_flag CLIENT_LONG_FLAG = 4"
| "capability_flag CLIENT_CONNECT_WITH_DB = 8"
| "capability_flag CLIENT_NO_SCHEMA = 16"
| "capability_flag CLIENT_COMPRESS = 32"
| "capability_flag CLIENT_ODBC = 64"
| "capability_flag CLIENT_LOCAL_FILES = 128"
| "capability_flag CLIENT_IGNORE_SPACE = 256"
| "capability_flag CLIENT_PROTOCOL_41 = 512"
| "capability_flag CLIENT_INTERACTIVE = 1024"
| "capability_flag CLIENT_SSL = 2048"
| "capability_flag CLIENT_IGNORE_SIGPIPE = 4096"
| "capability_flag CLIENT_TRANSACTIONS = 8192"
| "capability_flag CLIENT_RESERVED = 16384"
| "capability_flag CLIENT_SECURE_CONNECTION = 32768"
| "capability_flag CLIENT_MULTI_STATEMENTS = push_bit 16 1"
| "capability_flag CLIENT_MULTI_RESULTS = push_bit 17 1"
| "capability_flag CLIENT_PS_MULTI_RESULTS = push_bit 18 1"
| "capability_flag CLIENT_PLUGIN_AUTH = push_bit 19 1"
| "capability_flag CLIENT_SSL_VERIFY_SERVER_CERT = push_bit 30 1"
| "capability_flag CLIENT_REMEMBER_OPTIONS = push_bit 31 1"

fun capability_flag_bit :: "capability \<Rightarrow> nat" where
  "capability_flag_bit CLIENT_LONG_PASSWORD = 0"
| "capability_flag_bit CLIENT_FOUND_ROWS = 1"
| "capability_flag_bit CLIENT_LONG_FLAG = 2"
| "capability_flag_bit CLIENT_CONNECT_WITH_DB = 3"
| "capability_flag_bit CLIENT_NO_SCHEMA = 4"
| "capability_flag_bit CLIENT_COMPRESS = 5"
| "capability_flag_bit CLIENT_ODBC = 6"
| "capability_flag_bit CLIENT_LOCAL_FILES = 7"
| "capability_flag_bit CLIENT_IGNORE_SPACE = 8"
| "capability_flag_bit CLIENT_PROTOCOL_41 = 9"
| "capability_flag_bit CLIENT_INTERACTIVE = 10"
| "capability_flag_bit CLIENT_SSL = 11"
| "capability_flag_bit CLIENT_IGNORE_SIGPIPE = 12"
| "capability_flag_bit CLIENT_TRANSACTIONS = 13"
| "capability_flag_bit CLIENT_RESERVED = 14"
| "capability_flag_bit CLIENT_SECURE_CONNECTION = 15"
| "capability_flag_bit CLIENT_MULTI_STATEMENTS = 16"
| "capability_flag_bit CLIENT_MULTI_RESULTS = 17"
| "capability_flag_bit CLIENT_PS_MULTI_RESULTS = 18"
| "capability_flag_bit CLIENT_PLUGIN_AUTH = 19"
| "capability_flag_bit CLIENT_SSL_VERIFY_SERVER_CERT = 30"
| "capability_flag_bit CLIENT_REMEMBER_OPTIONS = 31"

definition CLIENT_ALL_FLAGS :: "64 word" where
  "CLIENT_ALL_FLAGS =
     (capability_flag CLIENT_LONG_PASSWORD OR
      capability_flag CLIENT_FOUND_ROWS OR
      capability_flag CLIENT_LONG_FLAG OR
      capability_flag CLIENT_CONNECT_WITH_DB OR
      capability_flag CLIENT_NO_SCHEMA OR
      capability_flag CLIENT_COMPRESS OR
      capability_flag CLIENT_ODBC OR
      capability_flag CLIENT_LOCAL_FILES OR
      capability_flag CLIENT_IGNORE_SPACE OR
      capability_flag CLIENT_PROTOCOL_41 OR
      capability_flag CLIENT_INTERACTIVE OR
      capability_flag CLIENT_SSL OR
      capability_flag CLIENT_IGNORE_SIGPIPE OR
      capability_flag CLIENT_TRANSACTIONS OR
      capability_flag CLIENT_RESERVED OR
      capability_flag CLIENT_SECURE_CONNECTION OR
      capability_flag CLIENT_MULTI_STATEMENTS OR
      capability_flag CLIENT_MULTI_RESULTS OR
      capability_flag CLIENT_PS_MULTI_RESULTS OR
      capability_flag CLIENT_SSL_VERIFY_SERVER_CERT OR
      capability_flag CLIENT_REMEMBER_OPTIONS OR
      capability_flag CLIENT_PLUGIN_AUTH)"

text \<open>Without the three flags that depend on how the library was built.\<close>

definition CLIENT_BASIC_FLAGS :: "64 word" where
  "CLIENT_BASIC_FLAGS =
     CLIENT_ALL_FLAGS AND NOT (capability_flag CLIENT_SSL) AND NOT (capability_flag CLIENT_COMPRESS)
       AND NOT (capability_flag CLIENT_SSL_VERIFY_SERVER_CERT)"

definition CAN_CLIENT_COMPRESS :: "bool \<Rightarrow> 64 word" where
  "CAN_CLIENT_COMPRESS have_compress = (if have_compress then capability_flag CLIENT_COMPRESS else 0)"

definition protocol_41 :: "64 word \<Rightarrow> 64 word" where
  "protocol_41 server_capabilities = server_capabilities AND capability_flag CLIENT_PROTOCOL_41"

interpretation capabilities: flags capability_flag capability_flag_bit
proof
  show "capability_flag c = push_bit (capability_flag_bit c) 1" for c by (cases c) simp_all
  show "capability_flag_bit c < LENGTH(64)" for c by (cases c) simp_all
qed

section \<open>Status\<close>

text \<open>The state of the server that it sends with an answer.\<close>

datatype server_status =
    SERVER_STATUS_IN_TRANS
  | SERVER_STATUS_AUTOCOMMIT
  | SERVER_MORE_RESULTS_EXISTS
  | SERVER_QUERY_NO_GOOD_INDEX_USED
  | SERVER_QUERY_NO_INDEX_USED
  | SERVER_STATUS_CURSOR_EXISTS
  | SERVER_STATUS_LAST_ROW_SENT
  | SERVER_STATUS_DB_DROPPED
  | SERVER_STATUS_NO_BACKSLASH_ESCAPES
  | SERVER_STATUS_METADATA_CHANGED
  | SERVER_QUERY_WAS_SLOW
  | SERVER_PS_OUT_PARAMS

fun status_flag :: "server_status \<Rightarrow> 32 word" where
  "status_flag SERVER_STATUS_IN_TRANS = 1"
| "status_flag SERVER_STATUS_AUTOCOMMIT = 2"
| "status_flag SERVER_MORE_RESULTS_EXISTS = 8"
| "status_flag SERVER_QUERY_NO_GOOD_INDEX_USED = 16"
| "status_flag SERVER_QUERY_NO_INDEX_USED = 32"
| "status_flag SERVER_STATUS_CURSOR_EXISTS = 64"
| "status_flag SERVER_STATUS_LAST_ROW_SENT = 128"
| "status_flag SERVER_STATUS_DB_DROPPED = 256"
| "status_flag SERVER_STATUS_NO_BACKSLASH_ESCAPES = 512"
| "status_flag SERVER_STATUS_METADATA_CHANGED = 1024"
| "status_flag SERVER_QUERY_WAS_SLOW = 2048"
| "status_flag SERVER_PS_OUT_PARAMS = 4096"

fun status_flag_bit :: "server_status \<Rightarrow> nat" where
  "status_flag_bit SERVER_STATUS_IN_TRANS = 0"
| "status_flag_bit SERVER_STATUS_AUTOCOMMIT = 1"
| "status_flag_bit SERVER_MORE_RESULTS_EXISTS = 3"
| "status_flag_bit SERVER_QUERY_NO_GOOD_INDEX_USED = 4"
| "status_flag_bit SERVER_QUERY_NO_INDEX_USED = 5"
| "status_flag_bit SERVER_STATUS_CURSOR_EXISTS = 6"
| "status_flag_bit SERVER_STATUS_LAST_ROW_SENT = 7"
| "status_flag_bit SERVER_STATUS_DB_DROPPED = 8"
| "status_flag_bit SERVER_STATUS_NO_BACKSLASH_ESCAPES = 9"
| "status_flag_bit SERVER_STATUS_METADATA_CHANGED = 10"
| "status_flag_bit SERVER_QUERY_WAS_SLOW = 11"
| "status_flag_bit SERVER_PS_OUT_PARAMS = 12"

text \<open>What is cleared when a new statement starts.\<close>

definition SERVER_STATUS_CLEAR_SET :: "32 word" where
  "SERVER_STATUS_CLEAR_SET =
     (status_flag SERVER_QUERY_NO_GOOD_INDEX_USED OR
      status_flag SERVER_QUERY_NO_INDEX_USED OR
      status_flag SERVER_MORE_RESULTS_EXISTS OR
      status_flag SERVER_STATUS_METADATA_CHANGED OR
      status_flag SERVER_QUERY_WAS_SLOW OR
      status_flag SERVER_STATUS_DB_DROPPED OR
      status_flag SERVER_STATUS_CURSOR_EXISTS OR
      status_flag SERVER_STATUS_LAST_ROW_SENT)"

interpretation statuses: flags status_flag status_flag_bit
proof
  show "status_flag c = push_bit (status_flag_bit c) 1" for c by (cases c) simp_all
  show "status_flag_bit c < LENGTH(32)" for c by (cases c) simp_all
qed

section \<open>Columns\<close>

text \<open>The flags of a column.\<close>

datatype field_flag =
    F_NOT_NULL_FLAG
  | F_PRI_KEY_FLAG
  | F_UNIQUE_KEY_FLAG
  | F_MULTIPLE_KEY_FLAG
  | F_BLOB_FLAG
  | F_UNSIGNED_FLAG
  | F_ZEROFILL_FLAG
  | F_BINARY_FLAG
  | F_ENUM_FLAG
  | F_AUTO_INCREMENT_FLAG
  | F_TIMESTAMP_FLAG
  | F_SET_FLAG
  | F_NO_DEFAULT_VALUE_FLAG
  | F_ON_UPDATE_NOW_FLAG
  | F_NUM_FLAG
  | F_PART_KEY_FLAG
  | F_GROUP_FLAG
  | F_UNIQUE_FLAG
  | F_BINCMP_FLAG
  | F_GET_FIXED_FIELDS_FLAG
  | F_FIELD_IN_PART_FUNC_FLAG
  | F_FIELD_IN_ADD_INDEX
  | F_FIELD_IS_RENAMED

fun field_flag_value :: "field_flag \<Rightarrow> 32 word" where
  "field_flag_value F_NOT_NULL_FLAG = 1"
| "field_flag_value F_PRI_KEY_FLAG = 2"
| "field_flag_value F_UNIQUE_KEY_FLAG = 4"
| "field_flag_value F_MULTIPLE_KEY_FLAG = 8"
| "field_flag_value F_BLOB_FLAG = 16"
| "field_flag_value F_UNSIGNED_FLAG = 32"
| "field_flag_value F_ZEROFILL_FLAG = 64"
| "field_flag_value F_BINARY_FLAG = 128"
| "field_flag_value F_ENUM_FLAG = 256"
| "field_flag_value F_AUTO_INCREMENT_FLAG = 512"
| "field_flag_value F_TIMESTAMP_FLAG = 1024"
| "field_flag_value F_SET_FLAG = 2048"
| "field_flag_value F_NO_DEFAULT_VALUE_FLAG = 4096"
| "field_flag_value F_ON_UPDATE_NOW_FLAG = 8192"
| "field_flag_value F_NUM_FLAG = 32768"
| "field_flag_value F_PART_KEY_FLAG = 16384"
| "field_flag_value F_GROUP_FLAG = 32768"
| "field_flag_value F_UNIQUE_FLAG = 65536"
| "field_flag_value F_BINCMP_FLAG = 131072"
| "field_flag_value F_GET_FIXED_FIELDS_FLAG = push_bit 18 1"
| "field_flag_value F_FIELD_IN_PART_FUNC_FLAG = push_bit 19 1"
| "field_flag_value F_FIELD_IN_ADD_INDEX = push_bit 20 1"
| "field_flag_value F_FIELD_IS_RENAMED = push_bit 21 1"

fun field_flag_value_bit :: "field_flag \<Rightarrow> nat" where
  "field_flag_value_bit F_NOT_NULL_FLAG = 0"
| "field_flag_value_bit F_PRI_KEY_FLAG = 1"
| "field_flag_value_bit F_UNIQUE_KEY_FLAG = 2"
| "field_flag_value_bit F_MULTIPLE_KEY_FLAG = 3"
| "field_flag_value_bit F_BLOB_FLAG = 4"
| "field_flag_value_bit F_UNSIGNED_FLAG = 5"
| "field_flag_value_bit F_ZEROFILL_FLAG = 6"
| "field_flag_value_bit F_BINARY_FLAG = 7"
| "field_flag_value_bit F_ENUM_FLAG = 8"
| "field_flag_value_bit F_AUTO_INCREMENT_FLAG = 9"
| "field_flag_value_bit F_TIMESTAMP_FLAG = 10"
| "field_flag_value_bit F_SET_FLAG = 11"
| "field_flag_value_bit F_NO_DEFAULT_VALUE_FLAG = 12"
| "field_flag_value_bit F_ON_UPDATE_NOW_FLAG = 13"
| "field_flag_value_bit F_NUM_FLAG = 15"
| "field_flag_value_bit F_PART_KEY_FLAG = 14"
| "field_flag_value_bit F_GROUP_FLAG = 15"
| "field_flag_value_bit F_UNIQUE_FLAG = 16"
| "field_flag_value_bit F_BINCMP_FLAG = 17"
| "field_flag_value_bit F_GET_FIXED_FIELDS_FLAG = 18"
| "field_flag_value_bit F_FIELD_IN_PART_FUNC_FLAG = 19"
| "field_flag_value_bit F_FIELD_IN_ADD_INDEX = 20"
| "field_flag_value_bit F_FIELD_IS_RENAMED = 21"

interpretation fields: flags field_flag_value field_flag_value_bit
proof
  show "field_flag_value c = push_bit (field_flag_value_bit c) 1" for c by (cases c) simp_all
  show "field_flag_value_bit c < LENGTH(32)" for c by (cases c) simp_all
qed

text \<open>The tests of \<^verbatim>\<open>mysql.h\<close> read one bit each.\<close>

lemma column_tests:
  "IS_PRI_KEY n \<longleftrightarrow> bit n (field_flag_value_bit F_PRI_KEY_FLAG)"
  "IS_NOT_NULL n \<longleftrightarrow> bit n (field_flag_value_bit F_NOT_NULL_FLAG)"
  "IS_BLOB n \<longleftrightarrow> bit n (field_flag_value_bit F_BLOB_FLAG)"
  using fields.flag_test [of F_PRI_KEY_FLAG n] fields.flag_test [of F_NOT_NULL_FLAG n]
    fields.flag_test [of F_BLOB_FLAG n]
  by (simp_all add: IS_PRI_KEY_def IS_NOT_NULL_def IS_BLOB_def PRI_KEY_FLAG_def NOT_NULL_FLAG_def BLOB_FLAG_def
      and.commute)

section \<open>Refresh options\<close>

text \<open>What \<^verbatim>\<open>mysql_refresh\<close> can be asked for; \<^verbatim>\<open>REFRESH_READ_LOCK\<close> and \<^verbatim>\<open>REFRESH_FAST\<close> are internal.\<close>

datatype refresh =
    REFRESH_GRANT
  | REFRESH_LOG
  | REFRESH_TABLES
  | REFRESH_HOSTS
  | REFRESH_STATUS
  | REFRESH_THREADS
  | REFRESH_SLAVE
  | REFRESH_MASTER
  | REFRESH_ERROR_LOG
  | REFRESH_ENGINE_LOG
  | REFRESH_BINARY_LOG
  | REFRESH_RELAY_LOG
  | REFRESH_GENERAL_LOG
  | REFRESH_SLOW_LOG
  | REFRESH_READ_LOCK
  | REFRESH_FAST
  | REFRESH_QUERY_CACHE
  | REFRESH_QUERY_CACHE_FREE
  | REFRESH_DES_KEY_FILE
  | REFRESH_USER_RESOURCES

fun refresh_flag :: "refresh \<Rightarrow> 64 word" where
  "refresh_flag REFRESH_GRANT = 1"
| "refresh_flag REFRESH_LOG = 2"
| "refresh_flag REFRESH_TABLES = 4"
| "refresh_flag REFRESH_HOSTS = 8"
| "refresh_flag REFRESH_STATUS = 16"
| "refresh_flag REFRESH_THREADS = 32"
| "refresh_flag REFRESH_SLAVE = 64"
| "refresh_flag REFRESH_MASTER = 128"
| "refresh_flag REFRESH_ERROR_LOG = 256"
| "refresh_flag REFRESH_ENGINE_LOG = 512"
| "refresh_flag REFRESH_BINARY_LOG = 1024"
| "refresh_flag REFRESH_RELAY_LOG = 2048"
| "refresh_flag REFRESH_GENERAL_LOG = 4096"
| "refresh_flag REFRESH_SLOW_LOG = 8192"
| "refresh_flag REFRESH_READ_LOCK = 16384"
| "refresh_flag REFRESH_FAST = 32768"
| "refresh_flag REFRESH_QUERY_CACHE = 65536"
| "refresh_flag REFRESH_QUERY_CACHE_FREE = 0x20000"
| "refresh_flag REFRESH_DES_KEY_FILE = 0x40000"
| "refresh_flag REFRESH_USER_RESOURCES = 0x80000"

fun refresh_flag_bit :: "refresh \<Rightarrow> nat" where
  "refresh_flag_bit REFRESH_GRANT = 0"
| "refresh_flag_bit REFRESH_LOG = 1"
| "refresh_flag_bit REFRESH_TABLES = 2"
| "refresh_flag_bit REFRESH_HOSTS = 3"
| "refresh_flag_bit REFRESH_STATUS = 4"
| "refresh_flag_bit REFRESH_THREADS = 5"
| "refresh_flag_bit REFRESH_SLAVE = 6"
| "refresh_flag_bit REFRESH_MASTER = 7"
| "refresh_flag_bit REFRESH_ERROR_LOG = 8"
| "refresh_flag_bit REFRESH_ENGINE_LOG = 9"
| "refresh_flag_bit REFRESH_BINARY_LOG = 10"
| "refresh_flag_bit REFRESH_RELAY_LOG = 11"
| "refresh_flag_bit REFRESH_GENERAL_LOG = 12"
| "refresh_flag_bit REFRESH_SLOW_LOG = 13"
| "refresh_flag_bit REFRESH_READ_LOCK = 14"
| "refresh_flag_bit REFRESH_FAST = 15"
| "refresh_flag_bit REFRESH_QUERY_CACHE = 16"
| "refresh_flag_bit REFRESH_QUERY_CACHE_FREE = 17"
| "refresh_flag_bit REFRESH_DES_KEY_FILE = 18"
| "refresh_flag_bit REFRESH_USER_RESOURCES = 19"

interpretation refreshes: flags refresh_flag refresh_flag_bit
proof
  show "refresh_flag c = push_bit (refresh_flag_bit c) 1" for c by (cases c) simp_all
  show "refresh_flag_bit c < LENGTH(64)" for c by (cases c) simp_all
qed

section \<open>Commands and shutdown levels\<close>

datatype enum_server_command =
    COM_SLEEP
  | COM_QUIT
  | COM_INIT_DB
  | COM_QUERY
  | COM_FIELD_LIST
  | COM_CREATE_DB
  | COM_DROP_DB
  | COM_REFRESH
  | COM_SHUTDOWN
  | COM_STATISTICS
  | COM_PROCESS_INFO
  | COM_CONNECT
  | COM_PROCESS_KILL
  | COM_DEBUG
  | COM_PING
  | COM_TIME
  | COM_DELAYED_INSERT
  | COM_CHANGE_USER
  | COM_BINLOG_DUMP
  | COM_TABLE_DUMP
  | COM_CONNECT_OUT
  | COM_REGISTER_SLAVE
  | COM_STMT_PREPARE
  | COM_STMT_EXECUTE
  | COM_STMT_SEND_LONG_DATA
  | COM_STMT_CLOSE
  | COM_STMT_RESET
  | COM_SET_OPTION
  | COM_STMT_FETCH
  | COM_DAEMON
  | COM_END

fun command_code :: "enum_server_command \<Rightarrow> nat" where
  "command_code COM_SLEEP = 0"
| "command_code COM_QUIT = 1"
| "command_code COM_INIT_DB = 2"
| "command_code COM_QUERY = 3"
| "command_code COM_FIELD_LIST = 4"
| "command_code COM_CREATE_DB = 5"
| "command_code COM_DROP_DB = 6"
| "command_code COM_REFRESH = 7"
| "command_code COM_SHUTDOWN = 8"
| "command_code COM_STATISTICS = 9"
| "command_code COM_PROCESS_INFO = 10"
| "command_code COM_CONNECT = 11"
| "command_code COM_PROCESS_KILL = 12"
| "command_code COM_DEBUG = 13"
| "command_code COM_PING = 14"
| "command_code COM_TIME = 15"
| "command_code COM_DELAYED_INSERT = 16"
| "command_code COM_CHANGE_USER = 17"
| "command_code COM_BINLOG_DUMP = 18"
| "command_code COM_TABLE_DUMP = 19"
| "command_code COM_CONNECT_OUT = 20"
| "command_code COM_REGISTER_SLAVE = 21"
| "command_code COM_STMT_PREPARE = 22"
| "command_code COM_STMT_EXECUTE = 23"
| "command_code COM_STMT_SEND_LONG_DATA = 24"
| "command_code COM_STMT_CLOSE = 25"
| "command_code COM_STMT_RESET = 26"
| "command_code COM_SET_OPTION = 27"
| "command_code COM_STMT_FETCH = 28"
| "command_code COM_DAEMON = 29"
| "command_code COM_END = 30"

text \<open>Codes are positions, and the end marker comes after every command.\<close>

lemma command_code_inject: "command_code c = command_code d \<longleftrightarrow> c = d"
  by (cases c; cases d) simp_all

lemma command_end: "c \<noteq> COM_END \<Longrightarrow> command_code c < command_code COM_END"
  by (cases c) simp_all

datatype shutdown_level =
    SHUTDOWN_DEFAULT
  | SHUTDOWN_WAIT_CONNECTIONS
  | SHUTDOWN_WAIT_TRANSACTIONS
  | SHUTDOWN_WAIT_UPDATES
  | SHUTDOWN_WAIT_ALL_BUFFERS
  | SHUTDOWN_WAIT_CRITICAL_BUFFERS
  | KILL_QUERY
  | KILL_CONNECTION

definition MYSQL_SHUTDOWN_KILLABLE_CONNECT :: "8 word" where "MYSQL_SHUTDOWN_KILLABLE_CONNECT = push_bit 0 1"
definition MYSQL_SHUTDOWN_KILLABLE_TRANS :: "8 word" where "MYSQL_SHUTDOWN_KILLABLE_TRANS = push_bit 1 1"
definition MYSQL_SHUTDOWN_KILLABLE_LOCK_TABLE :: "8 word" where "MYSQL_SHUTDOWN_KILLABLE_LOCK_TABLE = push_bit 2 1"
definition MYSQL_SHUTDOWN_KILLABLE_UPDATE :: "8 word" where "MYSQL_SHUTDOWN_KILLABLE_UPDATE = push_bit 3 1"

fun shutdown_code :: "shutdown_level \<Rightarrow> nat" where
  "shutdown_code SHUTDOWN_DEFAULT = 0"
| "shutdown_code SHUTDOWN_WAIT_CONNECTIONS = unat MYSQL_SHUTDOWN_KILLABLE_CONNECT"
| "shutdown_code SHUTDOWN_WAIT_TRANSACTIONS = unat MYSQL_SHUTDOWN_KILLABLE_TRANS"
| "shutdown_code SHUTDOWN_WAIT_UPDATES = unat MYSQL_SHUTDOWN_KILLABLE_UPDATE"
| "shutdown_code SHUTDOWN_WAIT_ALL_BUFFERS = unat MYSQL_SHUTDOWN_KILLABLE_UPDATE * 2"
| "shutdown_code SHUTDOWN_WAIT_CRITICAL_BUFFERS = unat MYSQL_SHUTDOWN_KILLABLE_UPDATE * 2 + 1"
| "shutdown_code KILL_QUERY = 254"
| "shutdown_code KILL_CONNECTION = 255"

text \<open>The levels grow with their hardness, in the order of the source.\<close>

lemma shutdown_order:
  "sorted_wrt (<) (map shutdown_code
     [SHUTDOWN_DEFAULT, SHUTDOWN_WAIT_CONNECTIONS, SHUTDOWN_WAIT_TRANSACTIONS, SHUTDOWN_WAIT_UPDATES,
      SHUTDOWN_WAIT_ALL_BUFFERS, SHUTDOWN_WAIT_CRITICAL_BUFFERS, KILL_QUERY, KILL_CONNECTION])"
  by (simp add: MYSQL_SHUTDOWN_KILLABLE_CONNECT_def MYSQL_SHUTDOWN_KILLABLE_TRANS_def
      MYSQL_SHUTDOWN_KILLABLE_UPDATE_def)

section \<open>The masks\<close>

lemma all_flags_union:
  "CLIENT_ALL_FLAGS = foldr (OR) (map capability_flag
     [CLIENT_LONG_PASSWORD,
      CLIENT_FOUND_ROWS,
      CLIENT_LONG_FLAG,
      CLIENT_CONNECT_WITH_DB,
      CLIENT_NO_SCHEMA,
      CLIENT_COMPRESS,
      CLIENT_ODBC,
      CLIENT_LOCAL_FILES,
      CLIENT_IGNORE_SPACE,
      CLIENT_PROTOCOL_41,
      CLIENT_INTERACTIVE,
      CLIENT_SSL,
      CLIENT_IGNORE_SIGPIPE,
      CLIENT_TRANSACTIONS,
      CLIENT_RESERVED,
      CLIENT_SECURE_CONNECTION,
      CLIENT_MULTI_STATEMENTS,
      CLIENT_MULTI_RESULTS,
      CLIENT_PS_MULTI_RESULTS,
      CLIENT_SSL_VERIFY_SERVER_CERT,
      CLIENT_REMEMBER_OPTIONS,
      CLIENT_PLUGIN_AUTH]) 0"
  by (simp only: CLIENT_ALL_FLAGS_def list.map foldr.simps comp_apply id_apply or.right_neutral or.assoc)

lemma clear_set_union:
  "SERVER_STATUS_CLEAR_SET = foldr (OR) (map status_flag
     [SERVER_QUERY_NO_GOOD_INDEX_USED,
      SERVER_QUERY_NO_INDEX_USED,
      SERVER_MORE_RESULTS_EXISTS,
      SERVER_STATUS_METADATA_CHANGED,
      SERVER_QUERY_WAS_SLOW,
      SERVER_STATUS_DB_DROPPED,
      SERVER_STATUS_CURSOR_EXISTS,
      SERVER_STATUS_LAST_ROW_SENT]) 0"
  by (simp only: SERVER_STATUS_CLEAR_SET_def list.map foldr.simps comp_apply id_apply or.right_neutral or.assoc)

lemma bit_all_flags: "bit CLIENT_ALL_FLAGS n \<longleftrightarrow> (\<exists>c. n = capability_flag_bit c)"
proof
  assume "\<exists>c. n = capability_flag_bit c"
  then obtain c where "n = capability_flag_bit c" ..
  then show "bit CLIENT_ALL_FLAGS n"
    unfolding all_flags_union capabilities.bit_union by (cases c) auto
qed (unfold all_flags_union capabilities.bit_union, blast)

lemma capability_bits: "capability_flag_bit c = capability_flag_bit d \<longleftrightarrow> c = d"
  by (cases c; cases d) simp_all

text \<open>
  C23: the masks of the client protocol: every capability, status, column flag and refresh option is
  a single bit, which it shares with no other of its family but for \<^verbatim>\<open>NUM_FLAG\<close> and \<^verbatim>\<open>GROUP_FLAG\<close>,
  \<^verbatim>\<open>CLIENT_ALL_FLAGS\<close> has exactly the bits of the capabilities, \<^verbatim>\<open>CLIENT_BASIC_FLAGS\<close> those of all but
  SSL, its certificate check and compression, clearing the set of \<^verbatim>\<open>SERVER_STATUS_CLEAR_SET\<close> keeps
  exactly the transaction, autocommit, backslash and output parameter states.
\<close>

theorem protocol_masks:
  "(\<exists>k. capability_flag c = push_bit k 1) \<and> (capability_flag c AND capability_flag c' \<noteq> 0 \<longleftrightarrow> c = c') \<and>
   (bit CLIENT_ALL_FLAGS n \<longleftrightarrow> (\<exists>c. bit (capability_flag c) n)) \<and>
   (capability_flag c AND CLIENT_BASIC_FLAGS \<noteq> 0 \<longleftrightarrow>
      c \<notin> {CLIENT_SSL, CLIENT_COMPRESS, CLIENT_SSL_VERIFY_SERVER_CERT}) \<and>
   (\<exists>k. status_flag s = push_bit k 1) \<and> (status_flag s AND status_flag s' \<noteq> 0 \<longleftrightarrow> s = s') \<and>
   (status_flag s AND (w AND NOT SERVER_STATUS_CLEAR_SET) \<noteq> 0 \<longleftrightarrow>
      status_flag s AND w \<noteq> 0 \<and>
      s \<in> {SERVER_STATUS_IN_TRANS, SERVER_STATUS_AUTOCOMMIT, SERVER_STATUS_NO_BACKSLASH_ESCAPES, SERVER_PS_OUT_PARAMS}) \<and>
   (\<exists>k. field_flag_value f = push_bit k 1) \<and>
   (field_flag_value f AND field_flag_value f' \<noteq> 0 \<longleftrightarrow> f = f' \<or> {f, f'} = {F_NUM_FLAG, F_GROUP_FLAG}) \<and>
   (\<exists>k. refresh_flag r = push_bit k 1) \<and> (refresh_flag r AND refresh_flag r' \<noteq> 0 \<longleftrightarrow> r = r')"
proof -
  have "capability_flag_bit c < 64" using capabilities.in_width [of c] by simp
  then have "bit CLIENT_BASIC_FLAGS (capability_flag_bit c) \<longleftrightarrow>
      c \<notin> {CLIENT_SSL, CLIENT_COMPRESS, CLIENT_SSL_VERIFY_SERVER_CERT}"
    unfolding CLIENT_BASIC_FLAGS_def bit_and_iff bit_not_iff bit_all_flags capabilities.bit_flag capability_bits
    by auto
  moreover have "bit (w AND NOT SERVER_STATUS_CLEAR_SET) (status_flag_bit s) \<longleftrightarrow>
      bit w (status_flag_bit s) \<and>
      s \<in> {SERVER_STATUS_IN_TRANS, SERVER_STATUS_AUTOCOMMIT, SERVER_STATUS_NO_BACKSLASH_ESCAPES, SERVER_PS_OUT_PARAMS}"
    unfolding clear_set_union bit_and_iff bit_not_iff statuses.bit_union
    by (cases s) simp_all
  moreover have "status_flag_bit s = status_flag_bit s' \<longleftrightarrow> s = s'" by (cases s; cases s') simp_all
  moreover have "field_flag_value_bit f = field_flag_value_bit f' \<longleftrightarrow>
      f = f' \<or> {f, f'} = {F_NUM_FLAG, F_GROUP_FLAG}"
    by (cases f; cases f') (simp_all add: doubleton_eq_iff)
  moreover have "refresh_flag_bit r = refresh_flag_bit r' \<longleftrightarrow> r = r'" by (cases r; cases r') simp_all
  moreover have "\<exists>k. capability_flag c = push_bit k 1" "\<exists>k. status_flag s = push_bit k 1"
    "\<exists>k. field_flag_value f = push_bit k 1" "\<exists>k. refresh_flag r = push_bit k 1"
    using capabilities.one_bit statuses.one_bit fields.one_bit refreshes.one_bit by blast+
  ultimately show ?thesis
    by (simp only: capabilities.flag_test capability_bits bit_all_flags capabilities.bit_flag
        capabilities.flag_meet statuses.flag_meet fields.flag_meet refreshes.flag_meet statuses.flag_test statuses.bit_flag
        simp_thms)
qed

end
