(* ===== verification/Decimals.thy ===== *)
theory Decimals
  imports Prelude "HOL-Library.Word"
begin

text \<open>
  The macros of \<^verbatim>\<open>client/mysql_include/decimal.h\<close> on decimal numbers. The functions that compute
  with them have no body in the repository; what a decimal is written as is the reference here for
  the size of the buffer that \<^verbatim>\<open>decimal_string_size\<close> asks for.
\<close>

unbundle bit_operations_syntax

datatype decimal_round_mode = TRUNCATE | HALF_EVEN | HALF_UP | CEILING | FLOOR

text \<open>\<^verbatim>\<open>buf\<close> is a list of words of nine digits, \<^verbatim>\<open>len\<close> its length.\<close>

record decimal_t =
  d_intg :: int
  d_frac :: int
  d_len :: int
  d_sign :: "8 word"
  d_buf :: "32 word list"

definition decimal_make_zero :: "decimal_t \<Rightarrow> decimal_t" where
  "decimal_make_zero dec = dec\<lparr>d_buf := (d_buf dec)[0 := 0], d_intg := 1, d_frac := 0, d_sign := 0\<rparr>"

definition decimal_string_size :: "decimal_t \<Rightarrow> int" where
  "decimal_string_size dec =
     (if d_intg dec \<noteq> 0 then d_intg dec else 1) + d_frac dec + (if d_frac dec > 0 then 1 else 0) + 2"

definition decimal_neg :: "decimal_t \<Rightarrow> decimal_t" where
  "decimal_neg dec = dec\<lparr>d_sign := d_sign dec XOR 1\<rparr>"

definition E_DEC_OK :: "32 word" where "E_DEC_OK = 0"
definition E_DEC_TRUNCATED :: "32 word" where "E_DEC_TRUNCATED = 1"
definition E_DEC_OVERFLOW :: "32 word" where "E_DEC_OVERFLOW = 2"
definition E_DEC_DIV_ZERO :: "32 word" where "E_DEC_DIV_ZERO = 4"
definition E_DEC_BAD_NUM :: "32 word" where "E_DEC_BAD_NUM = 8"
definition E_DEC_OOM :: "32 word" where "E_DEC_OOM = 16"
definition E_DEC_ERROR :: "32 word" where "E_DEC_ERROR = 31"
definition E_DEC_FATAL_ERROR :: "32 word" where "E_DEC_FATAL_ERROR = 30"

lemmas decimal_errors = E_DEC_OK_def E_DEC_TRUNCATED_def E_DEC_OVERFLOW_def E_DEC_DIV_ZERO_def
  E_DEC_BAD_NUM_def E_DEC_OOM_def E_DEC_ERROR_def E_DEC_FATAL_ERROR_def

text \<open>The two masks collect the errors; a loss of precision is one that is not fatal.\<close>

lemma error_masks:
  "E_DEC_ERROR = E_DEC_TRUNCATED OR E_DEC_OVERFLOW OR E_DEC_DIV_ZERO OR E_DEC_BAD_NUM OR E_DEC_OOM"
  "E_DEC_FATAL_ERROR = E_DEC_ERROR AND NOT E_DEC_TRUNCATED"
  by (simp_all add: decimal_errors)

section \<open>The text of a decimal\<close>

text \<open>Sign, the digits before the point or a zero, the point and the digits after it, and the NUL.\<close>

definition decimal_text :: "bool \<Rightarrow> string \<Rightarrow> string \<Rightarrow> string" where
  "decimal_text negative intg frac =
     (if negative then ''-'' else '''') @ (if intg = '''' then ''0'' else intg) @
     (if frac = '''' then '''' else ''.'' @ frac) @ [CHR 0x00]"

definition digits_of :: "decimal_t \<Rightarrow> string \<Rightarrow> string \<Rightarrow> bool" where
  "digits_of dec intg frac \<longleftrightarrow> d_intg dec = int (length intg) \<and> d_frac dec = int (length frac)"

text \<open>The size is enough for the text, and no byte too large for a negative number.\<close>

lemma string_size_exact:
  "digits_of dec intg frac \<Longrightarrow>
     decimal_string_size dec = int (length (decimal_text True intg frac)) \<and>
     int (length (decimal_text False intg frac)) + 1 = decimal_string_size dec"
  by (auto simp: digits_of_def decimal_string_size_def decimal_text_def)

text \<open>Zero needs three bytes whatever the number was; negation changes the sign only, and twice is none.\<close>

lemma zero_size: "decimal_string_size (decimal_make_zero dec) = 3"
  by (simp add: decimal_string_size_def decimal_make_zero_def)

lemma neg_neg: "decimal_neg (decimal_neg dec) = dec"
  by (simp add: decimal_neg_def xor.assoc)

lemma neg_sign: "d_sign dec \<in> {0, 1} \<Longrightarrow> d_sign (decimal_neg dec) \<in> {0, 1} - {d_sign dec}"
  by (auto simp: decimal_neg_def)

lemma neg_size: "decimal_string_size (decimal_neg dec) = decimal_string_size dec"
  by (simp add: decimal_string_size_def decimal_neg_def)

end
