(* ===== verification/SysVar.thy ===== *)
theory SysVar
  imports Prelude "HOL-Library.Word"
begin

text \<open>
  The declarations of server variables by plugins, \<^verbatim>\<open>client/mysql_include/mysql/plugin.h\<close>: each
  macro fills a struct whose header has the flags, from which the server takes the type of the
  variable and where it is stored. A pointer is a natural number and 0 is NULL; the values of all
  C types are \<open>'v\<close>, and the C type is recorded.
\<close>

unbundle bit_operations_syntax

section \<open>Flags\<close>

definition PLUGIN_VAR_BOOL :: "32 word" where "PLUGIN_VAR_BOOL = 0x0001"
definition PLUGIN_VAR_INT :: "32 word" where "PLUGIN_VAR_INT = 0x0002"
definition PLUGIN_VAR_LONG :: "32 word" where "PLUGIN_VAR_LONG = 0x0003"
definition PLUGIN_VAR_LONGLONG :: "32 word" where "PLUGIN_VAR_LONGLONG = 0x0004"
definition PLUGIN_VAR_STR :: "32 word" where "PLUGIN_VAR_STR = 0x0005"
definition PLUGIN_VAR_ENUM :: "32 word" where "PLUGIN_VAR_ENUM = 0x0006"
definition PLUGIN_VAR_SET :: "32 word" where "PLUGIN_VAR_SET = 0x0007"
definition PLUGIN_VAR_DOUBLE :: "32 word" where "PLUGIN_VAR_DOUBLE = 0x0008"
definition PLUGIN_VAR_UNSIGNED :: "32 word" where "PLUGIN_VAR_UNSIGNED = 0x0080"
definition PLUGIN_VAR_THDLOCAL :: "32 word" where "PLUGIN_VAR_THDLOCAL = 0x0100"
definition PLUGIN_VAR_READONLY :: "32 word" where "PLUGIN_VAR_READONLY = 0x0200"
definition PLUGIN_VAR_NOSYSVAR :: "32 word" where "PLUGIN_VAR_NOSYSVAR = 0x0400"
definition PLUGIN_VAR_NOCMDOPT :: "32 word" where "PLUGIN_VAR_NOCMDOPT = 0x0800"
definition PLUGIN_VAR_NOCMDARG :: "32 word" where "PLUGIN_VAR_NOCMDARG = 0x1000"
definition PLUGIN_VAR_RQCMDARG :: "32 word" where "PLUGIN_VAR_RQCMDARG = 0x0000"
definition PLUGIN_VAR_OPCMDARG :: "32 word" where "PLUGIN_VAR_OPCMDARG = 0x2000"
definition PLUGIN_VAR_MEMALLOC :: "32 word" where "PLUGIN_VAR_MEMALLOC = 0x8000"

definition PLUGIN_VAR_MASK :: "32 word" where
  "PLUGIN_VAR_MASK =
     PLUGIN_VAR_READONLY OR PLUGIN_VAR_NOSYSVAR OR PLUGIN_VAR_NOCMDOPT OR PLUGIN_VAR_NOCMDARG OR
     PLUGIN_VAR_OPCMDARG OR PLUGIN_VAR_RQCMDARG OR PLUGIN_VAR_MEMALLOC"

section \<open>The structs\<close>

datatype c_type =
    C_char
  | C_char_ptr
  | C_int
  | C_unsigned_int
  | C_long
  | C_unsigned_long
  | C_long_long
  | C_unsigned_long_long
  | C_double

text \<open>A global variable has a pointer to its value, one of a thread has an offset.\<close>

datatype var_place = Value nat | Offset int

record var_header =
  flags :: "32 word"
  var_name :: string
  var_comment :: string
  check :: nat
  update :: nat

record 'v sys_var = var_header +
  value_type :: c_type
  place :: var_place
  def_val :: 'v
  limits :: "('v \<times> 'v \<times> 'v) option"
  var_typelib :: "nat option"

definition header :: "32 word \<Rightarrow> string \<Rightarrow> string \<Rightarrow> nat \<Rightarrow> nat \<Rightarrow> var_header" where
  "header fl name comment chk upd =
     \<lparr>flags = fl, var_name = name, var_comment = comment, check = chk, update = upd\<rparr>"

definition DECLARE_MYSQL_SYSVAR_BASIC :: "c_type \<Rightarrow> var_header \<Rightarrow> nat \<Rightarrow> 'v \<Rightarrow> 'v sys_var" where
  "DECLARE_MYSQL_SYSVAR_BASIC ty h value def =
     var_header.extend h \<lparr>value_type = ty, place = Value value, def_val = def, limits = None, var_typelib = None\<rparr>"

definition DECLARE_MYSQL_SYSVAR_SIMPLE ::
  "c_type \<Rightarrow> var_header \<Rightarrow> nat \<Rightarrow> 'v \<Rightarrow> 'v \<Rightarrow> 'v \<Rightarrow> 'v \<Rightarrow> 'v sys_var" where
  "DECLARE_MYSQL_SYSVAR_SIMPLE ty h value def lo hi blk =
     var_header.extend h
       \<lparr>value_type = ty, place = Value value, def_val = def, limits = Some (lo, hi, blk), var_typelib = None\<rparr>"

definition DECLARE_MYSQL_SYSVAR_TYPELIB :: "c_type \<Rightarrow> var_header \<Rightarrow> nat \<Rightarrow> 'v \<Rightarrow> nat \<Rightarrow> 'v sys_var" where
  "DECLARE_MYSQL_SYSVAR_TYPELIB ty h value def names =
     var_header.extend h
       \<lparr>value_type = ty, place = Value value, def_val = def, limits = None, var_typelib = Some names\<rparr>"

definition DECLARE_MYSQL_THDVAR_BASIC :: "c_type \<Rightarrow> var_header \<Rightarrow> int \<Rightarrow> 'v \<Rightarrow> 'v sys_var" where
  "DECLARE_MYSQL_THDVAR_BASIC ty h ofs def =
     var_header.extend h \<lparr>value_type = ty, place = Offset ofs, def_val = def, limits = None, var_typelib = None\<rparr>"

definition DECLARE_MYSQL_THDVAR_SIMPLE ::
  "c_type \<Rightarrow> var_header \<Rightarrow> int \<Rightarrow> 'v \<Rightarrow> 'v \<Rightarrow> 'v \<Rightarrow> 'v \<Rightarrow> 'v sys_var" where
  "DECLARE_MYSQL_THDVAR_SIMPLE ty h ofs def lo hi blk =
     var_header.extend h
       \<lparr>value_type = ty, place = Offset ofs, def_val = def, limits = Some (lo, hi, blk), var_typelib = None\<rparr>"

definition DECLARE_MYSQL_THDVAR_TYPELIB :: "c_type \<Rightarrow> var_header \<Rightarrow> int \<Rightarrow> 'v \<Rightarrow> nat \<Rightarrow> 'v sys_var" where
  "DECLARE_MYSQL_THDVAR_TYPELIB ty h ofs def names =
     var_header.extend h
       \<lparr>value_type = ty, place = Offset ofs, def_val = def, limits = None, var_typelib = Some names\<rparr>"

section \<open>Variables of the server\<close>

definition MYSQL_SYSVAR_BOOL ::
  "string \<Rightarrow> nat \<Rightarrow> 32 word \<Rightarrow> string \<Rightarrow> nat \<Rightarrow> nat \<Rightarrow> 'v \<Rightarrow> 'v sys_var" where
  "MYSQL_SYSVAR_BOOL name varname opt comment chk upd def =
     DECLARE_MYSQL_SYSVAR_BASIC C_char
       (header (PLUGIN_VAR_BOOL OR (opt AND PLUGIN_VAR_MASK))
         name comment chk upd)
       varname def"

definition MYSQL_SYSVAR_STR ::
  "string \<Rightarrow> nat \<Rightarrow> 32 word \<Rightarrow> string \<Rightarrow> nat \<Rightarrow> nat \<Rightarrow> 'v \<Rightarrow> 'v sys_var" where
  "MYSQL_SYSVAR_STR name varname opt comment chk upd def =
     DECLARE_MYSQL_SYSVAR_BASIC C_char_ptr
       (header (PLUGIN_VAR_STR OR (opt AND PLUGIN_VAR_MASK))
         name comment chk upd)
       varname def"

definition MYSQL_SYSVAR_INT ::
  "string \<Rightarrow> nat \<Rightarrow> 32 word \<Rightarrow> string \<Rightarrow> nat \<Rightarrow> nat \<Rightarrow> 'v \<Rightarrow> 'v \<Rightarrow> 'v \<Rightarrow> 'v \<Rightarrow> 'v sys_var" where
  "MYSQL_SYSVAR_INT name varname opt comment chk upd def lo hi blk =
     DECLARE_MYSQL_SYSVAR_SIMPLE C_int
       (header (PLUGIN_VAR_INT OR (opt AND PLUGIN_VAR_MASK))
         name comment chk upd)
       varname def lo hi blk"

definition MYSQL_SYSVAR_UINT ::
  "string \<Rightarrow> nat \<Rightarrow> 32 word \<Rightarrow> string \<Rightarrow> nat \<Rightarrow> nat \<Rightarrow> 'v \<Rightarrow> 'v \<Rightarrow> 'v \<Rightarrow> 'v \<Rightarrow> 'v sys_var" where
  "MYSQL_SYSVAR_UINT name varname opt comment chk upd def lo hi blk =
     DECLARE_MYSQL_SYSVAR_SIMPLE C_unsigned_int
       (header (PLUGIN_VAR_INT OR PLUGIN_VAR_UNSIGNED OR (opt AND PLUGIN_VAR_MASK))
         name comment chk upd)
       varname def lo hi blk"

definition MYSQL_SYSVAR_LONG ::
  "string \<Rightarrow> nat \<Rightarrow> 32 word \<Rightarrow> string \<Rightarrow> nat \<Rightarrow> nat \<Rightarrow> 'v \<Rightarrow> 'v \<Rightarrow> 'v \<Rightarrow> 'v \<Rightarrow> 'v sys_var" where
  "MYSQL_SYSVAR_LONG name varname opt comment chk upd def lo hi blk =
     DECLARE_MYSQL_SYSVAR_SIMPLE C_long
       (header (PLUGIN_VAR_LONG OR (opt AND PLUGIN_VAR_MASK))
         name comment chk upd)
       varname def lo hi blk"

definition MYSQL_SYSVAR_ULONG ::
  "string \<Rightarrow> nat \<Rightarrow> 32 word \<Rightarrow> string \<Rightarrow> nat \<Rightarrow> nat \<Rightarrow> 'v \<Rightarrow> 'v \<Rightarrow> 'v \<Rightarrow> 'v \<Rightarrow> 'v sys_var" where
  "MYSQL_SYSVAR_ULONG name varname opt comment chk upd def lo hi blk =
     DECLARE_MYSQL_SYSVAR_SIMPLE C_unsigned_long
       (header (PLUGIN_VAR_LONG OR PLUGIN_VAR_UNSIGNED OR (opt AND PLUGIN_VAR_MASK))
         name comment chk upd)
       varname def lo hi blk"

definition MYSQL_SYSVAR_LONGLONG ::
  "string \<Rightarrow> nat \<Rightarrow> 32 word \<Rightarrow> string \<Rightarrow> nat \<Rightarrow> nat \<Rightarrow> 'v \<Rightarrow> 'v \<Rightarrow> 'v \<Rightarrow> 'v \<Rightarrow> 'v sys_var" where
  "MYSQL_SYSVAR_LONGLONG name varname opt comment chk upd def lo hi blk =
     DECLARE_MYSQL_SYSVAR_SIMPLE C_long_long
       (header (PLUGIN_VAR_LONGLONG OR (opt AND PLUGIN_VAR_MASK))
         name comment chk upd)
       varname def lo hi blk"

definition MYSQL_SYSVAR_ULONGLONG ::
  "string \<Rightarrow> nat \<Rightarrow> 32 word \<Rightarrow> string \<Rightarrow> nat \<Rightarrow> nat \<Rightarrow> 'v \<Rightarrow> 'v \<Rightarrow> 'v \<Rightarrow> 'v \<Rightarrow> 'v sys_var" where
  "MYSQL_SYSVAR_ULONGLONG name varname opt comment chk upd def lo hi blk =
     DECLARE_MYSQL_SYSVAR_SIMPLE C_unsigned_long_long
       (header (PLUGIN_VAR_LONGLONG OR PLUGIN_VAR_UNSIGNED OR (opt AND PLUGIN_VAR_MASK))
         name comment chk upd)
       varname def lo hi blk"

definition MYSQL_SYSVAR_ENUM ::
  "string \<Rightarrow> nat \<Rightarrow> 32 word \<Rightarrow> string \<Rightarrow> nat \<Rightarrow> nat \<Rightarrow> 'v \<Rightarrow> nat \<Rightarrow> 'v sys_var" where
  "MYSQL_SYSVAR_ENUM name varname opt comment chk upd def names =
     DECLARE_MYSQL_SYSVAR_TYPELIB C_unsigned_long
       (header (PLUGIN_VAR_ENUM OR (opt AND PLUGIN_VAR_MASK))
         name comment chk upd)
       varname def names"

definition MYSQL_SYSVAR_SET ::
  "string \<Rightarrow> nat \<Rightarrow> 32 word \<Rightarrow> string \<Rightarrow> nat \<Rightarrow> nat \<Rightarrow> 'v \<Rightarrow> nat \<Rightarrow> 'v sys_var" where
  "MYSQL_SYSVAR_SET name varname opt comment chk upd def names =
     DECLARE_MYSQL_SYSVAR_TYPELIB C_unsigned_long_long
       (header (PLUGIN_VAR_SET OR (opt AND PLUGIN_VAR_MASK))
         name comment chk upd)
       varname def names"

definition MYSQL_SYSVAR_DOUBLE ::
  "string \<Rightarrow> nat \<Rightarrow> 32 word \<Rightarrow> string \<Rightarrow> nat \<Rightarrow> nat \<Rightarrow> 'v \<Rightarrow> 'v \<Rightarrow> 'v \<Rightarrow> 'v \<Rightarrow> 'v sys_var" where
  "MYSQL_SYSVAR_DOUBLE name varname opt comment chk upd def lo hi blk =
     DECLARE_MYSQL_SYSVAR_SIMPLE C_double
       (header (PLUGIN_VAR_DOUBLE OR (opt AND PLUGIN_VAR_MASK))
         name comment chk upd)
       varname def lo hi blk"

section \<open>Variables of a thread\<close>

definition MYSQL_THDVAR_BOOL ::
  "string \<Rightarrow> 32 word \<Rightarrow> string \<Rightarrow> nat \<Rightarrow> nat \<Rightarrow> 'v \<Rightarrow> 'v sys_var" where
  "MYSQL_THDVAR_BOOL name opt comment chk upd def =
     DECLARE_MYSQL_THDVAR_BASIC C_char
       (header (PLUGIN_VAR_BOOL OR PLUGIN_VAR_THDLOCAL OR (opt AND PLUGIN_VAR_MASK))
         name comment chk upd)
       (- 1) def"

definition MYSQL_THDVAR_STR ::
  "string \<Rightarrow> 32 word \<Rightarrow> string \<Rightarrow> nat \<Rightarrow> nat \<Rightarrow> 'v \<Rightarrow> 'v sys_var" where
  "MYSQL_THDVAR_STR name opt comment chk upd def =
     DECLARE_MYSQL_THDVAR_BASIC C_char_ptr
       (header (PLUGIN_VAR_STR OR PLUGIN_VAR_THDLOCAL OR (opt AND PLUGIN_VAR_MASK))
         name comment chk upd)
       (- 1) def"

definition MYSQL_THDVAR_INT ::
  "string \<Rightarrow> 32 word \<Rightarrow> string \<Rightarrow> nat \<Rightarrow> nat \<Rightarrow> 'v \<Rightarrow> 'v \<Rightarrow> 'v \<Rightarrow> 'v \<Rightarrow> 'v sys_var" where
  "MYSQL_THDVAR_INT name opt comment chk upd def lo hi blk =
     DECLARE_MYSQL_THDVAR_SIMPLE C_int
       (header (PLUGIN_VAR_INT OR PLUGIN_VAR_THDLOCAL OR (opt AND PLUGIN_VAR_MASK))
         name comment chk upd)
       (- 1) def lo hi blk"

definition MYSQL_THDVAR_UINT ::
  "string \<Rightarrow> 32 word \<Rightarrow> string \<Rightarrow> nat \<Rightarrow> nat \<Rightarrow> 'v \<Rightarrow> 'v \<Rightarrow> 'v \<Rightarrow> 'v \<Rightarrow> 'v sys_var" where
  "MYSQL_THDVAR_UINT name opt comment chk upd def lo hi blk =
     DECLARE_MYSQL_THDVAR_SIMPLE C_unsigned_int
       (header (PLUGIN_VAR_INT OR PLUGIN_VAR_THDLOCAL OR PLUGIN_VAR_UNSIGNED OR (opt AND PLUGIN_VAR_MASK))
         name comment chk upd)
       (- 1) def lo hi blk"

definition MYSQL_THDVAR_LONG ::
  "string \<Rightarrow> 32 word \<Rightarrow> string \<Rightarrow> nat \<Rightarrow> nat \<Rightarrow> 'v \<Rightarrow> 'v \<Rightarrow> 'v \<Rightarrow> 'v \<Rightarrow> 'v sys_var" where
  "MYSQL_THDVAR_LONG name opt comment chk upd def lo hi blk =
     DECLARE_MYSQL_THDVAR_SIMPLE C_long
       (header (PLUGIN_VAR_LONG OR PLUGIN_VAR_THDLOCAL OR (opt AND PLUGIN_VAR_MASK))
         name comment chk upd)
       (- 1) def lo hi blk"

definition MYSQL_THDVAR_ULONG ::
  "string \<Rightarrow> 32 word \<Rightarrow> string \<Rightarrow> nat \<Rightarrow> nat \<Rightarrow> 'v \<Rightarrow> 'v \<Rightarrow> 'v \<Rightarrow> 'v \<Rightarrow> 'v sys_var" where
  "MYSQL_THDVAR_ULONG name opt comment chk upd def lo hi blk =
     DECLARE_MYSQL_THDVAR_SIMPLE C_unsigned_long
       (header (PLUGIN_VAR_LONG OR PLUGIN_VAR_THDLOCAL OR PLUGIN_VAR_UNSIGNED OR (opt AND PLUGIN_VAR_MASK))
         name comment chk upd)
       (- 1) def lo hi blk"

definition MYSQL_THDVAR_LONGLONG ::
  "string \<Rightarrow> 32 word \<Rightarrow> string \<Rightarrow> nat \<Rightarrow> nat \<Rightarrow> 'v \<Rightarrow> 'v \<Rightarrow> 'v \<Rightarrow> 'v \<Rightarrow> 'v sys_var" where
  "MYSQL_THDVAR_LONGLONG name opt comment chk upd def lo hi blk =
     DECLARE_MYSQL_THDVAR_SIMPLE C_long_long
       (header (PLUGIN_VAR_LONGLONG OR PLUGIN_VAR_THDLOCAL OR (opt AND PLUGIN_VAR_MASK))
         name comment chk upd)
       (- 1) def lo hi blk"

definition MYSQL_THDVAR_ULONGLONG ::
  "string \<Rightarrow> 32 word \<Rightarrow> string \<Rightarrow> nat \<Rightarrow> nat \<Rightarrow> 'v \<Rightarrow> 'v \<Rightarrow> 'v \<Rightarrow> 'v \<Rightarrow> 'v sys_var" where
  "MYSQL_THDVAR_ULONGLONG name opt comment chk upd def lo hi blk =
     DECLARE_MYSQL_THDVAR_SIMPLE C_unsigned_long_long
       (header (PLUGIN_VAR_LONGLONG OR PLUGIN_VAR_THDLOCAL OR PLUGIN_VAR_UNSIGNED OR (opt AND PLUGIN_VAR_MASK))
         name comment chk upd)
       (- 1) def lo hi blk"

definition MYSQL_THDVAR_ENUM ::
  "string \<Rightarrow> 32 word \<Rightarrow> string \<Rightarrow> nat \<Rightarrow> nat \<Rightarrow> 'v \<Rightarrow> nat \<Rightarrow> 'v sys_var" where
  "MYSQL_THDVAR_ENUM name opt comment chk upd def names =
     DECLARE_MYSQL_THDVAR_TYPELIB C_unsigned_long
       (header (PLUGIN_VAR_ENUM OR PLUGIN_VAR_THDLOCAL OR (opt AND PLUGIN_VAR_MASK))
         name comment chk upd)
       (- 1) def names"

definition MYSQL_THDVAR_SET ::
  "string \<Rightarrow> 32 word \<Rightarrow> string \<Rightarrow> nat \<Rightarrow> nat \<Rightarrow> 'v \<Rightarrow> nat \<Rightarrow> 'v sys_var" where
  "MYSQL_THDVAR_SET name opt comment chk upd def names =
     DECLARE_MYSQL_THDVAR_TYPELIB C_unsigned_long_long
       (header (PLUGIN_VAR_SET OR PLUGIN_VAR_THDLOCAL OR (opt AND PLUGIN_VAR_MASK))
         name comment chk upd)
       (- 1) def names"

definition MYSQL_THDVAR_DOUBLE ::
  "string \<Rightarrow> 32 word \<Rightarrow> string \<Rightarrow> nat \<Rightarrow> nat \<Rightarrow> 'v \<Rightarrow> 'v \<Rightarrow> 'v \<Rightarrow> 'v \<Rightarrow> 'v sys_var" where
  "MYSQL_THDVAR_DOUBLE name opt comment chk upd def lo hi blk =
     DECLARE_MYSQL_THDVAR_SIMPLE C_double
       (header (PLUGIN_VAR_DOUBLE OR PLUGIN_VAR_THDLOCAL OR (opt AND PLUGIN_VAR_MASK))
         name comment chk upd)
       (- 1) def lo hi blk"

section \<open>What the server reads from the flags\<close>

text \<open>
  The low bits name the type, one more bit makes an integer unsigned. Enumerations and sets have a
  fixed unsigned type.
\<close>

definition type_of_flags :: "32 word \<Rightarrow> c_type option" where
  "type_of_flags f =
     map_of
       [(PLUGIN_VAR_BOOL, C_char), (PLUGIN_VAR_STR, C_char_ptr), (PLUGIN_VAR_INT, C_int),
        (PLUGIN_VAR_INT OR PLUGIN_VAR_UNSIGNED, C_unsigned_int), (PLUGIN_VAR_LONG, C_long),
        (PLUGIN_VAR_LONG OR PLUGIN_VAR_UNSIGNED, C_unsigned_long), (PLUGIN_VAR_LONGLONG, C_long_long),
        (PLUGIN_VAR_LONGLONG OR PLUGIN_VAR_UNSIGNED, C_unsigned_long_long), (PLUGIN_VAR_ENUM, C_unsigned_long),
        (PLUGIN_VAR_SET, C_unsigned_long_long), (PLUGIN_VAR_DOUBLE, C_double)]
       (f AND 0xFF)"

definition numeric_flags :: "32 word \<Rightarrow> bool" where
  "numeric_flags f \<longleftrightarrow>
     f AND 0x7F \<in> {PLUGIN_VAR_INT, PLUGIN_VAR_LONG, PLUGIN_VAR_LONGLONG, PLUGIN_VAR_DOUBLE}"

definition named_flags :: "32 word \<Rightarrow> bool" where
  "named_flags f \<longleftrightarrow> f AND 0x7F \<in> {PLUGIN_VAR_ENUM, PLUGIN_VAR_SET}"

definition declared_well :: "32 word \<Rightarrow> 'v sys_var \<Rightarrow> bool" where
  "declared_well opt v \<longleftrightarrow>
     type_of_flags (flags v) = Some (value_type v) \<and>
     (flags v AND PLUGIN_VAR_THDLOCAL \<noteq> 0 \<longleftrightarrow> place v = Offset (- 1)) \<and>
     (limits v \<noteq> None \<longleftrightarrow> numeric_flags (flags v)) \<and>
     (var_typelib v \<noteq> None \<longleftrightarrow> named_flags (flags v)) \<and>
     flags v AND PLUGIN_VAR_MASK = opt AND PLUGIN_VAR_MASK"

lemmas flag_defs = PLUGIN_VAR_BOOL_def PLUGIN_VAR_INT_def PLUGIN_VAR_LONG_def PLUGIN_VAR_LONGLONG_def PLUGIN_VAR_STR_def PLUGIN_VAR_ENUM_def PLUGIN_VAR_SET_def PLUGIN_VAR_DOUBLE_def PLUGIN_VAR_UNSIGNED_def PLUGIN_VAR_THDLOCAL_def PLUGIN_VAR_READONLY_def PLUGIN_VAR_NOSYSVAR_def PLUGIN_VAR_NOCMDOPT_def PLUGIN_VAR_NOCMDARG_def PLUGIN_VAR_RQCMDARG_def PLUGIN_VAR_OPCMDARG_def PLUGIN_VAR_MEMALLOC_def

lemma mask_value: "PLUGIN_VAR_MASK = 0xBE00"
  by (simp add: PLUGIN_VAR_MASK_def flag_defs)

text \<open>The options cannot reach the bits of the type and the place, nor these the options.\<close>

lemma masked_options:
  fixes opt :: "32 word"
  shows "(b OR (opt AND 0xBE00)) AND 0xFF = b AND 0xFF" "(b OR (opt AND 0xBE00)) AND 0x7F = b AND 0x7F"
    "(b OR (opt AND 0xBE00)) AND 0x100 = b AND 0x100"
    "(b OR (opt AND 0xBE00)) AND 0xBE00 = (b AND 0xBE00) OR (opt AND 0xBE00)"
  by (simp_all add: bit.conj_disj_distrib2 and.assoc)

lemmas shape_defs = header_def var_header.defs
  DECLARE_MYSQL_SYSVAR_BASIC_def DECLARE_MYSQL_SYSVAR_SIMPLE_def DECLARE_MYSQL_SYSVAR_TYPELIB_def
  DECLARE_MYSQL_THDVAR_BASIC_def DECLARE_MYSQL_THDVAR_SIMPLE_def DECLARE_MYSQL_THDVAR_TYPELIB_def

lemma sysvars_declared:
  "declared_well opt (MYSQL_SYSVAR_BOOL name varname opt comment chk upd def)"
  "declared_well opt (MYSQL_SYSVAR_STR name varname opt comment chk upd def)"
  "declared_well opt (MYSQL_SYSVAR_INT name varname opt comment chk upd def lo hi blk)"
  "declared_well opt (MYSQL_SYSVAR_UINT name varname opt comment chk upd def lo hi blk)"
  "declared_well opt (MYSQL_SYSVAR_LONG name varname opt comment chk upd def lo hi blk)"
  "declared_well opt (MYSQL_SYSVAR_ULONG name varname opt comment chk upd def lo hi blk)"
  "declared_well opt (MYSQL_SYSVAR_LONGLONG name varname opt comment chk upd def lo hi blk)"
  "declared_well opt (MYSQL_SYSVAR_ULONGLONG name varname opt comment chk upd def lo hi blk)"
  "declared_well opt (MYSQL_SYSVAR_ENUM name varname opt comment chk upd def names)"
  "declared_well opt (MYSQL_SYSVAR_SET name varname opt comment chk upd def names)"
  "declared_well opt (MYSQL_SYSVAR_DOUBLE name varname opt comment chk upd def lo hi blk)"
  by (simp_all add: shape_defs sys_var.defs
      MYSQL_SYSVAR_BOOL_def
      MYSQL_SYSVAR_STR_def
      MYSQL_SYSVAR_INT_def
      MYSQL_SYSVAR_UINT_def
      MYSQL_SYSVAR_LONG_def
      MYSQL_SYSVAR_ULONG_def
      MYSQL_SYSVAR_LONGLONG_def
      MYSQL_SYSVAR_ULONGLONG_def
      MYSQL_SYSVAR_ENUM_def
      MYSQL_SYSVAR_SET_def
      MYSQL_SYSVAR_DOUBLE_def
      declared_well_def type_of_flags_def numeric_flags_def named_flags_def mask_value masked_options flag_defs
      or.assoc [symmetric])

lemma thdvars_declared:
  "declared_well opt (MYSQL_THDVAR_BOOL name opt comment chk upd def)"
  "declared_well opt (MYSQL_THDVAR_STR name opt comment chk upd def)"
  "declared_well opt (MYSQL_THDVAR_INT name opt comment chk upd def lo hi blk)"
  "declared_well opt (MYSQL_THDVAR_UINT name opt comment chk upd def lo hi blk)"
  "declared_well opt (MYSQL_THDVAR_LONG name opt comment chk upd def lo hi blk)"
  "declared_well opt (MYSQL_THDVAR_ULONG name opt comment chk upd def lo hi blk)"
  "declared_well opt (MYSQL_THDVAR_LONGLONG name opt comment chk upd def lo hi blk)"
  "declared_well opt (MYSQL_THDVAR_ULONGLONG name opt comment chk upd def lo hi blk)"
  "declared_well opt (MYSQL_THDVAR_ENUM name opt comment chk upd def names)"
  "declared_well opt (MYSQL_THDVAR_SET name opt comment chk upd def names)"
  "declared_well opt (MYSQL_THDVAR_DOUBLE name opt comment chk upd def lo hi blk)"
  by (simp_all add: shape_defs sys_var.defs
      MYSQL_THDVAR_BOOL_def
      MYSQL_THDVAR_STR_def
      MYSQL_THDVAR_INT_def
      MYSQL_THDVAR_UINT_def
      MYSQL_THDVAR_LONG_def
      MYSQL_THDVAR_ULONG_def
      MYSQL_THDVAR_LONGLONG_def
      MYSQL_THDVAR_ULONGLONG_def
      MYSQL_THDVAR_ENUM_def
      MYSQL_THDVAR_SET_def
      MYSQL_THDVAR_DOUBLE_def
      declared_well_def type_of_flags_def numeric_flags_def named_flags_def mask_value masked_options flag_defs
      or.assoc [symmetric])

text \<open>
  C40: whatever options are given, each of the declarations says the truth about its variable: the
  type in the flags is the C type of the value, the flag for threads is set exactly when the
  variable is stored by offset, there are limits exactly for numbers and names exactly for
  enumerations and sets, and the options arrive unchanged, as far as options may be given.
\<close>

theorem plugin_variables_declared:
  "list_all (declared_well opt)
     [MYSQL_SYSVAR_BOOL name varname opt comment chk upd def,
      MYSQL_SYSVAR_STR name varname opt comment chk upd def,
      MYSQL_SYSVAR_INT name varname opt comment chk upd def lo hi blk,
      MYSQL_SYSVAR_UINT name varname opt comment chk upd def lo hi blk,
      MYSQL_SYSVAR_LONG name varname opt comment chk upd def lo hi blk,
      MYSQL_SYSVAR_ULONG name varname opt comment chk upd def lo hi blk,
      MYSQL_SYSVAR_LONGLONG name varname opt comment chk upd def lo hi blk,
      MYSQL_SYSVAR_ULONGLONG name varname opt comment chk upd def lo hi blk,
      MYSQL_SYSVAR_ENUM name varname opt comment chk upd def names,
      MYSQL_SYSVAR_SET name varname opt comment chk upd def names,
      MYSQL_SYSVAR_DOUBLE name varname opt comment chk upd def lo hi blk,
      MYSQL_THDVAR_BOOL name opt comment chk upd def,
      MYSQL_THDVAR_STR name opt comment chk upd def,
      MYSQL_THDVAR_INT name opt comment chk upd def lo hi blk,
      MYSQL_THDVAR_UINT name opt comment chk upd def lo hi blk,
      MYSQL_THDVAR_LONG name opt comment chk upd def lo hi blk,
      MYSQL_THDVAR_ULONG name opt comment chk upd def lo hi blk,
      MYSQL_THDVAR_LONGLONG name opt comment chk upd def lo hi blk,
      MYSQL_THDVAR_ULONGLONG name opt comment chk upd def lo hi blk,
      MYSQL_THDVAR_ENUM name opt comment chk upd def names,
      MYSQL_THDVAR_SET name opt comment chk upd def names,
      MYSQL_THDVAR_DOUBLE name opt comment chk upd def lo hi blk]"
  by (simp add: sysvars_declared thdvars_declared)

end
