(* ===== verification/Spec2Isabelle.thy ===== *)
theory Spec2Isabelle
  imports ClientServer JsonIterator JsonToMysql ErrorNames SqlStates MString PsiRuns PsiMonitor PsiFileRuns
    RwLock IoCache MySys Counters Timespec MachineBytes MyGlobal Rounding CType FieldTypes ClientProtocol Decimals SysVar
begin

text \<open>
  A verification development for the monitoring client of the repository. The client collects
  figures of a Linux machine and its containers by shell commands, assembles them into a JSON
  report, posts the report over HTTP and starts the container image that the answer names. The
  server stores the report in a database and names the image assigned to the machine.

  \<^bold>\<open>The parts and how they interact.\<close> \<^verbatim>\<open>main\<close> starts one thread on \<^verbatim>\<open>timerControl\<close>
  (\<^verbatim>\<open>client/TimeControl.h\<close>). Each round calls \<^verbatim>\<open>linux_command\<close> (\<^verbatim>\<open>client/linuxCommand.h\<close>), compares
  the report with the stored one, and if it changed calls \<^verbatim>\<open>HttpPost\<close> (\<^verbatim>\<open>client/HttpRequest.h\<close>),
  cuts the image name out of the answer and starts a detached \<^verbatim>\<open>dockerDeploy\<close>
  (\<^verbatim>\<open>client/DockerDeploy.h\<close>). \<^verbatim>\<open>client/jsonToMysql.h\<close> reads a report back into vectors; its call is
  commented out. On the server, \<^verbatim>\<open>SearchServlet.doPost\<close> passes the body to
  \<^verbatim>\<open>JsonDataToMysql.insertData\<close> and answers with \<^verbatim>\<open>getDockerResponse\<close>. The repository also
  carries the headers of the libraries the client was built with; the parts of the MySQL headers that
  have bodies of their own, inline functions and macros, are modelled too.

  \<^bold>\<open>Which theory models which part.\<close>
  \<^item> \<open>Prelude\<close>: faults and results (a fault is a value, \<open>Diverges\<close> is a run that never returns), C
    strings in fixed buffers, \<^verbatim>\<open>strstr\<close>, \<^verbatim>\<open>strchr\<close>, \<^verbatim>\<open>fgets\<close>.
  \<^item> \<open>Double\<close>, \<open>CNumbers\<close>: binary64 arithmetic with round-to-even as the C code computes it, on
    exact integers, and \<^verbatim>\<open>atoi\<close>, \<^verbatim>\<open>atof\<close>, \<^verbatim>\<open>sprintf("%d")\<close>.
  \<^item> \<open>JsonValue\<close>: the values of jsoncpp (\<^verbatim>\<open>json_include/value.h\<close>) and, since the bodies of its
    methods are only in a binary archive, their interface as a record \<open>json_api\<close> with the laws in
    the locale \<open>json_values\<close>, interpreted on a reference implementation; \<open>JsonIterator\<close>: the inline
    operators of its iterators over the interface \<open>iterators\<close>.
  \<^item> \<open>LinuxCommand\<close>: \<^verbatim>\<open>linuxCommand.h\<close> function by function; the shell is a parameter. \<open>LinuxReport\<close>
    states the report as a specification of its members, proved in the locale; \<open>HostReport\<close>
    describes a machine and what the commands print on it; \<open>LinuxProperties\<close> has the properties.
  \<^item> \<open>HttpUrl\<close>, \<open>HttpHead\<close>, \<open>HttpSocket\<close>: \<^verbatim>\<open>HttpRequest.h\<close>: the URL functions, \<^verbatim>\<open>HttpHeadCreate\<close>, and
    \<^verbatim>\<open>SocketFdCheck\<close>, \<^verbatim>\<open>HttpDataTransmit\<close>, \<^verbatim>\<open>HttpRequestExec\<close>. The state is the static member
    \<^verbatim>\<open>m_iSocketFd\<close> with the open descriptors and sent bytes of the process; the kernel is the
    parameter \<open>os\<close>. \<open>HttpProperties\<close> has the properties.
  \<^item> \<open>DockerDeploy\<close>, \<open>TimeControl\<close>, \<open>TimeProperties\<close>, \<open>JsonToMysql\<close>: the remaining client headers and
    the process of \<^verbatim>\<open>main.cpp\<close>.
  \<^item> \<open>ErrorCodes\<close>, \<open>ErrorNames\<close>, \<open>SqlStates\<close>: the error tables of \<^verbatim>\<open>mysqld_error.h\<close>, \<^verbatim>\<open>mysqld_ername.h\<close>,
    \<^verbatim>\<open>errmsg.h\<close> and \<^verbatim>\<open>sql_state.h\<close>, row by row, in blocks that follow the lines of the files.
  \<^item> \<open>ByteOrder\<close>: the byte order macros of \<^verbatim>\<open>my_global.h\<close>, both branches, with the contract of a
    reader and a writer as the locale \<open>byte_codec\<close>; \<open>MachineBytes\<close>: the macros for floating point
    numbers and for the format of the machine, on each kind of machine; \<open>MyGlobal\<close>: alignment, bits,
    extrema, and the replacements of \<^verbatim>\<open>finite\<close>, \<^verbatim>\<open>isnan\<close> and \<^verbatim>\<open>isinf\<close>; \<open>Rounding\<close>: those of
    \<^verbatim>\<open>rint\<close> and of the conversions between doubles and unsigned integers. \<open>MString\<close>: \<^verbatim>\<open>skip_trailing_space\<close>.
  \<^item> \<open>IoCache\<close>: the macros of \<^verbatim>\<open>my_sys.h\<close> on a buffered file; the functions that refill and flush it
    are the locales \<open>io_reader\<close>, \<open>io_writer\<close>, \<open>reliable_writer\<close> and \<open>reliable_cache\<close>. \<open>MySys\<close>: its macros on
    arrays, memory roots and names.
  \<^item> \<open>Timespec\<close>, \<open>Counters\<close>: the deadlines of \<^verbatim>\<open>my_pthread.h\<close>, and its shared counters as the
    instructions of threads that are interleaved, with a refinement to single additions (locale
    \<open>simulation\<close>); \<open>RwLock\<close>: its mutex and read write lock macros as the library calls they become on
    each platform, over mutexes with the contract \<open>mutexes\<close>.
  \<^item> \<open>CType\<close>: classes, two byte codes and contractions of \<^verbatim>\<open>m_ctype.h\<close>; \<open>FieldTypes\<close>: the column types
    of \<^verbatim>\<open>mysql_com.h\<close>; \<open>ClientProtocol\<close>: its flags (locale \<open>flags\<close>), commands and masks; \<open>Decimals\<close>:
    \<^verbatim>\<open>decimal.h\<close>; \<open>SysVar\<close>: the variables that \<^verbatim>\<open>mysql/plugin.h\<close> lets plugins declare.
  \<^item> \<open>PsiProg\<close>, \<open>PsiThread\<close>, \<open>PsiFile\<close>: the inline wrappers of \<^verbatim>\<open>mysql/psi/mysql_thread.h\<close> and
    \<^verbatim>\<open>mysql/psi/mysql_file.h\<close> as program trees over platform calls, queries and notes, and their
    runs against any platform and instrumentation. \<open>PsiRuns\<close> and \<open>PsiFileRuns\<close> have the
    properties of single wrappers, \<open>PsiMonitor\<close> interleaves threads.
  \<^item> \<open>Server\<close>: \<^verbatim>\<open>server/src/SearchServlet.java\<close> and \<^verbatim>\<open>JsonDataToMysql.java\<close> as actions on the executed
    statements that may end in an exception; gson and JDBC are parameters. \<open>ServerProperties\<close> has
    the rows a machine becomes and the answer; \<open>EndToEnd\<close> puts client and server together;
    \<open>Tables\<close> runs the statements of a sequence of posts on a database with the interface \<open>database\<close>;
    \<open>ClientServer\<close> composes the loop of a client with the server and these tables.

  \<^bold>\<open>What the lemmas show.\<close> The collector turns the output of the commands into the specified
  report, with every fault of malformed output characterised; the request text read by a receiver
  gives back path, host and body; the exchange keeps its descriptor in order, and the runs in which
  it overflows, leaks, spins or uses freed storage are named exactly, while what goes out is only what
  the kernel takes; the loop posts what changed
  and deploys what the answer says; the server stores exactly the rows of the machine that reported,
  and the client deploys the image assigned to it if the search for it starts early enough, which the
  uninitialised start does not ensure. The error tables agree with each other; the byte
  order branches agree and round trip; the word-wise scan equals the plain one; instrumentation
  changes no result but that of creating a thread, the waits it is told of are paired with one exception, and its account of
  mutex owners is right under every interleaving. After any sequence of posts the tables hold the
  latest report of each machine, and a client that keeps running keeps the rows of its machine on one
  state it saw, with the disk and memory figures of the last. A mutex in place of a read write lock
  implements it but lets one reader in at a time. A buffered file reads and writes as the file itself, and the one
  macro that does not see a failed flush is named; counters under a lock lose no update and never
  block, those without one can; deadlines are exact; the wire format of numbers is the same on
  every machine; doubles are classified and rounded correctly without the help of the platform, and
  converted to unsigned integers exactly, though not always from them; the flags of the client
  protocol are single bits that are shared only where the header says so; the flags of a plugin variable
  tell its type.

  \<^bold>\<open>Bounds and fuel.\<close> Nothing is run on fuel: the receive loop and the container loop of
  \<^verbatim>\<open>jsonToMysql\<close> are \<^theory_text>\<open>partial_function (option)\<close>, with None for a run that never ends, and the
  endless loop of \<^verbatim>\<open>timerControl\<close> is taken over the list of environments met so far, of any
  length. Buffers keep the sizes of the source (100, 1000, 1024, 4096 and 41000 bytes).

  \<^bold>\<open>Not modelled.\<close> The prompts and progress output on \<^verbatim>\<open>cout\<close> (no effect on the data); failing
  \<^verbatim>\<open>malloc\<close>; \<^verbatim>\<open>SIGPIPE\<close> (a socket whose peer is gone answers -1); the bodies of jsoncpp, gson, JDBC and the MySQL client, which are not in the repository
  (parameters, where the code relies on them); the parts of the MySQL headers that only declare or
  choose names, types and constants for a platform; the start of the server; the compiler probes that CMake generated.
\<close>

end
